(* ===== verification/Prelude.thy ===== *)
theory Prelude
  imports Complex_Main "HOL-Library.AList" "HOL-Library.Multiset"
begin

text \<open>
  Shared vocabulary of the development: the error values of the service, the
  state-and-error monad in which every operation is written, Go maps as
  association lists with an explicit iteration order, and the generic facts
  about them that the component theories use.
\<close>

section \<open>Collections of facts\<close>

named_theorems monad_simps "unfolding rules of the state-and-error monad"
named_theorems keeps_intros "operations that leave a component of the state alone"
named_theorems preserves_intros "operations that preserve an invariant"
named_theorems safe_intros "operations that keep an invariant and do not panic"
named_theorems run_simps "definitions unfolded to run an operation on a concrete state"
named_theorems run_congs "congruences that run an operation from its first call on"


section \<open>Errors\<close>

text \<open>
  The error codes the service creates itself (\<open>go-lib/error\<close> and
  \<open>error/error.go\<close>), an error reported by the database, an error reported by
  another service, and a Go panic (a failed type assertion or an index out of
  range).  The message texts are not modelled.
\<close>

datatype err =
    PublicBadRequest
  | PublicUnauthorized
  | PublicForbidden
  | PublicNotFound
  | RoleNameConflict
  | RoleNotFound
  | DBError
  | DrivenError
  | Panic


section \<open>The error monad\<close>

definition bindE :: "err + 'a \<Rightarrow> ('a \<Rightarrow> err + 'b) \<Rightarrow> err + 'b" where
  "bindE m f = (case m of Inl e \<Rightarrow> Inl e | Inr x \<Rightarrow> f x)"

lemma bindE_simps [simp]:
  "bindE (Inl e) f = Inl e"
  "bindE (Inr x) f = f x"
  by (simp_all add: bindE_def)

lemma bindE_Inr_iff: "bindE m f = Inr y \<longleftrightarrow> (\<exists>x. m = Inr x \<and> f x = Inr y)"
  by (cases m) simp_all

lemma bindE_cong [fundef_cong]:
  assumes "m = m'" and "\<And>x. m' = Inr x \<Longrightarrow> f x = g x"
  shows "bindE m f = bindE m' g"
  using assms by (cases m') simp_all

primrec mapE :: "('a \<Rightarrow> err + 'b) \<Rightarrow> 'a list \<Rightarrow> err + 'b list" where
  "mapE f [] = Inr []"
| "mapE f (x # xs) = bindE (f x) (\<lambda>y. bindE (mapE f xs) (\<lambda>ys. Inr (y # ys)))"

primrec foldE :: "('a \<Rightarrow> 'b \<Rightarrow> err + 'b) \<Rightarrow> 'a list \<Rightarrow> 'b \<Rightarrow> err + 'b" where
  "foldE f [] acc = Inr acc"
| "foldE f (x # xs) acc = bindE (f x acc) (foldE f xs)"

lemma mapE_total: "(\<And>x. x \<in> set xs \<Longrightarrow> \<exists>y. f x = Inr y) \<Longrightarrow> \<exists>ys. mapE f xs = Inr ys"
  by (induction xs) fastforce+

lemma mapE_append:
  "mapE f (xs @ ys) = bindE (mapE f xs) (\<lambda>us. bindE (mapE f ys) (\<lambda>vs. Inr (us @ vs)))"
  by (induction xs) (auto simp: bindE_def split: sum.splits)

lemma mapE_Inr_iff:
  "mapE f xs = Inr ys \<longleftrightarrow> list_all2 (\<lambda>x y. f x = Inr y) xs ys"
  by (induction xs arbitrary: ys) (auto simp: bindE_Inr_iff list_all2_Cons1)

lemma mapE_map_Inr:
  assumes "\<And>x. x \<in> set xs \<Longrightarrow> f (g x) = Inr (h x)"
  shows "mapE f (map g xs) = Inr (map h xs)"
  using assms by (induction xs) simp_all

lemma mapE_cong [fundef_cong]:
  assumes "xs = ys" and "\<And>x. x \<in> set ys \<Longrightarrow> f x = g x"
  shows "mapE f xs = mapE g ys"
  unfolding assms(1) using assms(2) by (induction ys) simp_all


section \<open>The state-and-error monad\<close>

text \<open>
  An operation takes the state and returns its result, or the error it stopped
  with, together with the state it leaves behind: what was written before an
  error stays written unless the code itself rolls it back.
\<close>

type_synonym ('s, 'a) sm = "'s \<Rightarrow> (err + 'a) \<times> 's"

definition returnM :: "'a \<Rightarrow> ('s, 'a) sm" where
  "returnM x s = (Inr x, s)"

definition throwM :: "err \<Rightarrow> ('s, 'a) sm" where
  "throwM e s = (Inl e, s)"

definition bindM :: "('s, 'a) sm \<Rightarrow> ('a \<Rightarrow> ('s, 'b) sm) \<Rightarrow> ('s, 'b) sm" where
  "bindM m f s = (case m s of (Inl e, s') \<Rightarrow> (Inl e, s') | (Inr x, s') \<Rightarrow> f x s')"

text \<open>A call whose error the caller inspects instead of returning it.\<close>

definition tryM :: "('s, 'a) sm \<Rightarrow> ('s, err + 'a) sm" where
  "tryM m s = (case m s of (r, s') \<Rightarrow> (Inr r, s'))"

definition liftE :: "err + 'a \<Rightarrow> ('s, 'a) sm" where
  "liftE r s = (r, s)"

definition guardM :: "bool \<Rightarrow> err \<Rightarrow> ('s, unit) sm" where
  "guardM b e = (if b then returnM () else throwM e)"

primrec foldM :: "('a \<Rightarrow> 'b \<Rightarrow> ('s, 'b) sm) \<Rightarrow> 'a list \<Rightarrow> 'b \<Rightarrow> ('s, 'b) sm" where
  "foldM f [] acc = returnM acc"
| "foldM f (x # xs) acc = bindM (f x acc) (foldM f xs)"

primrec mapM :: "('a \<Rightarrow> ('s, 'b) sm) \<Rightarrow> 'a list \<Rightarrow> ('s, 'b list) sm" where
  "mapM f [] = returnM []"
| "mapM f (x # xs) = bindM (f x) (\<lambda>y. bindM (mapM f xs) (\<lambda>ys. returnM (y # ys)))"

primrec iterM :: "('a \<Rightarrow> ('s, unit) sm) \<Rightarrow> 'a list \<Rightarrow> ('s, unit) sm" where
  "iterM f [] = returnM ()"
| "iterM f (x # xs) = bindM (f x) (\<lambda>_. iterM f xs)"

lemma bindM_run [monad_simps]:
  "m s = (Inl e, s') \<Longrightarrow> bindM m f s = (Inl e, s')"
  "m s = (Inr x, s') \<Longrightarrow> bindM m f s = f x s'"
  by (simp_all add: bindM_def)

lemma monad_eval [simp, monad_simps]:
  "returnM x s = (Inr x, s)"
  "throwM e s = (Inl e, s)"
  "liftE r s = (r, s)"
  "guardM True e = returnM ()"
  "guardM False e = throwM e"
  by (simp_all add: returnM_def throwM_def liftE_def guardM_def)

lemma bindM_simps [simp, monad_simps]:
  "bindM (returnM x) f = f x"
  "bindM (throwM e) f = throwM e"
  "bindM (liftE (Inl e)) f = throwM e"
  "bindM (liftE (Inr x)) f = f x"
  by (simp_all add: fun_eq_iff bindM_def)

lemma bindM_return_right [simp]: "bindM m returnM = m"
  by (auto simp: fun_eq_iff bindM_def split: prod.splits sum.splits)

lemma bindM_assoc: "bindM (bindM m f) g = bindM m (\<lambda>x. bindM (f x) g)"
  by (auto simp: fun_eq_iff bindM_def split: prod.splits sum.splits)

lemma bindM_cases:
  obtains (Err) e s' where "m s = (Inl e, s')" "bindM m f s = (Inl e, s')"
  | (Ok) x s' where "m s = (Inr x, s')" "bindM m f s = f x s'"
  by (cases "m s"; cases "fst (m s)") (auto simp: bindM_def)

lemma bindM_Inr_iff:
  "bindM m f s = (Inr y, s'') \<longleftrightarrow>
     (\<exists>x s'. m s = (Inr x, s') \<and> f x s' = (Inr y, s''))"
  by (rule bindM_cases [of m s f]) auto

lemma bindM_InrE:
  assumes "bindM m f s = (Inr y, s'')"
  obtains x s' where "m s = (Inr x, s')" and "f x s' = (Inr y, s'')"
  using assms by (auto simp: bindM_Inr_iff)

lemma guardM_Inr_iff [simp]: "guardM b e s = (Inr u, s') \<longleftrightarrow> b \<and> s' = s"
  by (cases b) auto

lemma tryM_run [monad_simps]: "tryM m s = (Inr (fst (m s)), snd (m s))"
  by (simp add: tryM_def split: prod.splits)

lemma iterM_cong [fundef_cong]:
  assumes "xs = ys" and "\<And>x. x \<in> set ys \<Longrightarrow> f x = g x"
  shows "iterM f xs = iterM g ys"
  unfolding assms(1) using assms(2) by (induction ys) simp_all

lemma iterM_append: "iterM f (xs @ ys) = bindM (iterM f xs) (\<lambda>_. iterM f ys)"
  by (induction xs) (simp_all only: append.simps iterM.simps bindM_simps bindM_assoc)


text \<open>
  To run an operation on a concrete state, simplification starts with the first
  call and looks at the rest only once its argument is a value.
\<close>

lemma bindM_weak [run_congs]: "m = m' \<Longrightarrow> bindM m f = bindM m' f"
  by simp

lemma bindE_weak [run_congs]: "m = m' \<Longrightarrow> bindE m f = bindE m' f"
  by simp

lemma Let_weak [run_congs]: "a = b \<Longrightarrow> Let a f = Let b f"
  by simp

lemmas monad_run [run_simps] = bindM_def tryM_def Let_def


subsection \<open>What an operation leaves alone\<close>

text \<open>
  \<open>keeps f m\<close>: the operation \<open>m\<close> never changes the component \<open>f\<close> of the state,
  whether it returns or fails; \<open>preserves P m\<close>: it takes states with \<open>P\<close> to
  states with \<open>P\<close>.
\<close>

definition keeps :: "('s \<Rightarrow> 'c) \<Rightarrow> ('s, 'a) sm \<Rightarrow> bool" where
  "keeps f m \<longleftrightarrow> (\<forall>s. f (snd (m s)) = f s)"

definition preserves :: "('s \<Rightarrow> bool) \<Rightarrow> ('s, 'a) sm \<Rightarrow> bool" where
  "preserves P m \<longleftrightarrow> (\<forall>s. P s \<longrightarrow> P (snd (m s)))"

lemma keepsD: "keeps f m \<Longrightarrow> m s = (r, s') \<Longrightarrow> f s' = f s"
  by (metis keeps_def snd_conv)

lemma preservesD: "preserves P m \<Longrightarrow> m s = (r, s') \<Longrightarrow> P s \<Longrightarrow> P s'"
  by (metis preserves_def snd_conv)

lemma keeps_basic [keeps_intros]:
  "keeps f (returnM x)" "keeps f (throwM e)" "keeps f (liftE r)" "keeps f (guardM b e)"
  by (cases b; simp add: keeps_def)+

lemma preserves_basic [preserves_intros]:
  "preserves P (returnM x)" "preserves P (throwM e)" "preserves P (liftE r)"
  "preserves P (guardM b e)"
  by (cases b; simp add: preserves_def)+

lemma keeps_bindM [keeps_intros]:
  assumes "keeps f m" and "\<And>x. keeps f (k x)"
  shows "keeps f (bindM m k)"
  unfolding keeps_def
proof
  fix s
  show "f (snd (bindM m k s)) = f s"
    using keepsD [OF assms(1)] keepsD [OF assms(2)]
    by (cases rule: bindM_cases [of m s k]) (metis snd_conv surj_pair)+
qed

lemma preserves_bindM [preserves_intros]:
  assumes "preserves P m" and "\<And>x. preserves P (k x)"
  shows "preserves P (bindM m k)"
  unfolding preserves_def
proof (intro allI impI)
  fix s assume "P s"
  then show "P (snd (bindM m k s))"
    using preservesD [OF assms(1)] preservesD [OF assms(2)]
    by (cases rule: bindM_cases [of m s k]) (metis snd_conv surj_pair)+
qed

lemma keeps_tryM [keeps_intros]: "keeps f m \<Longrightarrow> keeps f (tryM m)"
  by (simp add: keeps_def tryM_run)

lemma preserves_tryM [preserves_intros]: "preserves P m \<Longrightarrow> preserves P (tryM m)"
  by (simp add: preserves_def tryM_run)

lemma keeps_foldM [keeps_intros]:
  assumes "\<And>x a. keeps f (g x a)"
  shows "keeps f (foldM g xs a)"
  using assms by (induction xs arbitrary: a) (auto intro: keeps_intros)

lemma keeps_mapM [keeps_intros]:
  assumes "\<And>x. keeps f (g x)"
  shows "keeps f (mapM g xs)"
  using assms by (induction xs) (auto intro: keeps_intros)

lemma keeps_iterM [keeps_intros]:
  assumes "\<And>x. keeps f (g x)"
  shows "keeps f (iterM g xs)"
  using assms by (induction xs) (auto intro: keeps_intros)

lemma preserves_foldM [preserves_intros]:
  assumes "\<And>x a. preserves P (g x a)"
  shows "preserves P (foldM g xs a)"
  using assms by (induction xs arbitrary: a) (auto intro: preserves_intros)

lemma preserves_iterM [preserves_intros]:
  assumes "\<And>x. preserves P (g x)"
  shows "preserves P (iterM g xs)"
  using assms by (induction xs) (auto intro: preserves_intros)

lemma keeps_if [keeps_intros]:
  "(b \<Longrightarrow> keeps f m) \<Longrightarrow> (\<not> b \<Longrightarrow> keeps f n) \<Longrightarrow> keeps f (if b then m else n)"
  by simp

lemma preserves_if [preserves_intros]:
  "(b \<Longrightarrow> preserves P m) \<Longrightarrow> (\<not> b \<Longrightarrow> preserves P n) \<Longrightarrow> preserves P (if b then m else n)"
  by simp

lemma keeps_case [keeps_intros]:
  "keeps f m \<Longrightarrow> (\<And>x. keeps f (n x)) \<Longrightarrow> keeps f (case_option m n opt)"
  "(\<And>a. keeps f (p a)) \<Longrightarrow> (\<And>b. keeps f (q b)) \<Longrightarrow> keeps f (case_sum p q r)"
  "(\<And>a b. keeps f (t a b)) \<Longrightarrow> keeps f (case_prod t pr)"
  "keeps f u \<Longrightarrow> (\<And>x xs. keeps f (v x xs)) \<Longrightarrow> keeps f (case_list u v l)"
  by (simp_all split: option.splits sum.splits prod.splits list.splits)

lemma preserves_case [preserves_intros]:
  "preserves P m \<Longrightarrow> (\<And>x. preserves P (n x)) \<Longrightarrow> preserves P (case_option m n opt)"
  "(\<And>a. preserves P (p a)) \<Longrightarrow> (\<And>b. preserves P (q b)) \<Longrightarrow> preserves P (case_sum p q r)"
  "(\<And>a b. preserves P (t a b)) \<Longrightarrow> preserves P (case_prod t pr)"
  "preserves P u \<Longrightarrow> (\<And>x xs. preserves P (v x xs)) \<Longrightarrow> preserves P (case_list u v l)"
  by (simp_all split: option.splits sum.splits prod.splits list.splits)

lemma preserves_mapM [preserves_intros]:
  assumes "\<And>x. preserves P (g x)"
  shows "preserves P (mapM g xs)"
  using assms by (induction xs) (auto intro: preserves_intros)

lemma keeps_preserves: "keeps f m \<Longrightarrow> preserves (\<lambda>s. P (f s)) m"
  by (simp add: keeps_def preserves_def)


subsection \<open>Triples\<close>

text \<open>
  \<open>triple I P m Q\<close>: started in a state with \<open>P\<close>, the operation \<open>m\<close> ends in a state with
  \<open>I\<close> whatever it returns, and in one with \<open>Q x\<close> if it returns \<open>x\<close>.  The invariant on all
  exits is what a later error must not lose, the postcondition what the next call relies on.
\<close>

definition triple ::
    "('s \<Rightarrow> bool) \<Rightarrow> ('s \<Rightarrow> bool) \<Rightarrow> ('s, 'a) sm \<Rightarrow> ('a \<Rightarrow> 's \<Rightarrow> bool) \<Rightarrow> bool" where
  "triple I P m Q \<longleftrightarrow>
     (\<forall>s. P s \<longrightarrow> I (snd (m s)) \<and> (\<forall>x. fst (m s) = Inr x \<longrightarrow> Q x (snd (m s))))"

lemma tripleI:
  assumes "\<And>s r s'. P s \<Longrightarrow> m s = (r, s') \<Longrightarrow> I s'"
    and "\<And>s x s'. P s \<Longrightarrow> m s = (Inr x, s') \<Longrightarrow> Q x s'"
  shows "triple I P m Q"
  using assms unfolding triple_def by (metis prod.collapse)

lemma tripleD1: "triple I P m Q \<Longrightarrow> P s \<Longrightarrow> m s = (r, s') \<Longrightarrow> I s'"
  by (auto simp: triple_def)

lemma tripleD2: "triple I P m Q \<Longrightarrow> P s \<Longrightarrow> m s = (Inr x, s') \<Longrightarrow> Q x s'"
  by (auto simp: triple_def)

lemma triple_bindM:
  assumes "triple I P m R" and "\<And>x. triple I (R x) (f x) Q"
  shows "triple I P (bindM m f) Q"
proof (rule tripleI)
  fix s r s' assume P: "P s" and run: "bindM m f s = (r, s')"
  show "I s'"
  proof (cases rule: bindM_cases [of m s f])
    case (Err er t)
    then show ?thesis using run tripleD1 [OF assms(1) P] by simp
  next
    case (Ok x t)
    then have "f x t = (r, s')" using run by simp
    then show ?thesis by (rule tripleD1 [OF assms(2) tripleD2 [OF assms(1) P Ok(1)]])
  qed
next
  fix s y s' assume P: "P s" and "bindM m f s = (Inr y, s')"
  then obtain x t where "m s = (Inr x, t)" "f x t = (Inr y, s')" by (auto simp: bindM_Inr_iff)
  then show "Q y s'" using tripleD2 [OF assms(2) tripleD2 [OF assms(1) P]] by simp
qed

lemma triple_conseq:
  assumes "triple I P m Q" "\<And>s. P' s \<Longrightarrow> P s" "\<And>x s. Q x s \<Longrightarrow> Q' x s"
  shows "triple I P' m Q'"
  using assms unfolding triple_def by blast

lemma triple_if:
  assumes "b \<Longrightarrow> triple I P m Q" and "\<not> b \<Longrightarrow> triple I P n Q"
  shows "triple I P (if b then m else n) Q"
  using assms by simp

lemma triple_return: "(\<And>s. P s \<Longrightarrow> I s \<and> Q x s) \<Longrightarrow> triple I P (returnM x) Q"
  by (simp add: triple_def)

lemma triple_throw: "(\<And>s. P s \<Longrightarrow> I s) \<Longrightarrow> triple I P (throwM er) Q"
  by (simp add: triple_def)

lemma triple_liftE: "triple (\<lambda>_. True) P (liftE r) (\<lambda>x _. r = Inr x)"
  by (simp add: triple_def)

lemma triple_any: "triple (\<lambda>_. True) P m (\<lambda>_ _. True)"
  by (simp add: triple_def)

lemma triple_preserves: "preserves I m \<Longrightarrow> triple I I m (\<lambda>_. I)"
  by (simp add: triple_def preserves_def)

lemma triple_snd: "triple I P m Q \<Longrightarrow> P s \<Longrightarrow> I (snd (m s))"
  by (simp add: triple_def)

text \<open>
  A call that leaves a component alone: what follows starts with the same value of that
  component, and knows that its argument was returned from a state with it.
\<close>

lemma triple_bind_keeps:
  assumes "keeps f m" "\<And>s. f s = c \<Longrightarrow> I s"
    and "\<And>x s s'. f s = c \<Longrightarrow> m s = (Inr x, s') \<Longrightarrow> triple I (\<lambda>s. f s = c) (k x) Q"
  shows "triple I (\<lambda>s. f s = c) (bindM m k) Q"
proof (rule tripleI)
  fix s r s' assume c: "f s = c" and run: "bindM m k s = (r, s')"
  show "I s'"
  proof (cases rule: bindM_cases [of m s k])
    case (Err er t)
    then show ?thesis using run c keepsD [OF assms(1) Err(1)] assms(2) by simp
  next
    case (Ok x t)
    then have "f t = c" using c keepsD [OF assms(1) Ok(1)] by simp
    moreover have "k x t = (r, s')" using run Ok(2) by simp
    ultimately show ?thesis by (rule tripleD1 [OF assms(3) [OF c Ok(1)]])
  qed
next
  fix s y s' assume c: "f s = c" and "bindM m k s = (Inr y, s')"
  then obtain x t where x: "m s = (Inr x, t)" and k: "k x t = (Inr y, s')"
    by (auto simp: bindM_Inr_iff)
  then have "f t = c" using c keepsD [OF assms(1) x] by simp
  then show "Q y s'" using tripleD2 [OF assms(3) [OF c x], of t] k by simp
qed

text \<open>
  \<open>safe I m\<close>: the operation keeps \<open>I\<close> and, started in a state with it, does not panic.
\<close>

definition safe :: "('s \<Rightarrow> bool) \<Rightarrow> ('s, 'a) sm \<Rightarrow> bool" where
  "safe I m \<longleftrightarrow> (\<forall>s. I s \<longrightarrow> I (snd (m s)) \<and> fst (m s) \<noteq> Inl Panic)"

lemma safe_basic [safe_intros]:
  "safe I (returnM x)" "er \<noteq> Panic \<Longrightarrow> safe I (throwM er)" "r \<noteq> Inl Panic \<Longrightarrow> safe I (liftE r)"
  by (simp_all add: safe_def)

lemma safe_bindM [safe_intros]:
  assumes "safe I m" and "\<And>x. safe I (f x)"
  shows "safe I (bindM m f)"
  unfolding safe_def
proof (intro allI impI)
  fix s assume "I s"
  with assms(1) have m: "I (snd (m s))" "fst (m s) \<noteq> Inl Panic" by (simp_all add: safe_def)
  show "I (snd (bindM m f s)) \<and> fst (bindM m f s) \<noteq> Inl Panic"
  proof (cases rule: bindM_cases [of m s f])
    case (Err er t) then show ?thesis using m by simp
  next
    case (Ok x t) then show ?thesis using m assms(2) [of x] by (simp add: safe_def)
  qed
qed

lemma safe_if [safe_intros]:
  "(b \<Longrightarrow> safe I m) \<Longrightarrow> (\<not> b \<Longrightarrow> safe I n) \<Longrightarrow> safe I (if b then m else n)"
  by simp

lemma triple_keeps: "keeps f m \<Longrightarrow> (\<And>s. f s = c \<Longrightarrow> I s) \<Longrightarrow> triple I (\<lambda>s. f s = c) m (\<lambda>_ s. f s = c)"
  by (simp add: triple_def keeps_def)


section \<open>Go maps\<close>

text \<open>
  A Go map is an association list with distinct keys: \<open>mput\<close> is \<open>m[k] = v\<close>,
  \<open>mappend\<close> is \<open>m[k] = append(m[k], xs...)\<close>, and a map of type
  \<open>map[string]bool\<close> that only ever receives \<open>true\<close> is \<open>mset_true\<close>.  A \<open>range\<close>
  loop visits the keys in an order the language leaves open, so \<open>range_map\<close>
  takes that order as a function on key lists; \<open>key_order\<close> says that it
  rearranges the keys without losing or inventing one.
\<close>

type_synonym ('k, 'v) gomap = "('k \<times> 'v) list"

abbreviation mput :: "'k \<Rightarrow> 'v \<Rightarrow> ('k, 'v) gomap \<Rightarrow> ('k, 'v) gomap" where
  "mput \<equiv> AList.update"

definition mlist :: "('k, 'v list) gomap \<Rightarrow> 'k \<Rightarrow> 'v list" where
  "mlist m k = (case map_of m k of None \<Rightarrow> [] | Some v \<Rightarrow> v)"

definition mappend :: "'k \<Rightarrow> 'v list \<Rightarrow> ('k, 'v list) gomap \<Rightarrow> ('k, 'v list) gomap" where
  "mappend k xs m = mput k (mlist m k @ xs) m"

definition mtrue :: "('k, bool) gomap \<Rightarrow> 'k \<Rightarrow> bool" where
  "mtrue m k \<longleftrightarrow> map_of m k = Some True"

definition mset_true :: "'k \<Rightarrow> ('k, bool) gomap \<Rightarrow> ('k, bool) gomap" where
  "mset_true k m = mput k True m"

definition mwf :: "('k, 'v) gomap \<Rightarrow> bool" where
  "mwf m \<longleftrightarrow> distinct (map fst m)"

definition range_map :: "(string list \<Rightarrow> string list) \<Rightarrow> (string, 'v) gomap \<Rightarrow> (string \<times> 'v) list" where
  "range_map ord m =
     List.map_filter (\<lambda>k. map_option (Pair k) (map_of m k)) (ord (map fst m))"

definition key_order :: "(string list \<Rightarrow> string list) \<Rightarrow> bool" where
  "key_order ord \<longleftrightarrow> (\<forall>ks. mset (ord ks) = mset ks)"

lemma mwf_Nil [simp]: "mwf []"
  by (simp add: mwf_def)

lemma mwf_mput [simp]: "mwf m \<Longrightarrow> mwf (mput k v m)"
  by (simp add: mwf_def distinct_update)

lemma mwf_mappend [simp]: "mwf m \<Longrightarrow> mwf (mappend k xs m)"
  by (simp add: mappend_def)

lemma mwf_mset_true [simp]: "mwf m \<Longrightarrow> mwf (mset_true k m)"
  by (simp add: mset_true_def)

lemma map_of_mput [simp]: "map_of (mput k v m) = (map_of m)(k \<mapsto> v)"
  by (simp add: update_conv')

lemma mlist_Nil [simp]: "mlist [] k = []"
  by (simp add: mlist_def)

lemma mlist_mappend: "mlist (mappend k xs m) k' = (if k' = k then mlist m k @ xs else mlist m k')"
  by (auto simp: mlist_def mappend_def)

lemma mlist_mappend_simps [simp]:
  "mlist (mappend k xs m) k = mlist m k @ xs"
  "k' \<noteq> k \<Longrightarrow> mlist (mappend k xs m) k' = mlist m k'"
  by (simp_all add: mlist_mappend)

lemma dom_mappend [simp]: "dom (map_of (mappend k xs m)) = insert k (dom (map_of m))"
  by (auto simp: mappend_def)

lemma fst_set_mappend [simp]: "fst ` set (mappend k xs m) = insert k (fst ` set m)"
  using dom_mappend [of k xs m] by (simp add: dom_map_of_conv_image_fst)

lemma mtrue_Nil [simp]: "\<not> mtrue [] k"
  by (simp add: mtrue_def)

lemma mtrue_mset_true [simp]: "mtrue (mset_true k m) k' \<longleftrightarrow> k' = k \<or> mtrue m k'"
  by (auto simp: mtrue_def mset_true_def)

lemma key_order_set: "key_order ord \<Longrightarrow> set (ord ks) = set ks"
  unfolding key_order_def by (metis mset_eq_setD)

lemma key_order_distinct: "key_order ord \<Longrightarrow> distinct (ord ks) = distinct ks"
  unfolding key_order_def by (metis mset_eq_imp_distinct_iff)

lemma key_order_single: "key_order ord \<Longrightarrow> ord [k] = [k]"
  unfolding key_order_def by (metis mset.simps mset_single_iff)

lemma key_order_id [simp]: "key_order (\<lambda>ks. ks)"
  by (simp add: key_order_def)

lemma key_order_rev: "key_order rev"
  by (simp add: key_order_def)

lemma set_range_map:
  assumes "key_order ord"
  shows "set (range_map ord m) = {(k, v). map_of m k = Some v}"
proof -
  have "set (range_map ord m) =
      {(k, v). k \<in> set (ord (map fst m)) \<and> map_of m k = Some v}"
    by (force simp: range_map_def List.map_filter_def image_iff)
  also have "\<dots> = {(k, v). map_of m k = Some v}"
    using key_order_set [OF assms, of "map fst m"]
    by (auto simp: map_of_eq_None_iff [symmetric] dest: map_of_SomeD)
  finally show ?thesis .
qed

lemma map_fst_range_map:
  assumes "key_order ord"
  shows "map fst (range_map ord m) = ord (map fst m)"
proof -
  have keep: "map fst (List.map_filter (\<lambda>k. map_option (Pair k) (map_of m k)) ks) = ks"
    if "set ks \<subseteq> fst ` set m" for ks
    using that
  proof (induction ks)
    case (Cons k ks)
    then obtain v where "map_of m k = Some v"
      by (cases "map_of m k") (auto simp: map_of_eq_None_iff)
    with Cons show ?case by (simp add: List.map_filter_simps)
  qed (simp add: List.map_filter_simps)
  show ?thesis
    unfolding range_map_def by (rule keep) (simp add: key_order_set [OF assms])
qed

lemma distinct_range_map:
  "key_order ord \<Longrightarrow> mwf m \<Longrightarrow> distinct (map fst (range_map ord m))"
  by (simp add: map_fst_range_map key_order_distinct mwf_def)

lemma map_of_range_map:
  assumes "key_order ord" "mwf m"
  shows "map_of (range_map ord m) = map_of m"
proof
  fix k
  have d: "distinct (map fst (range_map ord m))"
    using assms by (rule distinct_range_map)
  show "map_of (range_map ord m) k = map_of m k"
  proof (cases "map_of m k")
    case None
    then have "k \<notin> fst ` set (range_map ord m)"
      by (auto simp: set_range_map [OF assms(1)])
    then have "map_of (range_map ord m) k = None" by (simp add: map_of_eq_None_iff)
    then show ?thesis using None by simp
  next
    case (Some v)
    then have "(k, v) \<in> set (range_map ord m)"
      by (simp add: set_range_map [OF assms(1)])
    then show ?thesis using Some d by simp
  qed
qed


section \<open>Lists\<close>

lemma distinct_key_filter: "distinct (map f xs) \<Longrightarrow> distinct (map f (filter P xs))"
  by (induction xs) auto

lemma list_all2_last: "list_all2 P xs ys \<Longrightarrow> xs \<noteq> [] \<Longrightarrow> P (last xs) (last ys)"
proof (induction rule: list_all2_induct)
  case (Cons x xs y ys)
  then show ?case by (cases xs; cases ys) auto
qed simp

lemma find_filter_None: "find P xs = None \<longleftrightarrow> filter P xs = []"
  by (induction xs) auto

lemma find_SomeD: "find P xs = Some x \<Longrightarrow> P x \<and> x \<in> set xs"
  by (induction xs) (auto split: if_splits)

lemma find_append: "find P (xs @ ys) = (case find P xs of None \<Rightarrow> find P ys | Some x \<Rightarrow> Some x)"
  by (induction xs) auto

text \<open>Building a map by assignment: the last entry of a key wins.\<close>

lemma map_of_fold_mput:
  "map_of (fold (\<lambda>x. mput (key x) (val x)) xs m) k =
     (case find (\<lambda>x. key x = k) (rev xs) of None \<Rightarrow> map_of m k | Some x \<Rightarrow> Some (val x))"
  by (induction xs arbitrary: m) (auto simp: find_append split: option.splits)

lemma mwf_fold_mput: "mwf m \<Longrightarrow> mwf (fold (\<lambda>x. mput (key x) (val x)) xs m)"
  by (induction xs arbitrary: m) auto

lemma filter_distinct_key:
  "distinct (map f xs) \<Longrightarrow> x \<in> set xs \<Longrightarrow> filter (\<lambda>y. f y = f x) xs = [x]"
proof (induction xs)
  case (Cons y ys)
  show ?case
  proof (cases "y = x")
    case True
    then have "f x \<notin> f ` set ys" using Cons.prems(1) by simp
    then have "filter (\<lambda>y. f y = f x) ys = []" unfolding filter_empty_conv by (metis imageI)
    then show ?thesis using True by simp
  next
    case False
    then have "x \<in> set ys" using Cons.prems(2) by simp
    moreover have "f y \<noteq> f x" using Cons.prems(1) calculation by auto
    ultimately show ?thesis using Cons by simp
  qed
qed simp

lemma find_distinct_key:
  assumes "distinct (map key xs)" "x \<in> set xs" "key x = k"
  shows "find (\<lambda>x. key x = k) xs = Some x"
  using assms by (induction xs) (auto simp: rev_image_eqI)

lemma map_of_fold_mput_distinct:
  assumes "distinct (map key xs)" "x \<in> set xs" "key x = k"
  shows "map_of (fold (\<lambda>x. mput (key x) (val x)) xs m) k = Some (val x)"
proof -
  have "find (\<lambda>x. key x = k) (rev xs) = Some x"
    by (rule find_distinct_key) (use assms in \<open>simp_all add: rev_map [symmetric]\<close>)
  then show ?thesis by (simp add: map_of_fold_mput)
qed

lemma fold_mput_map_of:
  assumes "distinct (map fst kvs)"
  shows "map_of (fold (\<lambda>(v, x). mput v (f x)) kvs m) k =
     (case map_of kvs k of None \<Rightarrow> map_of m k | Some x \<Rightarrow> Some (f x))"
  using assms
proof (induction kvs arbitrary: m)
  case (Cons kv kvs)
  obtain v x where kv: "kv = (v, x)" by (cases kv)
  have "map_of kvs v = None" using Cons.prems kv by (simp add: map_of_eq_None_iff)
  then show ?case using Cons kv by (auto split: option.splits)
qed simp

lemma map_of_fold_range_map:
  assumes "key_order ord" "mwf m"
  shows "map_of (fold (\<lambda>(k, v). mput k (f v)) (range_map ord m) []) k = map_option f (map_of m k)"
  using fold_mput_map_of [OF distinct_range_map [OF assms], of f "[]" k]
  by (simp add: map_of_range_map [OF assms] split: option.splits)

lemma distinct_map_filter_key:
  assumes "distinct (map key xs)"
    and "\<And>x y x' y'. x \<in> set xs \<Longrightarrow> x' \<in> set xs \<Longrightarrow> f x = Some y \<Longrightarrow> f x' = Some y' \<Longrightarrow>
      key' y = key' y' \<Longrightarrow> key x = key x'"
  shows "distinct (map key' (List.map_filter f xs))"
  using assms
proof (induction xs)
  case (Cons x xs)
  have IH: "distinct (map key' (List.map_filter f xs))"
    using Cons.IH Cons.prems by (metis distinct.simps(2) list.set_intros(2) list.simps(9))
  show ?case
  proof (cases "f x")
    case (Some y)
    have "key' y \<notin> key' ` set (List.map_filter f xs)"
    proof
      assume "key' y \<in> key' ` set (List.map_filter f xs)"
      then obtain x' y' where "x' \<in> set xs" "f x' = Some y'" "key' y = key' y'"
        by (auto simp: List.map_filter_def)
      then have "key x \<in> key ` set xs" using Cons.prems(2) [of x x' y y'] Some by simp
      then show False using Cons.prems(1) by simp
    qed
    then show ?thesis using IH Some by (simp add: List.map_filter_simps)
  qed (use IH in \<open>simp add: List.map_filter_simps\<close>)
qed (simp add: List.map_filter_simps)


section \<open>Sorting with a comparison function\<close>

text \<open>
  \<open>slices.SortFunc\<close> promises a rearrangement in ascending order for a comparison that
  is a weak order, and nothing about equal elements.  \<open>sort_by\<close> is one such function.
\<close>

definition weak_order :: "('a \<Rightarrow> 'a \<Rightarrow> int) \<Rightarrow> bool" where
  "weak_order cmp \<longleftrightarrow>
     (\<forall>a b. cmp a b \<le> 0 \<or> cmp b a \<le> 0) \<and>
     (\<forall>a b c. cmp a b \<le> 0 \<longrightarrow> cmp b c \<le> 0 \<longrightarrow> cmp a c \<le> 0)"

definition sort_func :: "(('a \<Rightarrow> 'a \<Rightarrow> int) \<Rightarrow> 'a list \<Rightarrow> 'a list) \<Rightarrow> bool" where
  "sort_func srt \<longleftrightarrow>
     (\<forall>cmp xs. mset (srt cmp xs) = mset xs \<and>
        (weak_order cmp \<longrightarrow> sorted_wrt (\<lambda>a b. cmp a b \<le> 0) (srt cmp xs)))"

primrec insert_by :: "('a \<Rightarrow> 'a \<Rightarrow> int) \<Rightarrow> 'a \<Rightarrow> 'a list \<Rightarrow> 'a list" where
  "insert_by cmp x [] = [x]"
| "insert_by cmp x (y # ys) = (if cmp x y \<le> 0 then x # y # ys else y # insert_by cmp x ys)"

definition sort_by :: "('a \<Rightarrow> 'a \<Rightarrow> int) \<Rightarrow> 'a list \<Rightarrow> 'a list" where
  "sort_by cmp xs = foldr (insert_by cmp) xs []"

lemma mset_insert_by [simp]: "mset (insert_by cmp x xs) = add_mset x (mset xs)"
  by (induction xs) auto

lemma set_insert_by [simp]: "set (insert_by cmp x xs) = insert x (set xs)"
  by (induction xs) auto

lemma sorted_insert_by:
  assumes "weak_order cmp" "sorted_wrt (\<lambda>a b. cmp a b \<le> 0) xs"
  shows "sorted_wrt (\<lambda>a b. cmp a b \<le> 0) (insert_by cmp x xs)"
  using assms(2)
proof (induction xs)
  case (Cons y ys)
  have "cmp x b \<le> 0" if "cmp x y \<le> 0" "cmp y b \<le> 0" for b
    using assms(1) that unfolding weak_order_def by blast
  moreover have "cmp y x \<le> 0" if "\<not> cmp x y \<le> 0"
    using assms(1) that unfolding weak_order_def by blast
  ultimately show ?case using Cons by auto
qed simp

lemma sort_func_sort_by: "sort_func sort_by"
proof -
  have "mset (sort_by cmp xs) = mset xs" for cmp and xs :: "'a list"
    by (induction xs) (simp_all add: sort_by_def)
  moreover have "sorted_wrt (\<lambda>a b. cmp a b \<le> 0) (sort_by cmp xs)" if "weak_order cmp"
    for cmp and xs :: "'a list"
    by (induction xs) (simp_all add: sort_by_def sorted_insert_by [OF that])
  ultimately show ?thesis unfolding sort_func_def by blast
qed

lemma sort_func_set: "sort_func srt \<Longrightarrow> set (srt cmp xs) = set xs"
  unfolding sort_func_def by (metis mset_eq_setD)

lemma sort_func_distinct: "sort_func srt \<Longrightarrow> distinct (map f (srt cmp xs)) = distinct (map f xs)"
  unfolding sort_func_def by (metis mset_eq_imp_distinct_iff mset_map)

lemma sort_func_length: "sort_func srt \<Longrightarrow> length (srt cmp xs) = length xs"
  unfolding sort_func_def by (metis mset_eq_length)


section \<open>Machine integers and slices\<close>

text \<open>
  Go's \<open>int\<close> has 64 bits and wraps; \<open>xs[lo:hi]\<close> panics unless
  \<open>0 <= lo <= hi <= len(xs)\<close> (the slices taken here have no spare capacity that the
  upper bound could reach).
\<close>

definition wrap64 :: "int \<Rightarrow> int" where
  "wrap64 n = (n + 2 ^ 63) mod 2 ^ 64 - 2 ^ 63"

definition go_slice :: "int \<Rightarrow> int \<Rightarrow> 'a list \<Rightarrow> err + 'a list" where
  "go_slice lo hi xs =
     (if 0 \<le> lo \<and> lo \<le> hi \<and> hi \<le> int (length xs)
      then Inr (take (nat (hi - lo)) (drop (nat lo) xs)) else Inl Panic)"

lemma wrap64_id: "- (2 ^ 63) \<le> n \<Longrightarrow> n < 2 ^ 63 \<Longrightarrow> wrap64 n = n"
  by (simp add: wrap64_def)

lemma wrap64_range: "- (2 ^ 63) \<le> wrap64 n \<and> wrap64 n < 2 ^ 63"
proof -
  have "0 \<le> (n + 2 ^ 63) mod 2 ^ 64" "(n + 2 ^ 63) mod 2 ^ 64 < 2 ^ 64" by simp_all
  then show ?thesis by (simp add: wrap64_def)
qed

lemmas gomap_run [run_simps] = mlist_def mappend_def mtrue_def mset_true_def range_map_def
  List.map_filter_simps sort_by_def wrap64_def go_slice_def

end
