(* ===== verification/Json.thy ===== *)
theory Json
  imports Prelude "HOL-Library.List_Lexorder" "HOL-Library.Char_ord"
begin

text \<open>
  JSON values as the service handles them: the Go type \<open>any\<close> after
  \<open>json.Unmarshal\<close>, the type assertions the code applies to it (a failed one is
  a panic), and \<open>reflect.DeepEqual\<close>.  The text columns of the database that
  hold JSON are modelled by the value they encode, since the code writes them
  with \<open>json.Marshal\<close> and reads them with \<open>json.Unmarshal\<close>.
\<close>

datatype json =
    JNull
  | JBool bool
  | JNum rat
  | JStr string
  | JArr "json list"
  | JObj "(string \<times> json) list"

section \<open>Type assertions\<close>

definition as_bool :: "json \<Rightarrow> err + bool" where
  "as_bool j = (case j of JBool b \<Rightarrow> Inr b | _ \<Rightarrow> Inl Panic)"

definition as_str :: "json \<Rightarrow> err + string" where
  "as_str j = (case j of JStr s \<Rightarrow> Inr s | _ \<Rightarrow> Inl Panic)"

definition as_arr :: "json \<Rightarrow> err + json list" where
  "as_arr j = (case j of JArr xs \<Rightarrow> Inr xs | _ \<Rightarrow> Inl Panic)"

definition as_obj :: "json \<Rightarrow> err + (string \<times> json) list" where
  "as_obj j = (case j of JObj kvs \<Rightarrow> Inr kvs | _ \<Rightarrow> Inl Panic)"

lemma as_simps [simp]:
  "as_bool (JBool b) = Inr b"
  "as_str (JStr s) = Inr s"
  "as_arr (JArr xs) = Inr xs"
  "as_obj (JObj kvs) = Inr kvs"
  by (simp_all add: as_bool_def as_str_def as_arr_def as_obj_def)

lemma as_JNull [simp]:
  "as_bool JNull = Inl Panic" "as_str JNull = Inl Panic"
  "as_arr JNull = Inl Panic" "as_obj JNull = Inl Panic"
  by (simp_all add: as_bool_def as_str_def as_arr_def as_obj_def)

text \<open>\<open>m[k]\<close> on a \<open>map[string]any\<close>: a missing key reads as \<open>nil\<close>.\<close>

definition jfield :: "(string \<times> json) list \<Rightarrow> string \<Rightarrow> json" where
  "jfield kvs k = (case map_of kvs k of None \<Rightarrow> JNull | Some j \<Rightarrow> j)"

lemma jfield_simps [simp]:
  "jfield [] k = JNull"
  "jfield ((k', j) # kvs) k = (if k' = k then j else jfield kvs k)"
  by (simp_all add: jfield_def)

text \<open>
  \<open>json.Unmarshal\<close> into a \<open>map[string]any\<close> and into a \<open>[]any\<close>: a JSON \<open>null\<close>
  leaves the Go value \<open>nil\<close>, any other value of the wrong shape is an error.
\<close>

definition unmarshal_map :: "json \<Rightarrow> err + (string \<times> json) list" where
  "unmarshal_map j = (case j of JObj kvs \<Rightarrow> Inr kvs | JNull \<Rightarrow> Inr [] | _ \<Rightarrow> Inl DBError)"

definition unmarshal_slice :: "json \<Rightarrow> err + json list" where
  "unmarshal_slice j = (case j of JArr xs \<Rightarrow> Inr xs | JNull \<Rightarrow> Inr [] | _ \<Rightarrow> Inl DBError)"

lemma unmarshal_simps [simp]:
  "unmarshal_map (JObj kvs) = Inr kvs"
  "unmarshal_slice (JArr xs) = Inr xs"
  by (simp_all add: unmarshal_map_def unmarshal_slice_def)


section \<open>Deep equality\<close>

text \<open>
  \<open>reflect.DeepEqual\<close> compares maps by key, whatever order they were built in.
  \<open>canon\<close> sorts the keys of every object, so that two values are deeply equal
  when their canonical forms are the same.
\<close>

primrec canon :: "json \<Rightarrow> json" where
  "canon JNull = JNull"
| "canon (JBool b) = JBool b"
| "canon (JNum r) = JNum r"
| "canon (JStr s) = JStr s"
| "canon (JArr xs) = JArr (map canon xs)"
| "canon (JObj kvs) = JObj (sort_key fst (map (map_prod id canon) kvs))"

definition deep_equal :: "json \<Rightarrow> json \<Rightarrow> bool" where
  "deep_equal a b \<longleftrightarrow> canon a = canon b"

lemma deep_equal_refl [simp]: "deep_equal a a"
  by (simp add: deep_equal_def)

lemma deep_equal_sym: "deep_equal a b \<Longrightarrow> deep_equal b a"
  by (simp add: deep_equal_def)

lemma deep_equal_trans: "deep_equal a b \<Longrightarrow> deep_equal b c \<Longrightarrow> deep_equal a c"
  by (simp add: deep_equal_def)

text \<open>The order in which the fields of an object were added does not matter.\<close>

lemma sort_key_perm:
  assumes "mset xs = mset ys" and "distinct (map f xs)"
  shows "sort_key f xs = sort_key f ys"
proof (rule map_sorted_distinct_set_unique [where f = f])
  have "mset (map f xs) = mset (map f ys)"
    using assms(1) by (metis mset_map)
  with assms(2) have "distinct (map f ys)"
    using mset_eq_imp_distinct_iff by blast
  then show "distinct (map f (sort_key f xs))" "distinct (map f (sort_key f ys))"
    using assms(2) by (metis mset_eq_imp_distinct_iff mset_map mset_sort)+
  show "set (sort_key f xs) = set (sort_key f ys)"
    using mset_eq_setD [OF assms(1)] by simp
  then show "inj_on f (set (sort_key f xs) \<union> set (sort_key f ys))"
    using assms(2) by (simp add: distinct_map)
qed simp_all

lemma deep_equal_obj_perm:
  assumes "mset kvs = mset kvs'" and "distinct (map fst kvs)"
  shows "deep_equal (JObj kvs) (JObj kvs')"
proof -
  let ?c = "map (map_prod id canon)"
  have "sort_key fst (?c kvs) = sort_key fst (?c kvs')"
    using assms by (intro sort_key_perm) (simp_all add: comp_def)
  then show ?thesis by (simp add: deep_equal_def)
qed

section \<open>Columns that hold JSON\<close>

text \<open>
  The contract of a pair of functions that write a value into a JSON column and
  read it back: \<open>norm\<close> is what the value looks like after the trip, and a value
  that has made the trip once no longer changes.
\<close>

locale json_column =
  fixes enc :: "'a \<Rightarrow> json" and dec :: "json \<Rightarrow> err + 'a" and norm :: "'a \<Rightarrow> 'a"
  assumes dec_enc: "dec (enc x) = Inr (norm x)"
    and norm_norm: "norm (norm x) = norm x"
begin

lemma dec_enc_norm: "dec (enc (norm x)) = Inr (norm x)"
  by (simp add: dec_enc norm_norm)

lemma reread_stable:
  assumes "dec (enc x) = Inr y"
  shows "dec (enc y) = Inr y"
  using assms by (auto simp: dec_enc norm_norm)

lemma column_never_fails: "dec (enc x) \<noteq> Inl er"
  by (simp add: dec_enc)

lemma mapE_dec_enc: "mapE dec (map enc xs) = Inr (map norm xs)"
  by (rule mapE_map_Inr) (rule dec_enc)

end

end
