(* ===== verification/Types.thy ===== *)
theory Types
  imports Json
begin

text \<open>
  The data of the Authorization service: the types of \<open>interfaces/logics.go\<close>,
  \<open>interfaces/dbaccess.go\<close>, \<open>interfaces/misc.go\<close> and
  \<open>interfaces/drivenadapters.go\<close>, the rows of the tables of
  \<open>migrations/init.sql\<close>, and the two records every operation works with: the
  \<open>world\<close> (the database) and the \<open>env\<close> (what the service calls and cannot see
  into).  A record field carries the Go field name behind a short prefix for its
  type.  Fields no modelled operation reads are left out.
\<close>

section \<open>Enumerations\<close>

datatype accessor_type =
    AccessorUnset
  | AccessorUser
  | AccessorDepartment
  | AccessorContactor
  | AccessorAnonymous
  | AccessorGroup
  | AccessorApp
  | AccessorGroupInternal
  | AccessorRole

text \<open>\<open>VisitorUnset\<close> is the zero value, which a lookup of an unknown name returns.\<close>

datatype visitor_type = VisitorUnset | RealName | Anonymous | App

datatype system_role =
    SuperAdmin
  | SystemAdmin
  | AuditAdmin
  | SecurityAdmin
  | OrganizationAdmin
  | OrganizationAudit
  | NormalUser

datatype role_source = RoleSourceUnset | RoleSourceSystem | RoleSourceBusiness | RoleSourceUser

datatype operation_scope = ScopeType | ScopeInstance

datatype calc_include = PolicCalcyIncludeOperationObligations

datatype policy_include = PolicyIncludeObligationType | PolicyIncludeObligation


section \<open>Structures of the logic layer\<close>

record visitor =
  vis_ID :: string
  vis_Type :: visitor_type
  vis_Language :: string

record operation_name =
  opn_Language :: string
  opn_Value :: string

record resource_type_operation =
  rto_ID :: string
  rto_Name :: "operation_name list"
  rto_Description :: string
  rto_Scope :: "operation_scope list"

record resource_type =
  rt_ID :: string
  rt_Name :: string
  rt_Description :: string
  rt_InstanceURL :: string
  rt_DataStruct :: string
  rt_CreateTime :: int
  rt_Operation :: "resource_type_operation list"
  rt_Hidden :: bool
  rt_ModifyTime :: int

record obligation_item =
  obl_TypeID :: string
  obl_ID :: string
  obl_Value :: json

text \<open>\<open>policyObligationCalcItem\<close> embeds an obligation item.\<close>

record calc_item = obligation_item +
  ci_priority :: int

record operation_item =
  ope_ID :: string
  ope_Name :: string
  ope_Obligations :: "obligation_item list"

record rule_item =
  rule_Condition :: json
  rule_Operations :: "operation_item list"

record policy_rules =
  rules_Allow :: "rule_item list"
  rules_Deny :: "rule_item list"

record ancestor =
  anc_ID :: string
  anc_Type :: string
  anc_Name :: string

record department =
  dep_ID :: string
  dep_Name :: string
  dep_Type :: string

record policy_info =
  pol_ID :: string
  pol_ResourceID :: string
  pol_ResourceType :: string
  pol_ResourceName :: string
  pol_Ancestors :: "ancestor list"
  pol_HasAncestors :: bool
  pol_AccessorID :: string
  pol_AccessorType :: accessor_type
  pol_AccessorName :: string
  pol_ParentDeps :: "department list list"
  pol_Rules :: policy_rules
  pol_Condition :: string
  pol_EndTime :: int
  pol_CreateTime :: int
  pol_ModifyTime :: int

record resource_info =
  res_ID :: string
  res_Type :: string
  res_Name :: string
  res_Ancestors :: "ancestor list"
  res_CreatedBy :: string

record accessor_info =
  acc_ID :: string
  acc_Type :: visitor_type
  acc_Name :: string

record resource_type_scope =
  rts_ResourceTypeID :: string
  rts_ResourceTypeName :: string

text \<open>
  \<open>Types\<close> is an option because \<open>checkRoleChange\<close> compares scopes with
  \<open>reflect.DeepEqual\<close>, which tells a nil slice (\<open>None\<close>) from an empty one.
\<close>

record resource_type_scope_info =
  rtsi_Unlimited :: bool
  rtsi_Types :: "resource_type_scope list option"

record role_info =
  role_ID :: string
  role_Name :: string
  role_Description :: string
  role_Source :: role_source
  role_Scope :: resource_type_scope_info
  role_CreateTime :: int
  role_ModifyTime :: int

record role_member_info =
  mem_ID :: string
  mem_Type :: accessor_type
  mem_Name :: string
  mem_ParentDeps :: "department list list"

record obligation_info =
  obi_ID :: string
  obi_TypeID :: string
  obi_Name :: string
  obi_Description :: string
  obi_Value :: json
  obi_CreatedTime :: int
  obi_ModifyTime :: int

text \<open>
  The slices of these structures are only ever built by appending to \<open>nil\<close>, so the
  empty list stands for \<open>nil\<close>.
\<close>

record ob_operation =
  obo_ID :: string
  obo_Name :: string

record ob_operations_scope =
  oos_Unlimited :: bool
  oos_Operations :: "ob_operation list"

record ob_type_scope =
  ots_ResourceTypeID :: string
  ots_ResourceTypeName :: string
  ots_OperationsScope :: ob_operations_scope

record ob_scope =
  obs_Unlimited :: bool
  obs_Types :: "ob_type_scope list"

record obligation_type_info =
  oti_ID :: string
  oti_Name :: string
  oti_Description :: string
  oti_ResourceTypeScope :: ob_scope
  oti_Schema :: json
  oti_DefaultValue :: json
  oti_UiSchema :: json
  oti_CreatedTime :: int
  oti_ModifyTime :: int

record user_info =
  ui_ID :: string
  ui_ParentDeps :: "department list list"

datatype hierarchy = Hierarchy (hier_ID: string) (hier_Children: "hierarchy list")


section \<open>Table rows\<close>

record policy_row =
  p_primary_id :: nat
  p_id :: string
  p_resource_id :: string
  p_resource_type :: string
  p_resource_name :: string
  p_accessor_id :: string
  p_accessor_type :: accessor_type
  p_accessor_name :: string
  p_operation :: json
  p_condition :: string
  p_ancestors :: "json option"
  p_end_time :: int
  p_create_time :: int
  p_modify_time :: int

record role_row =
  r_primary_id :: nat
  r_id :: string
  r_name :: string
  r_description :: string
  r_source :: role_source
  r_resource_scope :: json
  r_created_time :: int
  r_modify_time :: int

record role_member_row =
  m_primary_id :: nat
  m_role_id :: string
  m_member_id :: string
  m_member_type :: accessor_type
  m_member_name :: string
  m_created_time :: int
  m_modify_time :: int

record resource_type_row =
  t_primary_id :: nat
  t_id :: string
  t_name :: string
  t_description :: string
  t_instance_url :: string
  t_data_struct :: string
  t_operation :: "resource_type_operation list"
  t_hidden :: bool
  t_create_time :: int
  t_modify_time :: int

record hierarchy_row =
  h_primary_id :: nat
  h_resource_type_id :: string
  h_children :: json

record obligation_type_row =
  ot_primary_id :: nat
  ot_id :: string
  ot_name :: string
  ot_description :: string
  ot_applicable :: json
  ot_schema :: json
  ot_ui_schema :: json
  ot_default_value :: json
  ot_created_at :: int
  ot_modified_at :: int

record obligation_row =
  o_primary_id :: nat
  o_id :: string
  o_type_id :: string
  o_name :: string
  o_description :: string
  o_value :: json
  o_created_at :: int
  o_modified_at :: int


section \<open>The world and the environment\<close>

text \<open>
  \<open>tick\<close> counts the calls that leave the service (database statements, clock
  readings, fresh identifiers), so that the environment can answer each of them
  on its own; \<open>next_id\<close> is the auto-increment counter of the primary keys.
\<close>

record world =
  t_policy :: "policy_row list"
  t_role :: "role_row list"
  t_role_member :: "role_member_row list"
  t_resource_type :: "resource_type_row list"
  t_hierarchy :: "hierarchy_row list"
  t_obligation_type :: "obligation_type_row list"
  t_obligation :: "obligation_row list"
  next_id :: nat
  tick :: nat

text \<open>
  A database statement succeeds, fails without effect, or takes effect although
  the connection reports an error.
\<close>

datatype fault = NoFault | FaultBefore | FaultAfter

text \<open>
  The parameters of the model: faults of the database, the clock, the generator
  of identifiers, the iteration order of Go maps, the unstable \<open>sort.Slice\<close> and
  \<open>slices.SortFunc\<close>, the
  user-management service, the json-logic evaluator and the JSON-schema library
  (whether a schema is one, and whether a value satisfies it; \<open>None\<close> is an error of
  either library).
\<close>

record env =
  fault_at :: "nat \<Rightarrow> fault"
  now_at :: "nat \<Rightarrow> int"
  uuid_at :: "nat \<Rightarrow> string"
  map_order :: "string list \<Rightarrow> string list"
  sort_slice :: "calc_item list \<Rightarrow> calc_item list"
  sort_roles :: "(role_info \<Rightarrow> role_info \<Rightarrow> int) \<Rightarrow> role_info list \<Rightarrow> role_info list"
  um_GetUserRolesByUserID :: "string \<Rightarrow> err + system_role list"
  um_GetNameByAccessorIDs :: "(string \<times> accessor_type) list \<Rightarrow> err + (string, string) gomap"
  um_BatchGetUserInfoByID :: "string list \<Rightarrow> err + (string, user_info) gomap"
  um_GetAccessorIDsByUserID :: "string \<Rightarrow> err + string list"
  um_GetParentDepartmentsByDepartmentID :: "string \<Rightarrow> err + department list"
  jsonlogic_Apply :: "json \<Rightarrow> json \<Rightarrow> json option"
  jsonschema_NewSchema :: "json \<Rightarrow> bool"
  jsonschema_Validate :: "json \<Rightarrow> json \<Rightarrow> bool option"

type_synonym 'a op = "(world, 'a) sm"

text \<open>
  What the results rely on in the environment: map iteration visits every key
  once, and sorting returns an ordered rearrangement (of obligations by priority, of
  roles by the comparison that is passed).
\<close>

definition env_ok :: "env \<Rightarrow> bool" where
  "env_ok e \<longleftrightarrow>
     key_order (map_order e) \<and> sort_func (sort_roles e) \<and>
     (\<forall>xs. mset (sort_slice e xs) = mset xs \<and> sorted (map ci_priority (sort_slice e xs)))"

lemma env_ok_key_order [simp]: "env_ok e \<Longrightarrow> key_order (map_order e)"
  by (simp add: env_ok_def)

lemma env_ok_sort_roles [simp]: "env_ok e \<Longrightarrow> sort_func (sort_roles e)"
  by (simp add: env_ok_def)

lemma env_ok_sort:
  assumes "env_ok e"
  shows "mset (sort_slice e xs) = mset xs"
    and "set (sort_slice e xs) = set xs"
    and "sorted (map ci_priority (sort_slice e xs))"
proof -
  have "\<forall>xs. mset (sort_slice e xs) = mset xs \<and> sorted (map ci_priority (sort_slice e xs))"
    using assms unfolding env_ok_def by (elim conjE)
  then have "mset (sort_slice e xs) = mset xs \<and> sorted (map ci_priority (sort_slice e xs))" ..
  then show "mset (sort_slice e xs) = mset xs" and "sorted (map ci_priority (sort_slice e xs))"
    by blast+
  show "set (sort_slice e xs) = set xs" by (rule mset_eq_setD) fact
qed

text \<open>A quiet environment, on which concrete runs are evaluated.\<close>

definition quiet_env :: env where
  "quiet_env =
     \<lparr> fault_at = (\<lambda>_. NoFault), now_at = (\<lambda>n. 1000 + int n), uuid_at = (\<lambda>n. replicate n (CHR ''u'')),
       map_order = (\<lambda>ks. ks), sort_slice = sort_key ci_priority, sort_roles = sort_by,
       um_GetUserRolesByUserID = (\<lambda>_. Inr [SuperAdmin]),
       um_GetNameByAccessorIDs = (\<lambda>ids. Inr (map (\<lambda>(i, _). (i, i)) ids)),
       um_BatchGetUserInfoByID = (\<lambda>ids. Inr (map (\<lambda>i. (i, \<lparr> ui_ID = i, ui_ParentDeps = [] \<rparr>)) ids)),
       um_GetAccessorIDsByUserID = (\<lambda>u. Inr [u]),
       um_GetParentDepartmentsByDepartmentID = (\<lambda>_. Inr []),
       jsonlogic_Apply = (\<lambda>_ _. Some (JBool True)),
       jsonschema_NewSchema = (\<lambda>_. True),
       jsonschema_Validate = (\<lambda>_ _. Some True) \<rparr>"

lemma env_ok_quiet [simp]: "env_ok quiet_env"
  by (simp add: env_ok_def quiet_env_def sort_func_sort_by)

lemma quiet_env_run [run_simps]:
  "fault_at quiet_env n = NoFault" "now_at quiet_env n = 1000 + int n"
  "uuid_at quiet_env n = replicate n (CHR ''u'')" "map_order quiet_env ks = ks"
  "sort_slice quiet_env xs = sort_key ci_priority xs" "sort_roles quiet_env = sort_by"
  "um_GetUserRolesByUserID quiet_env u = Inr [SuperAdmin]"
  "um_GetNameByAccessorIDs quiet_env ids = Inr (map (\<lambda>(i, _). (i, i)) ids)"
  "um_BatchGetUserInfoByID quiet_env us = Inr (map (\<lambda>i. (i, \<lparr> ui_ID = i, ui_ParentDeps = [] \<rparr>)) us)"
  "um_GetAccessorIDsByUserID quiet_env u = Inr [u]"
  "um_GetParentDepartmentsByDepartmentID quiet_env u = Inr []"
  "jsonlogic_Apply quiet_env c d = Some (JBool True)"
  "jsonschema_NewSchema quiet_env c" "jsonschema_Validate quiet_env c d = Some True"
  by (simp_all add: quiet_env_def)

definition empty_world :: world where
  "empty_world =
     \<lparr> t_policy = [], t_role = [], t_role_member = [], t_resource_type = [], t_hierarchy = [],
       t_obligation_type = [], t_obligation = [], next_id = 1, tick = 0 \<rparr>"

lemma empty_world_run [run_simps]:
  "t_policy empty_world = []" "t_role empty_world = []" "t_role_member empty_world = []"
  "t_resource_type empty_world = []" "t_hierarchy empty_world = []"
  "t_obligation_type empty_world = []" "t_obligation empty_world = []" "next_id empty_world = 1"
  "tick empty_world = 0"
  by (simp_all add: empty_world_def)

end
