(* ===== verification/Store.thy ===== *)
theory Store
  imports Types
begin

text \<open>
  Calls that leave the service: database statements (each may fail, see
  \<open>fault\<close>), the clock, fresh identifiers and calls to the user-management
  service; and the parts of SQL the statements of \<open>dbaccess\<close> use.
\<close>

section \<open>Statements\<close>

definition tock :: "world \<Rightarrow> world" where
  "tock w = w\<lparr>tick := Suc (tick w)\<rparr>"

definition db_query :: "env \<Rightarrow> (world \<Rightarrow> err + 'a) \<Rightarrow> 'a op" where
  "db_query e f w =
     (case fault_at e (tick w) of
        NoFault \<Rightarrow> (f w, tock w)
      | _ \<Rightarrow> (Inl DBError, tock w))"

definition db_exec :: "env \<Rightarrow> (world \<Rightarrow> world) \<Rightarrow> unit op" where
  "db_exec e f w =
     (case fault_at e (tick w) of
        NoFault \<Rightarrow> (Inr (), f (tock w))
      | FaultBefore \<Rightarrow> (Inl DBError, tock w)
      | FaultAfter \<Rightarrow> (Inl DBError, f (tock w)))"

definition getTime :: "env \<Rightarrow> int op" where
  "getTime e w = (Inr (now_at e (tick w)), tock w)"

definition newUUID :: "env \<Rightarrow> string op" where
  "newUUID e w = (Inr (uuid_at e (tick w)), tock w)"

lemma tock_simps [simp]:
  "t_policy (tock w) = t_policy w" "t_role (tock w) = t_role w"
  "t_role_member (tock w) = t_role_member w" "t_resource_type (tock w) = t_resource_type w"
  "t_hierarchy (tock w) = t_hierarchy w" "t_obligation_type (tock w) = t_obligation_type w"
  "t_obligation (tock w) = t_obligation w" "next_id (tock w) = next_id w"
  "tick (tock w) = Suc (tick w)"
  by (simp_all add: tock_def)

lemma db_query_Inr_iff [simp]:
  "db_query e f w = (Inr x, w') \<longleftrightarrow> fault_at e (tick w) = NoFault \<and> f w = Inr x \<and> w' = tock w"
  by (auto simp: db_query_def split: fault.splits)

lemma db_exec_Inr_iff [simp]:
  "db_exec e f w = (Inr x, w') \<longleftrightarrow> fault_at e (tick w) = NoFault \<and> w' = f (tock w)"
  by (auto simp: db_exec_def split: fault.splits)

lemma getTime_run [simp]: "getTime e w = (Inr (now_at e (tick w)), tock w)"
  by (simp add: getTime_def)

lemma newUUID_run [simp]: "newUUID e w = (Inr (uuid_at e (tick w)), tock w)"
  by (simp add: newUUID_def)

text \<open>The database content of a world: everything but the call counter.\<close>

definition db :: "world \<Rightarrow> world" where
  "db w = w\<lparr>tick := 0\<rparr>"

lemma db_tock [simp]: "db (tock w) = db w"
  by (simp add: db_def tock_def)

lemma db_tables:
  assumes "db w = db w'"
  shows "t_policy w = t_policy w'" "t_role w = t_role w'" "t_role_member w = t_role_member w'"
    "t_resource_type w = t_resource_type w'" "t_hierarchy w = t_hierarchy w'"
    "t_obligation_type w = t_obligation_type w'" "t_obligation w = t_obligation w'"
    "next_id w = next_id w'"
  using assms by (cases w; cases w'; simp add: db_def)+

text \<open>A query, the clock and a fresh identifier change no table.\<close>

lemma keeps_query [keeps_intros]:
  "(\<And>w. f (tock w) = f w) \<Longrightarrow> keeps f (db_query e q)"
  "(\<And>w. f (tock w) = f w) \<Longrightarrow> keeps f (getTime e)"
  "(\<And>w. f (tock w) = f w) \<Longrightarrow> keeps f (newUUID e)"
  by (auto simp: keeps_def db_query_def getTime_def newUUID_def split: fault.splits)

lemma keeps_exec [keeps_intros]:
  "(\<And>w. f (tock w) = f w) \<Longrightarrow> (\<And>w. f (g w) = f w) \<Longrightarrow> keeps f (db_exec e g)"
  by (auto simp: keeps_def db_exec_def split: fault.splits)

lemma preserves_query [preserves_intros]:
  "(\<And>w. P w \<Longrightarrow> P (tock w)) \<Longrightarrow> preserves P (db_query e q)"
  "(\<And>w. P w \<Longrightarrow> P (tock w)) \<Longrightarrow> preserves P (getTime e)"
  "(\<And>w. P w \<Longrightarrow> P (tock w)) \<Longrightarrow> preserves P (newUUID e)"
  by (auto simp: preserves_def db_query_def getTime_def newUUID_def split: fault.splits)

lemma preserves_exec [preserves_intros]:
  "(\<And>w. P w \<Longrightarrow> P (tock w)) \<Longrightarrow> (\<And>w. P w \<Longrightarrow> P (g w)) \<Longrightarrow> preserves P (db_exec e g)"
  by (auto simp: preserves_def db_exec_def split: fault.splits)


section \<open>Pieces of SQL\<close>

text \<open>
  \<open>getFindInSetSQL\<close> (\<open>dbaccess/policy_calc.go\<close>) builds the list of an \<open>in (...)\<close>
  condition.  An empty list is a syntax error of the database, so a statement
  with \<open>in ()\<close> fails.
\<close>

definition sql_in :: "string list \<Rightarrow> err + (string \<Rightarrow> bool)" where
  "sql_in vs = (if vs = [] then Inl DBError else Inr (\<lambda>x. x \<in> set vs))"

lemma sql_in_Inr_iff [simp]: "sql_in vs = Inr p \<longleftrightarrow> vs \<noteq> [] \<and> p = (\<lambda>x. x \<in> set vs)"
  by (auto simp: sql_in_def)

text \<open>\<open>limit ? offset ?\<close>: a negative bound is an error of the database.\<close>

definition sql_limit :: "int \<Rightarrow> int \<Rightarrow> 'a list \<Rightarrow> err + 'a list" where
  "sql_limit off cnt xs =
     (if off < 0 \<or> cnt < 0 then Inl DBError else Inr (take (nat cnt) (drop (nat off) xs)))"

text \<open>\<open>order by f_modify_time desc, f_primary_id desc\<close>.\<close>

definition order_desc :: "('r \<Rightarrow> int) \<Rightarrow> ('r \<Rightarrow> nat) \<Rightarrow> 'r list \<Rightarrow> 'r list" where
  "order_desc tm pk rs = sort_key (\<lambda>r. - tm r) (sort_key (\<lambda>r. - int (pk r)) rs)"

lemma mset_order_desc [simp]: "mset (order_desc tm pk rs) = mset rs"
  by (simp add: order_desc_def)

lemma set_order_desc [simp]: "set (order_desc tm pk rs) = set rs"
  by (simp add: order_desc_def)

text \<open>\<open>like\<close>: \<open>%\<close> matches any text, \<open>_\<close> one character, a backslash quotes.\<close>

fun sql_like :: "string \<Rightarrow> string \<Rightarrow> bool" where
  "sql_like [] s = (s = [])"
| "sql_like (p # ps) s =
     (if p = CHR ''%'' then
        sql_like ps s \<or> (case s of [] \<Rightarrow> False | _ # s' \<Rightarrow> sql_like (p # ps) s')
      else if p = CHR ''_'' then
        (case s of [] \<Rightarrow> False | _ # s' \<Rightarrow> sql_like ps s')
      else if p = CHR 0x5C \<and> ps \<noteq> [] then
        (case s of [] \<Rightarrow> False | c # s' \<Rightarrow> c = hd ps \<and> sql_like (tl ps) s')
      else (case s of [] \<Rightarrow> False | c # s' \<Rightarrow> c = p \<and> sql_like ps s'))"

definition contains_pattern :: "string \<Rightarrow> string" where
  "contains_pattern kw = ''%'' @ kw @ ''%''"

lemmas store_run [run_simps] = db_query_def db_exec_def sql_in_def sql_limit_def order_desc_def

lemma safe_db_query [safe_intros]:
  assumes "\<And>w. I w \<Longrightarrow> I (tock w)" and "\<And>w. I w \<Longrightarrow> f w \<noteq> Inl Panic"
  shows "safe I (db_query e f)"
  using assms by (simp add: safe_def db_query_def split: fault.split)

end
