(* ===== verification/Common.thy ===== *)
theory Common
  imports Store
begin

text \<open>
  The helpers several components call: \<open>common/slices.go\<close>, \<open>common/number.go\<close>
  and \<open>logics/common.go\<close>.
\<close>

section \<open>Removing duplicates\<close>

definition distinctSmallSlice :: "'a list \<Rightarrow> 'a list" where
  "distinctSmallSlice slice =
     fold (\<lambda>v result. if v \<in> set result then result else result @ [v]) slice []"

definition distinctLargeSlice :: "'a list \<Rightarrow> 'a list" where
  "distinctLargeSlice slice =
     snd (fold (\<lambda>v (seen, result).
            if mtrue seen v then (seen, result) else (mset_true v seen, result @ [v]))
          slice ([], []))"

definition Distinct :: "'a list \<Rightarrow> 'a list" where
  "Distinct slice =
     (if length slice < 2 then slice
      else if length slice < 10 then distinctSmallSlice slice
      else distinctLargeSlice slice)"

text \<open>The reference: keep the first occurrence of each element, in order.\<close>

primrec keep_first :: "'a set \<Rightarrow> 'a list \<Rightarrow> 'a list" where
  "keep_first S [] = []"
| "keep_first S (x # xs) = (if x \<in> S then keep_first S xs else x # keep_first (insert x S) xs)"

lemma set_keep_first [simp]: "set (keep_first S xs) = set xs - S"
  by (induction xs arbitrary: S) auto

lemma distinct_keep_first [simp]: "distinct (keep_first S xs)"
  by (induction xs arbitrary: S) auto

lemma small_fold:
  "fold (\<lambda>v result. if v \<in> set result then result else result @ [v]) xs acc =
     acc @ keep_first (set acc) xs"
  by (induction xs arbitrary: acc) auto

lemma large_fold:
  assumes "\<And>v. mtrue seen v \<longleftrightarrow> v \<in> set acc"
  shows "snd (fold (\<lambda>v (seen, result).
            if mtrue seen v then (seen, result) else (mset_true v seen, result @ [v]))
          xs (seen, acc)) = acc @ keep_first (set acc) xs"
  using assms
proof (induction xs arbitrary: seen acc)
  case (Cons x xs)
  show ?case
  proof (cases "x \<in> set acc")
    case True
    then show ?thesis using Cons by simp
  next
    case False
    then have "\<not> mtrue seen x" using Cons.prems by simp
    moreover have "\<And>v. mtrue (mset_true x seen) v \<longleftrightarrow> v \<in> set (acc @ [x])"
      using Cons.prems by auto
    ultimately show ?thesis
      using False Cons.IH [of "mset_true x seen" "acc @ [x]"] by simp
  qed
qed simp

lemma keep_first_short: "length xs < 2 \<Longrightarrow> keep_first {} xs = xs"
  by (cases xs) auto

lemma Distinct_keep_first: "Distinct xs = keep_first {} xs"
  using small_fold [of xs "[]"] large_fold [of "[]" "[]" xs]
  by (simp add: Distinct_def distinctSmallSlice_def distinctLargeSlice_def keep_first_short)

lemma set_Distinct [simp]: "set (Distinct xs) = set xs"
  by (simp add: Distinct_keep_first)

lemma distinct_Distinct [simp]: "distinct (Distinct xs)"
  by (simp add: Distinct_keep_first)


section \<open>Visitors and expiry\<close>

definition Min_num :: "int \<Rightarrow> int \<Rightarrow> int" where
  "Min_num a b = (if a < b then a else b)"

definition checkVisitorType ::
    "visitor \<Rightarrow> system_role list \<Rightarrow> visitor_type list \<Rightarrow> system_role list \<Rightarrow> err + unit" where
  "checkVisitorType visitor roleTypes acceptVisitorTypes acceptRoleTypes =
     (if \<not> list_ex (\<lambda>val. vis_Type visitor = val) acceptVisitorTypes then Inl PublicForbidden
      else if vis_Type visitor = RealName \<and>
              \<not> list_ex (\<lambda>roleType. list_ex (\<lambda>val. roleType = val) acceptRoleTypes) roleTypes
      then Inl PublicForbidden
      else Inr ())"

lemma checkVisitorType_iff:
  "checkVisitorType v rs avs ars = Inr () \<longleftrightarrow>
     vis_Type v \<in> set avs \<and> (vis_Type v = RealName \<longrightarrow> set rs \<inter> set ars \<noteq> {})"
  by (auto simp: checkVisitorType_def list_ex_iff)

lemma checkVisitorType_Inl:
  "checkVisitorType v rs avs ars = Inl er \<Longrightarrow> er = PublicForbidden"
  by (auto simp: checkVisitorType_def split: if_splits)

text \<open>
  Every logic component has a check of its own, made of the roles user management
  reports and \<open>checkVisitorType\<close>.  \<open>admin_with R\<close>: the visitor is a named user with
  one of the roles \<open>R\<close>.  The contract of such a check: it lets exactly the admitted
  visitors pass, so that an operation behind it does nothing at all for the others.
\<close>

definition admin_with :: "system_role set \<Rightarrow> env \<Rightarrow> visitor \<Rightarrow> bool" where
  "admin_with R e v \<longleftrightarrow>
     vis_Type v = RealName \<and> (\<exists>rs. um_GetUserRolesByUserID e (vis_ID v) = Inr rs \<and> set rs \<inter> R \<noteq> {})"

locale visitor_guard =
  fixes check :: "env \<Rightarrow> visitor \<Rightarrow> err + unit" and admitted :: "env \<Rightarrow> visitor \<Rightarrow> bool"
  assumes check_iff: "check e v = Inr () \<longleftrightarrow> admitted e v"
begin

lemma refused:
  assumes "\<not> admitted e v"
  obtains er where "check e v = Inl er"
  using assms check_iff [of e v] by (cases "check e v") auto

lemma refused_run:
  assumes "\<not> admitted e v"
  shows "\<exists>er. bindM (liftE (check e v)) m w = (Inl er, w)"
  using refused [OF assms] by (metis bindM_simps(3) monad_eval(2))

lemma admitted_run: "admitted e v \<Longrightarrow> bindM (liftE (check e v)) m = m ()"
  using check_iff [of e v] by simp

lemma guarded_Inr:
  "bindM (liftE (check e v)) m w = (Inr x, w') \<longleftrightarrow> admitted e v \<and> m () w = (Inr x, w')"
  using check_iff [of e v] by (cases "check e v") auto

end

text \<open>\<open>strings.EqualFold\<close> on the language tags, which are ASCII.\<close>

definition lowerChar :: "char \<Rightarrow> char" where
  "lowerChar c = (let n = (of_char c :: nat) in if 65 \<le> n \<and> n \<le> 90 then char_of (n + 32) else c)"

definition EqualFold :: "string \<Rightarrow> string \<Rightarrow> bool" where
  "EqualFold s t \<longleftrightarrow> map lowerChar s = map lowerChar t"

text \<open>
  A Go string is its UTF-8 bytes.  \<open>strings.TrimSpace\<close> removes the white space of
  Unicode at both ends; \<open>utf8.RuneCountInString\<close> counts the bytes that begin a character
  (names come out of a JSON parser, so they are well formed).
\<close>

definition whiteSpace :: "nat list list" where
  "whiteSpace =
     [[9], [10], [11], [12], [13], [32], [0xC2, 0x85], [0xC2, 0xA0], [0xE1, 0x9A, 0x80],
      [0xE2, 0x80, 0x80], [0xE2, 0x80, 0x81], [0xE2, 0x80, 0x82], [0xE2, 0x80, 0x83],
      [0xE2, 0x80, 0x84], [0xE2, 0x80, 0x85], [0xE2, 0x80, 0x86], [0xE2, 0x80, 0x87],
      [0xE2, 0x80, 0x88], [0xE2, 0x80, 0x89], [0xE2, 0x80, 0x8A], [0xE2, 0x80, 0xA8],
      [0xE2, 0x80, 0xA9], [0xE2, 0x80, 0xAF], [0xE2, 0x81, 0x9F], [0xE3, 0x80, 0x80]]"

definition leadingSpace :: "nat list list \<Rightarrow> string \<Rightarrow> nat" where
  "leadingSpace seps s =
     (case find (\<lambda>sep. take (length sep) (map of_char s) = sep) seps of None \<Rightarrow> 0 | Some sep \<Rightarrow> length sep)"

function trimLeft :: "nat list list \<Rightarrow> string \<Rightarrow> string" where
  "trimLeft seps s =
     (if leadingSpace seps s = 0 \<or> s = [] then s else trimLeft seps (drop (leadingSpace seps s) s))"
  by pat_completeness auto
termination
  by (relation "measure (length \<circ> snd)") auto

declare trimLeft.simps [simp del]

definition TrimSpace :: "string \<Rightarrow> string" where
  "TrimSpace s = rev (trimLeft (map rev whiteSpace) (rev (trimLeft whiteSpace s)))"

definition RuneCountInString :: "string \<Rightarrow> nat" where
  "RuneCountInString s = length (filter (\<lambda>c. (of_char c :: nat) div 64 \<noteq> 2) s)"

lemma RuneCount_le: "RuneCountInString s \<le> length s"
  by (simp add: RuneCountInString_def)

definition checkEndTime :: "env \<Rightarrow> int \<Rightarrow> unit op" where
  "checkEndTime e endTime =
     bindM (getTime e) (\<lambda>curTime.
       if endTime \<noteq> -1 \<and> endTime \<le> curTime then throwM PublicBadRequest else returnM ())"

lemma checkEndTime_Inr:
  "checkEndTime e t w = (Inr u, w') \<Longrightarrow> w' = tock w \<and> (t = -1 \<or> now_at e (tick w) < t)"
  by (auto simp: checkEndTime_def bindM_Inr_iff split: if_splits)

lemma keeps_checkEndTime [keeps_intros]:
  "(\<And>w. f (tock w) = f w) \<Longrightarrow> keeps f (checkEndTime e t)"
  unfolding checkEndTime_def by (intro keeps_intros) auto

lemmas common_run [run_simps] = Distinct_keep_first checkVisitorType_def checkEndTime_def
  EqualFold_def lowerChar_def leadingSpace_def TrimSpace_def trimLeft.simps whiteSpace_def
  RuneCountInString_def

end
