(* ===== verification/PolicyDB.thy ===== *)
theory PolicyDB
  imports Common
begin

text \<open>
  \<open>dbaccess/policy.go\<close> and \<open>dbaccess/policy_calc.go\<close>: how rules and ancestors
  are written into and read from the columns of \<open>t_policy\<close>, and the statements on
  that table.
\<close>

section \<open>Encoding and decoding of rules\<close>

definition makeObligations :: "obligation_item list \<Rightarrow> json" where
  "makeObligations result =
     JArr (map (\<lambda>v. JObj [(''type_id'', JStr (obl_TypeID v)), (''id'', JStr (obl_ID v)),
                           (''value'', obl_Value v)]) result)"

definition getObligations :: "json \<Rightarrow> err + obligation_item list" where
  "getObligations obligationsJson =
     bindE (as_arr obligationsJson)
       (mapE (\<lambda>v. bindE (as_obj v) (\<lambda>obligationMap.
          bindE (as_str (jfield obligationMap ''type_id'')) (\<lambda>tid.
          bindE (as_str (jfield obligationMap ''id'')) (\<lambda>i.
          Inr \<lparr> obl_TypeID = tid, obl_ID = i, obl_Value = jfield obligationMap ''value'' \<rparr>)))))"

definition makeConditionItem :: "rule_item \<Rightarrow> json" where
  "makeConditionItem item =
     (let condition = (if rule_Condition item = JNull then JObj [] else rule_Condition item);
          operations = map (\<lambda>op. JObj [(''id'', JStr (ope_ID op)),
                                        (''obligations'', makeObligations (ope_Obligations op))])
                         (rule_Operations item)
      in JObj [(''condition'', condition), (''operations'', JArr operations)])"

definition parseOperation :: "json \<Rightarrow> err + operation_item" where
  "parseOperation opV =
     bindE (as_obj opV) (\<lambda>opMap.
     bindE (as_str (jfield opMap ''id'')) (\<lambda>i.
     bindE (case map_of opMap ''obligations'' of None \<Rightarrow> Inr [] | Some obl \<Rightarrow> getObligations obl)
       (\<lambda>obls. Inr \<lparr> ope_ID = i, ope_Name = '''', ope_Obligations = obls \<rparr>)))"

definition parseConditionItem :: "json \<Rightarrow> err + rule_item" where
  "parseConditionItem v =
     bindE (as_obj v) (\<lambda>item.
     bindE (as_arr (jfield item ''operations'')) (\<lambda>opsList.
     bindE (mapE parseOperation opsList) (\<lambda>operations.
       Inr \<lparr> rule_Condition = (if jfield item ''condition'' = JNull then JObj []
                                else jfield item ''condition''),
             rule_Operations = operations \<rparr>)))"

definition rulesInfoToString :: "policy_rules \<Rightarrow> json" where
  "rulesInfoToString rulesInfo =
     (let enc = (\<lambda>items. JArr (map makeConditionItem
                   (filter (\<lambda>item. rule_Operations item \<noteq> []) items)))
      in JObj [(''allow'', enc (rules_Allow rulesInfo)), (''deny'', enc (rules_Deny rulesInfo))])"

definition rulesStrToInfo :: "json \<Rightarrow> err + policy_rules" where
  "rulesStrToInfo rulesStr =
     bindE (unmarshal_map rulesStr) (\<lambda>jsonReq.
     bindE (as_arr (jfield jsonReq ''allow'')) (\<lambda>allowJson.
     bindE (as_arr (jfield jsonReq ''deny'')) (\<lambda>denyJson.
     bindE (mapE parseConditionItem allowJson) (\<lambda>allow.
     bindE (mapE parseConditionItem denyJson) (\<lambda>deny.
       Inr \<lparr> rules_Allow = allow, rules_Deny = deny \<rparr>)))))"

definition ancestorsInfoToString :: "ancestor list \<Rightarrow> json" where
  "ancestorsInfoToString ancestors =
     JArr (map (\<lambda>a. JObj [(''id'', JStr (anc_ID a)), (''type'', JStr (anc_Type a)),
                          (''name'', JStr (anc_Name a))]) ancestors)"

text \<open>The column may still be the empty text (\<open>None\<close>) in rows written by older versions.\<close>

definition ancestorsStrToInfo :: "json option \<Rightarrow> err + ancestor list" where
  "ancestorsStrToInfo ancestorsStr =
     (case ancestorsStr of
        None \<Rightarrow> Inr []
      | Some j \<Rightarrow> bindE (unmarshal_slice j)
          (mapE (\<lambda>v. bindE (as_obj v) (\<lambda>item.
             bindE (as_str (jfield item ''id'')) (\<lambda>i.
             bindE (as_str (jfield item ''type'')) (\<lambda>t.
             bindE (as_str (jfield item ''name'')) (\<lambda>n.
               Inr \<lparr> anc_ID = i, anc_Type = t, anc_Name = n \<rparr>)))))))"


subsection \<open>Round trips\<close>

text \<open>
  What a stored rule reads back as: rule items without operations are dropped,
  a nil condition has become the empty object, and operation names (which depend
  on the language of the reader) are not stored.
\<close>

definition stored_rule :: "rule_item \<Rightarrow> rule_item" where
  "stored_rule item =
     \<lparr> rule_Condition = (if rule_Condition item = JNull then JObj [] else rule_Condition item),
       rule_Operations = map (\<lambda>op. op\<lparr>ope_Name := ''''\<rparr>) (rule_Operations item) \<rparr>"

definition stored_rules :: "policy_rules \<Rightarrow> policy_rules" where
  "stored_rules r =
     \<lparr> rules_Allow = map stored_rule (filter (\<lambda>item. rule_Operations item \<noteq> []) (rules_Allow r)),
       rules_Deny = map stored_rule (filter (\<lambda>item. rule_Operations item \<noteq> []) (rules_Deny r)) \<rparr>"

lemma getObligations_makeObligations [simp]: "getObligations (makeObligations obls) = Inr obls"
  unfolding getObligations_def makeObligations_def as_simps bindE_simps
  by (subst mapE_map_Inr [where h = "\<lambda>x. x"]) simp_all

lemma parseConditionItem_make [simp]:
  "parseConditionItem (makeConditionItem item) = Inr (stored_rule item)"
proof -
  have ops: "mapE parseOperation
      (map (\<lambda>op. JObj [(''id'', JStr (ope_ID op)),
                        (''obligations'', makeObligations (ope_Obligations op))]) ops) =
      Inr (map (\<lambda>op. op\<lparr>ope_Name := ''''\<rparr>) ops)" for ops :: "operation_item list"
    by (rule mapE_map_Inr) (simp add: parseOperation_def)
  show ?thesis
    by (simp add: parseConditionItem_def makeConditionItem_def stored_rule_def ops)
qed

lemma rules_roundtrip: "rulesStrToInfo (rulesInfoToString r) = Inr (stored_rules r)"
proof -
  have "mapE parseConditionItem (map makeConditionItem items) = Inr (map stored_rule items)" for items
    by (rule mapE_map_Inr) simp
  then show ?thesis
    by (simp add: rulesStrToInfo_def rulesInfoToString_def stored_rules_def)
qed

lemma ancestors_roundtrip: "ancestorsStrToInfo (Some (ancestorsInfoToString as)) = Inr as"
  unfolding ancestorsStrToInfo_def ancestorsInfoToString_def option.case unmarshal_simps bindE_simps
  by (subst mapE_map_Inr [where h = "\<lambda>x. x"]) simp_all

lemma stored_rules_idem [simp]: "stored_rules (stored_rules r) = stored_rules r"
  by (simp add: stored_rules_def stored_rule_def filter_map comp_def)

interpretation rules_column: json_column rulesInfoToString rulesStrToInfo stored_rules
  by unfold_locales (simp_all add: rules_roundtrip)

interpretation ancestors_column:
  json_column ancestorsInfoToString "\<lambda>j. ancestorsStrToInfo (Some j)" "\<lambda>as. as"
  by unfold_locales (simp_all add: ancestors_roundtrip)


section \<open>Statements on the policy table\<close>

definition zero_policy :: policy_info where
  "zero_policy =
     \<lparr> pol_ID = '''', pol_ResourceID = '''', pol_ResourceType = '''', pol_ResourceName = '''',
       pol_Ancestors = [], pol_HasAncestors = False, pol_AccessorID = '''',
       pol_AccessorType = AccessorUnset, pol_AccessorName = '''', pol_ParentDeps = [],
       pol_Rules = \<lparr> rules_Allow = [], rules_Deny = [] \<rparr>, pol_Condition = '''',
       pol_EndTime = 0, pol_CreateTime = 0, pol_ModifyTime = 0 \<rparr>"

text \<open>The three column lists the queries select.\<close>

definition scan_policy :: "policy_row \<Rightarrow> err + policy_info" where
  "scan_policy r =
     bindE (rulesStrToInfo (p_operation r)) (\<lambda>rules.
       Inr (zero_policy\<lparr> pol_ID := p_id r, pol_ResourceID := p_resource_id r,
         pol_ResourceType := p_resource_type r, pol_ResourceName := p_resource_name r,
         pol_AccessorID := p_accessor_id r, pol_AccessorType := p_accessor_type r,
         pol_AccessorName := p_accessor_name r, pol_Condition := p_condition r,
         pol_EndTime := p_end_time r, pol_CreateTime := p_create_time r,
         pol_ModifyTime := p_modify_time r, pol_Rules := rules \<rparr>))"

definition scan_policy_ancestors :: "policy_row \<Rightarrow> err + policy_info" where
  "scan_policy_ancestors r =
     bindE (rulesStrToInfo (p_operation r)) (\<lambda>rules.
     bindE (ancestorsStrToInfo (p_ancestors r)) (\<lambda>ancestors.
       Inr (zero_policy\<lparr> pol_ID := p_id r, pol_ResourceID := p_resource_id r,
         pol_ResourceType := p_resource_type r, pol_ResourceName := p_resource_name r,
         pol_AccessorID := p_accessor_id r, pol_AccessorType := p_accessor_type r,
         pol_AccessorName := p_accessor_name r, pol_Condition := p_condition r,
         pol_EndTime := p_end_time r, pol_CreateTime := p_create_time r,
         pol_Rules := rules, pol_Ancestors := ancestors \<rparr>)))"

definition scan_accessor_policy :: "policy_row \<Rightarrow> err + policy_info" where
  "scan_accessor_policy r =
     bindE (rulesStrToInfo (p_operation r)) (\<lambda>rules.
     bindE (ancestorsStrToInfo (p_ancestors r)) (\<lambda>ancestors.
       Inr (zero_policy\<lparr> pol_ID := p_id r, pol_ResourceID := p_resource_id r,
         pol_ResourceType := p_resource_type r, pol_ResourceName := p_resource_name r,
         pol_Condition := p_condition r, pol_EndTime := p_end_time r,
         pol_CreateTime := p_create_time r, pol_Rules := rules, pol_Ancestors := ancestors \<rparr>)))"

definition policy_GetPagination :: "env \<Rightarrow> string \<Rightarrow> string \<Rightarrow> policy_info list op" where
  "policy_GetPagination e resourceID resourceType =
     db_query e (\<lambda>w. mapE scan_policy
       (order_desc p_modify_time p_primary_id
         (filter (\<lambda>r. p_resource_id r = resourceID \<and> p_resource_type r = resourceType) (t_policy w))))"

text \<open>\<open>insert\<close> numbers the new rows with the auto-increment counter.\<close>

definition new_policy_row :: "int \<Rightarrow> nat \<Rightarrow> policy_info \<Rightarrow> policy_row" where
  "new_policy_row curTime pk p =
     \<lparr> p_primary_id = pk, p_id = pol_ID p, p_resource_id = pol_ResourceID p,
       p_resource_type = pol_ResourceType p, p_resource_name = pol_ResourceName p,
       p_accessor_id = pol_AccessorID p, p_accessor_type = pol_AccessorType p,
       p_accessor_name = pol_AccessorName p, p_operation = rulesInfoToString (pol_Rules p),
       p_condition = pol_Condition p, p_ancestors = Some (ancestorsInfoToString (pol_Ancestors p)),
       p_end_time = pol_EndTime p, p_create_time = curTime, p_modify_time = curTime \<rparr>"

definition insert_policies :: "int \<Rightarrow> policy_info list \<Rightarrow> world \<Rightarrow> world" where
  "insert_policies curTime ps w =
     w\<lparr> t_policy := t_policy w @
          map (\<lambda>(pk, p). new_policy_row curTime pk p) (zip [next_id w ..< next_id w + length ps] ps),
        next_id := next_id w + length ps \<rparr>"

definition policy_Create :: "env \<Rightarrow> policy_info list \<Rightarrow> unit op" where
  "policy_Create e policys =
     bindM (getTime e) (\<lambda>curTime.
       if policys = [] then returnM ()
       else db_exec e (insert_policies curTime policys))"

definition update_policy_row :: "int \<Rightarrow> policy_info \<Rightarrow> policy_row \<Rightarrow> policy_row" where
  "update_policy_row curTime p r =
     (if p_id r = pol_ID p
      then r\<lparr> p_operation := rulesInfoToString (pol_Rules p), p_end_time := pol_EndTime p,
              p_condition := pol_Condition p, p_modify_time := curTime \<rparr>
      else r)"

definition policy_Update :: "env \<Rightarrow> policy_info list \<Rightarrow> unit op" where
  "policy_Update e policys =
     bindM (getTime e) (\<lambda>curTime.
       iterM (\<lambda>p. db_exec e (\<lambda>w. w\<lparr> t_policy := map (update_policy_row curTime p) (t_policy w) \<rparr>))
         policys)"

definition delete_policies :: "(policy_row \<Rightarrow> bool) \<Rightarrow> world \<Rightarrow> world" where
  "delete_policies P w = w\<lparr> t_policy := filter (\<lambda>r. \<not> P r) (t_policy w) \<rparr>"

definition policy_Delete :: "env \<Rightarrow> string list \<Rightarrow> unit op" where
  "policy_Delete e ids =
     (if ids = [] then returnM ()
      else db_exec e (delete_policies (\<lambda>r. p_id r \<in> set ids)))"

definition group_by :: "('a \<Rightarrow> string) \<Rightarrow> 'a list \<Rightarrow> (string, 'a list) gomap" where
  "group_by key xs = fold (\<lambda>x m. mappend (key x) [x] m) xs []"

definition policy_GetByResourceIDs ::
    "env \<Rightarrow> string \<Rightarrow> string list \<Rightarrow> (string, policy_info list) gomap op" where
  "policy_GetByResourceIDs e resourceType resourceIDs =
     db_query e (\<lambda>w. bindE (sql_in resourceIDs) (\<lambda>isIn.
       bindE (mapE scan_policy_ancestors
               (filter (\<lambda>r. isIn (p_resource_id r) \<and> p_resource_type r = resourceType) (t_policy w)))
         (\<lambda>ps. Inr (group_by pol_ResourceID ps))))"

definition policy_GetByPolicyIDs :: "env \<Rightarrow> string list \<Rightarrow> (string, policy_info) gomap op" where
  "policy_GetByPolicyIDs e policyIDs =
     (if policyIDs = [] then returnM []
      else db_query e (\<lambda>w.
        bindE (mapE scan_policy_ancestors (filter (\<lambda>r. p_id r \<in> set policyIDs) (t_policy w)))
          (\<lambda>ps. Inr (fold (\<lambda>p. mput (pol_ID p) p) ps []))))"

definition policy_UpdateResourceAncestors :: "env \<Rightarrow> string \<Rightarrow> string \<Rightarrow> ancestor list \<Rightarrow> unit op" where
  "policy_UpdateResourceAncestors e resourceID resourceType ancestors =
     db_exec e (\<lambda>w. w\<lparr> t_policy := map (\<lambda>r.
         if p_resource_id r = resourceID \<and> p_resource_type r = resourceType
         then r\<lparr> p_ancestors := Some (ancestorsInfoToString ancestors) \<rparr> else r) (t_policy w) \<rparr>)"

definition policy_DeleteByResourceIDs :: "env \<Rightarrow> (string \<times> string) list \<Rightarrow> unit op" where
  "policy_DeleteByResourceIDs e resources =
     (if resources = [] then returnM ()
      else db_exec e (delete_policies (\<lambda>r. (p_resource_id r, p_resource_type r) \<in> set resources)))"

definition policy_DeleteByAccessorIDs :: "env \<Rightarrow> string list \<Rightarrow> unit op" where
  "policy_DeleteByAccessorIDs e accessorIDs =
     (if accessorIDs = [] then returnM ()
      else db_exec e (delete_policies (\<lambda>r. p_accessor_id r \<in> set accessorIDs)))"

definition policy_UpdateAccessorName :: "env \<Rightarrow> string \<Rightarrow> string \<Rightarrow> unit op" where
  "policy_UpdateAccessorName e accessorID name =
     db_exec e (\<lambda>w. w\<lparr> t_policy := map (\<lambda>r.
         if p_accessor_id r = accessorID then r\<lparr> p_accessor_name := name \<rparr> else r) (t_policy w) \<rparr>)"

definition policy_UpdateResourceName :: "env \<Rightarrow> string \<Rightarrow> string \<Rightarrow> string \<Rightarrow> unit op" where
  "policy_UpdateResourceName e resourceID resourceType name =
     db_exec e (\<lambda>w. w\<lparr> t_policy := map (\<lambda>r.
         if p_resource_id r = resourceID \<and> p_resource_type r = resourceType
         then r\<lparr> p_resource_name := name \<rparr> else r) (t_policy w) \<rparr>)"

definition policy_DeleteByEndTime :: "env \<Rightarrow> int \<Rightarrow> unit op" where
  "policy_DeleteByEndTime e curTime =
     db_exec e (delete_policies (\<lambda>r. p_end_time r < curTime \<and> p_end_time r \<noteq> -1))"

record accessor_policy_param =
  app_AccessorID :: string
  app_AccessorType :: accessor_type
  app_Offset :: int
  app_Limit :: int
  app_ResourceType :: string
  app_ResourceID :: string
  app_Include :: "policy_include list"

record resource_policy_pagination =
  rpp_ResourceID :: string
  rpp_ResourceType :: string
  rpp_Offset :: int
  rpp_Limit :: int
  rpp_Include :: "policy_include list"
  rpp_SubResourceTypeIDs :: "string list"

definition policy_GetAccessorPolicy :: "env \<Rightarrow> accessor_policy_param \<Rightarrow> policy_info list op" where
  "policy_GetAccessorPolicy e param =
     db_query e (\<lambda>w. mapE scan_accessor_policy
       (order_desc p_modify_time p_primary_id
         (filter (\<lambda>r. p_accessor_id r = app_AccessorID param \<and>
                      p_accessor_type r = app_AccessorType param \<and>
                      (app_ResourceType param \<noteq> '''' \<longrightarrow> p_resource_type r = app_ResourceType param) \<and>
                      (app_ResourceID param \<noteq> '''' \<longrightarrow> p_resource_id r = app_ResourceID param))
           (t_policy w))))"

definition policy_GetResourcePolicies ::
    "env \<Rightarrow> resource_policy_pagination \<Rightarrow> (nat \<times> policy_info list) op" where
  "policy_GetResourcePolicies e params =
     bindM (db_query e (\<lambda>w. Inr (length (filter (\<lambda>r. p_resource_id r = rpp_ResourceID params \<and>
                                     p_resource_type r = rpp_ResourceType params) (t_policy w)))))
       (\<lambda>count.
     bindM (db_query e (\<lambda>w.
              bindE (sql_limit (rpp_Offset params) (rpp_Limit params)
                      (order_desc p_modify_time p_primary_id
                        (filter (\<lambda>r. p_resource_id r = rpp_ResourceID params \<and>
                                     p_resource_type r = rpp_ResourceType params) (t_policy w))))
                (mapE scan_policy)))
       (\<lambda>policies. returnM (count, policies)))"


section \<open>Queries of the decision\<close>

text \<open>A policy whose end time lies before the clock no longer counts; \<open>-1\<close> never expires.\<close>

definition unexpired :: "int \<Rightarrow> policy_row \<Rightarrow> bool" where
  "unexpired curTime r \<longleftrightarrow> \<not> (p_end_time r \<noteq> -1 \<and> p_end_time r < curTime)"

definition GetPoliciesByResourceTypeAndAccessToken ::
    "env \<Rightarrow> string \<Rightarrow> string list \<Rightarrow> policy_info list op" where
  "GetPoliciesByResourceTypeAndAccessToken e resourceTypeID accessToken =
     bindM (db_query e (\<lambda>w. bindE (sql_in accessToken) (\<lambda>isIn.
              Inr (filter (\<lambda>r. p_resource_type r = resourceTypeID \<and> isIn (p_accessor_id r)) (t_policy w)))))
       (\<lambda>rows.
     bindM (getTime e) (\<lambda>curTime. liftE (mapE scan_policy (filter (unexpired curTime) rows))))"

definition GetPoliciesByResourcesAndAccessToken ::
    "env \<Rightarrow> resource_info list \<Rightarrow> string list \<Rightarrow> policy_info list op" where
  "GetPoliciesByResourcesAndAccessToken e resourceInfo accessToken =
     (case resourceInfo of
        [] \<Rightarrow> returnM []
      | first # _ \<Rightarrow>
          (let resourceIDs = ''*'' # map res_ID resourceInfo; resourceType = res_Type first in
           bindM (db_query e (\<lambda>w. bindE (sql_in resourceIDs) (\<lambda>isID. bindE (sql_in accessToken) (\<lambda>isAcc.
                    Inr (filter (\<lambda>r. isID (p_resource_id r) \<and> p_resource_type r = resourceType \<and>
                                     isAcc (p_accessor_id r)) (t_policy w))))))
             (\<lambda>rows.
           bindM (getTime e) (\<lambda>curTime. liftE (mapE scan_policy (filter (unexpired curTime) rows))))))"

definition GetPoliciesByResourceTypes :: "env \<Rightarrow> string list \<Rightarrow> string list \<Rightarrow> policy_info list op" where
  "GetPoliciesByResourceTypes e resourceTypes accessToken =
     bindM (db_query e (\<lambda>w. bindE (sql_in resourceTypes) (\<lambda>isType. bindE (sql_in accessToken) (\<lambda>isAcc.
              Inr (filter (\<lambda>r. p_resource_id r = ''*'' \<and> isType (p_resource_type r) \<and>
                               isAcc (p_accessor_id r)) (t_policy w))))))
       (\<lambda>rows.
     bindM (getTime e) (\<lambda>curTime. liftE (mapE scan_policy (filter (unexpired curTime) rows))))"


section \<open>Facts about the statements\<close>

lemma keeps_policy_reads [keeps_intros]:
  assumes "\<And>w. f (tock w) = f w"
  shows "keeps f (policy_GetPagination e rid rt)"
    and "keeps f (policy_GetByResourceIDs e rt ids)"
    and "keeps f (policy_GetByPolicyIDs e ids)"
    and "keeps f (policy_GetAccessorPolicy e ap)"
    and "keeps f (policy_GetResourcePolicies e rp)"
    and "keeps f (GetPoliciesByResourceTypeAndAccessToken e rt toks)"
    and "keeps f (GetPoliciesByResourcesAndAccessToken e ris toks)"
    and "keeps f (GetPoliciesByResourceTypes e rts toks)"
  unfolding policy_GetPagination_def policy_GetByResourceIDs_def policy_GetByPolicyIDs_def
    policy_GetAccessorPolicy_def policy_GetResourcePolicies_def Let_def
    GetPoliciesByResourceTypeAndAccessToken_def GetPoliciesByResourcesAndAccessToken_def
    GetPoliciesByResourceTypes_def
  using assms by (intro keeps_intros; simp)+

text \<open>The writing statements change the policy table and nothing else.\<close>

definition other_tables ::
  "world \<Rightarrow> role_row list \<times> role_member_row list \<times> resource_type_row list \<times> hierarchy_row list
     \<times> obligation_type_row list \<times> obligation_row list" where
  "other_tables w =
     (t_role w, t_role_member w, t_resource_type w, t_hierarchy w, t_obligation_type w, t_obligation w)"

lemma other_tables_simps [simp]:
  "other_tables (tock w) = other_tables w"
  "other_tables (w\<lparr>t_policy := rows\<rparr>) = other_tables w"
  "other_tables (insert_policies t ps w) = other_tables w"
  "other_tables (delete_policies P w) = other_tables w"
  by (simp_all add: other_tables_def insert_policies_def delete_policies_def)

lemma keeps_policy_writes [keeps_intros]:
  "keeps other_tables (policy_Create e ps)"
  "keeps other_tables (policy_Update e ps)"
  "keeps other_tables (policy_Delete e ids)"
  "keeps other_tables (policy_UpdateResourceAncestors e rid rt as)"
  "keeps other_tables (policy_DeleteByResourceIDs e rs)"
  "keeps other_tables (policy_DeleteByAccessorIDs e ids)"
  "keeps other_tables (policy_UpdateAccessorName e i n)"
  "keeps other_tables (policy_UpdateResourceName e rid rt n)"
  "keeps other_tables (policy_DeleteByEndTime e t)"
  unfolding policy_Create_def policy_Update_def policy_Delete_def policy_UpdateResourceAncestors_def
    policy_DeleteByResourceIDs_def policy_DeleteByAccessorIDs_def policy_UpdateAccessorName_def
    policy_UpdateResourceName_def policy_DeleteByEndTime_def
  by (intro keeps_intros; simp)+

lemma group_by_fold:
  "mlist (fold (\<lambda>x m. mappend (key x) [x] m) xs m) k = mlist m k @ filter (\<lambda>x. key x = k) xs"
  by (induction xs arbitrary: m) (auto simp: mlist_mappend)

lemma mlist_group_by [simp]: "mlist (group_by key xs) k = filter (\<lambda>x. key x = k) xs"
  by (simp add: group_by_def group_by_fold)

lemma mwf_group_by [simp]: "mwf (group_by key xs)"
proof -
  have "mwf m \<Longrightarrow> mwf (fold (\<lambda>x m. mappend (key x) [x] m) xs m)" for m
    by (induction xs arbitrary: m) auto
  then show ?thesis by (simp add: group_by_def)
qed

lemma keys_group_by: "fst ` set (group_by key xs) = key ` set xs"
proof -
  have "fst ` set (fold (\<lambda>x m. mappend (key x) [x] m) xs m) = fst ` set m \<union> key ` set xs" for m
    by (induction xs arbitrary: m) auto
  then show ?thesis by (simp add: group_by_def)
qed

lemma map_of_group_by:
  "map_of (group_by key xs) k =
     (if k \<in> key ` set xs then Some (filter (\<lambda>x. key x = k) xs) else None)"
proof (cases "map_of (group_by key xs) k")
  case None
  then have "k \<notin> key ` set xs" by (simp add: map_of_eq_None_iff keys_group_by)
  then show ?thesis using None by simp
next
  case (Some ys)
  then have "k \<in> key ` set xs"
    by (metis keys_group_by map_of_eq_None_iff option.distinct(1))
  moreover have "ys = filter (\<lambda>x. key x = k) xs"
    using Some mlist_group_by [of key xs k] by (simp add: mlist_def)
  ultimately show ?thesis using Some by simp
qed

lemmas policyDB_run [run_simps] = scan_policy_def scan_policy_ancestors_def scan_accessor_policy_def
  zero_policy_def rules_roundtrip ancestors_roundtrip stored_rules_def stored_rule_def group_by_def
  policy_GetPagination_def policy_Create_def insert_policies_def new_policy_row_def policy_Update_def
  update_policy_row_def policy_Delete_def delete_policies_def policy_GetByResourceIDs_def
  policy_GetByPolicyIDs_def policy_UpdateResourceAncestors_def policy_DeleteByResourceIDs_def
  policy_DeleteByAccessorIDs_def policy_UpdateAccessorName_def policy_UpdateResourceName_def
  policy_DeleteByEndTime_def policy_GetAccessorPolicy_def policy_GetResourcePolicies_def
  unexpired_def GetPoliciesByResourceTypeAndAccessToken_def GetPoliciesByResourcesAndAccessToken_def
  GetPoliciesByResourceTypes_def

end
