(* ===== verification/RoleDB.thy ===== *)
theory RoleDB
  imports Common
begin

text \<open>
  \<open>dbaccess/role.go\<close> and \<open>dbaccess/role_member.go\<close>: the resource scope of a
  role as a JSON column, and the statements on \<open>t_role\<close> and \<open>t_role_member\<close>.
\<close>

section \<open>The scope column\<close>

definition slice :: "'a list option \<Rightarrow> 'a list" where
  "slice s = (case s of None \<Rightarrow> [] | Some xs \<Rightarrow> xs)"

lemma slice_simps [simp]: "slice None = []" "slice (Some xs) = xs"
  by (simp_all add: slice_def)

definition resourceTypeScopeInfoToString :: "resource_type_scope_info \<Rightarrow> json" where
  "resourceTypeScopeInfoToString info =
     JObj [(''unlimited'', JBool (rtsi_Unlimited info)),
           (''types'', JArr (map (\<lambda>t. JObj [(''id'', JStr (rts_ResourceTypeID t))])
                              (slice (rtsi_Types info))))]"

text \<open>Entries of \<open>types\<close> that are no objects are skipped; an object without a text \<open>id\<close> panics.\<close>

primrec scopeTypes :: "json list \<Rightarrow> err + resource_type_scope list" where
  "scopeTypes [] = Inr []"
| "scopeTypes (typeVal # rest) =
     (case typeVal of
        JObj typeMap \<Rightarrow>
          bindE (as_str (jfield typeMap ''id'')) (\<lambda>i.
          bindE (scopeTypes rest) (\<lambda>ts.
            Inr (\<lparr> rts_ResourceTypeID = i, rts_ResourceTypeName = '''' \<rparr> # ts)))
      | _ \<Rightarrow> scopeTypes rest)"

definition resourceTypeScopeInfoFromString :: "json \<Rightarrow> err + resource_type_scope_info" where
  "resourceTypeScopeInfoFromString resourceTypeScopeStr =
     bindE (unmarshal_map resourceTypeScopeStr) (\<lambda>result.
     bindE (case map_of result ''unlimited'' of None \<Rightarrow> Inr False | Some v \<Rightarrow> as_bool v) (\<lambda>unlimited.
     bindE (case map_of result ''types'' of
              Some (JArr typesArray) \<Rightarrow> bindE (scopeTypes typesArray) (\<lambda>ts. Inr (Some ts))
            | _ \<Rightarrow> Inr None) (\<lambda>types.
       Inr \<lparr> rtsi_Unlimited = unlimited, rtsi_Types = types \<rparr>)))"

text \<open>What a stored scope reads back as: names are not stored, a nil slice becomes an empty one.\<close>

definition stored_scope :: "resource_type_scope_info \<Rightarrow> resource_type_scope_info" where
  "stored_scope info =
     \<lparr> rtsi_Unlimited = rtsi_Unlimited info,
       rtsi_Types = Some (map (\<lambda>t. t\<lparr>rts_ResourceTypeName := ''''\<rparr>) (slice (rtsi_Types info))) \<rparr>"

lemma scopeTypes_enc:
  "scopeTypes (map (\<lambda>t. JObj [(''id'', JStr (rts_ResourceTypeID t))]) ts) =
     Inr (map (\<lambda>t. t\<lparr>rts_ResourceTypeName := ''''\<rparr>) ts)"
  by (induction ts) simp_all

lemma scope_roundtrip:
  "resourceTypeScopeInfoFromString (resourceTypeScopeInfoToString info) = Inr (stored_scope info)"
  by (simp add: resourceTypeScopeInfoFromString_def resourceTypeScopeInfoToString_def
      stored_scope_def scopeTypes_enc)

interpretation scope_column:
  json_column resourceTypeScopeInfoToString resourceTypeScopeInfoFromString stored_scope
  by unfold_locales (simp_all add: scope_roundtrip stored_scope_def comp_def)


section \<open>Statements on the role table\<close>

definition zero_scope :: resource_type_scope_info where
  "zero_scope = \<lparr> rtsi_Unlimited = False, rtsi_Types = None \<rparr>"

definition zero_role :: role_info where
  "zero_role =
     \<lparr> role_ID = '''', role_Name = '''', role_Description = '''', role_Source = RoleSourceUnset,
       role_Scope = zero_scope, role_CreateTime = 0, role_ModifyTime = 0 \<rparr>"

definition scan_role :: "role_row \<Rightarrow> err + role_info" where
  "scan_role r =
     bindE (resourceTypeScopeInfoFromString (r_resource_scope r)) (\<lambda>scope.
       Inr \<lparr> role_ID = r_id r, role_Name = r_name r, role_Description = r_description r,
             role_Source = r_source r, role_Scope = scope, role_CreateTime = r_created_time r,
             role_ModifyTime = r_modify_time r \<rparr>)"

text \<open>The queries that do not select \<open>f_source\<close> leave the field at its zero value.\<close>

definition scan_role_no_source :: "role_row \<Rightarrow> err + role_info" where
  "scan_role_no_source r =
     bindE (scan_role r) (\<lambda>info. Inr (info\<lparr> role_Source := RoleSourceUnset \<rparr>))"

definition new_role_row :: "int \<Rightarrow> nat \<Rightarrow> role_info \<Rightarrow> role_row" where
  "new_role_row currentTime pk role =
     \<lparr> r_primary_id = pk, r_id = role_ID role, r_name = role_Name role,
       r_description = role_Description role, r_source = role_Source role,
       r_resource_scope = resourceTypeScopeInfoToString (role_Scope role),
       r_created_time = currentTime, r_modify_time = currentTime \<rparr>"

definition insert_roles :: "int \<Rightarrow> role_info list \<Rightarrow> world \<Rightarrow> world" where
  "insert_roles currentTime roles w =
     w\<lparr> t_role := t_role w @
          map (\<lambda>(pk, r). new_role_row currentTime pk r) (zip [next_id w ..< next_id w + length roles] roles),
        next_id := next_id w + length roles \<rparr>"

definition roleDB_AddRoles :: "env \<Rightarrow> role_info list \<Rightarrow> unit op" where
  "roleDB_AddRoles e roles =
     (if roles = [] then returnM ()
      else bindM (getTime e) (\<lambda>currentTime. db_exec e (insert_roles currentTime roles)))"

definition roleDB_DeleteRole :: "env \<Rightarrow> string \<Rightarrow> unit op" where
  "roleDB_DeleteRole e i =
     db_exec e (\<lambda>w. w\<lparr> t_role := filter (\<lambda>r. r_id r \<noteq> i) (t_role w) \<rparr>)"

definition roleDB_ModifyRole ::
    "env \<Rightarrow> string \<Rightarrow> string \<Rightarrow> bool \<Rightarrow> string \<Rightarrow> bool \<Rightarrow> resource_type_scope_info \<Rightarrow> bool \<Rightarrow> unit op" where
  "roleDB_ModifyRole e i name nameChanged description descriptionChanged scopes scopesChanged =
     bindM (getTime e) (\<lambda>currentTime.
       db_exec e (\<lambda>w. w\<lparr> t_role := map (\<lambda>r.
         if r_id r = i then
           r\<lparr> r_name := (if nameChanged then name else r_name r),
              r_description := (if descriptionChanged then description else r_description r),
              r_resource_scope := (if scopesChanged then resourceTypeScopeInfoToString scopes
                                   else r_resource_scope r),
              r_modify_time := currentTime \<rparr>
         else r) (t_role w) \<rparr>))"

text \<open>
  Both lookups scan every matching row into the same variable, so the last one
  wins and no row leaves the zero value.
\<close>

definition last_role :: "role_info list \<Rightarrow> role_info" where
  "last_role rs = (if rs = [] then zero_role else last rs)"

definition roleDB_GetRoleByID :: "env \<Rightarrow> string \<Rightarrow> role_info op" where
  "roleDB_GetRoleByID e i =
     db_query e (\<lambda>w. bindE (mapE scan_role (filter (\<lambda>r. r_id r = i) (t_role w)))
       (\<lambda>rs. Inr (last_role rs)))"

definition roleDB_GetRoleByName :: "env \<Rightarrow> string \<Rightarrow> role_info op" where
  "roleDB_GetRoleByName e name =
     db_query e (\<lambda>w. bindE (mapE scan_role_no_source (filter (\<lambda>r. r_name r = name) (t_role w)))
       (\<lambda>rs. Inr (last_role rs)))"

definition roleDB_GetRoleByIDs :: "env \<Rightarrow> string list \<Rightarrow> (string, role_info) gomap op" where
  "roleDB_GetRoleByIDs e ids =
     (if ids = [] then returnM []
      else db_query e (\<lambda>w. bindE (mapE scan_role (filter (\<lambda>r. r_id r \<in> set ids) (t_role w)))
        (\<lambda>rs. Inr (fold (\<lambda>r. mput (role_ID r) r) rs []))))"

record role_search_info =
  rsi_Offset :: int
  rsi_Limit :: int
  rsi_Keyword :: string
  rsi_RoleSources :: "role_source list"

definition dataAdminRoleID :: string where
  "dataAdminRoleID = ''00990824-4bf7-11f0-8fa7-865d5643e61f''"

definition aiAdminRoleID :: string where
  "aiAdminRoleID = ''3fb94948-5169-11f0-b662-3a7bdba2913f''"

definition applicationAdminRoleID :: string where
  "applicationAdminRoleID = ''1572fb82-526f-11f0-bde6-e674ec8dde71''"

text \<open>The \<open>case f_id when ... end\<close> expression that pins the built-in business roles.\<close>

definition pinned_rank :: "role_row \<Rightarrow> nat" where
  "pinned_rank r =
     (if r_source r = RoleSourceBusiness then
        (if r_id r = dataAdminRoleID then 0
         else if r_id r = aiAdminRoleID then 1
         else if r_id r = applicationAdminRoleID then 2 else 3)
      else 3)"

definition source_rank :: "role_source \<Rightarrow> nat" where
  "source_rank s =
     (case s of RoleSourceUnset \<Rightarrow> 0 | RoleSourceSystem \<Rightarrow> 1 | RoleSourceBusiness \<Rightarrow> 2 | RoleSourceUser \<Rightarrow> 3)"

definition role_matches :: "role_search_info \<Rightarrow> role_row \<Rightarrow> bool" where
  "role_matches info r \<longleftrightarrow>
     r_source r \<in> set (rsi_RoleSources info) \<and>
     (rsi_Keyword info \<noteq> '''' \<longrightarrow> sql_like (contains_pattern (rsi_Keyword info)) (r_name r))"

definition roleDB_GetRoles :: "env \<Rightarrow> role_search_info \<Rightarrow> role_info list op" where
  "roleDB_GetRoles e info =
     (if rsi_RoleSources info = [] then returnM []
      else db_query e (\<lambda>w.
        let rows = order_desc r_modify_time r_primary_id (filter (role_matches info) (t_role w));
            pinned = (if RoleSourceBusiness \<in> set (rsi_RoleSources info)
                      then sort_key pinned_rank rows else rows);
            ordered = sort_key (\<lambda>r. source_rank (r_source r)) pinned
        in bindE (sql_limit (rsi_Offset info) (rsi_Limit info) ordered) (mapE scan_role)))"

definition roleDB_GetRolesSum :: "env \<Rightarrow> role_search_info \<Rightarrow> nat op" where
  "roleDB_GetRolesSum e info =
     (if rsi_RoleSources info = [] then returnM 0
      else db_query e (\<lambda>w. Inr (length (filter (role_matches info) (t_role w)))))"

definition roleDB_SetRoleByID :: "env \<Rightarrow> string \<Rightarrow> role_info \<Rightarrow> unit op" where
  "roleDB_SetRoleByID e i role =
     bindM (getTime e) (\<lambda>currentTime.
       db_exec e (\<lambda>w. w\<lparr> t_role := map (\<lambda>r.
         if r_id r = i then
           r\<lparr> r_name := role_Name role, r_description := role_Description role,
              r_resource_scope := resourceTypeScopeInfoToString (role_Scope role),
              r_modify_time := currentTime \<rparr>
         else r) (t_role w) \<rparr>))"

definition roleDB_GetAllUserRolesInternal :: "env \<Rightarrow> string \<Rightarrow> role_info list op" where
  "roleDB_GetAllUserRolesInternal e keyword =
     db_query e (\<lambda>w. mapE scan_role_no_source
       (filter (\<lambda>r. r_source r = RoleSourceUser \<and>
                    (keyword \<noteq> '''' \<longrightarrow> sql_like (contains_pattern keyword) (r_name r))) (t_role w)))"


section \<open>Statements on the member table\<close>

definition new_member_row :: "int \<Rightarrow> string \<Rightarrow> nat \<Rightarrow> role_member_info \<Rightarrow> role_member_row" where
  "new_member_row currentTime roleID pk m =
     \<lparr> m_primary_id = pk, m_role_id = roleID, m_member_id = mem_ID m, m_member_type = mem_Type m,
       m_member_name = mem_Name m, m_created_time = currentTime, m_modify_time = currentTime \<rparr>"

definition insert_members :: "int \<Rightarrow> string \<Rightarrow> role_member_info list \<Rightarrow> world \<Rightarrow> world" where
  "insert_members currentTime roleID ms w =
     w\<lparr> t_role_member := t_role_member w @
          map (\<lambda>(pk, m). new_member_row currentTime roleID pk m)
            (zip [next_id w ..< next_id w + length ms] ms),
        next_id := next_id w + length ms \<rparr>"

definition memberDB_AddRoleMembers :: "env \<Rightarrow> string \<Rightarrow> role_member_info list \<Rightarrow> unit op" where
  "memberDB_AddRoleMembers e i infos =
     (if infos = [] then returnM ()
      else bindM (getTime e) (\<lambda>currentTime. db_exec e (insert_members currentTime i infos)))"

definition delete_members :: "(role_member_row \<Rightarrow> bool) \<Rightarrow> world \<Rightarrow> world" where
  "delete_members P w = w\<lparr> t_role_member := filter (\<lambda>m. \<not> P m) (t_role_member w) \<rparr>"

definition memberDB_DeleteRoleMembers :: "env \<Rightarrow> string \<Rightarrow> string list \<Rightarrow> unit op" where
  "memberDB_DeleteRoleMembers e i membersIDs =
     (if membersIDs = [] then returnM ()
      else db_exec e (delete_members (\<lambda>m. m_role_id m = i \<and> m_member_id m \<in> set membersIDs)))"

record role_member_search_info =
  rms_Offset :: int
  rms_Limit :: int
  rms_MemberTypes :: "accessor_type list"
  rms_Keyword :: string

definition member_matches :: "string \<Rightarrow> role_member_search_info \<Rightarrow> role_member_row \<Rightarrow> bool" where
  "member_matches i info m \<longleftrightarrow>
     m_role_id m = i \<and>
     (rms_MemberTypes info \<noteq> [] \<longrightarrow> m_member_type m \<in> set (rms_MemberTypes info)) \<and>
     (rms_Keyword info \<noteq> '''' \<longrightarrow> sql_like (contains_pattern (rms_Keyword info)) (m_member_name m))"

definition scan_member :: "role_member_row \<Rightarrow> role_member_info" where
  "scan_member m =
     \<lparr> mem_ID = m_member_id m, mem_Type = m_member_type m, mem_Name = m_member_name m,
       mem_ParentDeps = [] \<rparr>"

definition memberDB_GetRoleMembersNum :: "env \<Rightarrow> string \<Rightarrow> role_member_search_info \<Rightarrow> nat op" where
  "memberDB_GetRoleMembersNum e i info =
     db_query e (\<lambda>w. Inr (length (filter (member_matches i info) (t_role_member w))))"

definition memberDB_GetPaginationByRoleID ::
    "env \<Rightarrow> string \<Rightarrow> role_member_search_info \<Rightarrow> role_member_info list op" where
  "memberDB_GetPaginationByRoleID e i info =
     db_query e (\<lambda>w. bindE (sql_limit (rms_Offset info) (rms_Limit info)
         (order_desc m_modify_time m_primary_id (filter (member_matches i info) (t_role_member w))))
       (\<lambda>rows. Inr (map scan_member rows)))"

definition memberDB_GetRoleMembersByRoleID :: "env \<Rightarrow> string \<Rightarrow> role_member_info list op" where
  "memberDB_GetRoleMembersByRoleID e i =
     db_query e (\<lambda>w. Inr (map scan_member (filter (\<lambda>m. m_role_id m = i) (t_role_member w))))"

definition memberDB_GetRoleByMembers :: "env \<Rightarrow> string list \<Rightarrow> role_info list op" where
  "memberDB_GetRoleByMembers e memberIDs =
     db_query e (\<lambda>w. bindE (sql_in memberIDs) (\<lambda>isIn.
       Inr (map (\<lambda>m. zero_role\<lparr> role_ID := m_role_id m \<rparr>)
              (filter (\<lambda>m. isIn (m_member_id m)) (t_role_member w)))))"

definition memberDB_DeleteByMemberIDs :: "env \<Rightarrow> string list \<Rightarrow> unit op" where
  "memberDB_DeleteByMemberIDs e memberIDs =
     (if memberIDs = [] then returnM ()
      else db_exec e (delete_members (\<lambda>m. m_member_id m \<in> set memberIDs)))"

definition memberDB_DeleteRoleMemberByID :: "env \<Rightarrow> string \<Rightarrow> unit op" where
  "memberDB_DeleteRoleMemberByID e i = db_exec e (delete_members (\<lambda>m. m_role_id m = i))"

definition memberDB_DeleteByRoleID :: "env \<Rightarrow> string \<Rightarrow> unit op" where
  "memberDB_DeleteByRoleID e roleID = db_exec e (delete_members (\<lambda>m. m_role_id m = roleID))"

definition memberDB_UpdateMemberName :: "env \<Rightarrow> string \<Rightarrow> string \<Rightarrow> unit op" where
  "memberDB_UpdateMemberName e memberID name =
     db_exec e (\<lambda>w. w\<lparr> t_role_member := map (\<lambda>m.
         if m_member_id m = memberID then m\<lparr> m_member_name := name \<rparr> else m) (t_role_member w) \<rparr>)"


section \<open>What the statements leave alone\<close>

lemma keeps_role_reads [keeps_intros]:
  assumes "\<And>w. f (tock w) = f w"
  shows "keeps f (roleDB_GetRoleByID e i)" "keeps f (roleDB_GetRoleByName e n)"
    "keeps f (roleDB_GetRoleByIDs e ids)" "keeps f (roleDB_GetRoles e info)"
    "keeps f (roleDB_GetRolesSum e info)" "keeps f (roleDB_GetAllUserRolesInternal e kw)"
    "keeps f (memberDB_GetRoleMembersNum e i ms)" "keeps f (memberDB_GetPaginationByRoleID e i ms)"
    "keeps f (memberDB_GetRoleMembersByRoleID e i)" "keeps f (memberDB_GetRoleByMembers e ids)"
  unfolding roleDB_GetRoleByID_def roleDB_GetRoleByName_def roleDB_GetRoleByIDs_def
    roleDB_GetRoles_def roleDB_GetRolesSum_def roleDB_GetAllUserRolesInternal_def
    memberDB_GetRoleMembersNum_def memberDB_GetPaginationByRoleID_def
    memberDB_GetRoleMembersByRoleID_def memberDB_GetRoleByMembers_def
  using assms by (intro keeps_intros; simp)+

lemma keeps_role_writes [keeps_intros]:
  assumes "\<And>w. f (tock w) = f w" and "\<And>w rs. f (w\<lparr>t_role := rs\<rparr>) = f w"
    and "\<And>w n. f (w\<lparr>next_id := n\<rparr>) = f w"
  shows "keeps f (roleDB_AddRoles e rs)" "keeps f (roleDB_DeleteRole e i)"
    "keeps f (roleDB_ModifyRole e i n nc d dc s sc)" "keeps f (roleDB_SetRoleByID e i r)"
  unfolding roleDB_AddRoles_def roleDB_DeleteRole_def roleDB_ModifyRole_def roleDB_SetRoleByID_def
    insert_roles_def
  using assms by (intro keeps_intros; simp)+

lemma keeps_member_writes [keeps_intros]:
  assumes "\<And>w. f (tock w) = f w" and "\<And>w ms. f (w\<lparr>t_role_member := ms\<rparr>) = f w"
    and "\<And>w n. f (w\<lparr>next_id := n\<rparr>) = f w"
  shows "keeps f (memberDB_AddRoleMembers e i ms)" "keeps f (memberDB_DeleteRoleMembers e i ids)"
    "keeps f (memberDB_DeleteByMemberIDs e ids)" "keeps f (memberDB_DeleteByRoleID e i)"
    "keeps f (memberDB_UpdateMemberName e i n)"
  unfolding memberDB_AddRoleMembers_def memberDB_DeleteRoleMembers_def insert_members_def
    memberDB_DeleteByMemberIDs_def memberDB_DeleteByRoleID_def memberDB_UpdateMemberName_def
    delete_members_def
  using assms by (intro keeps_intros; simp)+

lemmas roleDB_run [run_simps] = scope_roundtrip stored_scope_def zero_scope_def zero_role_def
  scan_role_def scan_role_no_source_def last_role_def new_role_row_def insert_roles_def
  roleDB_AddRoles_def roleDB_DeleteRole_def roleDB_ModifyRole_def roleDB_GetRoleByID_def
  roleDB_GetRoleByName_def roleDB_GetRoleByIDs_def roleDB_SetRoleByID_def
  roleDB_GetAllUserRolesInternal_def roleDB_GetRolesSum_def roleDB_GetRoles_def role_matches_def
  new_member_row_def insert_members_def memberDB_AddRoleMembers_def delete_members_def
  memberDB_DeleteRoleMembers_def member_matches_def scan_member_def memberDB_GetRoleMembersNum_def
  memberDB_GetPaginationByRoleID_def memberDB_GetRoleMembersByRoleID_def
  memberDB_GetRoleByMembers_def memberDB_DeleteByMemberIDs_def memberDB_DeleteByRoleID_def
  memberDB_UpdateMemberName_def

end
