(* ===== verification/ResourceTypeDB.thy ===== *)
theory ResourceTypeDB
  imports Common
begin

text \<open>
  \<open>dbaccess/resource_type.go\<close> and \<open>dbaccess/resource_type_hierarchy.go\<close>.  The
  operations of a resource type are stored with the marshaller of a typed
  structure, so the column is modelled by the list itself; the children of a
  hierarchy are converted by hand and modelled as such.
\<close>

section \<open>Resource types\<close>

definition scan_resource_type :: "resource_type_row \<Rightarrow> resource_type" where
  "scan_resource_type r =
     \<lparr> rt_ID = t_id r, rt_Name = t_name r, rt_Description = t_description r,
       rt_InstanceURL = t_instance_url r, rt_DataStruct = t_data_struct r, rt_CreateTime = 0,
       rt_Operation = t_operation r, rt_Hidden = False, rt_ModifyTime = 0 \<rparr>"

definition rtDB_GetPagination :: "env \<Rightarrow> int \<Rightarrow> int \<Rightarrow> (nat \<times> resource_type list) op" where
  "rtDB_GetPagination e off cnt =
     bindM (db_query e (\<lambda>w. Inr (length (filter (\<lambda>r. \<not> t_hidden r) (t_resource_type w))))) (\<lambda>count.
     bindM (db_query e (\<lambda>w.
              bindE (sql_limit off cnt (sort_key t_primary_id
                       (filter (\<lambda>r. \<not> t_hidden r) (t_resource_type w))))
                (\<lambda>rows. Inr (map (\<lambda>r. (scan_resource_type r)\<lparr> rt_CreateTime := t_create_time r,
                                    rt_ModifyTime := t_modify_time r \<rparr>) rows))))
       (\<lambda>resources. returnM (count, resources)))"

definition update_resource_type_row :: "int \<Rightarrow> resource_type \<Rightarrow> resource_type_row \<Rightarrow> resource_type_row" where
  "update_resource_type_row curTime t r =
     (if t_id r = rt_ID t
      then r\<lparr> t_name := rt_Name t, t_description := rt_Description t,
              t_instance_url := rt_InstanceURL t, t_data_struct := rt_DataStruct t,
              t_operation := rt_Operation t, t_hidden := rt_Hidden t, t_modify_time := curTime \<rparr>
      else r)"

definition insert_resource_type :: "int \<Rightarrow> resource_type \<Rightarrow> world \<Rightarrow> world" where
  "insert_resource_type curTime t w =
     w\<lparr> t_resource_type := t_resource_type w @
          [\<lparr> t_primary_id = next_id w, t_id = rt_ID t, t_name = rt_Name t,
             t_description = rt_Description t, t_instance_url = rt_InstanceURL t,
             t_data_struct = rt_DataStruct t, t_operation = rt_Operation t, t_hidden = rt_Hidden t,
             t_create_time = curTime, t_modify_time = curTime \<rparr>],
        next_id := Suc (next_id w) \<rparr>"

definition rtDB_Set :: "env \<Rightarrow> resource_type \<Rightarrow> unit op" where
  "rtDB_Set e resource =
     bindM (getTime e) (\<lambda>curTime.
     bindM (db_query e (\<lambda>w. Inr (list_ex (\<lambda>r. t_id r = rt_ID resource) (t_resource_type w)))) (\<lambda>found.
       if found
       then db_exec e (\<lambda>w. w\<lparr> t_resource_type :=
              map (update_resource_type_row curTime resource) (t_resource_type w) \<rparr>)
       else db_exec e (insert_resource_type curTime resource)))"

definition rtDB_Delete :: "env \<Rightarrow> string \<Rightarrow> unit op" where
  "rtDB_Delete e resourceID =
     db_exec e (\<lambda>w. w\<lparr> t_resource_type := filter (\<lambda>r. t_id r \<noteq> resourceID) (t_resource_type w) \<rparr>)"

definition rtDB_GetByIDs :: "env \<Rightarrow> string list \<Rightarrow> (string, resource_type) gomap op" where
  "rtDB_GetByIDs e resourceTypeIDs =
     (if resourceTypeIDs = [] then returnM []
      else db_query e (\<lambda>w. Inr (fold (\<lambda>r. mput (t_id r) (scan_resource_type r))
             (filter (\<lambda>r. t_id r \<in> set resourceTypeIDs) (t_resource_type w)) [])))"

definition rtDB_GetAllInternal :: "env \<Rightarrow> resource_type list op" where
  "rtDB_GetAllInternal e =
     db_query e (\<lambda>w. Inr (map scan_resource_type (filter (\<lambda>r. \<not> t_hidden r) (t_resource_type w))))"

definition rtDB_GetAllInternalWithHidden :: "env \<Rightarrow> resource_type list op" where
  "rtDB_GetAllInternalWithHidden e =
     db_query e (\<lambda>w. Inr (map scan_resource_type (t_resource_type w)))"


section \<open>Hierarchies of resource types\<close>

primrec convertHierarchyItem :: "hierarchy \<Rightarrow> json" where
  "convertHierarchyItem (Hierarchy i children) =
     JObj [(''resource_type_id'', JStr i), (''children'', JArr (map convertHierarchyItem children))]"

definition convertHierarchyToJSONItems :: "hierarchy list \<Rightarrow> json list" where
  "convertHierarchyToJSONItems children = map convertHierarchyItem children"

definition convertHierarchyChildrenToJSONString :: "hierarchy list \<Rightarrow> json" where
  "convertHierarchyChildrenToJSONString children = JArr (convertHierarchyToJSONItems children)"

lemma size_json_field:
  "map_of m k = Some v \<Longrightarrow> size v < size_list (size_prod (\<lambda>_. 0) size) m"
proof (induction m)
  case (Cons kv m)
  then show ?case by (cases kv) (auto split: if_splits)
qed simp

function convertJSONItemsToHierarchy :: "json list \<Rightarrow> hierarchy list" where
  "convertJSONItemsToHierarchy [] = []"
| "convertJSONItemsToHierarchy (item # rest) =
     (case item of
        JObj itemMap \<Rightarrow>
          Hierarchy (case map_of itemMap ''resource_type_id'' of Some (JStr s) \<Rightarrow> s | _ \<Rightarrow> '''')
            (case map_of itemMap ''children'' of
               Some (JArr childrenArray) \<Rightarrow> convertJSONItemsToHierarchy childrenArray
             | _ \<Rightarrow> [])
          # convertJSONItemsToHierarchy rest
      | _ \<Rightarrow> convertJSONItemsToHierarchy rest)"
  by pat_completeness auto
termination
  by (relation "measure (size_list size)") (auto dest: size_json_field)

definition convertJSONStringToHierarchyChildren :: "json \<Rightarrow> err + hierarchy list" where
  "convertJSONStringToHierarchyChildren jsonStr =
     bindE (unmarshal_slice jsonStr) (\<lambda>jsonItems. Inr (convertJSONItemsToHierarchy jsonItems))"

lemma hierarchy_item_roundtrip:
  "convertJSONItemsToHierarchy (convertHierarchyItem h # items) =
     h # convertJSONItemsToHierarchy items"
proof (induction h arbitrary: items)
  case (Hierarchy i children)
  have "convertJSONItemsToHierarchy (map convertHierarchyItem hs) = hs"
    if "set hs \<subseteq> set children" for hs
    using that Hierarchy by (induction hs) auto
  then show ?case by simp
qed

lemma hierarchy_items_roundtrip:
  "convertJSONItemsToHierarchy (convertHierarchyToJSONItems hs) = hs"
  by (induction hs) (simp_all add: convertHierarchyToJSONItems_def hierarchy_item_roundtrip
      del: convertJSONItemsToHierarchy.simps(2))

lemma hierarchy_roundtrip:
  "convertJSONStringToHierarchyChildren (convertHierarchyChildrenToJSONString hs) = Inr hs"
  by (simp add: convertJSONStringToHierarchyChildren_def convertHierarchyChildrenToJSONString_def
      hierarchy_items_roundtrip)

interpretation hierarchy_column:
  json_column convertHierarchyChildrenToJSONString convertJSONStringToHierarchyChildren "\<lambda>hs. hs"
  by unfold_locales (simp_all add: hierarchy_roundtrip)

definition hierarchyDB_Set :: "env \<Rightarrow> hierarchy \<Rightarrow> unit op" where
  "hierarchyDB_Set e h =
     bindM (getTime e) (\<lambda>curTime.
     bindM (db_query e (\<lambda>w. Inr (list_ex (\<lambda>r. h_resource_type_id r = hier_ID h) (t_hierarchy w)))) (\<lambda>found.
       if found
       then db_exec e (\<lambda>w. w\<lparr> t_hierarchy := map (\<lambda>r.
              if h_resource_type_id r = hier_ID h
              then r\<lparr> h_children := convertHierarchyChildrenToJSONString (hier_Children h) \<rparr>
              else r) (t_hierarchy w) \<rparr>)
       else db_exec e (\<lambda>w. w\<lparr> t_hierarchy := t_hierarchy w @
              [\<lparr> h_primary_id = next_id w, h_resource_type_id = hier_ID h,
                 h_children = convertHierarchyChildrenToJSONString (hier_Children h) \<rparr>],
              next_id := Suc (next_id w) \<rparr>)))"

definition scan_hierarchy :: "hierarchy_row \<Rightarrow> err + hierarchy" where
  "scan_hierarchy r =
     bindE (convertJSONStringToHierarchyChildren (h_children r))
       (\<lambda>cs. Inr (Hierarchy (h_resource_type_id r) cs))"

definition hierarchyDB_GetAll :: "env \<Rightarrow> (string, hierarchy) gomap op" where
  "hierarchyDB_GetAll e =
     db_query e (\<lambda>w. bindE (mapE scan_hierarchy (t_hierarchy w))
       (\<lambda>hs. Inr (fold (\<lambda>h. mput (hier_ID h) h) hs [])))"


section \<open>What the statements leave alone\<close>

lemma keeps_resource_type_reads [keeps_intros]:
  assumes "\<And>w. f (tock w) = f w"
  shows "keeps f (rtDB_GetPagination e o1 c1)" "keeps f (rtDB_GetByIDs e ids)"
    "keeps f (rtDB_GetAllInternal e)" "keeps f (rtDB_GetAllInternalWithHidden e)"
    "keeps f (hierarchyDB_GetAll e)"
  unfolding rtDB_GetPagination_def rtDB_GetByIDs_def rtDB_GetAllInternal_def
    rtDB_GetAllInternalWithHidden_def hierarchyDB_GetAll_def
  using assms by (intro keeps_intros; simp)+

lemma keeps_resource_type_writes [keeps_intros]:
  assumes "\<And>w. f (tock w) = f w" and "\<And>w rs. f (w\<lparr>t_resource_type := rs\<rparr>) = f w"
    and "\<And>w n. f (w\<lparr>next_id := n\<rparr>) = f w"
  shows "keeps f (rtDB_Set e t)" "keeps f (rtDB_Delete e i)"
  unfolding rtDB_Set_def rtDB_Delete_def insert_resource_type_def
  using assms by (intro keeps_intros; simp)+

lemma keeps_hierarchy_writes [keeps_intros]:
  assumes "\<And>w. f (tock w) = f w" and "\<And>w rs. f (w\<lparr>t_hierarchy := rs\<rparr>) = f w"
    and "\<And>w n. f (w\<lparr>next_id := n\<rparr>) = f w"
  shows "keeps f (hierarchyDB_Set e h)"
  unfolding hierarchyDB_Set_def
  using assms by (intro keeps_intros; simp)+

lemmas resource_typeDB_run [run_simps] = scan_resource_type_def rtDB_GetPagination_def
  update_resource_type_row_def insert_resource_type_def rtDB_Set_def rtDB_Delete_def
  rtDB_GetByIDs_def rtDB_GetAllInternal_def rtDB_GetAllInternalWithHidden_def hierarchy_roundtrip
  hierarchyDB_Set_def scan_hierarchy_def hierarchyDB_GetAll_def

end
