(* ===== verification/Hierarchies.thy ===== *)
theory Hierarchies
  imports ResourceTypeDB
begin

text \<open>
  \<open>logics/resource_type_hierarchy.go\<close>: which resource types may be nested in which.
  A hierarchy is accepted only if all its types exist and no two siblings are of the
  same type; looking a type up returns the first node with that type, roots first.
\<close>

section \<open>Operations\<close>

function convertJSONItemsToResourceTypeHierarchy :: "json list \<Rightarrow> hierarchy list" where
  "convertJSONItemsToResourceTypeHierarchy [] = []"
| "convertJSONItemsToResourceTypeHierarchy (item # rest) =
     (case item of
        JObj itemMap \<Rightarrow>
          Hierarchy (case map_of itemMap ''resource_type_id'' of Some (JStr s) \<Rightarrow> s | _ \<Rightarrow> '''')
            (case map_of itemMap ''children'' of
               Some (JArr childrenArray) \<Rightarrow> convertJSONItemsToResourceTypeHierarchy childrenArray
             | _ \<Rightarrow> [])
          # convertJSONItemsToResourceTypeHierarchy rest
      | _ \<Rightarrow> convertJSONItemsToResourceTypeHierarchy rest)"
  by pat_completeness auto
termination
  by (relation "measure (size_list size)") (auto dest: size_json_field)

definition LoadResourceTypeHierarchyFromInitData :: "json \<Rightarrow> err + hierarchy list" where
  "LoadResourceTypeHierarchyFromInitData initDataStr =
     bindE (unmarshal_slice initDataStr) (\<lambda>jsonItems.
       Inr (convertJSONItemsToResourceTypeHierarchy jsonItems))"

definition resourceTypeInfoMap :: "resource_type list \<Rightarrow> (string, resource_type) gomap" where
  "resourceTypeInfoMap resourceTypes = fold (\<lambda>t. mput (rt_ID t) t) resourceTypes []"

primrec checkLevel ::
    "(string, resource_type) gomap \<Rightarrow> hierarchy list \<Rightarrow> (string, bool) gomap \<Rightarrow> err + unit" where
  "checkLevel infoMap [] checkDupMap = Inr ()"
| "checkLevel infoMap (child # rest) checkDupMap =
     (if map_of infoMap (hier_ID child) = None then Inl PublicBadRequest
      else if map_of checkDupMap (hier_ID child) \<noteq> None then Inl PublicBadRequest
      else checkLevel infoMap rest (mset_true (hier_ID child) checkDupMap))"

text \<open>Every call of the recursion reads the resource types again.\<close>

fun checkDuplicate :: "env \<Rightarrow> hierarchy \<Rightarrow> unit op" where
  "checkDuplicate e (Hierarchy i children) =
     bindM (rtDB_GetAllInternalWithHidden e) (\<lambda>resourceTypes.
       let infoMap = resourceTypeInfoMap resourceTypes in
       if map_of infoMap i = None then throwM PublicBadRequest
       else bindM (liftE (checkLevel infoMap children [])) (\<lambda>_.
         iterM (checkDuplicate e) children))"

declare checkDuplicate.simps [simp del]

definition hierarchy_SetPrivate :: "env \<Rightarrow> hierarchy \<Rightarrow> unit op" where
  "hierarchy_SetPrivate e hierarchie =
     bindM (checkDuplicate e hierarchie) (\<lambda>_. hierarchyDB_Set e hierarchie)"

fun findInChildren :: "hierarchy list \<Rightarrow> string \<Rightarrow> hierarchy option" where
  "findInChildren [] resourceTypeID = None"
| "findInChildren (Hierarchy i cs # rest) resourceTypeID =
     (if i = resourceTypeID then Some (Hierarchy i cs)
      else (case findInChildren cs resourceTypeID of
              Some found \<Rightarrow> Some found
            | None \<Rightarrow> findInChildren rest resourceTypeID))"

definition zero_hierarchy :: hierarchy where
  "zero_hierarchy = Hierarchy '''' []"

primrec findInRoots :: "(string \<times> hierarchy) list \<Rightarrow> string \<Rightarrow> hierarchy option" where
  "findInRoots [] resourceTypeID = None"
| "findInRoots (kh # rest) resourceTypeID =
     (case findInChildren (hier_Children (snd kh)) resourceTypeID of
        Some found \<Rightarrow> Some found
      | None \<Rightarrow> findInRoots rest resourceTypeID)"

definition hierarchy_Get :: "env \<Rightarrow> string \<Rightarrow> hierarchy op" where
  "hierarchy_Get e resourceTypeID =
     bindM (hierarchyDB_GetAll e) (\<lambda>hierarchyMap. returnM
       (case map_of hierarchyMap resourceTypeID of
          Some h \<Rightarrow> h
        | None \<Rightarrow>
            (case findInRoots (range_map (map_order e) hierarchyMap) resourceTypeID of
               Some found \<Rightarrow> found
             | None \<Rightarrow> zero_hierarchy)))"

definition hierarchy_HasHierarchy :: "env \<Rightarrow> string \<Rightarrow> bool op" where
  "hierarchy_HasHierarchy e resourceTypeID =
     bindM (hierarchyDB_GetAll e) (\<lambda>hierarchyMap. returnM
       (list_ex (\<lambda>(parentID, h). parentID = resourceTypeID \<or>
                   findInChildren (hier_Children h) resourceTypeID \<noteq> None)
         (range_map (map_order e) hierarchyMap)))"

definition hierarchy_GetAll :: "env \<Rightarrow> (string, hierarchy) gomap op" where
  "hierarchy_GetAll e = hierarchyDB_GetAll e"

definition hierarchy_Init :: "env \<Rightarrow> json \<Rightarrow> unit op" where
  "hierarchy_Init e initData =
     bindM (liftE (LoadResourceTypeHierarchyFromInitData initData)) (iterM (hierarchy_SetPrivate e))"


section \<open>Searching\<close>

text \<open>The nodes of a list of trees in the order a depth-first search meets them.\<close>

primrec nodes :: "hierarchy \<Rightarrow> hierarchy list" where
  "nodes (Hierarchy i cs) = Hierarchy i cs # concat (map nodes cs)"

lemma findInChildren_find:
  "findInChildren hs t = find (\<lambda>h. hier_ID h = t) (concat (map nodes hs))"
proof (induction hs t rule: findInChildren.induct)
  case (2 i cs rest t)
  then show ?case by (auto simp: find_append split: option.splits)
qed simp

lemma findInChildren_Some:
  "findInChildren hs t = Some h \<Longrightarrow> hier_ID h = t \<and> h \<in> set (concat (map nodes hs))"
  unfolding findInChildren_find by (rule find_SomeD)

lemma findInChildren_None:
  "findInChildren hs t = None \<longleftrightarrow> (\<forall>h\<in>set (concat (map nodes hs)). hier_ID h \<noteq> t)"
  by (auto simp: findInChildren_find find_None_iff)

lemma findInRoots_Some:
  "findInRoots khs t = Some h \<Longrightarrow> \<exists>(k, r)\<in>set khs. findInChildren (hier_Children r) t = Some h"
  by (induction khs) (auto split: option.splits)

lemma findInRoots_None:
  "findInRoots khs t = None \<longleftrightarrow> (\<forall>(k, r)\<in>set khs. findInChildren (hier_Children r) t = None)"
  by (induction khs) (auto split: option.splits)

section \<open>What is accepted\<close>

primrec acceptable :: "string set \<Rightarrow> hierarchy \<Rightarrow> bool" where
  "acceptable T (Hierarchy i cs) \<longleftrightarrow>
     i \<in> T \<and> hier_ID ` set cs \<subseteq> T \<and> distinct (map hier_ID cs) \<and> list_all (acceptable T) cs"

lemma dom_resourceTypeInfoMap:
  "map_of (resourceTypeInfoMap rts) i = None \<longleftrightarrow> i \<notin> rt_ID ` set rts"
  by (auto simp: resourceTypeInfoMap_def map_of_fold_mput find_None_iff split: option.splits
      dest!: find_SomeD)

lemma checkLevel_eq:
  "checkLevel m cs dup =
     (if (\<forall>c\<in>set cs. map_of m (hier_ID c) \<noteq> None \<and> map_of dup (hier_ID c) = None) \<and>
         distinct (map hier_ID cs)
      then Inr () else Inl PublicBadRequest)"
proof (induction cs arbitrary: dup)
  case (Cons c cs)
  have "(\<forall>x\<in>set cs. hier_ID x \<noteq> hier_ID c) \<longleftrightarrow> hier_ID c \<notin> set (map hier_ID cs)"
    by (force simp: image_iff)
  then show ?case unfolding checkLevel.simps Cons.IH by (auto simp: mset_true_def)
qed simp

definition stored_types :: "world \<Rightarrow> string set" where
  "stored_types w = t_id ` set (t_resource_type w)"

lemma keeps_checkDuplicate [keeps_intros]:
  "(\<And>w. f (tock w) = f w) \<Longrightarrow> keeps f (checkDuplicate e h)"
proof (induction h)
  case (Hierarchy i cs)
  have "keeps f (iterM (checkDuplicate e) cs)"
    using Hierarchy.IH [OF _ Hierarchy.prems] by (induction cs) (auto intro: keeps_intros)
  then show ?case
    unfolding checkDuplicate.simps Let_def
    using Hierarchy.prems
    by (intro keeps_bindM keeps_if keeps_basic keeps_resource_type_reads) auto
qed

lemma checkDuplicate_first:
  "checkDuplicate e (Hierarchy i cs) w = (Inr (), w') \<longleftrightarrow>
     fault_at e (tick w) = NoFault \<and> i \<in> stored_types w \<and> hier_ID ` set cs \<subseteq> stored_types w \<and>
     distinct (map hier_ID cs) \<and> iterM (checkDuplicate e) cs (tock w) = (Inr (), w')"
  by (auto simp: checkDuplicate.simps bindM_Inr_iff rtDB_GetAllInternalWithHidden_def Let_def
      dom_resourceTypeInfoMap
      checkLevel_eq stored_types_def image_image scan_resource_type_def)

lemma checkDuplicate_acceptable:
  "checkDuplicate e h w = (Inr (), w') \<Longrightarrow> acceptable (stored_types w) h"
proof (induction h arbitrary: w w')
  case (Hierarchy i cs)
  have "list_all (acceptable (stored_types v)) hs"
    if "iterM (checkDuplicate e) hs v = (Inr (), w')" "set hs \<subseteq> set cs" for hs v
    using that
  proof (induction hs arbitrary: v)
    case (Cons h hs)
    then obtain v1 where h: "checkDuplicate e h v = (Inr (), v1)"
      and hs: "iterM (checkDuplicate e) hs v1 = (Inr (), w')"
      by (auto simp: bindM_Inr_iff)
    have "stored_types v1 = stored_types v"
      using keepsD [OF keeps_checkDuplicate h, of stored_types] by (simp add: stored_types_def)
    then show ?case
      using Hierarchy.IH [of h v v1] h Cons.IH [OF hs] Cons.prems(2) by simp
  qed simp
  moreover have "stored_types (tock w) = stored_types w" by (simp add: stored_types_def)
  ultimately show ?case
    using Hierarchy.prems unfolding checkDuplicate_first by force
qed

lemma checkDuplicate_complete:
  assumes "\<And>n. fault_at e n = NoFault" "acceptable (stored_types w) h"
  shows "\<exists>w'. checkDuplicate e h w = (Inr (), w')"
  using assms(2)
proof (induction h arbitrary: w)
  case (Hierarchy i cs)
  have "\<exists>w'. iterM (checkDuplicate e) hs v = (Inr (), w')"
    if "set hs \<subseteq> set cs" "stored_types v = stored_types w" for hs v
    using that
  proof (induction hs arbitrary: v)
    case (Cons h hs)
    have "acceptable (stored_types v) h"
      using Hierarchy.prems Cons.prems by (auto simp: list_all_iff)
    then obtain v1 where h: "checkDuplicate e h v = (Inr (), v1)"
      using Hierarchy.IH [of h v] Cons.prems(1) by auto
    have "stored_types v1 = stored_types w"
      using keepsD [OF keeps_checkDuplicate h, of stored_types] Cons.prems(2)
      by (simp add: stored_types_def)
    then show ?case using Cons h by (auto simp: bindM_Inr_iff)
  qed simp
  then obtain w' where "iterM (checkDuplicate e) cs (tock w) = (Inr (), w')"
    by (force simp: stored_types_def)
  then show ?case
    using Hierarchy.prems assms(1) by (auto simp: checkDuplicate_first)
qed

text \<open>
  The rows of the table hold encoded hierarchies, at most one per root type; every
  accepted request keeps it that way.
\<close>

definition hierarchies_ok :: "world \<Rightarrow> bool" where
  "hierarchies_ok w \<longleftrightarrow>
     distinct (map h_resource_type_id (t_hierarchy w)) \<and>
     (\<forall>r\<in>set (t_hierarchy w). \<exists>cs. h_children r = convertHierarchyChildrenToJSONString cs)"

lemma preserves_hierarchy_Set: "preserves hierarchies_ok (hierarchyDB_Set e h)"
  unfolding preserves_def
proof (intro allI impI)
  fix w assume ok: "hierarchies_ok w"
  let ?i = "hier_ID h" and ?c = "convertHierarchyChildrenToJSONString (hier_Children h)"
  let ?new = "\<lambda>w. w\<lparr> t_hierarchy := t_hierarchy w @ [\<lparr> h_primary_id = next_id w,
      h_resource_type_id = ?i, h_children = ?c \<rparr>], next_id := Suc (next_id w) \<rparr>"
  let ?upd = "\<lambda>w. w\<lparr> t_hierarchy := map (\<lambda>r. if h_resource_type_id r = ?i
      then r\<lparr> h_children := ?c \<rparr> else r) (t_hierarchy w) \<rparr>"
  have upd: "hierarchies_ok (?upd v)" if "t_hierarchy v = t_hierarchy w" for v
  proof -
    have ids: "map h_resource_type_id (t_hierarchy (?upd v)) = map h_resource_type_id (t_hierarchy w)"
      using that by simp
    have cols: "\<forall>r\<in>set (t_hierarchy (?upd v)). \<exists>cs. h_children r = convertHierarchyChildrenToJSONString cs"
      using ok that by (auto simp: hierarchies_ok_def)
    from ok have "distinct (map h_resource_type_id (t_hierarchy w))"
      by (simp add: hierarchies_ok_def)
    then show ?thesis unfolding hierarchies_ok_def ids using cols by (rule conjI)
  qed
  have new: "hierarchies_ok (?new v)"
    if "t_hierarchy v = t_hierarchy w" "\<not> list_ex (\<lambda>r. h_resource_type_id r = ?i) (t_hierarchy w)" for v
    using ok that by (auto simp: hierarchies_ok_def list_ex_iff)
  have keep: "hierarchies_ok v" if "t_hierarchy v = t_hierarchy w" for v
    using ok that by (simp add: hierarchies_ok_def)
  show "hierarchies_ok (snd (hierarchyDB_Set e h w))"
    unfolding hierarchyDB_Set_def bindM_def getTime_def db_query_def db_exec_def
    using upd [of "tock (tock (tock w))"] new [of "tock (tock (tock w))"] keep [of "tock (tock w)"]
      keep [of "tock (tock (tock w))"]
    by (auto split: fault.splits)
qed

lemma keeps_hierarchy_reads [keeps_intros]:
  assumes "\<And>w. f (tock w) = f w"
  shows "keeps f (hierarchy_Get e i)" "keeps f (hierarchy_HasHierarchy e i)"
    "keeps f (hierarchy_GetAll e)"
  unfolding hierarchy_Get_def hierarchy_HasHierarchy_def hierarchy_GetAll_def
  using assms by (intro keeps_intros; simp)+

lemma preserves_hierarchy_writes:
  "preserves hierarchies_ok (hierarchy_SetPrivate e h)" "preserves hierarchies_ok (hierarchy_Init e j)"
proof -
  have check: "preserves hierarchies_ok (checkDuplicate e h)" for h
    using keeps_preserves [OF keeps_checkDuplicate, of t_hierarchy
        "\<lambda>rows. distinct (map h_resource_type_id rows) \<and>
           (\<forall>r\<in>set rows. \<exists>cs. h_children r = convertHierarchyChildrenToJSONString cs)"]
    by (simp add: hierarchies_ok_def [abs_def])
  show set: "preserves hierarchies_ok (hierarchy_SetPrivate e h)" for h
    unfolding hierarchy_SetPrivate_def
    by (intro preserves_bindM check preserves_hierarchy_Set)
  show "preserves hierarchies_ok (hierarchy_Init e j)"
    unfolding hierarchy_Init_def by (intro preserves_bindM preserves_basic preserves_iterM set)
qed


section \<open>Reading back\<close>

lemma GetAll_run:
  assumes "hierarchies_ok w" "fault_at e (tick w) = NoFault"
  obtains m where "hierarchyDB_GetAll e w = (Inr m, tock w)" "mwf m"
    "\<And>r. r \<in> set (t_hierarchy w) \<Longrightarrow>
       \<exists>cs. h_children r = convertHierarchyChildrenToJSONString cs \<and>
            map_of m (h_resource_type_id r) = Some (Hierarchy (h_resource_type_id r) cs)"
    "\<And>k h. map_of m k = Some h \<Longrightarrow> hier_ID h = k"
proof -
  have "\<forall>r\<in>set (t_hierarchy w). \<exists>cs. h_children r = convertHierarchyChildrenToJSONString cs"
    using assms(1) by (simp add: hierarchies_ok_def)
  then obtain cs where cs: "\<And>r. r \<in> set (t_hierarchy w) \<Longrightarrow>
      h_children r = convertHierarchyChildrenToJSONString (cs r)"
    by metis
  define hs where "hs = map (\<lambda>r. Hierarchy (h_resource_type_id r) (cs r)) (t_hierarchy w)"
  have "mapE scan_hierarchy (map (\<lambda>r. r) (t_hierarchy w)) = Inr hs"
    unfolding hs_def by (rule mapE_map_Inr) (simp add: scan_hierarchy_def cs hierarchy_roundtrip)
  then have get: "hierarchyDB_GetAll e w = (Inr (fold (\<lambda>h. mput (hier_ID h) h) hs []), tock w)"
    using assms(2) by (simp add: hierarchyDB_GetAll_def)
  have "distinct (map hier_ID hs)"
    using assms(1) by (simp add: hs_def hierarchies_ok_def comp_def)
  then have rows: "map_of (fold (\<lambda>h. mput (hier_ID h) h) hs []) (h_resource_type_id r) =
      Some (Hierarchy (h_resource_type_id r) (cs r))" if "r \<in> set (t_hierarchy w)" for r
    using that by (intro map_of_fold_mput_distinct [where val = "\<lambda>h. h"]) (auto simp: hs_def)
  have keys: "hier_ID h = k" if "map_of (fold (\<lambda>h. mput (hier_ID h) h) hs []) k = Some h" for k h
    using that unfolding map_of_fold_mput [where val = "\<lambda>h. h"]
    by (auto split: option.splits dest: find_SomeD)
  show thesis
  proof (rule that [OF get])
    show "mwf (fold (\<lambda>h. mput (hier_ID h) h) hs [])" by (rule mwf_fold_mput) simp
  qed (use rows cs keys in blast)+
qed

lemma hierarchyDB_Set_total:
  assumes "\<And>n. fault_at e n = NoFault"
  shows "\<exists>w'. hierarchyDB_Set e h w = (Inr (), w')"
  using assms by (auto simp: hierarchyDB_Set_def bindM_def getTime_def db_query_def db_exec_def)

lemma SetPrivate_iff:
  assumes "\<And>n. fault_at e n = NoFault"
  shows "(\<exists>w'. hierarchy_SetPrivate e h w = (Inr (), w')) \<longleftrightarrow> acceptable (stored_types w) h"
proof
  assume "\<exists>w'. hierarchy_SetPrivate e h w = (Inr (), w')"
  then show "acceptable (stored_types w) h"
    by (auto simp: hierarchy_SetPrivate_def bindM_Inr_iff intro: checkDuplicate_acceptable)
next
  assume "acceptable (stored_types w) h"
  from checkDuplicate_complete [OF assms this] obtain w1 where "checkDuplicate e h w = (Inr (), w1)" by blast
  moreover have "\<exists>w'. hierarchyDB_Set e h w1 = (Inr (), w')"
    by (rule hierarchyDB_Set_total) (rule assms)
  ultimately show "\<exists>w'. hierarchy_SetPrivate e h w = (Inr (), w')"
    by (simp add: hierarchy_SetPrivate_def bindM_def)
qed

lemma hierarchyDB_Set_row:
  assumes "hierarchyDB_Set e h w = (Inr (), w')"
  obtains r where "r \<in> set (t_hierarchy w')" "h_resource_type_id r = hier_ID h"
    "h_children r = convertHierarchyChildrenToJSONString (hier_Children h)"
proof (cases "list_ex (\<lambda>r. h_resource_type_id r = hier_ID h) (t_hierarchy w)")
  case True
  then obtain r where r: "r \<in> set (t_hierarchy w)" "h_resource_type_id r = hier_ID h"
    by (auto simp: list_ex_iff)
  show ?thesis
    by (rule that [of "r\<lparr> h_children := convertHierarchyChildrenToJSONString (hier_Children h) \<rparr>"])
      (use assms True r in \<open>force simp: hierarchyDB_Set_def bindM_Inr_iff\<close>)+
next
  case False
  then show ?thesis
    using assms that by (force simp: hierarchyDB_Set_def bindM_Inr_iff)
qed

lemma SetPrivate_Get:
  assumes "hierarchies_ok w" "hierarchy_SetPrivate e h w = (Inr (), w1)"
    "fault_at e (tick w1) = NoFault"
  shows "hierarchy_Get e (hier_ID h) w1 = (Inr h, tock w1)"
proof -
  have ok: "hierarchies_ok w1"
    by (rule preservesD [OF preserves_hierarchy_writes(1) assms(2,1)])
  obtain w0 where "hierarchyDB_Set e h w0 = (Inr (), w1)"
    using assms(2) by (auto simp: hierarchy_SetPrivate_def bindM_Inr_iff)
  then obtain r where r: "r \<in> set (t_hierarchy w1)" "h_resource_type_id r = hier_ID h"
    "h_children r = convertHierarchyChildrenToJSONString (hier_Children h)"
    by (rule hierarchyDB_Set_row)
  obtain m where m: "hierarchyDB_GetAll e w1 = (Inr m, tock w1)"
    "\<And>r. r \<in> set (t_hierarchy w1) \<Longrightarrow>
       \<exists>cs. h_children r = convertHierarchyChildrenToJSONString cs \<and>
            map_of m (h_resource_type_id r) = Some (Hierarchy (h_resource_type_id r) cs)"
    by (rule GetAll_run [OF ok assms(3)]) blast
  from m(2) [OF r(1)] obtain cs where "h_children r = convertHierarchyChildrenToJSONString cs"
    "map_of m (hier_ID h) = Some (Hierarchy (hier_ID h) cs)"
    by (auto simp: r(2))
  moreover from this r(3) have "cs = hier_Children h"
    using hierarchy_roundtrip by (metis sum.inject(2))
  ultimately show ?thesis by (simp add: hierarchy_Get_def bindM_def m(1))
qed

lemma HasHierarchy_iff_Get:
  assumes "env_ok e" "hierarchy_HasHierarchy e t w = (Inr b, w1)" "hierarchy_Get e t w = (Inr h, w2)"
    "t \<noteq> ''''"
  shows "b \<longleftrightarrow> hier_ID h = t"
proof -
  obtain m where m: "hierarchyDB_GetAll e w = (Inr m, w1)"
    and b: "b = list_ex (\<lambda>(p, r). p = t \<or> findInChildren (hier_Children r) t \<noteq> None)
              (range_map (map_order e) m)"
    using assms(2) by (auto simp: hierarchy_HasHierarchy_def bindM_Inr_iff)
  have id: "hier_ID r = k" if "map_of m k = Some r" for k r
    using that m unfolding hierarchyDB_GetAll_def db_query_Inr_iff bindE_Inr_iff
    by (auto simp: map_of_fold_mput [where val = "\<lambda>h. h"] split: option.splits dest: find_SomeD)
  have h: "h = (case map_of m t of Some h \<Rightarrow> h | None \<Rightarrow>
      (case findInRoots (range_map (map_order e) m) t of Some f \<Rightarrow> f | None \<Rightarrow> zero_hierarchy))"
    using assms(3) by (simp add: hierarchy_Get_def bindM_def m)
  have entries: "set (range_map (map_order e) m) = {(k, v). map_of m k = Some v}"
    using assms(1) by (simp add: set_range_map)
  show ?thesis
  proof (cases "map_of m t")
    case (Some r)
    then have "b" unfolding b list_ex_iff entries by auto
    then show ?thesis using Some h id by simp
  next
    case None
    then have b': "b \<longleftrightarrow> (\<exists>(k, r)\<in>set (range_map (map_order e) m). findInChildren (hier_Children r) t \<noteq> None)"
      unfolding b list_ex_iff entries by auto
    show ?thesis
    proof (cases "findInRoots (range_map (map_order e) m) t")
      case None
      with \<open>map_of m t = None\<close> have "h = zero_hierarchy" using h by simp
      then have "hier_ID h \<noteq> t" using assms(4) by (simp add: zero_hierarchy_def)
      then show ?thesis using None b' unfolding findInRoots_None by auto
    next
      case (Some f)
      with \<open>map_of m t = None\<close> have "h = f" using h by simp
      obtain k r where kr: "(k, r) \<in> set (range_map (map_order e) m)"
        and f: "findInChildren (hier_Children r) t = Some f"
        using findInRoots_Some [OF Some] by blast
      have "hier_ID f = t" using findInChildren_Some [OF f] by (rule conjunct1)
      moreover have "b" unfolding b' using kr f by (intro bexI [of _ "(k, r)"]) simp_all
      ultimately show ?thesis using \<open>h = f\<close> by simp
    qed
  qed
qed

lemmas hierarchies_run [run_simps] = LoadResourceTypeHierarchyFromInitData_def
  resourceTypeInfoMap_def checkDuplicate.simps hierarchy_SetPrivate_def zero_hierarchy_def
  hierarchy_Get_def hierarchy_HasHierarchy_def hierarchy_GetAll_def hierarchy_Init_def

end

