(* ===== verification/ResourceTypes.thy ===== *)
theory ResourceTypes
  imports Hierarchies
begin

text \<open>
  \<open>logics/resource_type.go\<close>: the resource types of the platform and their operations.
  The public calls are reserved to the administrators; the private ones (start-up and
  other services) write a type only when it has changed.
\<close>

section \<open>Visitors\<close>

definition resourceType_checkVisitorType :: "env \<Rightarrow> visitor \<Rightarrow> err + unit" where
  "resourceType_checkVisitorType e visitor =
     bindE (if vis_Type visitor = RealName then um_GetUserRolesByUserID e (vis_ID visitor) else Inr [])
       (\<lambda>roleTypes. checkVisitorType visitor roleTypes [RealName] [SuperAdmin, SystemAdmin, SecurityAdmin])"

interpretation resourceType_guard:
  visitor_guard resourceType_checkVisitorType "admin_with {SuperAdmin, SystemAdmin, SecurityAdmin}"
  by unfold_locales (auto simp: resourceType_checkVisitorType_def admin_with_def bindE_Inr_iff
      checkVisitorType_iff split: if_splits)


section \<open>Operations\<close>

definition nameMaxLength :: nat where
  "nameMaxLength = 50"

text \<open>The pattern \<open>^[a-zA-Z0-9_]+$\<close>.\<close>

definition idChar :: "char \<Rightarrow> bool" where
  "idChar c \<longleftrightarrow>
     (let n = (of_char c :: nat) in
      97 \<le> n \<and> n \<le> 122 \<or> 65 \<le> n \<and> n \<le> 90 \<or> 48 \<le> n \<and> n \<le> 57 \<or> n = 95)"

definition matchesID :: "string \<Rightarrow> bool" where
  "matchesID i \<longleftrightarrow> i \<noteq> [] \<and> list_all idChar i"

definition resourceType_GetPagination :: "env \<Rightarrow> visitor \<Rightarrow> int \<Rightarrow> int \<Rightarrow> (nat \<times> resource_type list) op" where
  "resourceType_GetPagination e visitor off cnt =
     bindM (liftE (resourceType_checkVisitorType e visitor)) (\<lambda>_. rtDB_GetPagination e off cnt)"

definition resourceType_Set :: "env \<Rightarrow> visitor \<Rightarrow> resource_type \<Rightarrow> unit op" where
  "resourceType_Set e visitor resourceType =
     bindM (liftE (resourceType_checkVisitorType e visitor)) (\<lambda>_.
       if length (rt_ID resourceType) > nameMaxLength then throwM PublicBadRequest
       else if \<not> matchesID (rt_ID resourceType) then throwM PublicBadRequest
       else rtDB_Set e resourceType)"

definition checkResourceTypeChange :: "resource_type \<Rightarrow> resource_type \<Rightarrow> bool" where
  "checkResourceTypeChange old newInfo \<longleftrightarrow>
     rt_Name old \<noteq> rt_Name newInfo \<or> rt_InstanceURL old \<noteq> rt_InstanceURL newInfo \<or>
     rt_DataStruct old \<noteq> rt_DataStruct newInfo \<or> rt_Description old \<noteq> rt_Description newInfo \<or>
     rt_Hidden old \<noteq> rt_Hidden newInfo \<or> rt_Operation old \<noteq> rt_Operation newInfo"

definition initResourceType :: "env \<Rightarrow> resource_type \<Rightarrow> unit op" where
  "initResourceType e t =
     bindM (rtDB_GetByIDs e [rt_ID t]) (\<lambda>infoMap.
       case map_of infoMap (rt_ID t) of
         Some info \<Rightarrow> if \<not> checkResourceTypeChange info t then returnM () else rtDB_Set e t
       | None \<Rightarrow> rtDB_Set e t)"

definition resourceType_InitResourceTypes :: "env \<Rightarrow> resource_type list \<Rightarrow> unit op" where
  "resourceType_InitResourceTypes e resourceTypes = iterM (initResourceType e) resourceTypes"

definition resourceType_Delete :: "env \<Rightarrow> visitor \<Rightarrow> string \<Rightarrow> unit op" where
  "resourceType_Delete e visitor resourceTypeID =
     bindM (liftE (resourceType_checkVisitorType e visitor)) (\<lambda>_. rtDB_Delete e resourceTypeID)"

definition zero_resource_type :: resource_type where
  "zero_resource_type =
     \<lparr> rt_ID = '''', rt_Name = '''', rt_Description = '''', rt_InstanceURL = '''', rt_DataStruct = '''',
       rt_CreateTime = 0, rt_Operation = [], rt_Hidden = False, rt_ModifyTime = 0 \<rparr>"

definition resourceType_GetByID :: "env \<Rightarrow> string \<Rightarrow> resource_type op" where
  "resourceType_GetByID e resourceTypeID =
     bindM (rtDB_GetByIDs e [resourceTypeID]) (\<lambda>resourceTypeMap. returnM
       (case map_of resourceTypeMap resourceTypeID of None \<Rightarrow> zero_resource_type | Some t \<Rightarrow> t))"

definition resourceType_GetByIDsInternal :: "env \<Rightarrow> string list \<Rightarrow> (string, resource_type) gomap op" where
  "resourceType_GetByIDsInternal e resourceTypeIDs = rtDB_GetByIDs e resourceTypeIDs"

definition resourceType_GetAllInternal :: "env \<Rightarrow> resource_type list op" where
  "resourceType_GetAllInternal e = rtDB_GetAllInternal e"

definition resourceType_SetPrivate :: "env \<Rightarrow> resource_type \<Rightarrow> unit op" where
  "resourceType_SetPrivate e resourceType =
     (if length (rt_ID resourceType) > nameMaxLength then throwM PublicBadRequest
      else if \<not> matchesID (rt_ID resourceType) then throwM PublicBadRequest
      else bindM (rtDB_GetByIDs e [rt_ID resourceType]) (\<lambda>infoMap.
        case map_of infoMap (rt_ID resourceType) of
          Some info \<Rightarrow> if \<not> checkResourceTypeChange info resourceType then returnM ()
                        else rtDB_Set e resourceType
        | None \<Rightarrow> rtDB_Set e resourceType))"


subsection \<open>Operations of a type and of its children\<close>

record operation_response =
  opr_ID :: string
  opr_Name :: string
  opr_Description :: string

datatype children_operation =
  ChildrenOperation (co_ResourceTypeID: string) (co_Name: string)
    (co_Operations: "operation_response list") (co_Children: "children_operation list")

definition getOperationNameByLanguage :: "string \<Rightarrow> operation_name list \<Rightarrow> string" where
  "getOperationNameByLanguage language operationName =
     (case find (\<lambda>n. EqualFold (opn_Language n) language) operationName of
        None \<Rightarrow> '''' | Some n \<Rightarrow> opn_Value n)"

definition getOperations :: "visitor \<Rightarrow> resource_type \<Rightarrow> operation_scope \<Rightarrow> operation_response list" where
  "getOperations visitor resourceTypeInfo scope =
     map (\<lambda>operation.
           \<lparr> opr_ID = rto_ID operation,
             opr_Name = getOperationNameByLanguage (vis_Language visitor) (rto_Name operation),
             opr_Description = rto_Description operation \<rparr>)
       (filter (\<lambda>operation. scope \<in> set (rto_Scope operation)) (rt_Operation resourceTypeInfo))"

text \<open>One round of the loop over the children; \<open>operationsMap\<close> remembers what was computed.\<close>

definition childStep ::
    "visitor \<Rightarrow> operation_scope \<Rightarrow> (string, resource_type) gomap \<Rightarrow> hierarchy \<Rightarrow>
     (string, operation_response list) gomap \<times> children_operation list \<Rightarrow>
     (string, operation_response list) gomap \<times> children_operation list" where
  "childStep visitor scope resourceTypeMap child acc =
     (case acc of (operationsMap, childrenOperations) \<Rightarrow>
        (case map_of resourceTypeMap (hier_ID child) of
           None \<Rightarrow> acc
         | Some childResourceType \<Rightarrow>
             (let (operations, operationsMap') =
                (case map_of operationsMap (hier_ID child) of
                   Some ops \<Rightarrow> (ops, operationsMap)
                 | None \<Rightarrow> (let ops = getOperations visitor childResourceType scope
                            in (ops, mput (hier_ID child) ops operationsMap)))
              in (operationsMap', childrenOperations @
                    [ChildrenOperation (hier_ID child) (rt_Name childResourceType) operations []]))))"

definition getChildrenOperations ::
    "visitor \<Rightarrow> hierarchy \<Rightarrow> operation_scope \<Rightarrow> (string, resource_type) gomap \<Rightarrow> children_operation list" where
  "getChildrenOperations visitor h scope resourceTypeMap =
     snd (fold (childStep visitor scope resourceTypeMap) (hier_Children h) ([], []))"

definition resourceType_GetAllOperation ::
    "env \<Rightarrow> visitor \<Rightarrow> string \<Rightarrow> operation_scope \<Rightarrow> (operation_response list \<times> children_operation list) op" where
  "resourceType_GetAllOperation e visitor resourceTypeID scope =
     bindM (rtDB_GetAllInternalWithHidden e) (\<lambda>resourceTypes.
       let resourceTypeMap = resourceTypeInfoMap resourceTypes in
       case map_of resourceTypeMap resourceTypeID of
         None \<Rightarrow> returnM ([], [])
       | Some resourceTypeInfo \<Rightarrow>
           (let operations = getOperations visitor resourceTypeInfo scope in
            if scope = ScopeType then returnM (operations, [])
            else bindM (hierarchy_Get e resourceTypeID) (\<lambda>h.
              if hier_Children h = [] then returnM (operations, [])
              else returnM (operations,
                getChildrenOperations visitor h ScopeType resourceTypeMap))))"

section \<open>Frames\<close>

lemma keeps_resourceType_reads [keeps_intros]:
  assumes "\<And>w. f (tock w) = f w"
  shows "keeps f (resourceType_GetByIDsInternal e ids)" "keeps f (resourceType_GetAllInternal e)"
    "keeps f (resourceType_GetPagination e v o1 c1)" "keeps f (resourceType_GetByID e i)"
    "keeps f (resourceType_GetAllOperation e v i s)"
  unfolding resourceType_GetByIDsInternal_def resourceType_GetAllInternal_def
    resourceType_GetPagination_def resourceType_GetByID_def resourceType_GetAllOperation_def Let_def
  using assms by (intro keeps_intros; simp)+

lemma keeps_resourceType_writes [keeps_intros]:
  assumes "\<And>w. f (tock w) = f w" and "\<And>w rs. f (w\<lparr>t_resource_type := rs\<rparr>) = f w"
    and "\<And>w n. f (w\<lparr>next_id := n\<rparr>) = f w"
  shows "keeps f (resourceType_Set e v t)" "keeps f (resourceType_Delete e v i)"
    "keeps f (resourceType_SetPrivate e t)" "keeps f (resourceType_InitResourceTypes e ts)"
  unfolding resourceType_Set_def resourceType_Delete_def resourceType_SetPrivate_def
    resourceType_InitResourceTypes_def initResourceType_def
  using assms by (intro keeps_intros; simp)+


section \<open>Identifiers stay unique\<close>

definition types_ok :: "world \<Rightarrow> bool" where
  "types_ok w \<longleftrightarrow> distinct (map t_id (t_resource_type w))"

lemma types_ok_tock [simp]: "types_ok (tock w) = types_ok w"
  by (simp add: types_ok_def)

lemma update_row_id: "t_id (update_resource_type_row n t r) = t_id r"
  by (simp add: update_resource_type_row_def)

lemma preserves_rtDB_Set [preserves_intros]: "preserves types_ok (rtDB_Set e t)"
  unfolding preserves_def
proof (intro allI impI)
  fix w assume ok: "types_ok w"
  have upd: "types_ok (v\<lparr> t_resource_type := map (update_resource_type_row n t) (t_resource_type v) \<rparr>)"
    if "t_resource_type v = t_resource_type w" for v n
    using ok that by (simp add: types_ok_def comp_def update_row_id)
  have new: "types_ok (insert_resource_type n t v)"
    if "t_resource_type v = t_resource_type w" "\<not> list_ex (\<lambda>r. t_id r = rt_ID t) (t_resource_type w)" for v n
    using ok that by (auto simp: types_ok_def insert_resource_type_def list_ex_iff)
  show "types_ok (snd (rtDB_Set e t w))"
    unfolding rtDB_Set_def bindM_def getTime_def db_query_def db_exec_def
    using ok upd [of "tock (tock (tock w))"] new [of "tock (tock (tock w))"]
    by (auto split: fault.splits)
qed

lemma preserves_rtDB_Delete [preserves_intros]: "preserves types_ok (rtDB_Delete e i)"
  unfolding rtDB_Delete_def by (intro preserves_intros) (auto simp: types_ok_def distinct_key_filter)

lemma preserves_rtDB_GetByIDs [preserves_intros]: "preserves types_ok (rtDB_GetByIDs e ids)"
  unfolding rtDB_GetByIDs_def by (intro preserves_intros) auto

lemma preserves_types_ok:
  "preserves types_ok (resourceType_Set e v t)" "preserves types_ok (resourceType_Delete e v i)"
  "preserves types_ok (resourceType_SetPrivate e t)"
  "preserves types_ok (resourceType_InitResourceTypes e ts)"
  unfolding resourceType_Set_def resourceType_Delete_def resourceType_SetPrivate_def
    resourceType_InitResourceTypes_def initResourceType_def
  by (intro preserves_intros)+


section \<open>What was set is what is read\<close>

text \<open>The attributes a stored type is read back with.\<close>

definition stored_type :: "resource_type \<Rightarrow> resource_type" where
  "stored_type t = t\<lparr> rt_Hidden := False, rt_CreateTime := 0, rt_ModifyTime := 0 \<rparr>"

definition holds_type :: "resource_type \<Rightarrow> world \<Rightarrow> bool" where
  "holds_type t w \<longleftrightarrow>
     (\<exists>r\<in>set (t_resource_type w). t_id r = rt_ID t) \<and>
     (\<forall>r\<in>set (t_resource_type w). t_id r = rt_ID t \<longrightarrow> scan_resource_type r = stored_type t)"

lemma holds_type_tock [simp]: "holds_type t (tock w) = holds_type t w"
  by (simp add: holds_type_def)

lemma rtDB_Set_holds:
  assumes "rtDB_Set e t w = (Inr (), w')"
  shows "holds_type t w'"
proof (cases "list_ex (\<lambda>r. t_id r = rt_ID t) (t_resource_type w)")
  case True
  then have "t_resource_type w' =
      map (update_resource_type_row (now_at e (tick w)) t) (t_resource_type w)"
    using assms by (auto simp: rtDB_Set_def bindM_Inr_iff)
  moreover have "scan_resource_type (update_resource_type_row n t r) = stored_type t"
    if "t_id r = rt_ID t" for n r
    using that by (simp add: update_resource_type_row_def scan_resource_type_def stored_type_def)
  ultimately show ?thesis
    using True by (auto simp: holds_type_def list_ex_iff update_row_id)
next
  case False
  then have "t_resource_type w' = t_resource_type (insert_resource_type (now_at e (tick w)) t w)"
    using assms by (auto simp: rtDB_Set_def bindM_Inr_iff insert_resource_type_def)
  then show ?thesis
    using False by (auto simp: holds_type_def insert_resource_type_def list_ex_iff
        scan_resource_type_def stored_type_def)
qed

lemma GetByIDs_holds:
  assumes "holds_type t w" "fault_at e (tick w) = NoFault"
  shows "\<exists>m. rtDB_GetByIDs e [rt_ID t] w = (Inr m, tock w) \<and> map_of m (rt_ID t) = Some (stored_type t)"
proof -
  let ?rows = "filter (\<lambda>r. t_id r = rt_ID t) (t_resource_type w)"
  obtain r where r: "find (\<lambda>r. t_id r = rt_ID t) (rev ?rows) = Some r"
    using assms(1) by (cases "find (\<lambda>r. t_id r = rt_ID t) (rev ?rows)")
      (auto simp: holds_type_def find_None_iff)
  then have "scan_resource_type r = stored_type t"
    using assms(1) by (auto simp: holds_type_def dest!: find_SomeD)
  with r assms(2) show ?thesis by (simp add: rtDB_GetByIDs_def map_of_fold_mput)
qed

lemma GetByID_holds:
  assumes "holds_type t w" "fault_at e (tick w) = NoFault"
  shows "resourceType_GetByID e (rt_ID t) w = (Inr (stored_type t), tock w)"
  using GetByIDs_holds [OF assms] by (auto simp: resourceType_GetByID_def bindM_def)

lemma unchanged_holds:
  assumes "rtDB_GetByIDs e [rt_ID t] w = (Inr m, w')" "map_of m (rt_ID t) = Some info"
    "\<not> checkResourceTypeChange info t" "types_ok w"
  shows "holds_type t w"
proof -
  let ?rows = "filter (\<lambda>r. t_id r = rt_ID t) (t_resource_type w)"
  obtain r where "find (\<lambda>r. t_id r = rt_ID t) (rev ?rows) = Some r" "scan_resource_type r = info"
    using assms(1,2) by (auto simp: rtDB_GetByIDs_def map_of_fold_mput split: option.splits)
  then have r: "r \<in> set (t_resource_type w)" "t_id r = rt_ID t" "scan_resource_type r = info"
    by (auto dest!: find_SomeD)
  have info: "info = stored_type t"
    using assms(3) r(2) unfolding r(3) [symmetric]
    by (intro resource_type.equality)
      (simp_all add: checkResourceTypeChange_def stored_type_def scan_resource_type_def)
  have unique: "r' = r" if "r' \<in> set (t_resource_type w)" "t_id r' = rt_ID t" for r'
    using assms(4) that r unfolding types_ok_def by (metis distinct_map inj_onD)
  show ?thesis
    unfolding holds_type_def
  proof (intro conjI bexI ballI impI)
    show "scan_resource_type r' = stored_type t"
      if "r' \<in> set (t_resource_type w)" "t_id r' = rt_ID t" for r'
      using unique [OF that] r(3) info by simp
  qed (use r in simp_all)
qed

lemma init_type_holds:
  assumes "initResourceType e t w = (Inr (), w')" "types_ok w"
  shows "holds_type t w'"
  using assms(1) unfolding initResourceType_def bindM_Inr_iff
  using rtDB_Set_holds unchanged_holds [OF _ _ _ assms(2)]
  by (auto split: option.splits if_splits simp: rtDB_GetByIDs_def)

lemma init_type_again:
  assumes "holds_type t w" "\<not> rt_Hidden t"
  shows "db (snd (initResourceType e t w)) = db w"
proof (cases "fault_at e (tick w) = NoFault")
  case True
  have "\<not> checkResourceTypeChange (stored_type t) t"
    using assms(2) by (simp add: checkResourceTypeChange_def stored_type_def)
  then show ?thesis
    using GetByIDs_holds [OF assms(1) True] by (auto simp: initResourceType_def bindM_def)
next
  case False
  then show ?thesis
    by (auto simp: initResourceType_def bindM_def rtDB_GetByIDs_def db_query_def split: fault.splits)
qed

lemma SetPrivate_init:
  "length (rt_ID t) \<le> nameMaxLength \<Longrightarrow> matchesID (rt_ID t) \<Longrightarrow>
     resourceType_SetPrivate e t = initResourceType e t"
  by (simp add: resourceType_SetPrivate_def initResourceType_def)


section \<open>The cache of operations\<close>

definition childOperation ::
    "visitor \<Rightarrow> operation_scope \<Rightarrow> (string, resource_type) gomap \<Rightarrow> hierarchy \<Rightarrow> children_operation option" where
  "childOperation visitor scope m child =
     map_option (\<lambda>t. ChildrenOperation (hier_ID child) (rt_Name t) (getOperations visitor t scope) [])
       (map_of m (hier_ID child))"

lemma childStep_fold:
  assumes "\<And>k ops. map_of cache k = Some ops \<Longrightarrow>
      \<exists>t. map_of m k = Some t \<and> ops = getOperations v t s"
  shows "snd (fold (childStep v s m) hs (cache, acc)) = acc @ List.map_filter (childOperation v s m) hs"
  using assms
proof (induction hs arbitrary: cache acc)
  case (Cons h hs)
  show ?case
  proof (cases "map_of m (hier_ID h)")
    case None
    then show ?thesis
      using Cons by (simp add: childStep_def childOperation_def List.map_filter_simps)
  next
    case (Some t)
    let ?o = "getOperations v t s"
    let ?c = "ChildrenOperation (hier_ID h) (rt_Name t) ?o []"
    obtain cache' where step: "childStep v s m h (cache, acc) = (cache', acc @ [?c])"
      and inv: "\<And>k ops. map_of cache' k = Some ops \<Longrightarrow> \<exists>t. map_of m k = Some t \<and> ops = getOperations v t s"
    proof (cases "map_of cache (hier_ID h)")
      case None
      have "childStep v s m h (cache, acc) = (mput (hier_ID h) ?o cache, acc @ [?c])"
        using Some None by (simp add: childStep_def Let_def)
      then show ?thesis
        by (rule that) (use Cons.prems Some in \<open>auto split: if_splits\<close>)
    next
      case (Some ops)
      then have "ops = ?o" using Cons.prems \<open>map_of m (hier_ID h) = Some t\<close> by fastforce
      then have "childStep v s m h (cache, acc) = (cache, acc @ [?c])"
        using Some \<open>map_of m (hier_ID h) = Some t\<close> by (simp add: childStep_def)
      then show ?thesis by (rule that) (use Cons.prems in auto)
    qed
    show ?thesis
      using Cons.IH [OF inv] Some by (simp add: step childOperation_def List.map_filter_simps)
  qed
qed (simp add: List.map_filter_simps)

lemma getChildrenOperations_eq:
  "getChildrenOperations v h s m = List.map_filter (childOperation v s m) (hier_Children h)"
  unfolding getChildrenOperations_def by (subst childStep_fold) simp_all

lemmas resource_types_run [run_simps] = resourceType_checkVisitorType_def nameMaxLength_def
  idChar_def matchesID_def resourceType_GetPagination_def resourceType_Set_def
  checkResourceTypeChange_def initResourceType_def resourceType_InitResourceTypes_def
  resourceType_Delete_def zero_resource_type_def resourceType_GetByID_def
  resourceType_GetByIDsInternal_def resourceType_GetAllInternal_def resourceType_SetPrivate_def
  getOperationNameByLanguage_def getOperations_def childStep_def getChildrenOperations_def
  resourceType_GetAllOperation_def

end
