(* ===== verification/Events.thy ===== *)
theory Events
  imports Common
begin

text \<open>
  \<open>logics/event.go\<close>: the hub that passes events of other services (a user, a
  department, a group, an application account or a role was deleted or renamed) on to
  the handlers the components have registered.  The handlers run in the order of their
  registration, and the first error ends the round.
\<close>

record app_info =
  app_ID :: string
  app_Name :: string

record event =
  userDeletedHandlers :: "(string \<Rightarrow> unit op) list"
  depDeletedHandlers :: "(string \<Rightarrow> unit op) list"
  userGroupDeletedHandlers :: "(string \<Rightarrow> unit op) list"
  orgNameModifiedHandlers :: "(string \<Rightarrow> string \<Rightarrow> unit op) list"
  userNameModifiedHandlers :: "(string \<Rightarrow> string \<Rightarrow> unit op) list"
  depNameModifiedHandlers :: "(string \<Rightarrow> string \<Rightarrow> unit op) list"
  groupNameModifiedHandlers :: "(string \<Rightarrow> string \<Rightarrow> unit op) list"
  appDeletedHandlers :: "(string \<Rightarrow> unit op) list"
  appNameModifiedHandlers :: "(app_info \<Rightarrow> unit op) list"
  roleDeletedHandlers :: "(string \<Rightarrow> unit op) list"
  roleNameModifiedHandlers :: "(string \<Rightarrow> string \<Rightarrow> unit op) list"

definition NewEvent :: event where
  "NewEvent =
     \<lparr> userDeletedHandlers = [], depDeletedHandlers = [], userGroupDeletedHandlers = [],
       orgNameModifiedHandlers = [], userNameModifiedHandlers = [], depNameModifiedHandlers = [],
       groupNameModifiedHandlers = [], appDeletedHandlers = [], appNameModifiedHandlers = [],
       roleDeletedHandlers = [], roleNameModifiedHandlers = [] \<rparr>"

section \<open>Registration\<close>

definition RegisterUserDeleted :: "(string \<Rightarrow> unit op) \<Rightarrow> event \<Rightarrow> event" where
  "RegisterUserDeleted f ev = ev\<lparr> userDeletedHandlers := userDeletedHandlers ev @ [f] \<rparr>"

definition RegisterDepartmentDeleted :: "(string \<Rightarrow> unit op) \<Rightarrow> event \<Rightarrow> event" where
  "RegisterDepartmentDeleted f ev = ev\<lparr> depDeletedHandlers := depDeletedHandlers ev @ [f] \<rparr>"

definition RegisterUserGroupDeleted :: "(string \<Rightarrow> unit op) \<Rightarrow> event \<Rightarrow> event" where
  "RegisterUserGroupDeleted f ev =
     ev\<lparr> userGroupDeletedHandlers := userGroupDeletedHandlers ev @ [f] \<rparr>"

definition RegisterAppDeleted :: "(string \<Rightarrow> unit op) \<Rightarrow> event \<Rightarrow> event" where
  "RegisterAppDeleted f ev = ev\<lparr> appDeletedHandlers := appDeletedHandlers ev @ [f] \<rparr>"

definition RegisterAppNameModified :: "(app_info \<Rightarrow> unit op) \<Rightarrow> event \<Rightarrow> event" where
  "RegisterAppNameModified f ev = ev\<lparr> appNameModifiedHandlers := appNameModifiedHandlers ev @ [f] \<rparr>"

definition RegisterOrgNameModified :: "(string \<Rightarrow> string \<Rightarrow> unit op) \<Rightarrow> event \<Rightarrow> event" where
  "RegisterOrgNameModified f ev = ev\<lparr> orgNameModifiedHandlers := orgNameModifiedHandlers ev @ [f] \<rparr>"

definition RegisterUserNameModified :: "(string \<Rightarrow> string \<Rightarrow> unit op) \<Rightarrow> event \<Rightarrow> event" where
  "RegisterUserNameModified f ev =
     ev\<lparr> userNameModifiedHandlers := userNameModifiedHandlers ev @ [f] \<rparr>"

definition RegisterDepartmentNameModified :: "(string \<Rightarrow> string \<Rightarrow> unit op) \<Rightarrow> event \<Rightarrow> event" where
  "RegisterDepartmentNameModified f ev =
     ev\<lparr> depNameModifiedHandlers := depNameModifiedHandlers ev @ [f] \<rparr>"

definition RegisterUserGroupNameModified :: "(string \<Rightarrow> string \<Rightarrow> unit op) \<Rightarrow> event \<Rightarrow> event" where
  "RegisterUserGroupNameModified f ev =
     ev\<lparr> groupNameModifiedHandlers := groupNameModifiedHandlers ev @ [f] \<rparr>"

definition RegisterRoleDeleted :: "(string \<Rightarrow> unit op) \<Rightarrow> event \<Rightarrow> event" where
  "RegisterRoleDeleted f ev = ev\<lparr> roleDeletedHandlers := roleDeletedHandlers ev @ [f] \<rparr>"

definition RegisterRoleNameModified :: "(string \<Rightarrow> string \<Rightarrow> unit op) \<Rightarrow> event \<Rightarrow> event" where
  "RegisterRoleNameModified f ev =
     ev\<lparr> roleNameModifiedHandlers := roleNameModifiedHandlers ev @ [f] \<rparr>"


section \<open>Dispatch\<close>

definition UserDeleted :: "event \<Rightarrow> string \<Rightarrow> unit op" where
  "UserDeleted ev userID = iterM (\<lambda>f. f userID) (userDeletedHandlers ev)"

definition DepartmentDeleted :: "event \<Rightarrow> string \<Rightarrow> unit op" where
  "DepartmentDeleted ev depID = iterM (\<lambda>f. f depID) (depDeletedHandlers ev)"

definition UserGroupDeleted :: "event \<Rightarrow> string \<Rightarrow> unit op" where
  "UserGroupDeleted ev groupID = iterM (\<lambda>f. f groupID) (userGroupDeletedHandlers ev)"

definition AppDeleted :: "event \<Rightarrow> string \<Rightarrow> unit op" where
  "AppDeleted ev appID = iterM (\<lambda>f. f appID) (appDeletedHandlers ev)"

definition AppNameModified :: "event \<Rightarrow> app_info \<Rightarrow> unit op" where
  "AppNameModified ev info = iterM (\<lambda>f. f info) (appNameModifiedHandlers ev)"

definition OrgNameModified :: "event \<Rightarrow> string \<Rightarrow> string \<Rightarrow> accessor_type \<Rightarrow> unit op" where
  "OrgNameModified ev i name orgType =
     bindM (iterM (\<lambda>f. f i name)
        (case orgType of
           AccessorUser \<Rightarrow> userNameModifiedHandlers ev
         | AccessorDepartment \<Rightarrow> depNameModifiedHandlers ev
         | AccessorGroup \<Rightarrow> groupNameModifiedHandlers ev
         | _ \<Rightarrow> []))
       (\<lambda>_. iterM (\<lambda>f. f i name) (orgNameModifiedHandlers ev))"

definition RoleDeleted :: "event \<Rightarrow> string \<Rightarrow> unit op" where
  "RoleDeleted ev roleID = iterM (\<lambda>f. f roleID) (roleDeletedHandlers ev)"

definition RoleNameModified :: "event \<Rightarrow> string \<Rightarrow> string \<Rightarrow> unit op" where
  "RoleNameModified ev roleID name = iterM (\<lambda>f. f roleID name) (roleNameModifiedHandlers ev)"

lemmas register_defs = RegisterUserDeleted_def RegisterDepartmentDeleted_def
  RegisterUserGroupDeleted_def RegisterAppDeleted_def RegisterAppNameModified_def
  RegisterOrgNameModified_def RegisterUserNameModified_def RegisterDepartmentNameModified_def
  RegisterUserGroupNameModified_def RegisterRoleDeleted_def RegisterRoleNameModified_def

lemmas dispatch_defs = UserDeleted_def DepartmentDeleted_def UserGroupDeleted_def AppDeleted_def
  AppNameModified_def OrgNameModified_def RoleDeleted_def RoleNameModified_def

text \<open>
  A round of handlers succeeds exactly when every handler does; an error is the one of
  the first failing handler, before which all others have run.
\<close>

lemma iterM_Inl:
  "iterM f xs s = (Inl er, s') \<longleftrightarrow>
     (\<exists>ys x zs s1. xs = ys @ x # zs \<and> iterM f ys s = (Inr (), s1) \<and> f x s1 = (Inl er, s'))"
proof
  show "\<exists>ys x zs s1. xs = ys @ x # zs \<and> iterM f ys s = (Inr (), s1) \<and> f x s1 = (Inl er, s')"
    if "iterM f xs s = (Inl er, s')"
    using that
  proof (induction xs arbitrary: s)
    case (Cons x xs)
    show ?case
    proof (cases rule: bindM_cases [of "f x" s "\<lambda>_. iterM f xs"])
      case (Err er' s'')
      then have "f x s = (Inl er, s')" using Cons.prems by simp
      then show ?thesis by (intro exI [of _ "[]"]) simp
    next
      case (Ok u s1)
      then have "iterM f xs s1 = (Inl er, s')" using Cons.prems by simp
      then obtain ys y zs s2 where "xs = ys @ y # zs" "iterM f ys s1 = (Inr (), s2)" "f y s2 = (Inl er, s')"
        using Cons.IH by blast
      then show ?thesis
        using Ok(1) by (intro exI [of _ "x # ys"] exI [of _ y] exI [of _ zs] exI [of _ s2])
          (simp add: bindM_def)
    qed
  qed simp
next
  assume "\<exists>ys x zs s1. xs = ys @ x # zs \<and> iterM f ys s = (Inr (), s1) \<and> f x s1 = (Inl er, s')"
  then show "iterM f xs s = (Inl er, s')"
    by (auto simp: iterM_append bindM_def)
qed

end
