(* ===== verification/Roles.thy ===== *)
theory Roles
  imports RoleDB ResourceTypes Events
begin

text \<open>
  \<open>logics/role.go\<close>: roles, their members, and the lookups the decision uses.  The event
  hub is passed as an argument to the operations that fire an event.
\<close>

section \<open>Constants\<close>

definition rootDepID :: string where
  "rootDepID = ''00000000-0000-0000-0000-000000000000''"

definition superAdminRoleID :: string where
  "superAdminRoleID = ''7dcfcc9c-ad02-11e8-aa06-000c29358ad6''"

definition systemAdminRoleID :: string where
  "systemAdminRoleID = ''d2bd2082-ad03-11e8-aa06-000c29358ad6''"

definition securityAdminRoleID :: string where
  "securityAdminRoleID = ''d8998f72-ad03-11e8-aa06-000c29358ad6''"

definition auditAdminRoleID :: string where
  "auditAdminRoleID = ''def246f2-ad03-11e8-aa06-000c29358ad6''"

definition organizationAdminRoleID :: string where
  "organizationAdminRoleID = ''e63e1c88-ad03-11e8-aa06-000c29358ad6''"

definition organizationAuditRoleID :: string where
  "organizationAuditRoleID = ''f06ac18e-ad03-11e8-aa06-000c29358ad6''"


section \<open>Checks\<close>

definition role_checkVisitorType :: "env \<Rightarrow> visitor \<Rightarrow> err + unit" where
  "role_checkVisitorType e visitor =
     bindE (if vis_Type visitor = RealName then um_GetUserRolesByUserID e (vis_ID visitor) else Inr [])
       (\<lambda>roleTypes. checkVisitorType visitor roleTypes [RealName] [SuperAdmin, SystemAdmin, SecurityAdmin])"

interpretation role_guard:
  visitor_guard role_checkVisitorType "admin_with {SuperAdmin, SystemAdmin, SecurityAdmin}"
  by unfold_locales (auto simp: role_checkVisitorType_def admin_with_def bindE_Inr_iff
      checkVisitorType_iff split: if_splits)

primrec collectScopeIDs :: "resource_type_scope list \<Rightarrow> (string, bool) gomap \<Rightarrow> err + string list" where
  "collectScopeIDs [] checkDupMap = Inr []"
| "collectScopeIDs (v # rest) checkDupMap =
     (if rts_ResourceTypeID v = '''' then Inl PublicBadRequest
      else if map_of checkDupMap (rts_ResourceTypeID v) \<noteq> None then Inl PublicBadRequest
      else bindE (collectScopeIDs rest (mset_true (rts_ResourceTypeID v) checkDupMap)) (\<lambda>ids.
             Inr (rts_ResourceTypeID v # ids)))"

text \<open>Appending nothing to a \<open>nil\<close> slice leaves it \<open>nil\<close>.\<close>

definition appended :: "'a list \<Rightarrow> 'a list option" where
  "appended xs = (if xs = [] then None else Some xs)"

definition checkAndFilterResourceTypeScopeInfo ::
    "env \<Rightarrow> resource_type_scope_info \<Rightarrow> resource_type_scope_info op" where
  "checkAndFilterResourceTypeScopeInfo e info =
     (if rtsi_Unlimited info then returnM (zero_scope\<lparr> rtsi_Unlimited := True \<rparr>)
      else bindM (liftE (collectScopeIDs (slice (rtsi_Types info)) [])) (\<lambda>resourceTypeIDs.
        if resourceTypeIDs = [] then returnM zero_scope
        else bindM (resourceType_GetByIDsInternal e resourceTypeIDs) (\<lambda>infosMap.
          returnM (zero_scope\<lparr> rtsi_Types := appended
            (filter (\<lambda>t. map_of infosMap (rts_ResourceTypeID t) \<noteq> None) (slice (rtsi_Types info))) \<rparr>))))"

definition illegalChars :: string where
  "illegalChars = [CHR ''|'', CHR 0x5C, CHR ''/'', CHR '':'', CHR ''*'', CHR ''?'', CHR 0x22, CHR ''<'', CHR ''>'']"

definition checkName :: "string \<Rightarrow> err + unit" where
  "checkName name =
     (if list_ex (\<lambda>c. c \<in> set illegalChars) name \<or> RuneCountInString name < 1 \<or> RuneCountInString name > 128
      then Inl PublicBadRequest else Inr ())"


section \<open>Creating, deleting and changing roles\<close>

definition role_AddRole :: "env \<Rightarrow> visitor \<Rightarrow> role_info \<Rightarrow> string op" where
  "role_AddRole e visitor role =
     bindM (liftE (role_checkVisitorType e visitor)) (\<lambda>_.
     bindM (liftE (checkName (role_Name role))) (\<lambda>_.
     bindM (roleDB_GetRoleByName e (role_Name role)) (\<lambda>info.
       if role_ID info \<noteq> '''' then throwM RoleNameConflict
       else bindM (checkAndFilterResourceTypeScopeInfo e (role_Scope role)) (\<lambda>scope.
         bindM (newUUID e) (\<lambda>i.
         bindM (roleDB_AddRoles e
             [role\<lparr> role_Scope := scope, role_ID := i, role_Source := RoleSourceUser \<rparr>]) (\<lambda>_.
           returnM i))))))"

definition role_DeleteRole :: "env \<Rightarrow> event \<Rightarrow> visitor \<Rightarrow> string \<Rightarrow> unit op" where
  "role_DeleteRole e ev visitor roleID =
     bindM (liftE (role_checkVisitorType e visitor)) (\<lambda>_.
     bindM (roleDB_GetRoleByID e roleID) (\<lambda>info.
       if role_ID info \<noteq> '''' then
         bindM (roleDB_DeleteRole e (role_ID info)) (\<lambda>_.
         bindM (memberDB_DeleteByRoleID e roleID) (\<lambda>_.
           RoleDeleted ev roleID))
       else returnM ()))"

definition role_ModifyRole ::
    "env \<Rightarrow> event \<Rightarrow> visitor \<Rightarrow> string \<Rightarrow> string \<Rightarrow> bool \<Rightarrow> string \<Rightarrow> bool \<Rightarrow>
     resource_type_scope_info \<Rightarrow> bool \<Rightarrow> unit op" where
  "role_ModifyRole e ev visitor roleID name nameChanged description descriptionChanged scopes scopesChanged =
     bindM (liftE (role_checkVisitorType e visitor)) (\<lambda>_.
     bindM (roleDB_GetRoleByID e roleID) (\<lambda>info.
       if role_ID info = '''' then throwM RoleNotFound
       else bindM
         (if nameChanged
          then bindM (roleDB_GetRoleByName e name) (\<lambda>other.
            if role_ID other \<noteq> '''' \<and> role_ID other \<noteq> roleID then throwM RoleNameConflict else returnM ())
          else returnM ()) (\<lambda>_.
       bindM (if scopesChanged then checkAndFilterResourceTypeScopeInfo e scopes else returnM scopes)
         (\<lambda>scopes'.
       bindM (roleDB_ModifyRole e roleID name nameChanged description descriptionChanged scopes' scopesChanged)
         (\<lambda>_.
         if nameChanged then RoleNameModified ev roleID name else returnM ())))))"


section \<open>Reading roles\<close>

record type_scope_info =
  tsi_ID :: string
  tsi_Name :: string
  tsi_Description :: string
  tsi_InstanceURL :: string
  tsi_DataStruct :: string
  tsi_TypeOperation :: "operation_response list"
  tsi_InstanceOperation :: "operation_response list"

datatype scope_with_operation =
  ScopeWithOperation (swo_Info: type_scope_info) (swo_Children: "scope_with_operation list")

datatype view_mode = ResourceTypeViewModeFlat | ResourceTypeViewModeHierarchy | ResourceTypeViewModeOther

definition role_getOperationNameByLanguage :: "string \<Rightarrow> operation_name list \<Rightarrow> string" where
  "role_getOperationNameByLanguage language operationName =
     (case find (\<lambda>n. EqualFold (opn_Language n) language) operationName of
        None \<Rightarrow> '''' | Some n \<Rightarrow> opn_Value n)"

definition role_getResourceTypeInfo ::
    "visitor \<Rightarrow> string \<Rightarrow> (string, resource_type) gomap \<Rightarrow> type_scope_info option" where
  "role_getResourceTypeInfo visitor resourceTypeID infoMap =
     (case map_of infoMap resourceTypeID of
        None \<Rightarrow> None
      | Some t \<Rightarrow>
          (let resp = (\<lambda>operation.
                 \<lparr> opr_ID = rto_ID operation,
                   opr_Name = role_getOperationNameByLanguage (vis_Language visitor) (rto_Name operation),
                   opr_Description = rto_Description operation \<rparr>)
           in Some \<lparr> tsi_ID = rt_ID t, tsi_Name = rt_Name t, tsi_Description = rt_Description t,
                     tsi_InstanceURL = rt_InstanceURL t, tsi_DataStruct = rt_DataStruct t,
                     tsi_TypeOperation =
                       map resp (filter (\<lambda>op. ScopeType \<in> set (rto_Scope op)) (rt_Operation t)),
                     tsi_InstanceOperation =
                       map resp (filter (\<lambda>op. ScopeInstance \<in> set (rto_Scope op)) (rt_Operation t)) \<rparr>))"

definition getResourceTypeScopeInfoFlat ::
    "visitor \<Rightarrow> string list \<Rightarrow> (string, resource_type) gomap \<Rightarrow> scope_with_operation list" where
  "getResourceTypeScopeInfoFlat visitor resourceTypeIDs infoMap =
     List.map_filter (\<lambda>i. map_option (\<lambda>info. ScopeWithOperation info [])
       (role_getResourceTypeInfo visitor i infoMap)) resourceTypeIDs"

fun collectChildrenIDs :: "hierarchy list \<Rightarrow> (string, bool) gomap \<Rightarrow> (string, bool) gomap" where
  "collectChildrenIDs [] childrenMap = childrenMap"
| "collectChildrenIDs (Hierarchy i cs # rest) childrenMap =
     collectChildrenIDs rest (collectChildrenIDs cs (mset_true i childrenMap))"

fun fillChildrenFromHierarchy ::
    "visitor \<Rightarrow> (string, bool) gomap \<Rightarrow> (string, resource_type) gomap \<Rightarrow> hierarchy list \<Rightarrow>
     scope_with_operation list" where
  "fillChildrenFromHierarchy visitor idSet infoMap [] = []"
| "fillChildrenFromHierarchy visitor idSet infoMap (Hierarchy i cs # rest) =
     (if \<not> mtrue idSet i then fillChildrenFromHierarchy visitor idSet infoMap rest
      else (case role_getResourceTypeInfo visitor i infoMap of
              None \<Rightarrow> fillChildrenFromHierarchy visitor idSet infoMap rest
            | Some scope \<Rightarrow>
                ScopeWithOperation scope (fillChildrenFromHierarchy visitor idSet infoMap cs)
                # fillChildrenFromHierarchy visitor idSet infoMap rest))"

definition hierarchyEntry ::
    "visitor \<Rightarrow> string list \<Rightarrow> (string, resource_type) gomap \<Rightarrow> (string, hierarchy) gomap \<Rightarrow>
     (string, bool) gomap \<Rightarrow> (string, bool) gomap \<Rightarrow> string \<Rightarrow> scope_with_operation option" where
  "hierarchyEntry visitor resourceTypeIDs infoMap hierarchyMap topMap childrenMap i =
     (if \<not> mtrue topMap i \<and> mtrue childrenMap i then None
      else (case role_getResourceTypeInfo visitor i infoMap of
              None \<Rightarrow> None
            | Some info \<Rightarrow>
                Some (ScopeWithOperation info
                  (case map_of hierarchyMap i of
                     None \<Rightarrow> []
                   | Some h \<Rightarrow> fillChildrenFromHierarchy visitor (fold mset_true resourceTypeIDs [])
                                infoMap (hier_Children h)))))"

definition getResourceTypeScopeInfoHierarchy ::
    "env \<Rightarrow> visitor \<Rightarrow> string list \<Rightarrow> (string, resource_type) gomap \<Rightarrow> scope_with_operation list op" where
  "getResourceTypeScopeInfoHierarchy e visitor resourceTypeIDs infoMap =
     bindM (hierarchy_GetAll e) (\<lambda>hierarchyMap.
       let (topMap, childrenMap) =
             fold (\<lambda>(_, h) (topMap, childrenMap).
                 (mset_true (hier_ID h) topMap, collectChildrenIDs (hier_Children h) childrenMap))
               (range_map (map_order e) hierarchyMap) ([], [])
       in returnM (List.map_filter
            (hierarchyEntry visitor resourceTypeIDs infoMap hierarchyMap topMap childrenMap) resourceTypeIDs))"

definition getResourceTypeScopeInfo ::
    "env \<Rightarrow> visitor \<Rightarrow> resource_type_scope_info \<Rightarrow> view_mode \<Rightarrow> (bool \<times> scope_with_operation list) op" where
  "getResourceTypeScopeInfo e visitor info mode =
     bindM (if rtsi_Unlimited info
            then bindM (resourceType_GetAllInternal e) (\<lambda>infos.
              returnM (map rt_ID infos, resourceTypeInfoMap infos))
            else (let ids = map rts_ResourceTypeID (slice (rtsi_Types info)) in
              bindM (resourceType_GetByIDsInternal e ids) (\<lambda>infoMap. returnM (ids, infoMap))))
       (\<lambda>(resourceTypeIDs, infoMap).
     bindM (case mode of
              ResourceTypeViewModeFlat \<Rightarrow>
                returnM (getResourceTypeScopeInfoFlat visitor resourceTypeIDs infoMap)
            | ResourceTypeViewModeHierarchy \<Rightarrow>
                getResourceTypeScopeInfoHierarchy e visitor resourceTypeIDs infoMap
            | ResourceTypeViewModeOther \<Rightarrow> returnM []) (\<lambda>types.
       returnM (rtsi_Unlimited info, types)))"

record role_with_operation =
  rwo_ID :: string
  rwo_Name :: string
  rwo_Description :: string
  rwo_Source :: role_source
  rwo_Scope :: "bool \<times> scope_with_operation list"

definition role_GetRoleByID :: "env \<Rightarrow> visitor \<Rightarrow> string \<Rightarrow> view_mode \<Rightarrow> role_with_operation op" where
  "role_GetRoleByID e visitor roleID mode =
     bindM (liftE (role_checkVisitorType e visitor)) (\<lambda>_.
     bindM (roleDB_GetRoleByID e roleID) (\<lambda>tmpInfo.
       if role_ID tmpInfo = '''' then throwM RoleNotFound
       else bindM (getResourceTypeScopeInfo e visitor (role_Scope tmpInfo) mode) (\<lambda>scope.
         returnM \<lparr> rwo_ID = role_ID tmpInfo, rwo_Name = role_Name tmpInfo,
                   rwo_Description = role_Description tmpInfo, rwo_Source = role_Source tmpInfo,
                   rwo_Scope = scope \<rparr>)))"

definition scopeTypeIDs :: "role_info list \<Rightarrow> string list" where
  "scopeTypeIDs infos =
     snd (fold (\<lambda>info acc.
       if rtsi_Unlimited (role_Scope info) then acc
       else fold (\<lambda>t (seen, ids).
           if map_of seen (rts_ResourceTypeID t) = None
           then (mset_true (rts_ResourceTypeID t) seen, ids @ [rts_ResourceTypeID t])
           else (seen, ids)) (slice (rtsi_Types (role_Scope info))) acc)
       infos ([], []))"

definition nameScopes :: "(string, resource_type) gomap \<Rightarrow> role_info \<Rightarrow> role_info" where
  "nameScopes infosMap info =
     (if rtsi_Unlimited (role_Scope info) then info
      else info\<lparr> role_Scope := (role_Scope info)\<lparr> rtsi_Types :=
             map_option (map (\<lambda>t. case map_of infosMap (rts_ResourceTypeID t) of
                 None \<Rightarrow> t | Some rt \<Rightarrow> t\<lparr> rts_ResourceTypeName := rt_Name rt \<rparr>))
               (rtsi_Types (role_Scope info)) \<rparr> \<rparr>)"

definition role_GetRoles :: "env \<Rightarrow> visitor \<Rightarrow> role_search_info \<Rightarrow> (nat \<times> role_info list) op" where
  "role_GetRoles e visitor info0 =
     bindM (liftE (role_checkVisitorType e visitor)) (\<lambda>_.
       let info = info0\<lparr> rsi_Keyword := TrimSpace (rsi_Keyword info0) \<rparr> in
       bindM (roleDB_GetRolesSum e info) (\<lambda>num.
         if num > 0 then
           bindM (roleDB_GetRoles e info) (\<lambda>infos.
           bindM (if scopeTypeIDs infos \<noteq> [] then resourceType_GetByIDsInternal e (scopeTypeIDs infos)
                  else returnM []) (\<lambda>infosMap.
             returnM (num, map (nameScopes infosMap) infos)))
         else returnM (num, [])))"


section \<open>Members\<close>

definition role_AddRoleMembers ::
    "env \<Rightarrow> visitor \<Rightarrow> string \<Rightarrow> (string, role_member_info) gomap \<Rightarrow> unit op" where
  "role_AddRoleMembers e visitor roleID infos =
     bindM (liftE (role_checkVisitorType e visitor)) (\<lambda>_.
     bindM (roleDB_GetRoleByID e roleID) (\<lambda>info.
       if role_ID info = '''' then throwM RoleNotFound
       else bindM (memberDB_GetRoleMembersByRoleID e roleID) (\<lambda>oldMembers.
         let oldMap = fold (\<lambda>m. mset_true (mem_ID m)) oldMembers [];
             newMembers = filter (\<lambda>m. map_of oldMap (mem_ID m) = None)
                            (map snd (range_map (map_order e) infos));
             idTypeMap = fold (\<lambda>m. mput (mem_ID m) (mem_Type m)) newMembers []
         in if newMembers = [] then returnM ()
            else bindM (liftE (um_GetNameByAccessorIDs e idTypeMap)) (\<lambda>idNameMap.
              memberDB_AddRoleMembers e roleID
                (map (\<lambda>m. m\<lparr> mem_Name :=
                    (case map_of idNameMap (mem_ID m) of None \<Rightarrow> '''' | Some n \<Rightarrow> n) \<rparr>) newMembers)))))"

definition role_DeleteRoleMembers ::
    "env \<Rightarrow> visitor \<Rightarrow> string \<Rightarrow> (string, role_member_info) gomap \<Rightarrow> unit op" where
  "role_DeleteRoleMembers e visitor roleID infos =
     bindM (liftE (role_checkVisitorType e visitor)) (\<lambda>_.
     bindM (roleDB_GetRoleByID e roleID) (\<lambda>info.
       if role_ID info = '''' then throwM RoleNotFound
       else memberDB_DeleteRoleMembers e roleID
              (map (\<lambda>kv. mem_ID (snd kv)) (range_map (map_order e) infos))))"

definition role_AddOrDeleteRoleMemebers ::
    "env \<Rightarrow> visitor \<Rightarrow> string \<Rightarrow> string \<Rightarrow> (string, role_member_info) gomap \<Rightarrow> unit op" where
  "role_AddOrDeleteRoleMemebers e visitor method roleID infos =
     (if method = ''POST'' then role_AddRoleMembers e visitor roleID infos
      else if method = ''DELETE'' then role_DeleteRoleMembers e visitor roleID infos
      else throwM PublicBadRequest)"

definition fillParents :: "env \<Rightarrow> role_member_info \<Rightarrow> err + role_member_info" where
  "fillParents e m =
     (case mem_Type m of
        AccessorUser \<Rightarrow> Inr m
      | AccessorDepartment \<Rightarrow>
          bindE (um_GetParentDepartmentsByDepartmentID e (mem_ID m)) (\<lambda>dep.
            Inr (m\<lparr> mem_ParentDeps := mem_ParentDeps m @ [dep] \<rparr>))
      | _ \<Rightarrow> Inr (m\<lparr> mem_ParentDeps := [] \<rparr>))"

definition role_GetRoleMembers ::
    "env \<Rightarrow> visitor \<Rightarrow> string \<Rightarrow> role_member_search_info \<Rightarrow> (nat \<times> role_member_info list) op" where
  "role_GetRoleMembers e visitor roleID info0 =
     bindM (liftE (role_checkVisitorType e visitor)) (\<lambda>_.
     bindM (roleDB_GetRoleByID e roleID) (\<lambda>roleInfo.
       if role_ID roleInfo = '''' then throwM RoleNotFound
       else
         (let info = info0\<lparr> rms_Keyword := TrimSpace (rms_Keyword info0) \<rparr> in
          bindM (memberDB_GetRoleMembersNum e roleID info) (\<lambda>num.
            if num > 0 then
              bindM (memberDB_GetPaginationByRoleID e roleID info) (\<lambda>outInfos0.
              bindM (liftE (mapE (fillParents e) outInfos0)) (\<lambda>outInfos.
              bindM (liftE (um_BatchGetUserInfoByID e
                  (map mem_ID (filter (\<lambda>m. mem_Type m = AccessorUser) outInfos)))) (\<lambda>userInfoMaps.
                returnM (num, map (\<lambda>m. if mem_Type m = AccessorUser
                  then m\<lparr> mem_ParentDeps := (case map_of userInfoMaps (mem_ID m) of
                      None \<Rightarrow> [] | Some u \<Rightarrow> ui_ParentDeps u) \<rparr>
                  else m) outInfos))))
            else returnM (num, [])))))"


section \<open>Lookups of the other components\<close>

definition role_GetRoleByMembers :: "env \<Rightarrow> string list \<Rightarrow> role_info list op" where
  "role_GetRoleByMembers e memberIDs = memberDB_GetRoleByMembers e memberIDs"

definition role_GetRolesByIDs :: "env \<Rightarrow> string list \<Rightarrow> (string, role_info) gomap op" where
  "role_GetRolesByIDs e roleIDs = roleDB_GetRoleByIDs e roleIDs"


text \<open>
  \<open>GetResourceTypeRoles\<close>: the user-defined roles that cover a resource type, newest
  first, paged in memory.
\<close>

record resource_type_role_search_info =
  rtr_Offset :: int
  rtr_Limit :: int
  rtr_Keyword :: string
  rtr_ResourceTypeID :: string

definition coversType :: "string \<Rightarrow> role_info \<Rightarrow> bool" where
  "coversType resourceTypeID role \<longleftrightarrow>
     rtsi_Unlimited (role_Scope role) \<or>
     list_ex (\<lambda>v. rts_ResourceTypeID v = resourceTypeID) (slice (rtsi_Types (role_Scope role)))"

definition newestFirst :: "role_info \<Rightarrow> role_info \<Rightarrow> int" where
  "newestFirst a b =
     (if role_ModifyTime a > role_ModifyTime b then -1
      else if role_ModifyTime a < role_ModifyTime b then 1 else 0)"

definition role_GetResourceTypeRoles ::
    "env \<Rightarrow> resource_type_role_search_info \<Rightarrow> (nat \<times> role_info list) op" where
  "role_GetResourceTypeRoles e info =
     bindM (resourceType_GetByIDsInternal e [rtr_ResourceTypeID info]) (\<lambda>resourceTypeMap.
       if map_of resourceTypeMap (rtr_ResourceTypeID info) = None then throwM PublicBadRequest
       else bindM (roleDB_GetAllUserRolesInternal e (TrimSpace (rtr_Keyword info))) (\<lambda>roles.
         let resultRoles0 = filter (coversType (rtr_ResourceTypeID info)) roles in
         if resultRoles0 = [] then returnM (0, [])
         else
           (let resultRoles = sort_roles e newestFirst resultRoles0;
                count = length resultRoles;
                start = rtr_Offset info;
                end0 = wrap64 (start + rtr_Limit info)
            in if start \<ge> int count then returnM (count, [])
               else bindM (liftE (go_slice start (if end0 > int count then int count else end0) resultRoles))
                 (\<lambda>outInfo. returnM (count, outInfo)))))"

text \<open>\<open>GetAccessorRoles\<close>: the roles of a user, in the configured order, paged in memory.\<close>

record accessor_role_search_info =
  ars_AccessorID :: string
  ars_Offset :: int
  ars_Limit :: int
  ars_RoleSources :: "role_source list"

definition initRoleOrder :: "json \<Rightarrow> err + (string, nat) gomap" where
  "initRoleOrder roleOrderStr =
     bindE (unmarshal_slice roleOrderStr) (\<lambda>rolesJson.
       foldE (\<lambda>(i, roleJson) m.
           bindE (as_obj roleJson) (\<lambda>roleDr.
           bindE (case map_of roleDr ''id'' of None \<Rightarrow> Inr '''' | Some j \<Rightarrow> as_str j) (\<lambda>roleID.
             Inr (mput roleID (i + 1) m))))
         (zip [0 ..< length rolesJson] rolesJson) [])"

definition roleTypeToken :: "system_role \<Rightarrow> string list" where
  "roleTypeToken roleType =
     (case roleType of
        SuperAdmin \<Rightarrow> [superAdminRoleID]
      | SystemAdmin \<Rightarrow> [systemAdminRoleID]
      | SecurityAdmin \<Rightarrow> [securityAdminRoleID]
      | AuditAdmin \<Rightarrow> [auditAdminRoleID]
      | OrganizationAdmin \<Rightarrow> [organizationAdminRoleID]
      | OrganizationAudit \<Rightarrow> [organizationAuditRoleID]
      | NormalUser \<Rightarrow> [])"

definition byRoleOrder :: "(string, nat) gomap \<Rightarrow> role_info \<Rightarrow> role_info \<Rightarrow> int" where
  "byRoleOrder roleSortOrder a b =
     (case (map_of roleSortOrder (role_ID a), map_of roleSortOrder (role_ID b)) of
        (Some orderA, Some orderB) \<Rightarrow> if orderA < orderB then -1 else if orderA > orderB then 1 else 0
      | (Some _, None) \<Rightarrow> -1
      | (None, Some _) \<Rightarrow> 1
      | (None, None) \<Rightarrow> newestFirst a b)"

text \<open>One round of the loop that filters by source and drops repeated roles.\<close>

definition sourceStep ::
    "role_source list \<Rightarrow> role_info \<Rightarrow> (string, bool) gomap \<times> role_info list \<Rightarrow>
     (string, bool) gomap \<times> role_info list" where
  "sourceStep sources role acc =
     (case acc of (dupMap, tmpRoles) \<Rightarrow>
        if map_of dupMap (role_ID role) \<noteq> None then acc
        else if role_Source role \<noteq> RoleSourceUnset \<and> role_Source role \<in> set sources
        then (mset_true (role_ID role) dupMap, tmpRoles @ [role])
        else acc)"

text \<open>The bounds of the page, as \<open>GetAccessorRoles\<close> clamps them.\<close>

definition accessorPage :: "int \<Rightarrow> int \<Rightarrow> role_info list \<Rightarrow> err + role_info list" where
  "accessorPage offset limit tmpRoles =
     (let n = int (length tmpRoles);
          start = (if offset > n then n else offset);
          end0 = wrap64 (offset + limit);
          end1 = (if end0 > n then n else end0);
          start1 = (if start < 0 then 0 else start);
          end2 = (if end1 < start1 then start1 else end1)
      in go_slice start1 end2 tmpRoles)"

definition role_GetAccessorRoles ::
    "env \<Rightarrow> (string, nat) gomap \<Rightarrow> accessor_role_search_info \<Rightarrow> (nat \<times> role_info list) op" where
  "role_GetAccessorRoles e roleSortOrder param =
     bindM (liftE (um_GetAccessorIDsByUserID e (ars_AccessorID param))) (\<lambda>ids.
     bindM (memberDB_GetRoleByMembers e (ids @ [rootDepID])) (\<lambda>roles.
     bindM (if RoleSourceSystem \<in> set (ars_RoleSources param)
            then bindM (liftE (um_GetUserRolesByUserID e (ars_AccessorID param))) (\<lambda>roleTypes.
                   returnM (concat (map roleTypeToken roleTypes)))
            else returnM []) (\<lambda>systemTokens.
       let tokens = map role_ID roles @ systemTokens in
       if tokens = [] then returnM (0, [])
       else bindM (roleDB_GetRoleByIDs e tokens) (\<lambda>infosMap.
         let infos = map (\<lambda>i. case map_of infosMap i of None \<Rightarrow> zero_role | Some r \<Rightarrow> r) tokens;
             sources = (if ars_RoleSources param = [] then [RoleSourceBusiness, RoleSourceUser]
                        else ars_RoleSources param);
             tmpRoles = sort_roles e (byRoleOrder roleSortOrder)
                          (snd (fold (sourceStep sources) infos ([], [])));
             count = length tmpRoles
         in if count = 0 then returnM (0, [])
            else if ars_Limit param = -1 then returnM (count, tmpRoles)
            else bindM (liftE (accessorPage (ars_Offset param) (ars_Limit param) tmpRoles)) (\<lambda>outInfo.
              returnM (count, outInfo))))))"


section \<open>Start-up\<close>

definition checkRoleChange :: "role_info \<Rightarrow> role_info \<Rightarrow> bool" where
  "checkRoleChange old newInfo \<longleftrightarrow>
     role_Name old \<noteq> role_Name newInfo \<or> role_Description old \<noteq> role_Description newInfo \<or>
     role_Scope old \<noteq> role_Scope newInfo"

definition initRoleStep :: "env \<Rightarrow> role_info \<Rightarrow> role_info list \<Rightarrow> role_info list op" where
  "initRoleStep e role tmpRoles =
     bindM (roleDB_GetRoleByName e (role_Name role)) (\<lambda>oldInfo.
       if role_ID oldInfo \<noteq> '''' then
         bindM (if checkRoleChange oldInfo role then roleDB_SetRoleByID e (role_ID oldInfo) role
                else returnM ()) (\<lambda>_. returnM tmpRoles)
       else returnM (tmpRoles @ [role]))"

definition role_InitRoles :: "env \<Rightarrow> role_info list \<Rightarrow> unit op" where
  "role_InitRoles e roles =
     (if roles = [] then returnM ()
      else bindM (foldM (initRoleStep e) roles []) (roleDB_AddRoles e))"

definition role_InitRoleMemebers :: "env \<Rightarrow> (string, role_member_info list) gomap \<Rightarrow> unit op" where
  "role_InitRoleMemebers e infoMap =
     iterM (\<lambda>(roleID, infos).
         bindM (memberDB_GetRoleMembersByRoleID e roleID) (\<lambda>oldMembers.
           let oldMap = fold (\<lambda>m. mset_true (mem_ID m)) oldMembers []
           in memberDB_AddRoleMembers e roleID
                (filter (\<lambda>m. map_of oldMap (mem_ID m) = None) infos)))
       (range_map (map_order e) infoMap)"


section \<open>Handlers of events\<close>

definition deleteMemberByMemberID :: "env \<Rightarrow> string \<Rightarrow> unit op" where
  "deleteMemberByMemberID e memberID = memberDB_DeleteByMemberIDs e [memberID]"

definition updateMemberName :: "env \<Rightarrow> string \<Rightarrow> string \<Rightarrow> unit op" where
  "updateMemberName e memberID name = memberDB_UpdateMemberName e memberID name"

definition role_updateAppName :: "env \<Rightarrow> app_info \<Rightarrow> unit op" where
  "role_updateAppName e info = memberDB_UpdateMemberName e (app_ID info) (app_Name info)"

text \<open>The registrations of \<open>NewLogicsRole\<close>.\<close>

definition role_register :: "env \<Rightarrow> event \<Rightarrow> event" where
  "role_register e ev =
     RegisterAppNameModified (role_updateAppName e)
     (RegisterOrgNameModified (updateMemberName e)
     (RegisterAppDeleted (deleteMemberByMemberID e)
     (RegisterDepartmentDeleted (deleteMemberByMemberID e)
     (RegisterUserGroupDeleted (deleteMemberByMemberID e)
     (RegisterUserDeleted (deleteMemberByMemberID e) ev)))))"

lemmas roles_run [run_simps] = role_checkVisitorType_def appended_def
  checkAndFilterResourceTypeScopeInfo_def illegalChars_def checkName_def role_AddRole_def
  role_DeleteRole_def role_ModifyRole_def role_AddRoleMembers_def role_DeleteRoleMembers_def
  role_GetRoleByMembers_def role_GetRolesByIDs_def coversType_def newestFirst_def
  role_GetResourceTypeRoles_def roleTypeToken_def byRoleOrder_def sourceStep_def accessorPage_def
  role_GetAccessorRoles_def checkRoleChange_def initRoleStep_def role_InitRoles_def
  role_InitRoleMemebers_def deleteMemberByMemberID_def updateMemberName_def role_updateAppName_def

end
