(* ===== verification/RoleFacts.thy ===== *)
theory RoleFacts
  imports Roles
begin

text \<open>
  Results about roles: identifiers and names of roles stay unique, a role has no member
  twice, and the two listings that are paged in memory return the page that was asked for.
\<close>

section \<open>Frames\<close>

lemma keeps_scope_check [keeps_intros]:
  "(\<And>w. f (tock w) = f w) \<Longrightarrow> keeps f (checkAndFilterResourceTypeScopeInfo e s)"
  unfolding checkAndFilterResourceTypeScopeInfo_def by (intro keeps_intros; simp)+

lemma keeps_role_lookups [keeps_intros]:
  assumes "\<And>w. f (tock w) = f w"
  shows "keeps f (role_GetRoleByMembers e ids)" "keeps f (role_GetRolesByIDs e ids)"
    "keeps f (role_GetResourceTypeRoles e info)" "keeps f (role_GetAccessorRoles e ord param)"
  unfolding role_GetRoleByMembers_def role_GetRolesByIDs_def role_GetResourceTypeRoles_def
    role_GetAccessorRoles_def Let_def
  using assms by (intro keeps_intros; simp)+

lemma keeps_role_views [keeps_intros]:
  assumes "\<And>w. f (tock w) = f w"
  shows "keeps f (getResourceTypeScopeInfo e v s m)" "keeps f (role_GetRoleByID e v i m)"
    "keeps f (role_GetRoles e v info)" "keeps f (role_GetRoleMembers e v i minfo)"
proof -
  have h: "keeps f (getResourceTypeScopeInfoHierarchy e v ids m)" for ids m
    unfolding getResourceTypeScopeInfoHierarchy_def Let_def using assms by (intro keeps_intros; simp)+
  have "keeps f (case m of ResourceTypeViewModeFlat \<Rightarrow> returnM (g a b)
      | ResourceTypeViewModeHierarchy \<Rightarrow> getResourceTypeScopeInfoHierarchy e v a b
      | ResourceTypeViewModeOther \<Rightarrow> returnM [])" for a b and g :: "_ \<Rightarrow> _ \<Rightarrow> scope_with_operation list"
    using h by (cases m) (auto intro: keeps_intros)
  then show scope: "keeps f (getResourceTypeScopeInfo e v s m)" for s
    unfolding getResourceTypeScopeInfo_def Let_def
    using assms by (intro keeps_bindM keeps_if keeps_basic keeps_case keeps_resourceType_reads; simp)
  show "keeps f (role_GetRoleByID e v i m)"
    unfolding role_GetRoleByID_def using assms scope by (intro keeps_intros; simp)
  show "keeps f (role_GetRoles e v info)" "keeps f (role_GetRoleMembers e v i minfo)"
    unfolding role_GetRoles_def role_GetRoleMembers_def Let_def using assms by (intro keeps_intros; simp)+
qed

lemma keeps_role_member_ops [keeps_intros]:
  assumes "\<And>w. f (tock w) = f w" and "\<And>w ms. f (w\<lparr>t_role_member := ms\<rparr>) = f w"
    and "\<And>w n. f (w\<lparr>next_id := n\<rparr>) = f w"
  shows "keeps f (role_AddRoleMembers e v i ms)" "keeps f (role_DeleteRoleMembers e v i ms)"
    "keeps f (role_AddOrDeleteRoleMemebers e v meth i ms)" "keeps f (role_InitRoleMemebers e mm)"
    "keeps f (deleteMemberByMemberID e m)" "keeps f (updateMemberName e m n)"
    "keeps f (role_updateAppName e a)"
  unfolding role_AddRoleMembers_def role_DeleteRoleMembers_def role_AddOrDeleteRoleMemebers_def
    role_InitRoleMemebers_def deleteMemberByMemberID_def updateMemberName_def role_updateAppName_def Let_def
  using assms by (intro keeps_intros; simp)+

lemma keeps_role_ops [keeps_intros]:
  assumes "\<And>w. f (tock w) = f w" and "\<And>w rs. f (w\<lparr>t_role := rs\<rparr>) = f w"
    and "\<And>w n. f (w\<lparr>next_id := n\<rparr>) = f w"
  shows "keeps f (role_AddRole e v r)" "keeps f (role_InitRoles e rs)"
  unfolding role_AddRole_def role_InitRoles_def initRoleStep_def
  using assms by (intro keeps_intros; simp)+


section \<open>Names and identifiers of roles\<close>

definition scope_stored :: "role_row \<Rightarrow> bool" where
  "scope_stored r \<longleftrightarrow> (\<exists>info. r_resource_scope r = resourceTypeScopeInfoToString info)"

definition role_rows_ok :: "role_row list \<Rightarrow> bool" where
  "role_rows_ok rows \<longleftrightarrow>
     distinct (map r_id rows) \<and> distinct (map r_name rows) \<and> '''' \<notin> r_id ` set rows \<and>
     (\<forall>r\<in>set rows. scope_stored r)"

definition roles_ok :: "world \<Rightarrow> bool" where
  "roles_ok w \<longleftrightarrow> role_rows_ok (t_role w)"

lemma roles_ok_keeps: "keeps t_role m \<Longrightarrow> preserves roles_ok m"
  using keeps_preserves [of t_role m role_rows_ok] by (simp add: roles_ok_def [abs_def])

lemma scan_stored:
  assumes "scope_stored r"
  obtains scope where "scan_role r = Inr \<lparr> role_ID = r_id r, role_Name = r_name r,
      role_Description = r_description r, role_Source = r_source r, role_Scope = scope,
      role_CreateTime = r_created_time r, role_ModifyTime = r_modify_time r \<rparr>"
  using assms by (auto simp: scope_stored_def scan_role_def scope_roundtrip)

lemma scan_role_id: "scan_role r = Inr info \<Longrightarrow> role_ID info = r_id r \<and> role_Name info = r_name r"
  by (auto simp: scan_role_def bindE_Inr_iff)

lemma scan_role_no_source_id:
  "scan_role_no_source r = Inr info \<Longrightarrow> role_ID info = r_id r \<and> role_Name info = r_name r"
  by (cases "resourceTypeScopeInfoFromString (r_resource_scope r)")
    (auto simp: scan_role_no_source_def scan_role_def)

lemma GetRoleByName_owner:
  assumes "roleDB_GetRoleByName e n w = (Inr info, w')" "roles_ok w" "r \<in> set (t_role w)" "r_name r = n"
  shows "role_ID info = r_id r"
proof -
  have "filter (\<lambda>r. r_name r = n) (t_role w) = [r]"
    using filter_distinct_key [of r_name "t_role w" r] assms(2-4) by (simp add: roles_ok_def role_rows_ok_def)
  then obtain x where "scan_role_no_source r = Inr x" "info = x"
    using assms(1) by (auto simp: roleDB_GetRoleByName_def bindE_Inr_iff last_role_def)
  then show ?thesis by (simp add: scan_role_no_source_id)
qed

lemma GetRoleByName_free:
  assumes "roleDB_GetRoleByName e n w = (Inr info, w')" "role_ID info = ''''" "roles_ok w"
  shows "n \<notin> r_name ` set (t_role w)"
  using GetRoleByName_owner [OF assms(1,3)] assms(2,3)
  by (force simp: roles_ok_def role_rows_ok_def)

definition added_role :: "role_row list \<Rightarrow> string \<Rightarrow> role_info \<Rightarrow> world \<Rightarrow> bool" where
  "added_role R i role w \<longleftrightarrow> roles_ok w \<and>
     (\<exists>r. t_role w = R @ [r] \<and> r_id r = i \<and> r_name r = role_Name role \<and> r_source r = RoleSourceUser)"

lemma AddRoles_roles_ok:
  assumes "role_rows_ok R" "role_ID role \<noteq> ''''" "role_ID role \<notin> r_id ` set R"
    "role_Name role \<notin> r_name ` set R" "role_Source role = RoleSourceUser"
  shows "triple roles_ok (\<lambda>w. t_role w = R) (roleDB_AddRoles e [role]) (\<lambda>_. added_role R (role_ID role) role)"
proof -
  have ok: "role_rows_ok (R @ [new_role_row t pk role])" for t pk
    using assms by (auto simp: role_rows_ok_def new_role_row_def scope_stored_def)
  have "r_id (new_role_row t pk role) = role_ID role" "r_name (new_role_row t pk role) = role_Name role"
    "r_source (new_role_row t pk role) = RoleSourceUser" for t pk
    using assms(5) by (simp_all add: new_role_row_def)
  then show ?thesis
    by (intro tripleI) (use assms(1) ok in \<open>auto simp: roleDB_AddRoles_def bindM_def db_exec_def
        roles_ok_def insert_roles_def added_role_def split: fault.splits\<close>)
qed

lemma AddRole_roles_ok:
  assumes R: "role_rows_ok R" and fresh: "\<And>n. uuid_at e n \<noteq> '''' \<and> uuid_at e n \<notin> r_id ` set R"
  shows "triple roles_ok (\<lambda>w. t_role w = R) (role_AddRole e v role) (\<lambda>i. added_role R i role)"
proof -
  have I: "t_role w = R \<Longrightarrow> roles_ok w" for w using R by (simp add: roles_ok_def)
  note bind = triple_bind_keeps [where f = t_role and c = R, OF _ I]
  have free: "role_Name role \<notin> r_name ` set R"
    if "t_role w = R" "roleDB_GetRoleByName e (role_Name role) w = (Inr info, w')" "\<not> role_ID info \<noteq> ''''" for w info w'
    using GetRoleByName_free [OF that(2)] I [OF that(1)] that(1,3) by simp
  have insert: "triple roles_ok (\<lambda>w. t_role w = R)
      (bindM (roleDB_AddRoles e [role\<lparr> role_Scope := s, role_ID := i, role_Source := RoleSourceUser \<rparr>])
        (\<lambda>_. returnM i)) (\<lambda>i. added_role R i role)"
    if "newUUID e w = (Inr i, w')" "role_Name role \<notin> r_name ` set R" for i s w w'
  proof (rule triple_bindM, rule AddRoles_roles_ok [OF R])
    let ?role = "role\<lparr> role_Scope := s, role_ID := i, role_Source := RoleSourceUser \<rparr>"
    show "triple roles_ok (added_role R (role_ID ?role) ?role) (returnM i) (\<lambda>i. added_role R i role)"
      by (intro triple_return) (auto simp: added_role_def)
  qed (use fresh that in auto)
  show ?thesis
    unfolding role_AddRole_def
    by (rule insert bind triple_if triple_throw I free | assumption | (intro keeps_intros; simp; fail))+
qed

text \<open>
  Changing one row under the guards of \<open>ModifyRole\<close>: the new name, if there is one, was
  not the name of another role.
\<close>

lemma role_rows_ok_update:
  assumes R: "role_rows_ok R"
    and own: "\<And>r. r \<in> set R \<Longrightarrow> nameChanged \<Longrightarrow> r_name r = n \<Longrightarrow> r_id r = i"
    and upd: "\<And>r. r_id r \<noteq> i \<Longrightarrow> upd r = r" "\<And>r. r_id (upd r) = r_id r"
      "\<And>r. r_id r = i \<Longrightarrow> r_name (upd r) = (if nameChanged then n else r_name r)"
      "\<And>r. scope_stored r \<Longrightarrow> scope_stored (upd r)"
  shows "role_rows_ok (map upd R)"
proof -
  have d: "distinct (map r_id R)" "distinct (map r_name R)" using R by (simp_all add: role_rows_ok_def)
  have same: "r = r'" if "r \<in> set R" "r' \<in> set R" "r_id r = r_id r' \<or> r_name r = r_name r'" for r r'
    using d that by (auto simp: distinct_map dest: inj_onD)
  have "inj_on (\<lambda>r. r_name (upd r)) (set R)"
  proof (rule inj_onI)
    fix r r' assume r: "r \<in> set R" "r' \<in> set R" and eq: "r_name (upd r) = r_name (upd r')"
    consider "r_id r = i" "r_id r' = i" | "r_id r \<noteq> i" "r_id r' \<noteq> i"
      | "r_id r = i" "r_id r' \<noteq> i" | "r_id r \<noteq> i" "r_id r' = i" by blast
    then show "r = r'"
    proof cases
      case 1 then show ?thesis using same [OF r] by simp
    next
      case 2 then show ?thesis using same [OF r] eq upd(1) by simp
    next
      case 3
      then have "r_name r' = (if nameChanged then n else r_name r)" using eq upd(1,3) by simp
      then show ?thesis using 3 own [OF r(2)] same [OF r] by (auto split: if_splits)
    next
      case 4
      then have "r_name r = (if nameChanged then n else r_name r')" using eq upd(1,3) by simp
      then show ?thesis using 4 own [OF r(1)] same [OF r] by (auto split: if_splits)
    qed
  qed
  moreover have "distinct R" using d(1) by (simp add: distinct_map)
  ultimately have "distinct (map r_name (map upd R))" by (simp add: distinct_map comp_def)
  moreover have "map r_id (map upd R) = map r_id R" using upd(2) by simp
  moreover have "r_id ` set (map upd R) = r_id ` set R" using upd(2) by (simp add: image_image)
  ultimately show ?thesis
    using R upd(4) unfolding role_rows_ok_def by (simp del: map_map)
qed

lemma ModifyRole_row_ok:
  assumes "role_rows_ok R" "\<And>r. r \<in> set R \<Longrightarrow> nameChanged \<Longrightarrow> r_name r = n \<Longrightarrow> r_id r = i"
  shows "triple roles_ok (\<lambda>w. t_role w = R) (roleDB_ModifyRole e i n nameChanged d dc s sc) (\<lambda>_. roles_ok)"
proof -
  let ?upd = "\<lambda>t r. if r_id r = i then r\<lparr> r_name := (if nameChanged then n else r_name r),
      r_description := (if dc then d else r_description r),
      r_resource_scope := (if sc then resourceTypeScopeInfoToString s else r_resource_scope r),
      r_modify_time := t \<rparr> else r"
  have "role_rows_ok (map (?upd t) R)" for t
    by (rule role_rows_ok_update [OF assms]) (auto simp: scope_stored_def)
  then show ?thesis
    by (intro tripleI) (use assms(1) in \<open>auto simp: roleDB_ModifyRole_def bindM_def db_exec_def
        roles_ok_def split: fault.splits\<close>)
qed

lemma ModifyRole_roles_ok:
  assumes R: "role_rows_ok R" and ev: "\<And>i n. keeps t_role (RoleNameModified ev i n)"
  shows "triple roles_ok (\<lambda>w. t_role w = R) (role_ModifyRole e ev v i n nameChanged d dc s sc) (\<lambda>_. roles_ok)"
proof -
  have I: "t_role w = R \<Longrightarrow> roles_ok w" for w using R by (simp add: roles_ok_def)
  note bind = triple_bind_keeps [where f = t_role and c = R, OF _ I]
  let ?check = "if nameChanged
      then bindM (roleDB_GetRoleByName e n) (\<lambda>other.
        if role_ID other \<noteq> '''' \<and> role_ID other \<noteq> i then throwM RoleNameConflict else returnM ())
      else returnM ()"
  have own: "r_id r = i"
    if "t_role w = R" and run: "?check w = (Inr x, w')" "nameChanged" and "r \<in> set R" "r_name r = n" for w x w' r
  proof -
    obtain other w2 where other: "roleDB_GetRoleByName e n w = (Inr other, w2)"
      and "role_ID other = '''' \<or> role_ID other = i"
      using run by (auto simp: bindM_Inr_iff split: if_splits)
    moreover have "role_ID other = r_id r"
      by (rule GetRoleByName_owner [OF other]) (use that(1,4,5) R in \<open>simp_all add: roles_ok_def\<close>)
    ultimately show ?thesis using R that(4) by (force simp: role_rows_ok_def)
  qed
  have rest: "triple roles_ok roles_ok (if nameChanged then RoleNameModified ev i n else returnM ()) (\<lambda>_. roles_ok)"
    by (intro triple_if triple_preserves roles_ok_keeps ev keeps_basic)
  have final: "triple roles_ok (\<lambda>w. t_role w = R)
      (bindM (roleDB_ModifyRole e i n nameChanged d dc s' sc)
        (\<lambda>_. if nameChanged then RoleNameModified ev i n else returnM ())) (\<lambda>_. roles_ok)"
    if "t_role w = R" "?check w = (Inr x, w')" for s' w x w'
    by (rule triple_bindM, rule ModifyRole_row_ok [OF R], rule own [OF that(1,2)]) (assumption | rule rest)+
  show ?thesis
    unfolding role_ModifyRole_def
    by (rule final bind triple_if triple_throw I | assumption | (intro keeps_intros; simp; fail))+
qed

lemma DeleteRole_roles_ok:
  assumes "\<And>i. keeps t_role (RoleDeleted ev i)"
  shows "preserves roles_ok (role_DeleteRole e ev v i)"
proof -
  have "preserves roles_ok (roleDB_DeleteRole e i)" for i
    unfolding roleDB_DeleteRole_def
    by (intro preserves_intros) (auto simp: roles_ok_def role_rows_ok_def distinct_map_filter)
  then show ?thesis
    unfolding role_DeleteRole_def
    by (intro preserves_bindM preserves_if preserves_basic)
      (auto intro!: roles_ok_keeps keeps_role_reads keeps_member_writes assms)
qed

section \<open>Members\<close>

definition member_rows_ok :: "role_member_row list \<Rightarrow> bool" where
  "member_rows_ok M \<longleftrightarrow> distinct (map (\<lambda>m. (m_role_id m, m_member_id m)) M)"

definition members_ok :: "world \<Rightarrow> bool" where
  "members_ok w \<longleftrightarrow> member_rows_ok (t_role_member w)"

definition memberIDs :: "role_member_row list \<Rightarrow> string \<Rightarrow> string set" where
  "memberIDs M i = {m_member_id m | m. m \<in> set M \<and> m_role_id m = i}"

text \<open>The map of the request: one entry per member, under its identifier.\<close>

definition member_map :: "(string, role_member_info) gomap \<Rightarrow> bool" where
  "member_map infos \<longleftrightarrow> mwf infos \<and> (\<forall>(k, m)\<in>set infos. mem_ID m = k)"

lemma member_map_IDs:
  assumes "key_order ord" "member_map infos"
  shows "map (\<lambda>kv. mem_ID (snd kv)) (range_map ord infos) = map fst (range_map ord infos)"
proof (rule map_cong [OF refl])
  fix kv assume kv: "kv \<in> set (range_map ord infos)"
  then have "map_of infos (fst kv) = Some (snd kv)"
    using set_range_map [OF assms(1), of infos] by auto
  then have "(fst kv, snd kv) \<in> set infos" by (rule map_of_SomeD)
  then show "mem_ID (snd kv) = fst kv" using assms(2) unfolding member_map_def by fast
qed

lemma members_inserted:
  assumes "member_rows_ok M" "distinct (map mem_ID ms)" "\<And>m. m \<in> set ms \<Longrightarrow> mem_ID m \<notin> memberIDs M i"
    "length pks = length ms"
    and M'_def: "M' = M @ map (\<lambda>(pk, m). new_member_row t i pk m) (zip pks ms)"
  shows "member_rows_ok M'" "memberIDs M' i = memberIDs M i \<union> mem_ID ` set ms"
    "j \<noteq> i \<Longrightarrow> memberIDs M' j = memberIDs M j"
proof -
  let ?new = "map (\<lambda>(pk, m). new_member_row t i pk m) (zip pks ms)"
  have keys: "map (\<lambda>m. (m_role_id m, m_member_id m)) ?new = map (\<lambda>m. (i, mem_ID m)) ms"
    using assms(4)
  proof (induction pks arbitrary: ms)
    case (Cons pk pks) then show ?case by (cases ms) (auto simp: new_member_row_def)
  qed simp
  have "distinct (map (\<lambda>m. (i, mem_ID m)) ms)"
    using assms(2) by (simp add: distinct_map inj_on_def)
  moreover have "set (map (\<lambda>m. (m_role_id m, m_member_id m)) M) \<inter> set (map (\<lambda>m. (i, mem_ID m)) ms) = {}"
    using assms(3) by (fastforce simp: memberIDs_def)
  ultimately show "member_rows_ok M'"
    using assms(1) unfolding member_rows_ok_def M'_def map_append keys distinct_append by blast
  have ids: "memberIDs M'' j = {x. (j, x) \<in> set (map (\<lambda>m. (m_role_id m, m_member_id m)) M'')}" for M'' j
    by (auto simp: memberIDs_def)
  show "memberIDs M' i = memberIDs M i \<union> mem_ID ` set ms" "j \<noteq> i \<Longrightarrow> memberIDs M' j = memberIDs M j"
    unfolding ids M'_def map_append keys by auto
qed

definition added_members :: "role_member_row list \<Rightarrow> string \<Rightarrow> string set \<Rightarrow> world \<Rightarrow> bool" where
  "added_members M i ids w \<longleftrightarrow> members_ok w \<and> memberIDs (t_role_member w) i = memberIDs M i \<union> ids \<and>
     (\<forall>j. j \<noteq> i \<longrightarrow> memberIDs (t_role_member w) j = memberIDs M j)"

lemma AddRoleMembers_insert:
  assumes "member_rows_ok M" "distinct (map mem_ID ms)" "\<And>m. m \<in> set ms \<Longrightarrow> mem_ID m \<notin> memberIDs M i"
  shows "triple members_ok (\<lambda>w. t_role_member w = M) (memberDB_AddRoleMembers e i ms)
    (\<lambda>_. added_members M i (mem_ID ` set ms))"
proof (cases "ms = []")
  case True
  then show ?thesis
    using assms(1) by (auto intro!: triple_return simp: memberDB_AddRoleMembers_def added_members_def members_ok_def)
next
  case False
  note ins = members_inserted [OF assms _ refl]
  show ?thesis
    by (intro tripleI) (use False assms(1) ins in \<open>auto simp: memberDB_AddRoleMembers_def bindM_def
        db_exec_def insert_members_def members_ok_def added_members_def split: fault.splits\<close>)
qed

lemma AddRoleMembers_members_ok:
  assumes M: "member_rows_ok M" and ord: "key_order (map_order e)" and infos: "member_map infos"
  shows "triple members_ok (\<lambda>w. t_role_member w = M) (role_AddRoleMembers e v i infos)
    (\<lambda>_. added_members M i (fst ` set infos))"
proof -
  let ?ms = "\<lambda>old. filter (\<lambda>m. map_of (fold (\<lambda>m. mset_true (mem_ID m)) old []) (mem_ID m) = None)
      (map snd (range_map (map_order e) infos))"
  have I: "t_role_member w = M \<Longrightarrow> members_ok w" for w using M by (simp add: members_ok_def)
  note bind = triple_bind_keeps [where f = t_role_member and c = M, OF _ I]
  have all: "map mem_ID (map snd (range_map (map_order e) infos)) = map fst (range_map (map_order e) infos)"
    using member_map_IDs [OF ord infos] by (simp add: comp_def)
  have keys: "fst ` set infos = mem_ID ` set (map snd (range_map (map_order e) infos))"
    using all map_fst_range_map [OF ord, of infos] key_order_set [OF ord, of "map fst infos"]
    by (metis list.set_map)
  have "distinct (map mem_ID (map snd (range_map (map_order e) infos)))"
    unfolding all using infos by (intro distinct_range_map ord) (simp add: member_map_def)
  then have d: "distinct (map mem_ID (?ms old))" for old by (rule distinct_map_filter)
  have old: "map_of (fold (\<lambda>m. mset_true (mem_ID m)) old []) x = None \<longleftrightarrow> x \<notin> memberIDs M i"
    if "t_role_member w = M" "memberDB_GetRoleMembersByRoleID e i w = (Inr old, w')" for w old w' x
  proof -
    have "old = map scan_member (filter (\<lambda>m. m_role_id m = i) M)"
      using that by (auto simp: memberDB_GetRoleMembersByRoleID_def)
    then have "mem_ID ` set old = memberIDs M i"
      by (auto simp: memberIDs_def scan_member_def image_image)
    moreover have "map_of (fold (\<lambda>m. mset_true (mem_ID m)) ms acc) x = None \<longleftrightarrow>
        map_of acc x = None \<and> x \<notin> mem_ID ` set ms" for ms :: "role_member_info list" and acc
      by (induction ms arbitrary: acc) (auto simp: mset_true_def)
    ultimately show ?thesis by simp
  qed
  have finish: "added_members M i (fst ` set infos) w'"
    if "t_role_member w = M" "memberDB_GetRoleMembersByRoleID e i w = (Inr old, w'')" "added_members M i (mem_ID ` set (?ms old)) w'" for w w' w'' old
  proof -
    have "memberIDs M i \<union> mem_ID ` set (?ms old) = memberIDs M i \<union> fst ` set infos"
      unfolding keys by (auto simp: old [OF that(1,2)])
    then show ?thesis using that(3) by (simp add: added_members_def)
  qed
  have none: "triple members_ok (\<lambda>w. t_role_member w = M) (returnM ()) (\<lambda>_. added_members M i (fst ` set infos))"
    if "t_role_member w = M" "memberDB_GetRoleMembersByRoleID e i w = (Inr old, w')" "?ms old = []" for w w' old
    using that(3) by (intro triple_return conjI I finish [OF that(1,2)])
      (simp_all add: added_members_def members_ok_def M)
  have insert: "triple members_ok (\<lambda>w. t_role_member w = M)
      (memberDB_AddRoleMembers e i (map (\<lambda>m. m\<lparr> mem_Name := g m \<rparr>) (?ms old)))
      (\<lambda>_. added_members M i (fst ` set infos))"
    if "t_role_member w = M" "memberDB_GetRoleMembersByRoleID e i w = (Inr old, w')" for w w' old g
  proof (rule triple_conseq, rule AddRoleMembers_insert [OF M])
    show "distinct (map mem_ID (map (\<lambda>m. m\<lparr> mem_Name := g m \<rparr>) (?ms old)))"
      using d [of old] by (simp add: comp_def)
  next
    fix m assume "m \<in> set (map (\<lambda>m. m\<lparr> mem_Name := g m \<rparr>) (?ms old))"
    then show "mem_ID m \<notin> memberIDs M i" using old [OF that] by auto
  next
    fix x w assume "added_members M i (mem_ID ` set (map (\<lambda>m. m\<lparr> mem_Name := g m \<rparr>) (?ms old))) w"
    moreover have "mem_ID ` set (map (\<lambda>m. m\<lparr> mem_Name := g m \<rparr>) (?ms old)) = mem_ID ` set (?ms old)"
      by (auto simp: image_image)
    ultimately show "added_members M i (fst ` set infos) w" using finish [OF that] by simp
  qed
  show ?thesis
    unfolding role_AddRoleMembers_def Let_def
    by (rule none insert bind triple_if triple_throw I | assumption | (intro keeps_intros; simp; fail))+
qed

section \<open>Listings that are paged in memory\<close>

lemma weak_order_newestFirst: "weak_order newestFirst"
  by (auto simp: weak_order_def newestFirst_def)

lemma weak_order_byRoleOrder: "weak_order (byRoleOrder ord)"
proof -
  let ?o = "\<lambda>a. map_of ord (role_ID a)"
  have le: "byRoleOrder ord a b \<le> 0 \<longleftrightarrow>
      (case (?o a, ?o b) of (Some x, Some y) \<Rightarrow> x \<le> y | (Some _, None) \<Rightarrow> True
        | (None, Some _) \<Rightarrow> False | (None, None) \<Rightarrow> role_ModifyTime b \<le> role_ModifyTime a)" for a b
    by (cases "?o a"; cases "?o b") (auto simp: byRoleOrder_def newestFirst_def)
  have "byRoleOrder ord a b \<le> 0 \<or> byRoleOrder ord b a \<le> 0" for a b
    unfolding le by (cases "?o a"; cases "?o b") auto
  moreover have "byRoleOrder ord a c \<le> 0" if "byRoleOrder ord a b \<le> 0" "byRoleOrder ord b c \<le> 0" for a b c
    using that unfolding le by (cases "?o a"; cases "?o b"; cases "?o c") auto
  ultimately show ?thesis unfolding weak_order_def by blast
qed

lemma sourceStep_fold:
  assumes "\<And>i. map_of dup i \<noteq> None \<longleftrightarrow> i \<in> role_ID ` set acc" "distinct (map role_ID acc)"
    "\<And>r. r \<in> set acc \<Longrightarrow> role_Source r \<noteq> RoleSourceUnset \<and> role_Source r \<in> set sources"
  shows "\<exists>dup' roles. fold (sourceStep sources) infos (dup, acc) = (dup', roles) \<and>
    distinct (map role_ID roles) \<and>
    role_ID ` set roles = role_ID ` set acc \<union>
      role_ID ` {r \<in> set infos. role_Source r \<noteq> RoleSourceUnset \<and> role_Source r \<in> set sources} \<and>
    (\<forall>r\<in>set roles. role_Source r \<noteq> RoleSourceUnset \<and> role_Source r \<in> set sources)"
  using assms
proof (induction infos arbitrary: dup acc)
  case (Cons r rest)
  let ?ok = "role_Source r \<noteq> RoleSourceUnset \<and> role_Source r \<in> set sources"
  consider (dup) "role_ID r \<in> role_ID ` set acc" | (new) "role_ID r \<notin> role_ID ` set acc" ?ok
    | (skip) "role_ID r \<notin> role_ID ` set acc" "\<not> ?ok" by blast
  then show ?case
  proof cases
    case dup
    then have step: "sourceStep sources r (dup, acc) = (dup, acc)"
      using Cons.prems(1) [of "role_ID r"] by (simp add: sourceStep_def)
    show ?thesis using Cons.IH [OF Cons.prems] dup step by auto
  next
    case skip
    then have "sourceStep sources r (dup, acc) = (dup, acc)" by (auto simp: sourceStep_def)
    then show ?thesis using Cons.IH [OF Cons.prems] skip by auto
  next
    case new
    then have step: "sourceStep sources r (dup, acc) = (mset_true (role_ID r) dup, acc @ [r])"
      using Cons.prems(1) [of "role_ID r"] by (simp add: sourceStep_def)
    have "map_of (mset_true (role_ID r) dup) i \<noteq> None \<longleftrightarrow> i \<in> role_ID ` set (acc @ [r])" for i
      using Cons.prems(1) [of i] by (auto simp: mset_true_def)
    moreover have "distinct (map role_ID (acc @ [r]))" using Cons.prems(2) new(1) by simp
    moreover have "role_Source r' \<noteq> RoleSourceUnset \<and> role_Source r' \<in> set sources"
      if "r' \<in> set (acc @ [r])" for r'
      using that Cons.prems(3) new(2) by auto
    ultimately show ?thesis using Cons.IH [of "mset_true (role_ID r) dup" "acc @ [r]"] step new by auto
  qed
qed auto

text \<open>The slice bounds that \<open>GetAccessorRoles\<close> computes are in range for every offset and limit.\<close>

lemma accessorPage_total: "accessorPage offset limit roles \<noteq> Inl Panic"
  by (simp add: accessorPage_def Let_def go_slice_def)

lemma accessorPage_exact:
  assumes "0 \<le> offset" "0 \<le> limit" "offset + limit < 2 ^ 63"
  shows "accessorPage offset limit roles = Inr (take (nat limit) (drop (nat offset) roles))"
proof -
  let ?n = "int (length roles)"
  have w: "wrap64 (offset + limit) = offset + limit" using assms by (intro wrap64_id) simp_all
  consider "offset > ?n" | "offset \<le> ?n" "offset + limit > ?n" | "offset \<le> ?n" "offset + limit \<le> ?n" by linarith
  then show ?thesis
  proof cases
    case 1 then show ?thesis using assms by (simp add: accessorPage_def Let_def w go_slice_def)
  next
    case 2
    then have "length (drop (nat offset) roles) \<le> nat (?n - offset)" "length (drop (nat offset) roles) \<le> nat limit"
      using assms by simp_all
    then show ?thesis using 2 assms by (simp add: accessorPage_def Let_def w go_slice_def)
  next
    case 3 then show ?thesis using assms by (simp add: accessorPage_def Let_def w go_slice_def)
  qed
qed

definition wantedSources :: "accessor_role_search_info \<Rightarrow> role_source set" where
  "wantedSources p = (if ars_RoleSources p = [] then {RoleSourceBusiness, RoleSourceUser}
     else set (ars_RoleSources p)) - {RoleSourceUnset}"

definition role_listing :: "(string, nat) gomap \<Rightarrow> role_source set \<Rightarrow> role_info list \<Rightarrow> bool" where
  "role_listing ord sources roles \<longleftrightarrow> distinct (map role_ID roles) \<and>
     sorted_wrt (\<lambda>a b. byRoleOrder ord a b \<le> 0) roles \<and> (\<forall>r\<in>set roles. role_Source r \<in> sources)"

lemma GetAccessorRoles_page:
  assumes e: "env_ok e" and run: "role_GetAccessorRoles e ord p w = (Inr (num, page), w')"
    and bounds: "0 \<le> ars_Offset p" "0 \<le> ars_Limit p" "ars_Offset p + ars_Limit p < 2 ^ 63"
  shows "\<exists>roles. role_listing ord (wantedSources p) roles \<and> num = length roles \<and>
    page = take (nat (ars_Limit p)) (drop (nat (ars_Offset p)) roles)"
proof -
  let ?sources = "if ars_RoleSources p = [] then [RoleSourceBusiness, RoleSourceUser] else ars_RoleSources p"
  have listing: "role_listing ord (wantedSources p)
      (sort_roles e (byRoleOrder ord) (snd (fold (sourceStep ?sources) infos ([], []))))" for infos
  proof -
    obtain dup roles where f: "fold (sourceStep ?sources) infos ([], []) = (dup, roles)"
      and d: "distinct (map role_ID roles)"
      and s: "\<forall>r\<in>set roles. role_Source r \<noteq> RoleSourceUnset \<and> role_Source r \<in> set ?sources"
      using sourceStep_fold [of "[]" "[]" ?sources infos] by auto
    have "sorted_wrt (\<lambda>a b. byRoleOrder ord a b \<le> 0) (sort_roles e (byRoleOrder ord) roles)"
      using env_ok_sort_roles [OF e] weak_order_byRoleOrder unfolding sort_func_def by blast
    then show ?thesis
      using d s e by (auto simp: f role_listing_def wantedSources_def sort_func_distinct sort_func_set)
  qed
  let ?post = "\<lambda>(num, page). \<exists>roles. role_listing ord (wantedSources p) roles \<and> num = length roles \<and>
      page = take (nat (ars_Limit p)) (drop (nat (ars_Offset p)) roles)"
  have none: "triple (\<lambda>_. True) P (returnM (0, [])) (\<lambda>x _. ?post x)" for P :: "world \<Rightarrow> bool"
    by (intro triple_return) (simp add: role_listing_def)
  have all: "triple (\<lambda>_. True) P (returnM (length roles, roles)) (\<lambda>x _. ?post x)"
    if "ars_Limit p = -1" for roles and P :: "world \<Rightarrow> bool"
    using that bounds by simp
  have slice: "triple (\<lambda>_. True) P (bindM (liftE (accessorPage (ars_Offset p) (ars_Limit p) roles))
      (\<lambda>out. returnM (length roles, out))) (\<lambda>x _. ?post x)"
    if "role_listing ord (wantedSources p) roles" for roles and P :: "world \<Rightarrow> bool"
    by (rule triple_bindM, rule triple_liftE, rule triple_return)
      (use that accessorPage_exact [OF bounds] in auto)
  have "triple (\<lambda>_. True) (\<lambda>_. True) (role_GetAccessorRoles e ord p) (\<lambda>x _. ?post x)"
    unfolding role_GetAccessorRoles_def Let_def
    by (rule none all slice [OF listing] triple_if triple_bindM [OF triple_any] | assumption)+
  from tripleD2 [OF this _ run] show ?thesis by simp
qed

lemma safe_role_lookups [safe_intros]:
  "safe roles_ok (roleDB_GetRoleByIDs e ids)" "safe roles_ok (memberDB_GetRoleByMembers e ids)"
proof -
  have scanned: "\<exists>infos. mapE scan_role (filter P (t_role w)) = Inr infos" if "roles_ok w" for P w
  proof -
    have "\<exists>info. scan_role r = Inr info" if "r \<in> set (filter P (t_role w))" for r
    proof -
      have "scope_stored r" using that \<open>roles_ok w\<close> by (simp add: roles_ok_def role_rows_ok_def)
      then show ?thesis by (auto elim: scan_stored)
    qed
    then show ?thesis by (rule mapE_total)
  qed
  have "bindE (mapE scan_role (filter P (t_role w))) (\<lambda>rs. Inr (g rs)) \<noteq> Inl Panic"
    if "roles_ok w" for P w and g :: "role_info list \<Rightarrow> (string, role_info) gomap"
    using scanned [OF that, of P] by auto
  then show "safe roles_ok (roleDB_GetRoleByIDs e ids)"
    unfolding roleDB_GetRoleByIDs_def by (intro safe_intros) (simp_all add: roles_ok_def)
  show "safe roles_ok (memberDB_GetRoleByMembers e ids)"
    unfolding memberDB_GetRoleByMembers_def
    by (intro safe_intros) (auto simp: roles_ok_def sql_in_def)
qed

lemma GetAccessorRoles_safe:
  assumes "\<And>u. um_GetAccessorIDsByUserID e u \<noteq> Inl Panic" "\<And>u. um_GetUserRolesByUserID e u \<noteq> Inl Panic"
  shows "safe roles_ok (role_GetAccessorRoles e ord p)"
  unfolding role_GetAccessorRoles_def Let_def
  by (intro safe_intros assms accessorPage_total)

end
