(* ===== verification/ObligationDB.thy ===== *)
theory ObligationDB
  imports Common
begin

text \<open>\<open>dbaccess/obligation.go\<close>: the statements on \<open>t_obligation\<close>.\<close>

definition zero_obligation :: obligation_info where
  "zero_obligation =
     \<lparr> obi_ID = '''', obi_TypeID = '''', obi_Name = '''', obi_Description = '''', obi_Value = JNull,
       obi_CreatedTime = 0, obi_ModifyTime = 0 \<rparr>"

definition scan_obligation :: "obligation_row \<Rightarrow> obligation_info" where
  "scan_obligation r =
     \<lparr> obi_ID = o_id r, obi_TypeID = o_type_id r, obi_Name = o_name r,
       obi_Description = o_description r, obi_Value = o_value r, obi_CreatedTime = o_created_at r,
       obi_ModifyTime = o_modified_at r \<rparr>"

definition obDB_Add :: "env \<Rightarrow> obligation_info \<Rightarrow> unit op" where
  "obDB_Add e info =
     bindM (getTime e) (\<lambda>curTime.
       db_exec e (\<lambda>w. w\<lparr> t_obligation := t_obligation w @
           [\<lparr> o_primary_id = next_id w, o_id = obi_ID info, o_type_id = obi_TypeID info,
              o_name = obi_Name info, o_description = obi_Description info, o_value = obi_Value info,
              o_created_at = curTime, o_modified_at = curTime \<rparr>],
         next_id := Suc (next_id w) \<rparr>))"

definition obDB_Update ::
    "env \<Rightarrow> string \<Rightarrow> string \<Rightarrow> bool \<Rightarrow> string \<Rightarrow> bool \<Rightarrow> json \<Rightarrow> bool \<Rightarrow> unit op" where
  "obDB_Update e obligationID name nameChanged description descriptionChanged val valueChanged =
     bindM (getTime e) (\<lambda>curTime.
       db_exec e (\<lambda>w. w\<lparr> t_obligation := map (\<lambda>r.
         if o_id r = obligationID then
           r\<lparr> o_name := (if nameChanged then name else o_name r),
              o_description := (if descriptionChanged then description else o_description r),
              o_value := (if valueChanged then val else o_value r),
              o_modified_at := curTime \<rparr>
         else r) (t_obligation w) \<rparr>))"

definition obDB_Delete :: "env \<Rightarrow> string \<Rightarrow> unit op" where
  "obDB_Delete e obligationID =
     db_exec e (\<lambda>w. w\<lparr> t_obligation := filter (\<lambda>r. o_id r \<noteq> obligationID) (t_obligation w) \<rparr>)"

definition obDB_GetByID :: "env \<Rightarrow> string \<Rightarrow> obligation_info op" where
  "obDB_GetByID e obligationID =
     db_query e (\<lambda>w.
       let rows = filter (\<lambda>r. o_id r = obligationID) (t_obligation w)
       in Inr (if rows = [] then zero_obligation else scan_obligation (last rows)))"

definition obDB_Get :: "env \<Rightarrow> int \<Rightarrow> int \<Rightarrow> (nat \<times> obligation_info list) op" where
  "obDB_Get e off cnt =
     bindM (db_query e (\<lambda>w. Inr (length (t_obligation w)))) (\<lambda>count.
     bindM (db_query e (\<lambda>w. sql_limit off cnt (t_obligation w))) (\<lambda>rows.
       returnM (count, map scan_obligation rows)))"

definition obDB_GetByObligationTypeIDs ::
    "env \<Rightarrow> string list \<Rightarrow> (string, obligation_info list) gomap op" where
  "obDB_GetByObligationTypeIDs e ids =
     (if ids = [] then returnM []
      else db_query e (\<lambda>w. Inr (fold (\<lambda>r. mappend (o_type_id r) [scan_obligation r])
             (filter (\<lambda>r. o_type_id r \<in> set ids) (t_obligation w)) [])))"

definition obDB_GetByIDs :: "env \<Rightarrow> string list \<Rightarrow> obligation_info list op" where
  "obDB_GetByIDs e ids =
     (if ids = [] then returnM []
      else db_query e (\<lambda>w. Inr (map scan_obligation (filter (\<lambda>r. o_id r \<in> set ids) (t_obligation w)))))"

lemma keeps_obligation_reads [keeps_intros]:
  assumes "\<And>w. f (tock w) = f w"
  shows "keeps f (obDB_GetByID e i)" "keeps f (obDB_Get e o1 c1)"
    "keeps f (obDB_GetByObligationTypeIDs e ids)" "keeps f (obDB_GetByIDs e ids)"
  unfolding obDB_GetByID_def obDB_Get_def obDB_GetByObligationTypeIDs_def obDB_GetByIDs_def
  using assms by (intro keeps_intros; simp)+

lemma keeps_obligation_writes [keeps_intros]:
  assumes "\<And>w. f (tock w) = f w" and "\<And>w rs. f (w\<lparr>t_obligation := rs\<rparr>) = f w"
    and "\<And>w n. f (w\<lparr>next_id := n\<rparr>) = f w"
  shows "keeps f (obDB_Add e info)" "keeps f (obDB_Update e i n nc d dc v vc)"
    "keeps f (obDB_Delete e i)"
  unfolding obDB_Add_def obDB_Update_def obDB_Delete_def
  using assms by (intro keeps_intros; simp)+

lemmas obligationDB_run [run_simps] = zero_obligation_def scan_obligation_def obDB_Add_def
  obDB_Update_def obDB_Delete_def obDB_GetByID_def obDB_Get_def obDB_GetByObligationTypeIDs_def
  obDB_GetByIDs_def

end
