(* ===== verification/ObligationTypeDB.thy ===== *)
theory ObligationTypeDB
  imports Common
begin

text \<open>
  \<open>dbaccess/obligation_type.go\<close>: the column with the resource types and operations an
  obligation type applies to, and the statements on \<open>t_obligation_type\<close>.  The empty
  text in the columns of the default value and of the user-interface schema is \<open>JNull\<close>.
\<close>

section \<open>The scope column\<close>

text \<open>Without an operation the slice stays \<open>nil\<close>, which is marshalled as \<open>null\<close>.\<close>

definition operationsScopeToJson :: "ob_operations_scope \<Rightarrow> json" where
  "operationsScopeToJson scope =
     (if oos_Unlimited scope
      then JObj [(''unlimited'', JBool True), (''operations'', JArr [])]
      else JObj [(''unlimited'', JBool False),
                 (''operations'',
                  if oos_Operations scope = [] then JNull
                  else JArr (map (\<lambda>op. JObj [(''id'', JStr (obo_ID op))]) (oos_Operations scope)))])"

definition typeScopeToJson :: "ob_type_scope \<Rightarrow> json" where
  "typeScopeToJson rt =
     JObj [(''id'', JStr (ots_ResourceTypeID rt)),
           (''applicable_operations'', operationsScopeToJson (ots_OperationsScope rt))]"

definition ob_resourceTypeScopeInfoToString :: "ob_scope \<Rightarrow> json" where
  "ob_resourceTypeScopeInfoToString info =
     (if obs_Unlimited info
      then JObj [(''unlimited'', JBool True), (''resource_types'', JArr [])]
      else JObj [(''unlimited'', JBool False),
                 (''resource_types'', JArr (map typeScopeToJson (obs_Types info)))])"

definition operationsScopeFromJson :: "(string \<times> json) list \<Rightarrow> err + ob_operations_scope" where
  "operationsScopeFromJson operationsScopeJson =
     bindE (as_bool (jfield operationsScopeJson ''unlimited'')) (\<lambda>unlimited.
     bindE (if unlimited then Inr []
            else bindE (as_arr (jfield operationsScopeJson ''operations''))
              (mapE (\<lambda>operationJson.
                 bindE (as_obj operationJson) (\<lambda>operationJsonMap.
                 bindE (as_str (jfield operationJsonMap ''id'')) (\<lambda>operationID.
                   Inr \<lparr> obo_ID = operationID, obo_Name = '''' \<rparr>))))) (\<lambda>operations.
       Inr \<lparr> oos_Unlimited = unlimited, oos_Operations = operations \<rparr>))"

definition typeScopeFromJson :: "json \<Rightarrow> err + ob_type_scope" where
  "typeScopeFromJson resourceTypeJson =
     bindE (as_obj resourceTypeJson) (\<lambda>resourceTypeJsonMap.
     bindE (as_str (jfield resourceTypeJsonMap ''id'')) (\<lambda>resourceTypeID.
     bindE (as_obj (jfield resourceTypeJsonMap ''applicable_operations'')) (\<lambda>operationsScopeJson.
     bindE (operationsScopeFromJson operationsScopeJson) (\<lambda>operationsScopeInfo.
       Inr \<lparr> ots_ResourceTypeID = resourceTypeID, ots_ResourceTypeName = '''',
             ots_OperationsScope = operationsScopeInfo \<rparr>))))"

definition stringToResourceTypeScopeInfo :: "json \<Rightarrow> err + ob_scope" where
  "stringToResourceTypeScopeInfo jsonStr =
     bindE (unmarshal_map jsonStr) (\<lambda>data.
     bindE (as_bool (jfield data ''unlimited'')) (\<lambda>unlimited.
     bindE (if unlimited then Inr []
            else bindE (as_arr (jfield data ''resource_types'')) (mapE typeScopeFromJson)) (\<lambda>types.
       Inr \<lparr> obs_Unlimited = unlimited, obs_Types = types \<rparr>)))"

text \<open>
  What a scope reads back as: names are not stored, and neither are the entries of an
  unlimited scope.  A limited scope must name an operation to be readable at all.
\<close>

definition stored_operations_scope :: "ob_operations_scope \<Rightarrow> ob_operations_scope" where
  "stored_operations_scope s =
     \<lparr> oos_Unlimited = oos_Unlimited s,
       oos_Operations = (if oos_Unlimited s then []
                         else map (\<lambda>op. op\<lparr> obo_Name := '''' \<rparr>) (oos_Operations s)) \<rparr>"

definition stored_ob_scope :: "ob_scope \<Rightarrow> ob_scope" where
  "stored_ob_scope info =
     \<lparr> obs_Unlimited = obs_Unlimited info,
       obs_Types = (if obs_Unlimited info then []
                    else map (\<lambda>t. t\<lparr> ots_ResourceTypeName := '''',
                             ots_OperationsScope := stored_operations_scope (ots_OperationsScope t) \<rparr>)
                           (obs_Types info)) \<rparr>"

definition readable_type_scope :: "ob_type_scope \<Rightarrow> bool" where
  "readable_type_scope t \<longleftrightarrow>
     oos_Unlimited (ots_OperationsScope t) \<or> oos_Operations (ots_OperationsScope t) \<noteq> []"

definition readable_scope :: "ob_scope \<Rightarrow> bool" where
  "readable_scope info \<longleftrightarrow> obs_Unlimited info \<or> list_all readable_type_scope (obs_Types info)"

lemma type_scope_roundtrip:
  "typeScopeFromJson (typeScopeToJson t) =
     (if readable_type_scope t
      then Inr (t\<lparr> ots_ResourceTypeName := '''',
                   ots_OperationsScope := stored_operations_scope (ots_OperationsScope t) \<rparr>)
      else Inl Panic)"
proof -
  have "mapE (\<lambda>operationJson.
          bindE (as_obj operationJson) (\<lambda>operationJsonMap.
          bindE (as_str (jfield operationJsonMap ''id'')) (\<lambda>operationID.
            Inr \<lparr> obo_ID = operationID, obo_Name = '''' \<rparr>)))
        (map (\<lambda>op. JObj [(''id'', JStr (obo_ID op))]) ops) = Inr (map (\<lambda>op. op\<lparr> obo_Name := '''' \<rparr>) ops)" for ops
    by (rule mapE_map_Inr) simp
  then show ?thesis
    by (simp add: typeScopeFromJson_def typeScopeToJson_def operationsScopeFromJson_def
        operationsScopeToJson_def readable_type_scope_def stored_operations_scope_def)
qed

lemma ob_scope_roundtrip:
  "stringToResourceTypeScopeInfo (ob_resourceTypeScopeInfoToString info) =
     (if readable_scope info then Inr (stored_ob_scope info) else Inl Panic)"
proof -
  have "mapE typeScopeFromJson (map typeScopeToJson ts) =
      (if list_all readable_type_scope ts
       then Inr (map (\<lambda>t. t\<lparr> ots_ResourceTypeName := '''',
              ots_OperationsScope := stored_operations_scope (ots_OperationsScope t) \<rparr>) ts)
       else Inl Panic)" for ts
    by (induction ts) (simp_all add: type_scope_roundtrip)
  then show ?thesis
    by (simp add: stringToResourceTypeScopeInfo_def ob_resourceTypeScopeInfoToString_def
        readable_scope_def stored_ob_scope_def)
qed


section \<open>Statements\<close>

definition zero_obligation_type :: obligation_type_info where
  "zero_obligation_type =
     \<lparr> oti_ID = '''', oti_Name = '''', oti_Description = '''',
       oti_ResourceTypeScope = \<lparr> obs_Unlimited = False, obs_Types = [] \<rparr>,
       oti_Schema = JNull, oti_DefaultValue = JNull, oti_UiSchema = JNull,
       oti_CreatedTime = 0, oti_ModifyTime = 0 \<rparr>"

definition scan_obligation_type :: "obligation_type_row \<Rightarrow> err + obligation_type_info" where
  "scan_obligation_type r =
     bindE (stringToResourceTypeScopeInfo (ot_applicable r)) (\<lambda>scope.
       Inr \<lparr> oti_ID = ot_id r, oti_Name = ot_name r, oti_Description = ot_description r,
             oti_ResourceTypeScope = scope, oti_Schema = ot_schema r,
             oti_DefaultValue = ot_default_value r, oti_UiSchema = ot_ui_schema r,
             oti_CreatedTime = ot_created_at r, oti_ModifyTime = ot_modified_at r \<rparr>)"

definition update_obligation_type_row ::
    "int \<Rightarrow> obligation_type_info \<Rightarrow> obligation_type_row \<Rightarrow> obligation_type_row" where
  "update_obligation_type_row curTime info r =
     (if ot_id r = oti_ID info
      then r\<lparr> ot_name := oti_Name info, ot_description := oti_Description info,
              ot_schema := oti_Schema info, ot_default_value := oti_DefaultValue info,
              ot_ui_schema := oti_UiSchema info,
              ot_applicable := ob_resourceTypeScopeInfoToString (oti_ResourceTypeScope info),
              ot_modified_at := curTime \<rparr>
      else r)"

definition insert_obligation_type :: "int \<Rightarrow> obligation_type_info \<Rightarrow> world \<Rightarrow> world" where
  "insert_obligation_type curTime info w =
     w\<lparr> t_obligation_type := t_obligation_type w @
          [\<lparr> ot_primary_id = next_id w, ot_id = oti_ID info, ot_name = oti_Name info,
             ot_description = oti_Description info,
             ot_applicable = ob_resourceTypeScopeInfoToString (oti_ResourceTypeScope info),
             ot_schema = oti_Schema info, ot_ui_schema = oti_UiSchema info,
             ot_default_value = oti_DefaultValue info, ot_created_at = curTime,
             ot_modified_at = curTime \<rparr>],
        next_id := Suc (next_id w) \<rparr>"

definition obtDB_Set :: "env \<Rightarrow> obligation_type_info \<Rightarrow> unit op" where
  "obtDB_Set e info =
     bindM (getTime e) (\<lambda>curTime.
     bindM (db_query e (\<lambda>w. Inr (list_ex (\<lambda>r. ot_id r = oti_ID info) (t_obligation_type w)))) (\<lambda>found.
       if found
       then db_exec e (\<lambda>w. w\<lparr> t_obligation_type :=
              map (update_obligation_type_row curTime info) (t_obligation_type w) \<rparr>)
       else db_exec e (insert_obligation_type curTime info)))"

definition obtDB_Delete :: "env \<Rightarrow> string \<Rightarrow> unit op" where
  "obtDB_Delete e obligationTypeID =
     db_exec e (\<lambda>w. w\<lparr> t_obligation_type :=
       filter (\<lambda>r. ot_id r \<noteq> obligationTypeID) (t_obligation_type w) \<rparr>)"

definition obtDB_GetByID :: "env \<Rightarrow> string \<Rightarrow> obligation_type_info op" where
  "obtDB_GetByID e obligationTypeID =
     db_query e (\<lambda>w. bindE (mapE scan_obligation_type
         (filter (\<lambda>r. ot_id r = obligationTypeID) (t_obligation_type w)))
       (\<lambda>infos. Inr (if infos = [] then zero_obligation_type else last infos)))"

definition obtDB_Get :: "env \<Rightarrow> int \<Rightarrow> int \<Rightarrow> (nat \<times> obligation_type_info list) op" where
  "obtDB_Get e off cnt =
     bindM (db_query e (\<lambda>w. Inr (length (t_obligation_type w)))) (\<lambda>count.
     bindM (db_query e (\<lambda>w. bindE (sql_limit off cnt (t_obligation_type w)) (mapE scan_obligation_type)))
       (\<lambda>resultInfos. returnM (count, resultInfos)))"

definition obtDB_GetAll :: "env \<Rightarrow> obligation_type_info list op" where
  "obtDB_GetAll e =
     db_query e (\<lambda>w. mapE scan_obligation_type
       (sort_key (\<lambda>r. - ot_modified_at r) (t_obligation_type w)))"

definition obtDB_GetByIDs :: "env \<Rightarrow> string list \<Rightarrow> obligation_type_info list op" where
  "obtDB_GetByIDs e ids =
     (if ids = [] then returnM []
      else db_query e (\<lambda>w. mapE scan_obligation_type
        (filter (\<lambda>r. ot_id r \<in> set ids) (t_obligation_type w))))"

lemma keeps_obligation_type_reads [keeps_intros]:
  assumes "\<And>w. f (tock w) = f w"
  shows "keeps f (obtDB_GetByID e i)" "keeps f (obtDB_Get e o1 c1)" "keeps f (obtDB_GetAll e)"
    "keeps f (obtDB_GetByIDs e ids)"
  unfolding obtDB_GetByID_def obtDB_Get_def obtDB_GetAll_def obtDB_GetByIDs_def
  using assms by (intro keeps_intros; simp)+

lemma keeps_obligation_type_writes [keeps_intros]:
  assumes "\<And>w. f (tock w) = f w" and "\<And>w rs. f (w\<lparr>t_obligation_type := rs\<rparr>) = f w"
    and "\<And>w n. f (w\<lparr>next_id := n\<rparr>) = f w"
  shows "keeps f (obtDB_Set e info)" "keeps f (obtDB_Delete e i)"
  unfolding obtDB_Set_def obtDB_Delete_def insert_obligation_type_def
  using assms by (intro keeps_intros; simp)+

lemmas obligation_typeDB_run [run_simps] = ob_scope_roundtrip stored_operations_scope_def
  stored_ob_scope_def readable_type_scope_def readable_scope_def zero_obligation_type_def
  scan_obligation_type_def update_obligation_type_row_def insert_obligation_type_def obtDB_Set_def
  obtDB_Delete_def obtDB_GetByID_def obtDB_Get_def obtDB_GetAll_def obtDB_GetByIDs_def

end
