(* ===== verification/ObligationTypes.thy ===== *)
theory ObligationTypes
  imports ObligationTypeDB ResourceTypes
begin

text \<open>
  \<open>logics/obligation_type.go\<close>: kinds of obligations, each with a JSON schema for its
  values and the resource types and operations it applies to.
\<close>

section \<open>Visitors\<close>

definition obligationType_checkVisitorType :: "env \<Rightarrow> visitor \<Rightarrow> err + unit" where
  "obligationType_checkVisitorType e visitor =
     bindE (if vis_Type visitor = RealName then um_GetUserRolesByUserID e (vis_ID visitor) else Inr [])
       (\<lambda>roleTypes. checkVisitorType visitor roleTypes [RealName] [SuperAdmin, SystemAdmin, SecurityAdmin])"

interpretation obligationType_guard:
  visitor_guard obligationType_checkVisitorType "admin_with {SuperAdmin, SystemAdmin, SecurityAdmin}"
  by unfold_locales (auto simp: obligationType_checkVisitorType_def admin_with_def bindE_Inr_iff
      checkVisitorType_iff split: if_splits)


section \<open>Operations\<close>

definition operationMapOf :: "resource_type \<Rightarrow> (string, bool) gomap" where
  "operationMapOf resourceTypeInfo =
     fold (\<lambda>operation. mset_true (rto_ID operation)) (rt_Operation resourceTypeInfo) []"

definition checkTypeScope :: "(string, resource_type) gomap \<Rightarrow> ob_type_scope \<Rightarrow> err + unit" where
  "checkTypeScope infoMap scope =
     (case map_of infoMap (ots_ResourceTypeID scope) of
        None \<Rightarrow> Inl PublicBadRequest
      | Some resourceTypeInfo \<Rightarrow>
          if oos_Unlimited (ots_OperationsScope scope) then Inr ()
          else if list_ex (\<lambda>operation. map_of (operationMapOf resourceTypeInfo) (obo_ID operation) = None)
                    (oos_Operations (ots_OperationsScope scope))
          then Inl PublicBadRequest
          else Inr ())"

definition checkResourceTypeAndOperation :: "env \<Rightarrow> obligation_type_info \<Rightarrow> unit op" where
  "checkResourceTypeAndOperation e info =
     (if obs_Unlimited (oti_ResourceTypeScope info) then returnM ()
      else bindM (resourceType_GetAllInternal e) (\<lambda>resourceTypeInfos.
        let infoMap = resourceTypeInfoMap resourceTypeInfos in
        iterM (\<lambda>scope. liftE (checkTypeScope infoMap scope)) (obs_Types (oti_ResourceTypeScope info))))"

text \<open>The schema and the default value; both setters share these lines.\<close>

definition checkSchema :: "env \<Rightarrow> obligation_type_info \<Rightarrow> err + unit" where
  "checkSchema e info =
     (if \<not> jsonschema_NewSchema e (oti_Schema info) then Inl PublicBadRequest
      else if oti_DefaultValue info = JNull then Inr ()
      else (case jsonschema_Validate e (oti_Schema info) (oti_DefaultValue info) of
              Some True \<Rightarrow> Inr ()
            | _ \<Rightarrow> Inl PublicBadRequest))"

definition obligationType_Set :: "env \<Rightarrow> visitor \<Rightarrow> obligation_type_info \<Rightarrow> unit op" where
  "obligationType_Set e visitor info =
     bindM (liftE (obligationType_checkVisitorType e visitor)) (\<lambda>_.
     bindM (liftE (checkSchema e info)) (\<lambda>_.
     bindM (checkResourceTypeAndOperation e info) (\<lambda>_.
       obtDB_Set e info)))"

definition obligationType_SetPrivate :: "env \<Rightarrow> obligation_type_info \<Rightarrow> unit op" where
  "obligationType_SetPrivate e info =
     bindM (liftE (checkSchema e info)) (\<lambda>_.
     bindM (checkResourceTypeAndOperation e info) (\<lambda>_.
       obtDB_Set e info))"

definition obligationType_Delete :: "env \<Rightarrow> visitor \<Rightarrow> string \<Rightarrow> unit op" where
  "obligationType_Delete e visitor obligationTypeID =
     bindM (liftE (obligationType_checkVisitorType e visitor)) (\<lambda>_. obtDB_Delete e obligationTypeID)"

definition ob_getOperationNameByLanguage :: "operation_name list \<Rightarrow> string \<Rightarrow> string" where
  "ob_getOperationNameByLanguage operationName language =
     (case find (\<lambda>n. EqualFold (opn_Language n) language) operationName of
        None \<Rightarrow> '''' | Some n \<Rightarrow> opn_Value n)"

definition operationNames :: "visitor \<Rightarrow> resource_type \<Rightarrow> (string, string) gomap" where
  "operationNames visitor resourceTypeInfo =
     fold (\<lambda>operation. mput (rto_ID operation)
             (ob_getOperationNameByLanguage (rto_Name operation) (vis_Language visitor)))
       (rt_Operation resourceTypeInfo) []"

definition ob_getResourceTypesOperation ::
    "env \<Rightarrow> visitor \<Rightarrow> ((string, (string, string) gomap) gomap \<times> (string, resource_type) gomap) op" where
  "ob_getResourceTypesOperation e visitor =
     bindM (resourceType_GetAllInternal e) (\<lambda>resourceTypeInfos.
       let infoMap = resourceTypeInfoMap resourceTypeInfos in
       returnM (fold (\<lambda>(resourceType, info). mput resourceType (operationNames visitor info))
                  (range_map (map_order e) infoMap) [], infoMap))"

text \<open>Reading a missing entry of \<open>map[string]map[string]string\<close> gives the empty text.\<close>

definition nameOf :: "(string, (string, string) gomap) gomap \<Rightarrow> string \<Rightarrow> string \<Rightarrow> string" where
  "nameOf operationInfoMap resourceTypeID operationID =
     (case map_of operationInfoMap resourceTypeID of
        None \<Rightarrow> ''''
      | Some names \<Rightarrow> (case map_of names operationID of None \<Rightarrow> '''' | Some n \<Rightarrow> n))"

definition fillOperations ::
    "(string, (string, string) gomap) gomap \<Rightarrow> ob_type_scope \<Rightarrow> ob_type_scope" where
  "fillOperations operationInfoMap t =
     t\<lparr> ots_OperationsScope := (ots_OperationsScope t)\<lparr> oos_Operations :=
          map (\<lambda>op. op\<lparr> obo_Name := nameOf operationInfoMap (ots_ResourceTypeID t) (obo_ID op) \<rparr>)
            (oos_Operations (ots_OperationsScope t)) \<rparr> \<rparr>"

definition fillType ::
    "(string, (string, string) gomap) gomap \<Rightarrow> (string, resource_type) gomap \<Rightarrow> ob_type_scope \<Rightarrow> ob_type_scope" where
  "fillType operationInfoMap infoMap t =
     (case map_of infoMap (ots_ResourceTypeID t) of
        None \<Rightarrow> t
      | Some resourceTypeInfo \<Rightarrow>
          (let t' = t\<lparr> ots_ResourceTypeName := rt_Name resourceTypeInfo \<rparr> in
           if oos_Unlimited (ots_OperationsScope t') then t' else fillOperations operationInfoMap t'))"

definition obligationType_GetByID :: "env \<Rightarrow> visitor \<Rightarrow> string \<Rightarrow> obligation_type_info op" where
  "obligationType_GetByID e visitor obligationTypeID =
     bindM (liftE (obligationType_checkVisitorType e visitor)) (\<lambda>_.
     bindM (obtDB_GetByID e obligationTypeID) (\<lambda>info.
       if oti_ID info = '''' then throwM PublicNotFound
       else if obs_Unlimited (oti_ResourceTypeScope info) then returnM info
       else bindM (ob_getResourceTypesOperation e visitor) (\<lambda>(operationInfoMap, infoMap).
         returnM (info\<lparr> oti_ResourceTypeScope := (oti_ResourceTypeScope info)\<lparr> obs_Types :=
           map (fillType operationInfoMap infoMap) (obs_Types (oti_ResourceTypeScope info)) \<rparr> \<rparr>))))"

text \<open>
  \<open>Get\<close> fills in the names of a whole page.  The inner loop runs over \<open>j\<close>, but reads
  and writes the entry \<open>i\<close> of the types, which may not exist; and the outer loop ends
  at the first unlimited scope.
\<close>

definition fillStep ::
    "(string, (string, string) gomap) gomap \<Rightarrow> (string, resource_type) gomap \<Rightarrow> nat \<Rightarrow> nat \<Rightarrow>
     ob_type_scope list \<Rightarrow> err + ob_type_scope list" where
  "fillStep operationInfoMap infoMap i j types =
     (case map_of infoMap (ots_ResourceTypeID (types ! j)) of
        None \<Rightarrow> Inr types
      | Some resourceTypeInfo \<Rightarrow>
          if i \<ge> length types then Inl Panic
          else
            (let types' = types[i := (types ! i)\<lparr> ots_ResourceTypeName := rt_Name resourceTypeInfo \<rparr>] in
             if oos_Unlimited (ots_OperationsScope (types' ! i)) then Inr types'
             else Inr (types'[j := fillOperations operationInfoMap (types' ! j)])))"

primrec fillPage ::
    "(string, (string, string) gomap) gomap \<Rightarrow> (string, resource_type) gomap \<Rightarrow> nat \<Rightarrow>
     obligation_type_info list \<Rightarrow> err + obligation_type_info list" where
  "fillPage operationInfoMap infoMap i [] = Inr []"
| "fillPage operationInfoMap infoMap i (info # rest) =
     (if obs_Unlimited (oti_ResourceTypeScope info) then Inr (info # rest)
      else
        (let types = obs_Types (oti_ResourceTypeScope info) in
         bindE (foldE (fillStep operationInfoMap infoMap i) [0 ..< length types] types) (\<lambda>types'.
         bindE (fillPage operationInfoMap infoMap (Suc i) rest) (\<lambda>rest'.
           Inr (info\<lparr> oti_ResourceTypeScope :=
                  (oti_ResourceTypeScope info)\<lparr> obs_Types := types' \<rparr> \<rparr> # rest')))))"

definition obligationType_Get :: "env \<Rightarrow> visitor \<Rightarrow> int \<Rightarrow> int \<Rightarrow> (nat \<times> obligation_type_info list) op" where
  "obligationType_Get e visitor off cnt =
     bindM (liftE (obligationType_checkVisitorType e visitor)) (\<lambda>_.
     bindM (obtDB_Get e off cnt) (\<lambda>(count, resultInfos).
       if resultInfos = [] then returnM (count, resultInfos)
       else bindM (ob_getResourceTypesOperation e visitor) (\<lambda>(operationInfoMap, infoMap).
         bindM (liftE (fillPage operationInfoMap infoMap 0 resultInfos)) (\<lambda>infos.
           returnM (count, infos)))))"


subsection \<open>Which obligation types apply to an operation\<close>

text \<open>The rounds of \<open>getOperationSet\<close>: one obligation type is added to the operations it applies to.\<close>

definition addToAll ::
    "string list \<Rightarrow> 'a \<Rightarrow> (string, 'a list) gomap \<Rightarrow> (string, 'a list) gomap" where
  "addToAll operationIDs t m = fold (\<lambda>operation. mappend operation [t]) operationIDs m"

definition addToMatching ::
    "string list \<Rightarrow> ob_operation list \<Rightarrow> 'a \<Rightarrow> (string, 'a list) gomap \<Rightarrow> (string, 'a list) gomap" where
  "addToMatching operationIDs operations t m =
     fold (\<lambda>operationTmp m. fold (\<lambda>operation m.
         if obo_ID operationTmp = operation then mappend operation [t] m else m) operationIDs m) operations m"

definition operationSetStep ::
    "string \<Rightarrow> string list \<Rightarrow> obligation_type_info \<Rightarrow> (string, obligation_type_info list) gomap \<Rightarrow>
     (string, obligation_type_info list) gomap" where
  "operationSetStep resourceTypeID operationIDs t m =
     (if obs_Unlimited (oti_ResourceTypeScope t) then addToAll operationIDs t m
      else (case find (\<lambda>rt. ots_ResourceTypeID rt = resourceTypeID) (obs_Types (oti_ResourceTypeScope t)) of
              None \<Rightarrow> m
            | Some rt \<Rightarrow>
                if oos_Unlimited (ots_OperationsScope rt) then addToAll operationIDs t m
                else addToMatching operationIDs (oos_Operations (ots_OperationsScope rt)) t m))"

definition getOperationSet ::
    "string \<Rightarrow> string list \<Rightarrow> obligation_type_info list \<Rightarrow> (string, obligation_type_info list) gomap" where
  "getOperationSet resourceTypeID operationIDs allObligationTypes =
     fold (operationSetStep resourceTypeID operationIDs) allObligationTypes
       (fold (\<lambda>operation. mput operation []) operationIDs [])"

record query_obligation_type_info =
  qot_ResourceType :: string
  qot_Operation :: "string list"

definition obligationType_Query ::
    "env \<Rightarrow> query_obligation_type_info \<Rightarrow> (string, obligation_type_info list) gomap op" where
  "obligationType_Query e queryInfo =
     bindM (resourceType_GetByIDsInternal e [qot_ResourceType queryInfo]) (\<lambda>infoMap.
       if length infoMap \<noteq> 1 then throwM PublicBadRequest
       else
         (let resourceTypeInfo =
            (case map_of infoMap (qot_ResourceType queryInfo) of None \<Rightarrow> zero_resource_type | Some t \<Rightarrow> t) in
          bindM (if qot_Operation queryInfo = []
                 then returnM (map rto_ID (rt_Operation resourceTypeInfo))
                 else if list_ex (\<lambda>operation. \<not> mtrue (operationMapOf resourceTypeInfo) operation)
                           (qot_Operation queryInfo)
                 then throwM PublicBadRequest
                 else returnM (qot_Operation queryInfo)) (\<lambda>operations.
          bindM (obtDB_GetAll e) (\<lambda>allObligationTypes.
            returnM (getOperationSet (qot_ResourceType queryInfo) operations allObligationTypes)))))"

definition obligationType_QueryV2 ::
    "env \<Rightarrow> string list \<Rightarrow> (string, (string, obligation_type_info list) gomap) gomap op" where
  "obligationType_QueryV2 e resourceTypeIDs =
     (if resourceTypeIDs = [] then throwM PublicBadRequest
      else bindM (resourceType_GetByIDsInternal e resourceTypeIDs) (\<lambda>infoMap.
        if length infoMap \<noteq> length resourceTypeIDs then throwM PublicBadRequest
        else bindM (obtDB_GetAll e) (\<lambda>allObligationTypes.
          returnM (fold (\<lambda>(resourceTypeID, resourceTypeInfo). mput resourceTypeID
              (getOperationSet resourceTypeID (map rto_ID (rt_Operation resourceTypeInfo)) allObligationTypes))
            (range_map (map_order e) infoMap) []))))"

definition obligationType_GetByIDSInternal ::
    "env \<Rightarrow> (string, bool) gomap \<Rightarrow> obligation_type_info list op" where
  "obligationType_GetByIDSInternal e obligationTypeIDs =
     obtDB_GetByIDs e (map fst (range_map (map_order e) obligationTypeIDs))"

definition checkObligationTypeChange :: "obligation_type_info \<Rightarrow> obligation_type_info \<Rightarrow> bool" where
  "checkObligationTypeChange old newInfo \<longleftrightarrow>
     oti_Name old \<noteq> oti_Name newInfo \<or> oti_Description old \<noteq> oti_Description newInfo \<or>
     oti_ResourceTypeScope old \<noteq> oti_ResourceTypeScope newInfo \<or>
     \<not> deep_equal (oti_Schema old) (oti_Schema newInfo) \<or>
     \<not> deep_equal (oti_UiSchema old) (oti_UiSchema newInfo) \<or>
     \<not> deep_equal (oti_DefaultValue old) (oti_DefaultValue newInfo)"

definition obligationType_InitObligationTypes :: "env \<Rightarrow> obligation_type_info list \<Rightarrow> unit op" where
  "obligationType_InitObligationTypes e obligationTypes =
     iterM (\<lambda>t. bindM (obtDB_GetByID e (oti_ID t)) (\<lambda>info.
         if oti_ID info \<noteq> '''' \<and> \<not> checkObligationTypeChange info t then returnM ()
         else obtDB_Set e t)) obligationTypes"


section \<open>Frames\<close>

lemma keeps_obligationType_reads [keeps_intros]:
  assumes "\<And>w. f (tock w) = f w"
  shows "keeps f (checkResourceTypeAndOperation e info)" "keeps f (obligationType_GetByID e v i)"
    "keeps f (obligationType_Get e v o1 c1)" "keeps f (obligationType_Query e q)"
    "keeps f (obligationType_QueryV2 e ids)" "keeps f (obligationType_GetByIDSInternal e m)"
  unfolding checkResourceTypeAndOperation_def obligationType_GetByID_def obligationType_Get_def
    obligationType_Query_def obligationType_QueryV2_def obligationType_GetByIDSInternal_def
    ob_getResourceTypesOperation_def Let_def
  using assms by (intro keeps_intros; simp)+

lemma keeps_obligationType_writes [keeps_intros]:
  assumes "\<And>w. f (tock w) = f w" and "\<And>w rs. f (w\<lparr>t_obligation_type := rs\<rparr>) = f w"
    and "\<And>w n. f (w\<lparr>next_id := n\<rparr>) = f w"
  shows "keeps f (obligationType_Set e v info)" "keeps f (obligationType_SetPrivate e info)"
    "keeps f (obligationType_Delete e v i)" "keeps f (obligationType_InitObligationTypes e infos)"
  unfolding obligationType_Set_def obligationType_SetPrivate_def obligationType_Delete_def
    obligationType_InitObligationTypes_def
  using assms by (intro keeps_intros; simp)+

lemmas obligation_types_run [run_simps] = obligationType_checkVisitorType_def operationMapOf_def
  checkTypeScope_def checkResourceTypeAndOperation_def checkSchema_def obligationType_Set_def
  obligationType_SetPrivate_def obligationType_Delete_def ob_getOperationNameByLanguage_def
  operationNames_def ob_getResourceTypesOperation_def nameOf_def fillOperations_def fillType_def
  obligationType_GetByID_def fillStep_def obligationType_Get_def addToAll_def addToMatching_def
  operationSetStep_def getOperationSet_def obligationType_Query_def obligationType_QueryV2_def
  obligationType_GetByIDSInternal_def obligationType_InitObligationTypes_def

end
