(* ===== verification/Obligations.thy ===== *)
theory Obligations
  imports ObligationDB ObligationTypes
begin

text \<open>
  \<open>logics/obligation.go\<close>: the obligations themselves, each of one obligation type,
  whose schema its value must satisfy.
\<close>

section \<open>Operations\<close>

definition obligation_checkVisitorType :: "env \<Rightarrow> visitor \<Rightarrow> err + unit" where
  "obligation_checkVisitorType e visitor =
     bindE (if vis_Type visitor = RealName then um_GetUserRolesByUserID e (vis_ID visitor) else Inr [])
       (\<lambda>roleTypes. checkVisitorType visitor roleTypes [RealName] [SuperAdmin, SystemAdmin, SecurityAdmin])"

interpretation obligation_guard:
  visitor_guard obligation_checkVisitorType "admin_with {SuperAdmin, SystemAdmin, SecurityAdmin}"
  by unfold_locales (auto simp: obligation_checkVisitorType_def admin_with_def bindE_Inr_iff
      checkVisitorType_iff split: if_splits)

definition checkJsonValueValid :: "env \<Rightarrow> json \<Rightarrow> json \<Rightarrow> err + unit" where
  "checkJsonValueValid e schemaTmp val =
     (if \<not> jsonschema_NewSchema e schemaTmp then Inl PublicBadRequest
      else (case jsonschema_Validate e schemaTmp val of
              Some True \<Rightarrow> Inr ()
            | _ \<Rightarrow> Inl PublicBadRequest))"

definition obligation_Add :: "env \<Rightarrow> visitor \<Rightarrow> obligation_info \<Rightarrow> string op" where
  "obligation_Add e visitor info =
     bindM (liftE (obligation_checkVisitorType e visitor)) (\<lambda>_.
     bindM (obligationType_GetByIDSInternal e (mset_true (obi_TypeID info) [])) (\<lambda>obligationTypeInfos.
       case obligationTypeInfos of
         [] \<Rightarrow> throwM PublicBadRequest
       | typeInfo # _ \<Rightarrow>
           bindM (liftE (checkJsonValueValid e (oti_Schema typeInfo) (obi_Value info))) (\<lambda>_.
           bindM (newUUID e) (\<lambda>i.
           bindM (obDB_Add e (info\<lparr> obi_ID := i \<rparr>)) (\<lambda>_.
             returnM i)))))"

definition obligation_Delete :: "env \<Rightarrow> visitor \<Rightarrow> string \<Rightarrow> unit op" where
  "obligation_Delete e visitor obligationID =
     bindM (liftE (obligation_checkVisitorType e visitor)) (\<lambda>_. obDB_Delete e obligationID)"

definition obligation_Update ::
    "env \<Rightarrow> visitor \<Rightarrow> string \<Rightarrow> string \<Rightarrow> bool \<Rightarrow> string \<Rightarrow> bool \<Rightarrow> json \<Rightarrow> bool \<Rightarrow> unit op" where
  "obligation_Update e visitor obligationID name nameChanged description descriptionChanged val valueChanged =
     bindM (liftE (obligation_checkVisitorType e visitor)) (\<lambda>_.
     bindM (obDB_GetByID e obligationID) (\<lambda>obligationInfo.
       if obi_ID obligationInfo = '''' then throwM PublicNotFound
       else bindM
         (if valueChanged
          then bindM (obligationType_GetByIDSInternal e (mset_true (obi_TypeID obligationInfo) []))
            (\<lambda>obligationTypeInfos.
              case obligationTypeInfos of
                [] \<Rightarrow> throwM PublicNotFound
              | typeInfo # _ \<Rightarrow> liftE (checkJsonValueValid e (oti_Schema typeInfo) val))
          else returnM ()) (\<lambda>_.
       obDB_Update e obligationID name nameChanged description descriptionChanged val valueChanged)))"

definition obligation_GetByID :: "env \<Rightarrow> visitor \<Rightarrow> string \<Rightarrow> obligation_info op" where
  "obligation_GetByID e visitor obligationID =
     bindM (liftE (obligation_checkVisitorType e visitor)) (\<lambda>_.
     bindM (obDB_GetByID e obligationID) (\<lambda>info.
       if obi_ID info = '''' then throwM PublicNotFound else returnM info))"

definition obligation_Get :: "env \<Rightarrow> visitor \<Rightarrow> int \<Rightarrow> int \<Rightarrow> (nat \<times> obligation_info list) op" where
  "obligation_Get e visitor off cnt =
     bindM (liftE (obligation_checkVisitorType e visitor)) (\<lambda>_. obDB_Get e off cnt)"

record query_obligation_info =
  qo_ResourceType :: string
  qo_Operation :: "string list"
  qo_ObligationTypeIDs :: "string list"

text \<open>
  The selection of the obligation types of a query: the map of the types that are kept
  and, for each operation, the types that stay.
\<close>

definition filterTypes ::
    "env \<Rightarrow> string list \<Rightarrow> (string, obligation_type_info list) gomap \<Rightarrow>
     (string, bool) gomap \<times> (string, obligation_type_info list) gomap" where
  "filterTypes e obligationTypeIDs operationTypes =
     (if obligationTypeIDs \<noteq> [] then
        (let typeMap = fold mset_true obligationTypeIDs [] in
         fold (\<lambda>(operationID, typeInfos) acc.
             fold (\<lambda>t (allMap, tmp).
               if mtrue typeMap (oti_ID t)
               then (mset_true (oti_ID t) allMap, mappend operationID [t] tmp)
               else (allMap, tmp)) typeInfos acc)
           (range_map (map_order e) operationTypes) ([], []))
      else
        (fold (\<lambda>(_, typeInfos). fold (\<lambda>t. mset_true (oti_ID t)) typeInfos)
           (range_map (map_order e) operationTypes) [], operationTypes))"

definition obligation_Query ::
    "env \<Rightarrow> query_obligation_info \<Rightarrow> (string, obligation_info list) gomap op" where
  "obligation_Query e queryInfo =
     bindM (obligationType_Query e
         \<lparr> qot_ResourceType = qo_ResourceType queryInfo, qot_Operation = qo_Operation queryInfo \<rparr>)
       (\<lambda>operationTypes0.
     let resultInfos0 = fold (\<lambda>(operationID, _). mput operationID [])
           (range_map (map_order e) operationTypes0) [];
         (allMap, operationTypes) = filterTypes e (qo_ObligationTypeIDs queryInfo) operationTypes0
     in if allMap = [] then returnM resultInfos0
        else bindM (obDB_GetByObligationTypeIDs e (map fst (range_map (map_order e) allMap))) (\<lambda>typeObligations.
          returnM (fold (\<lambda>(operationID, typeInfos). fold (\<lambda>t.
                mappend operationID (mlist typeObligations (oti_ID t))) typeInfos)
            (range_map (map_order e) operationTypes) resultInfos0)))"

definition obligation_GetByIDSInternal :: "env \<Rightarrow> (string, bool) gomap \<Rightarrow> obligation_info list op" where
  "obligation_GetByIDSInternal e obligationIDs =
     obDB_GetByIDs e (map fst (range_map (map_order e) obligationIDs))"


section \<open>Frames\<close>

lemma keeps_obligation_internal [keeps_intros]:
  assumes "\<And>w. f (tock w) = f w"
  shows "keeps f (obligation_GetByIDSInternal e ids)" "keeps f (obligation_GetByID e v i)"
    "keeps f (obligation_Get e v o1 c1)" "keeps f (obligation_Query e q)"
  unfolding obligation_GetByIDSInternal_def obligation_GetByID_def obligation_Get_def
    obligation_Query_def Let_def
  using assms by (intro keeps_intros; simp)+

lemma keeps_obligation_logic_writes [keeps_intros]:
  assumes "\<And>w. f (tock w) = f w" and "\<And>w rs. f (w\<lparr>t_obligation := rs\<rparr>) = f w"
    and "\<And>w n. f (w\<lparr>next_id := n\<rparr>) = f w"
  shows "keeps f (obligation_Add e v info)" "keeps f (obligation_Delete e v i)"
    "keeps f (obligation_Update e v i n nc d dc val vc)"
  unfolding obligation_Add_def obligation_Delete_def obligation_Update_def
  using assms by (intro keeps_intros; simp)+

lemmas obligation_internal_run [run_simps] = obligation_checkVisitorType_def checkJsonValueValid_def
  obligation_Add_def obligation_Delete_def obligation_Update_def obligation_GetByID_def
  obligation_Get_def filterTypes_def obligation_Query_def obligation_GetByIDSInternal_def

end
