(* ===== verification/PolicyCalc.thy ===== *)
theory PolicyCalc
  imports PolicyDB RoleFacts Obligations
begin

text \<open>
  \<open>logics/policy_calc.go\<close>: the access decision.  Policies found on one resource
  are combined with deny taking precedence; the levels of a resource (itself,
  the \<open>parent/*\<close> entries of its ancestors, and \<open>*\<close>) are combined with the
  nearest level taking precedence.
\<close>

section \<open>Constants\<close>

definition rootDepObligationPriority :: int where
  "rootDepObligationPriority = 5"

text \<open>The priority table; an accessor type without an entry reads as zero.\<close>

definition obligationPriority :: "accessor_type \<Rightarrow> int" where
  "obligationPriority t =
     (case t of AccessorUser \<Rightarrow> 1 | AccessorApp \<Rightarrow> 1 | AccessorRole \<Rightarrow> 2 | AccessorGroup \<Rightarrow> 3
      | AccessorDepartment \<Rightarrow> 4 | _ \<Rightarrow> 0)"

record resource_perm =
  perm_allow :: "(string, calc_item list) gomap"
  perm_deny :: "(string, bool) gomap"

definition zero_perm :: resource_perm where
  "zero_perm = \<lparr> perm_allow = [], perm_deny = [] \<rparr>"


section \<open>Conditions\<close>

definition isConditionEmpty :: "json \<Rightarrow> bool" where
  "isConditionEmpty c \<longleftrightarrow> c = JNull \<or> c = JObj []"

text \<open>A nil data map fails every condition, and so does an error or a non-boolean result.\<close>

definition checkCondition :: "env \<Rightarrow> json \<Rightarrow> (string \<times> json) list option \<Rightarrow> bool" where
  "checkCondition e condition data =
     (case data of
        None \<Rightarrow> False
      | Some d \<Rightarrow>
          (case jsonlogic_Apply e condition (JObj d) of
             Some (JBool b) \<Rightarrow> b
           | _ \<Rightarrow> False))"

definition makeDataInfo ::
    "resource_info \<Rightarrow> accessor_info \<Rightarrow> (string \<times> json) list \<Rightarrow> (string \<times> json) list" where
  "makeDataInfo resource accessor dataMap =
     (let d1 = mput ''accessor'' (JObj [(''id'', JStr (acc_ID accessor))]) dataMap
      in if res_CreatedBy resource \<noteq> ''''
         then mput ''resource'' (JObj [(''created_by'', JObj [(''id'', JStr (res_CreatedBy resource))])]) d1
         else d1)"


section \<open>One level\<close>

definition rule_active :: "env \<Rightarrow> (string \<times> json) list option \<Rightarrow> rule_item \<Rightarrow> bool" where
  "rule_active e data v \<longleftrightarrow>
     isConditionEmpty (rule_Condition v) \<or> checkCondition e (rule_Condition v) data"

definition denyRules ::
    "env \<Rightarrow> (string \<times> json) list option \<Rightarrow> policy_info \<Rightarrow> (string, bool) gomap \<Rightarrow> (string, bool) gomap" where
  "denyRules e data p =
     fold (\<lambda>v denyMap.
        if rule_active e data v
        then fold (\<lambda>ope. mset_true (ope_ID ope)) (rule_Operations v) denyMap
        else denyMap) (rules_Deny (pol_Rules p))"

definition calcItems :: "policy_info \<Rightarrow> operation_item \<Rightarrow> calc_item list" where
  "calcItems p ope =
     map (\<lambda>obl. obligation_item.extend obl
            (calc_item.fields
              (if pol_AccessorID p = rootDepID then rootDepObligationPriority
               else obligationPriority (pol_AccessorType p))))
       (ope_Obligations ope)"

definition allowRules ::
    "env \<Rightarrow> (string \<times> json) list option \<Rightarrow> (string, bool) gomap \<Rightarrow> policy_info \<Rightarrow>
     (string, calc_item list) gomap \<Rightarrow> (string, calc_item list) gomap" where
  "allowRules e data denyMap p =
     fold (\<lambda>v allowMap.
        if rule_active e data v
        then fold (\<lambda>ope allowMap.
               if mtrue denyMap (ope_ID ope) then allowMap
               else mappend (ope_ID ope) (calcItems p ope) allowMap) (rule_Operations v) allowMap
        else allowMap) (rules_Allow (pol_Rules p))"

definition calcOneResourcePerm ::
    "env \<Rightarrow> (string \<times> json) list option \<Rightarrow> policy_info list \<Rightarrow> resource_perm" where
  "calcOneResourcePerm e data policies =
     (if policies = [] then zero_perm
      else let denyMap = fold (denyRules e data) policies [];
               allowMap = fold (allowRules e data denyMap) policies []
           in \<lparr> perm_allow = allowMap, perm_deny = denyMap \<rparr>)"


section \<open>Several levels\<close>

definition createAncestorsResource :: "resource_info \<Rightarrow> resource_info list" where
  "createAncestorsResource resource =
     map (\<lambda>a. \<lparr> res_ID = anc_ID a @ ''/*'', res_Type = res_Type resource, res_Name = '''',
                res_Ancestors = [], res_CreatedBy = '''' \<rparr>) (res_Ancestors resource) @ [resource]"

definition permOf :: "(string, resource_perm) gomap \<Rightarrow> string \<Rightarrow> resource_perm" where
  "permOf m k = (case map_of m k of None \<Rightarrow> zero_perm | Some p \<Rightarrow> p)"

type_synonym inherited =
  "(string, bool) gomap \<times> (string, bool) gomap \<times> (string, calc_item list) gomap"

text \<open>The loop body shared by both variants: first the denials of a level, then its permissions.\<close>

definition denyLevel ::
    "(string list \<Rightarrow> string list) \<Rightarrow> resource_perm \<Rightarrow> (string, bool) gomap \<Rightarrow> (string, bool) gomap \<Rightarrow>
     (string, bool) gomap" where
  "denyLevel ord perm allowMap denyMap =
     fold (\<lambda>(v, _) denyMap.
        if \<not> mtrue denyMap v \<and> \<not> mtrue allowMap v then mset_true v denyMap else denyMap)
       (range_map ord (perm_deny perm)) denyMap"

definition allowLevel ::
    "(string list \<Rightarrow> string list) \<Rightarrow> resource_perm \<Rightarrow> (string, bool) gomap \<Rightarrow>
     (string, bool) gomap \<times> (string, calc_item list) gomap \<Rightarrow>
     (string, bool) gomap \<times> (string, calc_item list) gomap" where
  "allowLevel ord perm denyMap acc =
     fold (\<lambda>(v, val) (allowMap, withObl).
        (if \<not> mtrue denyMap v \<and> \<not> mtrue allowMap v then mset_true v allowMap else allowMap,
         if \<not> mtrue denyMap v then mappend v val withObl else withObl))
       (range_map ord (perm_allow perm)) acc"

definition inheritStep ::
    "(string list \<Rightarrow> string list) \<Rightarrow> resource_perm \<Rightarrow> inherited \<Rightarrow> inherited" where
  "inheritStep ord perm acc =
     (case acc of (allowMap, denyMap, withObl) \<Rightarrow>
        (let denyMap' = denyLevel ord perm allowMap denyMap;
             r = allowLevel ord perm denyMap' (allowMap, withObl)
         in (fst r, denyMap', snd r)))"

definition lastID :: "resource_info list \<Rightarrow> string" where
  "lastID resources = (if resources = [] then '''' else res_ID (last resources))"

text \<open>
  The slice is created with \<open>make([]string, len(resources))\<close> and then appended to,
  so as many empty identifiers stand in front of the real ones.
\<close>

definition resourceIDs :: "resource_info list \<Rightarrow> string list" where
  "resourceIDs resources = replicate (length resources) '''' @ map res_ID (rev resources)"

definition calcResourceInheritedOperation ::
    "env \<Rightarrow> resource_info list \<Rightarrow> (string, resource_perm) gomap \<Rightarrow> inherited" where
  "calcResourceInheritedOperation e resources resourcePermMap =
     fold (\<lambda>i. inheritStep (map_order e) (permOf resourcePermMap i))
       (resourceIDs resources @ (if lastID resources \<noteq> ''*'' then [''*''] else []))
       ([], [], [])"

definition calcResourceInheritedOperationEx ::
    "env \<Rightarrow> resource_info list \<Rightarrow> (string, resource_perm) gomap \<Rightarrow> inherited" where
  "calcResourceInheritedOperationEx e resources resourcePermMap =
     fold (\<lambda>i. inheritStep (map_order e) (permOf resourcePermMap i))
       (resourceIDs resources @
         (if lastID resources \<noteq> ''*'' then [lastID resources @ ''_*''] else []))
       ([], [], [])"

text \<open>The test every caller applies: each operation is allowed and not denied.\<close>

definition allAllowed :: "string list \<Rightarrow> inherited \<Rightarrow> bool" where
  "allAllowed operation r =
     (case r of (allowMap, denyMap, _) \<Rightarrow>
        list_all (\<lambda>v. \<not> (mtrue denyMap v \<or> \<not> mtrue allowMap v)) operation)"

section \<open>Obligations\<close>

text \<open>For one operation: sort by priority, keep the first item of every obligation type.\<close>

definition firstPerType :: "calc_item list \<Rightarrow> (string, obligation_item) gomap" where
  "firstPerType obligations =
     fold (\<lambda>obl rTmp.
        if map_of rTmp (obl_TypeID obl) \<noteq> None then rTmp
        else mput (obl_TypeID obl)
               \<lparr> obl_TypeID = obl_TypeID obl, obl_ID = obl_ID obl, obl_Value = obl_Value obl \<rparr> rTmp)
       obligations []"

definition obligationIDsOf :: "(string, obligation_item) gomap \<Rightarrow> (string, bool) gomap \<Rightarrow> (string, bool) gomap" where
  "obligationIDsOf rTmp obligationMap =
     fold (\<lambda>(_, obl) m. if obl_ID obl \<noteq> '''' then mset_true (obl_ID obl) m else m) rTmp obligationMap"

definition collectObligations ::
    "env \<Rightarrow> (string, calc_item list) gomap \<Rightarrow> (string, obligation_item list) gomap \<times> (string, bool) gomap" where
  "collectObligations e withObl =
     fold (\<lambda>(v, obligations) (result, obligationMap).
        (let rTmp = firstPerType (sort_slice e obligations)
         in (mput v (map snd (range_map (map_order e) rTmp)) result,
             obligationIDsOf rTmp obligationMap)))
       (range_map (map_order e) withObl) ([], [])"

text \<open>An item that names an obligation takes its value from it, and goes if it no longer exists.\<close>

definition resolveObligations ::
    "env \<Rightarrow> obligation_info list \<Rightarrow> (string, obligation_item list) gomap \<Rightarrow>
     (string, obligation_item list) gomap" where
  "resolveObligations e obligations result =
     (let infMap = fold (\<lambda>v. mput (obi_ID v) v) obligations []
      in fold (\<lambda>(operation, oblist) tmp.
           fold (\<lambda>ob tmp.
             if obl_ID ob = '''' then mappend operation [ob] tmp
             else (case map_of infMap (obl_ID ob) of
                     Some info \<Rightarrow> mappend operation [ob\<lparr> obl_Value := obi_Value info \<rparr>] tmp
                   | None \<Rightarrow> tmp)) oblist tmp)
         (range_map (map_order e) result) [])"

definition calcObligationWithPriority ::
    "env \<Rightarrow> (string, calc_item list) gomap \<Rightarrow> (string, obligation_item list) gomap op" where
  "calcObligationWithPriority e withObl =
     (case collectObligations e withObl of (result, obligationMap) \<Rightarrow>
        if obligationMap = [] then returnM result
        else bindM (tryM (obligation_GetByIDSInternal e obligationMap)) (\<lambda>r.
          case r of
            Inl _ \<Rightarrow> returnM result
          | Inr obligations \<Rightarrow> returnM (resolveObligations e obligations result)))"


section \<open>Access tokens\<close>

definition systemRoleToken :: "system_role \<Rightarrow> string list" where
  "systemRoleToken roleType =
     (case roleType of
        SuperAdmin \<Rightarrow> [superAdminRoleID]
      | SystemAdmin \<Rightarrow> [systemAdminRoleID]
      | SecurityAdmin \<Rightarrow> [securityAdminRoleID]
      | AuditAdmin \<Rightarrow> [auditAdminRoleID]
      | OrganizationAdmin \<Rightarrow> [organizationAdminRoleID]
      | OrganizationAudit \<Rightarrow> [organizationAuditRoleID]
      | NormalUser \<Rightarrow> [])"

definition getAccessorIDs :: "env \<Rightarrow> accessor_info \<Rightarrow> string list op" where
  "getAccessorIDs e accessor =
     bindM (case acc_Type accessor of
              RealName \<Rightarrow>
                bindM (liftE (um_GetAccessorIDsByUserID e (acc_ID accessor))) (\<lambda>toks.
                  returnM (toks @ [rootDepID]))
            | App \<Rightarrow> returnM [acc_ID accessor]
            | _ \<Rightarrow> returnM []) (\<lambda>accessTokens.
     bindM (role_GetRoleByMembers e accessTokens) (\<lambda>roles.
     bindM (if acc_Type accessor = RealName
            then bindM (liftE (um_GetUserRolesByUserID e (acc_ID accessor))) (\<lambda>roleTypes.
                   returnM (concat (map systemRoleToken roleTypes)))
            else returnM []) (\<lambda>systemTokens.
       returnM (Distinct (accessTokens @ map role_ID roles @ systemTokens)))))"


section \<open>Check\<close>

record check_result =
  cr_Result :: bool
  cr_OperatrionOblist :: "(string, obligation_item list) gomap"

definition checkData :: "resource_info \<Rightarrow> accessor_info \<Rightarrow> (string \<times> json) list option" where
  "checkData resource accessor =
     (if res_ID resource \<noteq> ''*'' then Some (makeDataInfo resource accessor []) else None)"

text \<open>One permission per resource ID that has policies.\<close>

definition permMapOf ::
    "env \<Rightarrow> (string \<Rightarrow> (string \<times> json) list option) \<Rightarrow> (string, policy_info list) gomap \<Rightarrow>
     (string, resource_perm) gomap" where
  "permMapOf e dataOf policyMap =
     fold (\<lambda>(resourceID, policies) m.
        if policies = [] then m
        else mput resourceID (calcOneResourcePerm e (dataOf resourceID) policies) m)
       (range_map (map_order e) policyMap) []"

definition Check ::
    "env \<Rightarrow> resource_info \<Rightarrow> accessor_info \<Rightarrow> string list \<Rightarrow> calc_include list \<Rightarrow> check_result op" where
  "Check e resource accessor operation include =
     bindM (getAccessorIDs e accessor) (\<lambda>accessTokens.
       let resources = createAncestorsResource resource in
     bindM (GetPoliciesByResourcesAndAccessToken e resources accessTokens) (\<lambda>policies.
       let policyMap = group_by pol_ResourceID policies;
           resourcePermMap = permMapOf e (\<lambda>_. checkData resource accessor) policyMap;
           r = calcResourceInheritedOperation e resources resourcePermMap
       in if \<not> allAllowed operation r
          then returnM \<lparr> cr_Result = False, cr_OperatrionOblist = [] \<rparr>
          else if PolicCalcyIncludeOperationObligations \<in> set include
          then bindM (calcObligationWithPriority e (snd (snd r))) (\<lambda>obl.
                 returnM \<lparr> cr_Result = True, cr_OperatrionOblist = obl \<rparr>)
          else returnM \<lparr> cr_Result = True, cr_OperatrionOblist = [] \<rparr>))"


section \<open>Lists and filters\<close>

definition bareResource :: "string \<Rightarrow> resource_info" where
  "bareResource i =
     \<lparr> res_ID = i, res_Type = '''', res_Name = '''', res_Ancestors = [], res_CreatedBy = '''' \<rparr>"

definition GetResourceList ::
    "env \<Rightarrow> string \<Rightarrow> accessor_info \<Rightarrow> string list \<Rightarrow> calc_include list \<Rightarrow>
     (resource_info list \<times> (string, (string, obligation_item list) gomap) gomap) op" where
  "GetResourceList e resourceTypeID accessor operation include =
     bindM (getAccessorIDs e accessor) (\<lambda>accessTokens.
     bindM (GetPoliciesByResourceTypeAndAccessToken e resourceTypeID accessTokens) (\<lambda>policies.
       let policyMap = group_by pol_ResourceID policies;
           ancestorsMap = fold (\<lambda>p. mput (pol_ResourceID p) (pol_Ancestors p)) policies [];
           resourcePermMap = permMapOf e (\<lambda>_. None) policyMap;
           allResources = map fst (range_map (map_order e) resourcePermMap)
       in foldM (\<lambda>resourceID (resources, oblMap).
            let single = (bareResource resourceID)\<lparr> res_Type := resourceTypeID,
                           res_Ancestors := mlist ancestorsMap resourceID \<rparr>;
                r = calcResourceInheritedOperation e (createAncestorsResource single) resourcePermMap
            in if \<not> allAllowed operation r then returnM (resources, oblMap)
               else if PolicCalcyIncludeOperationObligations \<in> set include
               then bindM (calcObligationWithPriority e (snd (snd r))) (\<lambda>obl.
                      returnM (resources @ [bareResource resourceID], mput resourceID obl oblMap))
               else returnM (resources @ [bareResource resourceID], oblMap))
          allResources ([], [])))"

text \<open>
  The permissions behind \<open>ResourceFilter\<close> and \<open>GetResourceOperation\<close>: policies on
  named resources are evaluated with the data of the requested resource of that
  ID, if there is one, and with empty data otherwise; policies on \<open>*\<close> are
  evaluated once per requested resource under the key \<open>id_*\<close>.
\<close>

definition filterData ::
    "(string, resource_info) gomap \<Rightarrow> accessor_info \<Rightarrow> string \<Rightarrow> (string \<times> json) list option" where
  "filterData resourceDataMap accessor resourceID =
     (case map_of resourceDataMap resourceID of
        Some r \<Rightarrow> Some (makeDataInfo r accessor [])
      | None \<Rightarrow> Some [])"

definition typePerms ::
    "env \<Rightarrow> accessor_info \<Rightarrow> policy_info list \<Rightarrow> resource_info list \<Rightarrow>
     (string, resource_perm) gomap \<Rightarrow> (string, resource_perm) gomap" where
  "typePerms e accessor typePolicies =
     fold (\<lambda>resource m.
        if res_ID resource = ''*'' then mput ''*'' (calcOneResourcePerm e None typePolicies) m
        else mput (res_ID resource @ ''_*'')
               (calcOneResourcePerm e (Some (makeDataInfo resource accessor [])) typePolicies) m)"

definition filterPerms ::
    "env \<Rightarrow> resource_info list \<Rightarrow> accessor_info \<Rightarrow> policy_info list \<Rightarrow> (string, resource_perm) gomap" where
  "filterPerms e resources accessor policies =
     (let resourceDataMap = fold (\<lambda>r. mput (res_ID r) r) resources [];
          policyMap = group_by pol_ResourceID (filter (\<lambda>p. pol_ResourceID p \<noteq> ''*'') policies)
      in permMapOf e (filterData resourceDataMap accessor) policyMap)"

definition ResourceFilter ::
    "env \<Rightarrow> resource_info list \<Rightarrow> accessor_info \<Rightarrow> string list \<Rightarrow> calc_include list \<Rightarrow>
     (resource_info list \<times> (string, string list) gomap \<times>
      (string, (string, obligation_item list) gomap) gomap) op" where
  "ResourceFilter e resources accessor operation include =
     (if resources = [] then returnM ([], [], [])
      else bindM (getAccessorIDs e accessor) (\<lambda>accessTokens.
        let resourceTmpMap = fold (\<lambda>r. mput (res_ID r) (createAncestorsResource r)) resources [];
            allResources = concat (map createAncestorsResource resources) in
      bindM (GetPoliciesByResourcesAndAccessToken e allResources accessTokens) (\<lambda>policies.
        let typePolicies = filter (\<lambda>p. pol_ResourceID p = ''*'') policies;
            resourcePermMap = typePerms e accessor typePolicies resources
                                (filterPerms e resources accessor policies)
        in foldM (\<lambda>resource (result, opMap, oblMap).
             let r = calcResourceInheritedOperationEx e (mlist resourceTmpMap (res_ID resource)) resourcePermMap
             in if \<not> allAllowed operation r then returnM (result, opMap, oblMap)
                else bindM (if PolicCalcyIncludeOperationObligations \<in> set include
                            then bindM (calcObligationWithPriority e (snd (snd r))) (\<lambda>obl.
                                   returnM (mput (res_ID resource) obl oblMap))
                            else returnM oblMap) (\<lambda>oblMap'.
                     returnM (result @ [resource],
                              mput (res_ID resource) (map fst (range_map (map_order e) (fst r))) opMap,
                              oblMap')))
           resources ([], [], []))))"


section \<open>Operations\<close>

definition checkOperationScope :: "string \<Rightarrow> string \<Rightarrow> (string, bool) gomap \<Rightarrow> (string, bool) gomap \<Rightarrow> bool" where
  "checkOperationScope resourceID operationID typeOperationMap instanceOperationMap =
     (if resourceID = ''*'' then mtrue typeOperationMap operationID
      else mtrue instanceOperationMap operationID)"

definition getTypeAndInstanceOperation ::
    "resource_type_operation list \<Rightarrow> (string, bool) gomap \<times> (string, bool) gomap" where
  "getTypeAndInstanceOperation ops =
     fold (\<lambda>op acc. fold (\<lambda>scope (tm, im).
        (case scope of ScopeType \<Rightarrow> (mset_true (rto_ID op) tm, im)
         | ScopeInstance \<Rightarrow> (tm, mset_true (rto_ID op) im))) (rto_Scope op) acc) ops ([], [])"

definition GetResourceTypeOperation ::
    "env \<Rightarrow> string list \<Rightarrow> accessor_info \<Rightarrow> (string, string list) gomap op" where
  "GetResourceTypeOperation e resourceTypes accessor =
     (if resourceTypes = [] then returnM []
      else bindM (getAccessorIDs e accessor) (\<lambda>accessTokens.
      bindM (GetPoliciesByResourceTypes e resourceTypes accessTokens) (\<lambda>policies.
        let resourcePermMap = permMapOf e (\<lambda>_. None) (group_by pol_ResourceType policies) in
      bindM (resourceType_GetByIDsInternal e resourceTypes) (\<lambda>resourceTypeMap.
        returnM (fold (\<lambda>(resourceType, info) m.
            let typeOps = fst (getTypeAndInstanceOperation (rt_Operation info));
                allowMap = perm_allow (permOf resourcePermMap resourceType)
            in mput resourceType
                 (filter (mtrue typeOps) (map fst (range_map (map_order e) allowMap))) m)
          (range_map (map_order e) resourceTypeMap) [])))))"

definition GetResourceOperation ::
    "env \<Rightarrow> resource_info list \<Rightarrow> accessor_info \<Rightarrow>
     ((string, string list) gomap \<times> (string, (string, obligation_item list) gomap) gomap) op" where
  "GetResourceOperation e resources accessor =
     (if resources = [] then returnM ([], [])
      else bindM (getAccessorIDs e accessor) (\<lambda>accessTokens.
        let resourceTmpMap = fold (\<lambda>r. mput (res_ID r) (createAncestorsResource r)) resources [];
            allResources = concat (map createAncestorsResource resources) in
      bindM (GetPoliciesByResourcesAndAccessToken e allResources accessTokens) (\<lambda>policies.
        let typePolicies = filter (\<lambda>p. pol_ResourceID p = ''*'') policies;
            named = filterPerms e resources accessor policies;
            resourcePermMap = (if typePolicies \<noteq> [] then typePerms e accessor typePolicies resources named
                               else named) in
      bindM (resourceType_GetByIDsInternal e [res_Type (hd resources)]) (\<lambda>resourceTypeMap.
        let ops = (case map_of resourceTypeMap (res_Type (hd resources)) of
                     Some t \<Rightarrow> rt_Operation t | None \<Rightarrow> []);
            scopes = getTypeAndInstanceOperation ops
        in foldM (\<lambda>resource (opMap, oblMap).
             let r = calcResourceInheritedOperationEx e (mlist resourceTmpMap (res_ID resource)) resourcePermMap
             in bindM (calcObligationWithPriority e (snd (snd r))) (\<lambda>obl.
                  returnM (mput (res_ID resource)
                     (filter (\<lambda>key. checkOperationScope (res_ID resource) key (fst scopes) (snd scopes))
                       (map fst (range_map (map_order e) (fst r)))) opMap,
                   mput (res_ID resource) obl oblMap)))
           resources ([], [])))))"

lemmas calc_run [run_simps] = rootDepID_def superAdminRoleID_def systemAdminRoleID_def
  rootDepObligationPriority_def obligationPriority_def zero_perm_def isConditionEmpty_def
  checkCondition_def makeDataInfo_def rule_active_def denyRules_def calcItems_def allowRules_def
  calcOneResourcePerm_def createAncestorsResource_def permOf_def denyLevel_def allowLevel_def
  inheritStep_def lastID_def resourceIDs_def calcResourceInheritedOperation_def
  calcResourceInheritedOperationEx_def allAllowed_def firstPerType_def obligationIDsOf_def
  collectObligations_def resolveObligations_def calcObligationWithPriority_def systemRoleToken_def
  getAccessorIDs_def checkData_def permMapOf_def Check_def bareResource_def GetResourceList_def
  filterData_def typePerms_def filterPerms_def ResourceFilter_def checkOperationScope_def
  getTypeAndInstanceOperation_def GetResourceTypeOperation_def GetResourceOperation_def

end
