(* ===== verification/CalcFacts.thy ===== *)
theory CalcFacts
  imports PolicyCalc
begin

text \<open>
  Facts about the decision functions of \<open>PolicyCalc\<close>: what one level decides,
  that the nearest level with an opinion wins, and how both callers of the
  inheritance loop are instances of one contract.
\<close>

section \<open>One level\<close>

text \<open>The rules of a policy that speak about an operation under the given data.\<close>

definition speaks :: "env \<Rightarrow> (string \<times> json) list option \<Rightarrow> rule_item list \<Rightarrow> string \<Rightarrow> bool" where
  "speaks e data rules op \<longleftrightarrow>
     (\<exists>v\<in>set rules. rule_active e data v \<and> op \<in> ope_ID ` set (rule_Operations v))"

definition denies :: "env \<Rightarrow> (string \<times> json) list option \<Rightarrow> policy_info list \<Rightarrow> string \<Rightarrow> bool" where
  "denies e data ps op \<longleftrightarrow> (\<exists>p\<in>set ps. speaks e data (rules_Deny (pol_Rules p)) op)"

definition permits :: "env \<Rightarrow> (string \<times> json) list option \<Rightarrow> policy_info list \<Rightarrow> string \<Rightarrow> bool" where
  "permits e data ps op \<longleftrightarrow> (\<exists>p\<in>set ps. speaks e data (rules_Allow (pol_Rules p)) op)"

definition mkeys :: "('k, 'v) gomap \<Rightarrow> 'k set" where
  "mkeys m = fst ` set m"

lemma mkeys_simps [simp]:
  "mkeys [] = {}"
  "mkeys (mput k v m) = insert k (mkeys m)"
  "mkeys (mset_true k b) = insert k (mkeys b)"
  "mkeys (mappend k xs l) = insert k (mkeys l)"
proof -
  show "mkeys (mput k v m) = insert k (mkeys m)" for k :: 'k and v :: 'v and m
    using dom_map_of_conv_image_fst [of "mput k v m"] dom_map_of_conv_image_fst [of m]
    by (simp add: mkeys_def)
  then show "mkeys (mset_true k b) = insert k (mkeys b)" for k :: 'k and b
    using dom_map_of_conv_image_fst [of "mput k True b"] dom_map_of_conv_image_fst [of b]
    by (simp add: mkeys_def mset_true_def)
  show "mkeys (mappend k xs l) = insert k (mkeys l)" by (simp add: mkeys_def)
qed (simp add: mkeys_def)

lemma mkeys_iff: "k \<in> mkeys m \<longleftrightarrow> map_of m k \<noteq> None"
  by (simp add: mkeys_def map_of_eq_None_iff)

lemma mkeys_denyOps:
  "mkeys (fold (\<lambda>ope. mset_true (ope_ID ope)) ops m) = mkeys m \<union> ope_ID ` set ops"
  by (induction ops arbitrary: m) auto

lemma mkeys_denyRules:
  "op \<in> mkeys (denyRules e data p m) \<longleftrightarrow> op \<in> mkeys m \<or> speaks e data (rules_Deny (pol_Rules p)) op"
proof -
  have "op \<in> mkeys (fold (\<lambda>v denyMap. if rule_active e data v
        then fold (\<lambda>ope. mset_true (ope_ID ope)) (rule_Operations v) denyMap else denyMap) vs m) \<longleftrightarrow>
      op \<in> mkeys m \<or> speaks e data vs op" for vs
    by (induction vs arbitrary: m) (auto simp: speaks_def mkeys_denyOps)
  then show ?thesis by (simp add: denyRules_def)
qed

lemma mkeys_denyMap:
  "op \<in> mkeys (fold (denyRules e data) ps m) \<longleftrightarrow> op \<in> mkeys m \<or> denies e data ps op"
  by (induction ps arbitrary: m) (auto simp: mkeys_denyRules denies_def)

text \<open>The denial map only ever holds the value true.\<close>

lemma mtrue_denyRules:
  assumes "\<And>k. mtrue m k \<longleftrightarrow> k \<in> mkeys m"
  shows "mtrue (denyRules e data p m) k \<longleftrightarrow> k \<in> mkeys (denyRules e data p m)"
proof -
  have ops: "mtrue (fold (\<lambda>ope. mset_true (ope_ID ope)) ops m) k \<longleftrightarrow>
      k \<in> mkeys (fold (\<lambda>ope. mset_true (ope_ID ope)) ops m)"
    if "\<And>k. mtrue m k \<longleftrightarrow> k \<in> mkeys m" for ops :: "operation_item list" and m k
    using that by (induction ops arbitrary: m) auto
  have "mtrue (fold (\<lambda>v denyMap. if rule_active e data v
        then fold (\<lambda>ope. mset_true (ope_ID ope)) (rule_Operations v) denyMap else denyMap) vs m) k \<longleftrightarrow>
      k \<in> mkeys (fold (\<lambda>v denyMap. if rule_active e data v
        then fold (\<lambda>ope. mset_true (ope_ID ope)) (rule_Operations v) denyMap else denyMap) vs m)"
    if "\<And>k. mtrue m k \<longleftrightarrow> k \<in> mkeys m" for vs m
    using that
  proof (induction vs arbitrary: m)
    case (Cons v vs)
    then show ?case by (simp add: ops)
  qed simp
  then show ?thesis using assms by (simp add: denyRules_def)
qed

lemma mtrue_denyMap:
  assumes "\<And>k. mtrue m k \<longleftrightarrow> k \<in> mkeys m"
  shows "mtrue (fold (denyRules e data) ps m) op \<longleftrightarrow> op \<in> mkeys (fold (denyRules e data) ps m)"
  using assms
proof (induction ps arbitrary: m)
  case (Cons p ps)
  then show ?case using mtrue_denyRules [of m] by simp
qed simp

lemma mkeys_allowOps:
  "op \<in> mkeys (fold (\<lambda>ope m. if mtrue d (ope_ID ope) then m
        else mappend (ope_ID ope) (calcItems p ope) m) ops m) \<longleftrightarrow>
     op \<in> mkeys m \<or> (op \<in> ope_ID ` set ops \<and> \<not> mtrue d op)"
  by (induction ops arbitrary: m) auto

lemma mkeys_allowRules:
  "op \<in> mkeys (allowRules e data d p m) \<longleftrightarrow>
     op \<in> mkeys m \<or> (speaks e data (rules_Allow (pol_Rules p)) op \<and> \<not> mtrue d op)"
proof -
  have "op \<in> mkeys (fold (\<lambda>v allowMap. if rule_active e data v
        then fold (\<lambda>ope m. if mtrue d (ope_ID ope) then m
               else mappend (ope_ID ope) (calcItems p ope) m) (rule_Operations v) allowMap
        else allowMap) vs m) \<longleftrightarrow>
      op \<in> mkeys m \<or> (speaks e data vs op \<and> \<not> mtrue d op)" for vs
    by (induction vs arbitrary: m) (auto simp: speaks_def mkeys_allowOps)
  then show ?thesis by (simp add: allowRules_def)
qed

lemma mkeys_allowMap:
  "op \<in> mkeys (fold (allowRules e data d) ps m) \<longleftrightarrow>
     op \<in> mkeys m \<or> (permits e data ps op \<and> \<not> mtrue d op)"
  by (induction ps arbitrary: m) (auto simp: mkeys_allowRules permits_def)

lemma calcOne_deny: "op \<in> mkeys (perm_deny (calcOneResourcePerm e data ps)) \<longleftrightarrow> denies e data ps op"
  by (auto simp: calcOneResourcePerm_def zero_perm_def mkeys_denyMap denies_def Let_def)

lemma calcOne_allow:
  "op \<in> mkeys (perm_allow (calcOneResourcePerm e data ps)) \<longleftrightarrow>
     permits e data ps op \<and> \<not> denies e data ps op"
  by (auto simp: calcOneResourcePerm_def zero_perm_def mkeys_allowMap permits_def Let_def
      mtrue_denyMap mkeys_denyMap)

text \<open>What a level decides about an operation: denied, permitted, or nothing.\<close>

definition level_decision :: "resource_perm \<Rightarrow> string \<Rightarrow> bool option" where
  "level_decision perm op =
     (if op \<in> mkeys (perm_deny perm) then Some False
      else if op \<in> mkeys (perm_allow perm) then Some True else None)"

definition rules_decision ::
    "env \<Rightarrow> (string \<times> json) list option \<Rightarrow> policy_info list \<Rightarrow> string \<Rightarrow> bool option" where
  "rules_decision e data ps op =
     (if denies e data ps op then Some False
      else if permits e data ps op then Some True else None)"

lemma level_decision_calcOne:
  "level_decision (calcOneResourcePerm e data ps) op = rules_decision e data ps op"
  by (simp add: level_decision_def rules_decision_def calcOne_deny calcOne_allow)

lemma level_decision_zero [simp]: "level_decision zero_perm op = None"
  by (simp add: level_decision_def zero_perm_def)

lemma rules_decision_Nil [simp]: "rules_decision e data [] op = None"
  by (simp add: rules_decision_def denies_def permits_def)

definition perm_wf :: "resource_perm \<Rightarrow> bool" where
  "perm_wf p \<longleftrightarrow> mwf (perm_allow p) \<and> mwf (perm_deny p)"

lemma mwf_fold_set_true: "mwf m \<Longrightarrow> mwf (fold (\<lambda>x. mset_true (f x)) xs m)"
  by (induction xs arbitrary: m) auto

lemma mwf_denyRules: "mwf m \<Longrightarrow> mwf (denyRules e data p m)"
proof -
  have "mwf m \<Longrightarrow> mwf (fold (\<lambda>v denyMap. if rule_active e data v
      then fold (\<lambda>ope. mset_true (ope_ID ope)) (rule_Operations v) denyMap else denyMap) vs m)" for vs
    by (induction vs arbitrary: m) (auto simp: mwf_fold_set_true)
  then show "mwf m \<Longrightarrow> mwf (denyRules e data p m)" by (simp add: denyRules_def)
qed

lemma mwf_allowRules: "mwf m \<Longrightarrow> mwf (allowRules e data d p m)"
proof -
  have ops: "mwf m \<Longrightarrow> mwf (fold (\<lambda>ope m. if mtrue d (ope_ID ope) then m
      else mappend (ope_ID ope) (calcItems p ope) m) ops m)" for ops m
    by (induction ops arbitrary: m) auto
  have "mwf m \<Longrightarrow> mwf (fold (\<lambda>v allowMap. if rule_active e data v
      then fold (\<lambda>ope m. if mtrue d (ope_ID ope) then m
             else mappend (ope_ID ope) (calcItems p ope) m) (rule_Operations v) allowMap
      else allowMap) vs m)" for vs
    by (induction vs arbitrary: m) (auto simp: ops)
  then show "mwf m \<Longrightarrow> mwf (allowRules e data d p m)" by (simp add: allowRules_def)
qed

lemma perm_wf_calcOne [simp]: "perm_wf (calcOneResourcePerm e data ps)"
proof -
  have "mwf (fold (denyRules e data) ps m)" if "mwf m" for m
    using that by (induction ps arbitrary: m) (auto simp: mwf_denyRules)
  moreover have "mwf (fold (allowRules e data d) ps m)" if "mwf m" for d m
    using that by (induction ps arbitrary: m) (auto simp: mwf_allowRules)
  ultimately show ?thesis
    by (simp add: perm_wf_def calcOneResourcePerm_def zero_perm_def Let_def)
qed

lemma perm_wf_zero [simp]: "perm_wf zero_perm"
  by (simp add: perm_wf_def zero_perm_def)

section \<open>Several levels\<close>

text \<open>The reference: the first level that decides, starting with the nearest.\<close>

primrec nearest :: "bool option list \<Rightarrow> bool option" where
  "nearest [] = None"
| "nearest (d # ds) = (case d of None \<Rightarrow> nearest ds | Some b \<Rightarrow> Some b)"

lemma nearest_append: "nearest (ds @ ds') = (case nearest ds of None \<Rightarrow> nearest ds' | Some b \<Rightarrow> Some b)"
  by (induction ds) (auto split: option.splits)

lemma nearest_replicate: "nearest (replicate n d @ d # ds) = nearest (d # ds)"
  by (induction n) (auto split: option.splits)

lemma nearest_replicate_None: "nearest (replicate n None @ ds) = nearest ds"
  by (induction n) auto

lemma nearest_Some_iff:
  "nearest ds = Some b \<longleftrightarrow> (\<exists>k < length ds. ds ! k = Some b \<and> (\<forall>j < k. ds ! j = None))"
proof (induction ds)
  case (Cons d ds)
  show ?case
  proof (cases d)
    case None
    then have "nearest (d # ds) = Some b \<longleftrightarrow>
        (\<exists>k < length ds. ds ! k = Some b \<and> (\<forall>j < k. ds ! j = None))"
      using Cons by simp
    also have "\<dots> \<longleftrightarrow> (\<exists>k < length (d # ds). (d # ds) ! k = Some b \<and> (\<forall>j < k. (d # ds) ! j = None))"
    proof
      assume "\<exists>k < length ds. ds ! k = Some b \<and> (\<forall>j < k. ds ! j = None)"
      then obtain k where k: "k < length ds" "ds ! k = Some b" "\<forall>j < k. ds ! j = None" by auto
      then have "\<forall>j < Suc k. (d # ds) ! j = None" using None by (auto simp: less_Suc_eq_0_disj)
      with k show "\<exists>k < length (d # ds). (d # ds) ! k = Some b \<and> (\<forall>j < k. (d # ds) ! j = None)"
        by (intro exI [of _ "Suc k"]) auto
    next
      assume "\<exists>k < length (d # ds). (d # ds) ! k = Some b \<and> (\<forall>j < k. (d # ds) ! j = None)"
      then obtain k where k: "k < length (d # ds)" "(d # ds) ! k = Some b"
        "\<forall>j < k. (d # ds) ! j = None" by blast
      with None obtain k' where "k = Suc k'" by (cases k) auto
      with k show "\<exists>k < length ds. ds ! k = Some b \<and> (\<forall>j < k. ds ! j = None)"
        by (intro exI [of _ k']) auto
    qed
    finally show ?thesis .
  next
    case (Some c)
    show ?thesis
    proof
      assume "nearest (d # ds) = Some b"
      then show "\<exists>k < length (d # ds). (d # ds) ! k = Some b \<and> (\<forall>j < k. (d # ds) ! j = None)"
        using Some by (intro exI [of _ 0]) simp
    next
      assume "\<exists>k < length (d # ds). (d # ds) ! k = Some b \<and> (\<forall>j < k. (d # ds) ! j = None)"
      then obtain k where k: "(d # ds) ! k = Some b" "\<forall>j < k. (d # ds) ! j = None" by blast
      then have "k = 0" using Some by (metis nth_Cons_0 not_gr_zero option.distinct(1))
      then show "nearest (d # ds) = Some b" using k(1) Some by simp
    qed
  qed
qed simp

lemma mtrue_denyLevel:
  assumes "key_order ord"
  shows "mtrue (denyLevel ord perm al dn) op \<longleftrightarrow>
     mtrue dn op \<or> (op \<in> mkeys (perm_deny perm) \<and> \<not> mtrue al op)"
proof -
  have "mtrue (fold (\<lambda>(v, _) dn. if \<not> mtrue dn v \<and> \<not> mtrue al v then mset_true v dn else dn) kvs dn) op \<longleftrightarrow>
      mtrue dn op \<or> (op \<in> fst ` set kvs \<and> \<not> mtrue al op)" for kvs :: "(string \<times> bool) list"
    by (induction kvs arbitrary: dn) (auto split: if_splits)
  moreover have "fst ` set (range_map ord (perm_deny perm)) = mkeys (perm_deny perm)"
    using map_fst_range_map [OF assms, of "perm_deny perm"] key_order_set [OF assms]
    by (metis list.set_map mkeys_def)
  ultimately show ?thesis by (simp add: denyLevel_def)
qed

lemma mtrue_allowLevel:
  assumes "key_order ord"
  shows "mtrue (fst (allowLevel ord perm dn (al, wo))) op \<longleftrightarrow>
     mtrue al op \<or> (op \<in> mkeys (perm_allow perm) \<and> \<not> mtrue dn op)"
proof -
  have "mtrue (fst (fold (\<lambda>(v, val) (al, wo).
        (if \<not> mtrue dn v \<and> \<not> mtrue al v then mset_true v al else al,
         if \<not> mtrue dn v then mappend v val wo else wo)) kvs (al, wo))) op \<longleftrightarrow>
      mtrue al op \<or> (op \<in> fst ` set kvs \<and> \<not> mtrue dn op)" for kvs :: "(string \<times> calc_item list) list"
    by (induction kvs arbitrary: al wo) (auto split: if_splits)
  moreover have "fst ` set (range_map ord (perm_allow perm)) = mkeys (perm_allow perm)"
    using map_fst_range_map [OF assms, of "perm_allow perm"] key_order_set [OF assms]
    by (metis list.set_map mkeys_def)
  ultimately show ?thesis by (simp add: allowLevel_def)
qed

text \<open>What has been decided so far; both maps never hold the same operation.\<close>

definition decided :: "inherited \<Rightarrow> string \<Rightarrow> bool option" where
  "decided r op =
     (if mtrue (fst r) op then Some True else if mtrue (fst (snd r)) op then Some False else None)"

definition consistent :: "inherited \<Rightarrow> bool" where
  "consistent r \<longleftrightarrow> (\<forall>op. \<not> (mtrue (fst r) op \<and> mtrue (fst (snd r)) op))"

lemma consistent_inheritStep:
  "key_order ord \<Longrightarrow> consistent r \<Longrightarrow> consistent (inheritStep ord perm r)"
  by (cases r) (auto simp: consistent_def inheritStep_def Let_def mtrue_denyLevel mtrue_allowLevel)

lemma decided_inheritStep:
  assumes "key_order ord" "consistent r"
  shows "decided (inheritStep ord perm r) op =
     (case decided r op of None \<Rightarrow> level_decision perm op | Some b \<Rightarrow> Some b)"
  using assms
  by (cases r) (auto simp: decided_def consistent_def inheritStep_def Let_def mtrue_denyLevel
      mtrue_allowLevel level_decision_def)

lemma inheritSteps:
  assumes "key_order ord" "consistent r"
  shows "consistent (fold (\<lambda>i. inheritStep ord (perm i)) ids r) \<and>
     decided (fold (\<lambda>i. inheritStep ord (perm i)) ids r) op =
       (case decided r op of None \<Rightarrow> nearest (map (\<lambda>i. level_decision (perm i) op) ids) | Some b \<Rightarrow> Some b)"
  using assms(2)
proof (induction ids arbitrary: r)
  case (Cons i ids)
  have "consistent (inheritStep ord (perm i) r)"
    using assms(1) Cons.prems by (rule consistent_inheritStep)
  from Cons.IH [OF this] show ?case
    using decided_inheritStep [OF assms(1) Cons.prems]
    by (auto split: option.splits)
qed (auto split: option.splits)

text \<open>
  The contract of an inheritance computation: it merges the permissions of the
  levels \<open>ids\<close> in that order.  Everything the callers rely on follows from it.
\<close>

locale inheritance =
  fixes calc :: "env \<Rightarrow> resource_info list \<Rightarrow> (string, resource_perm) gomap \<Rightarrow> inherited"
    and ids :: "resource_info list \<Rightarrow> string list"
  assumes calc_levels:
    "calc e rs m = fold (\<lambda>i. inheritStep (map_order e) (permOf m i)) (ids rs) ([], [], [])"
begin

lemma calc_decided:
  assumes "env_ok e"
  shows "decided (calc e rs m) op = nearest (map (\<lambda>i. level_decision (permOf m i) op) (ids rs))"
proof -
  have "consistent ([], [], [])" by (simp add: consistent_def)
  from inheritSteps [OF env_ok_key_order [OF assms] this, of "permOf m" "ids rs" op]
  show ?thesis by (simp add: calc_levels decided_def)
qed

lemma calc_consistent:
  assumes "env_ok e"
  shows "consistent (calc e rs m)"
proof -
  have "consistent ([], [], [])" by (simp add: consistent_def)
  from inheritSteps [OF env_ok_key_order [OF assms] this, of "permOf m" "ids rs"]
  show ?thesis by (simp add: calc_levels)
qed

lemma calc_allAllowed:
  assumes "env_ok e"
  shows "allAllowed ops (calc e rs m) \<longleftrightarrow>
     (\<forall>op\<in>set ops. nearest (map (\<lambda>i. level_decision (permOf m i) op) (ids rs)) = Some True)"
proof -
  obtain al dn wo where r: "calc e rs m = (al, dn, wo)" by (cases "calc e rs m")
  have "\<not> (mtrue dn op \<or> \<not> mtrue al op) \<longleftrightarrow>
      nearest (map (\<lambda>i. level_decision (permOf m i) op) (ids rs)) = Some True" for op
    using calc_consistent [OF assms, of rs m]
    unfolding calc_decided [OF assms, of rs m op, symmetric]
    by (auto simp: r decided_def consistent_def)
  then show ?thesis
    by (simp add: allAllowed_def r list_all_iff)
qed

text \<open>The allowed operations do not depend on the iteration order of Go maps.\<close>

lemma calc_order_irrelevant:
  assumes "env_ok e" "env_ok e'"
  shows "decided (calc e rs m) = decided (calc e' rs m)"
  using assms by (simp add: fun_eq_iff calc_decided)

end

definition levelIDs :: "resource_info list \<Rightarrow> string list" where
  "levelIDs rs = resourceIDs rs @ (if lastID rs \<noteq> ''*'' then [''*''] else [])"

definition levelIDsEx :: "resource_info list \<Rightarrow> string list" where
  "levelIDsEx rs = resourceIDs rs @ (if lastID rs \<noteq> ''*'' then [lastID rs @ ''_*''] else [])"

interpretation plain: inheritance calcResourceInheritedOperation levelIDs
  by unfold_locales (simp add: calcResourceInheritedOperation_def levelIDs_def)

interpretation per_resource: inheritance calcResourceInheritedOperationEx levelIDsEx
  by unfold_locales (simp add: calcResourceInheritedOperationEx_def levelIDsEx_def)


section \<open>Permissions per resource\<close>

lemma permMapOf_fold:
  assumes "distinct (map fst kvs)"
  shows "map_of (fold (\<lambda>(i, ps) m. if ps = [] then m else mput i (f i ps) m) kvs m) i =
     (case map_of kvs i of
        None \<Rightarrow> map_of m i
      | Some ps \<Rightarrow> if ps = [] then map_of m i else Some (f i ps))"
  using assms
proof (induction kvs arbitrary: m)
  case (Cons kv kvs)
  obtain k ps where kv: "kv = (k, ps)" by (cases kv)
  have "map_of kvs k = None"
    using Cons.prems kv by (simp add: map_of_eq_None_iff)
  then show ?case using Cons kv by (auto split: option.splits)
qed simp

lemma permOf_permMapOf:
  assumes "env_ok e"
  shows "permOf (permMapOf e dataOf (group_by key ps)) i =
     calcOneResourcePerm e (dataOf i) (filter (\<lambda>p. key p = i) ps)"
proof -
  let ?g = "group_by key ps"
  have d: "distinct (map fst (range_map (map_order e) ?g))"
    using assms by (intro distinct_range_map) simp_all
  have "map_of (range_map (map_order e) ?g) i = map_of ?g i"
    using assms by (subst map_of_range_map) simp_all
  then have "map_of (permMapOf e dataOf ?g) i =
      (if i \<in> key ` set ps then Some (calcOneResourcePerm e (dataOf i) (filter (\<lambda>p. key p = i) ps))
       else None)"
    unfolding permMapOf_def
    by (subst permMapOf_fold [OF d]) (auto simp: map_of_group_by filter_empty_conv split: option.splits)
  moreover have "i \<notin> key ` set ps \<Longrightarrow> filter (\<lambda>p. key p = i) ps = []"
    by (auto simp: filter_empty_conv)
  ultimately show ?thesis
    by (auto simp: permOf_def calcOneResourcePerm_def)
qed

end
