(* ===== verification/Decision.thy ===== *)
theory Decision
  imports CalcFacts
begin

text \<open>
  The abstract access decision, stated on the rows of the policy table, and the
  proof that \<open>Check\<close> implements it; what the decision functions leave alone;
  the obligations that accompany a permission.
\<close>

section \<open>The abstract decision\<close>

text \<open>The levels of a resource, nearest first.\<close>

definition levels :: "resource_info \<Rightarrow> string list" where
  "levels resource =
     res_ID resource # rev (map (\<lambda>a. anc_ID a @ ''/*'') (res_Ancestors resource)) @
     (if res_ID resource \<noteq> ''*'' then [''*''] else [])"

text \<open>The rows that count at one level: right type, one of the tokens, not expired.\<close>

definition matching :: "policy_row list \<Rightarrow> string list \<Rightarrow> int \<Rightarrow> string \<Rightarrow> string \<Rightarrow> policy_row list" where
  "matching rows toks curTime ty i =
     filter (\<lambda>r. p_resource_id r = i \<and> p_resource_type r = ty \<and> p_accessor_id r \<in> set toks \<and>
                 unexpired curTime r) rows"

definition row_rules :: "policy_row \<Rightarrow> policy_rules" where
  "row_rules r =
     (case rulesStrToInfo (p_operation r) of
        Inr rules \<Rightarrow> rules | Inl _ \<Rightarrow> \<lparr> rules_Allow = [], rules_Deny = [] \<rparr>)"

definition rows_decision ::
    "env \<Rightarrow> (string \<times> json) list option \<Rightarrow> policy_row list \<Rightarrow> string \<Rightarrow> bool option" where
  "rows_decision e data rows op =
     (if \<exists>r\<in>set rows. speaks e data (rules_Deny (row_rules r)) op then Some False
      else if \<exists>r\<in>set rows. speaks e data (rules_Allow (row_rules r)) op then Some True
      else None)"

definition access_decision ::
    "env \<Rightarrow> (string \<times> json) list option \<Rightarrow> policy_row list \<Rightarrow> string list \<Rightarrow> int \<Rightarrow> resource_info \<Rightarrow>
     string \<Rightarrow> bool option" where
  "access_decision e data rows toks curTime resource op =
     nearest (map (\<lambda>i. rows_decision e data (matching rows toks curTime (res_Type resource) i) op)
       (levels resource))"


section \<open>Reading the rows\<close>

lemma scan_policyD:
  assumes "scan_policy r = Inr p"
  shows "pol_ResourceID p = p_resource_id r" "pol_ResourceType p = p_resource_type r"
    "pol_AccessorID p = p_accessor_id r" "pol_AccessorType p = p_accessor_type r"
    "pol_Rules p = row_rules r" "pol_EndTime p = p_end_time r" "pol_Ancestors p = []"
  using assms by (auto simp: scan_policy_def bindE_Inr_iff row_rules_def zero_policy_def)

lemma scanned_rules_decision:
  assumes "list_all2 (\<lambda>r p. scan_policy r = Inr p) rows ps"
  shows "rules_decision e data (filter (\<lambda>p. pol_ResourceID p = i) ps) op =
     rows_decision e data (filter (\<lambda>r. p_resource_id r = i) rows) op"
proof -
  have "(\<exists>p\<in>set (filter (\<lambda>p. pol_ResourceID p = i) ps). Q (pol_Rules p)) \<longleftrightarrow>
      (\<exists>r\<in>set (filter (\<lambda>r. p_resource_id r = i) rows). Q (row_rules r))" for Q
    using assms by (induction rule: list_all2_induct) (auto simp: scan_policyD)
  from this [of "\<lambda>r. speaks e data (rules_Deny r) op"]
    this [of "\<lambda>r. speaks e data (rules_Allow r) op"]
  show ?thesis
    unfolding rules_decision_def rows_decision_def denies_def permits_def by (simp only:)
qed

lemma GetPolicies_run:
  assumes "GetPoliciesByResourcesAndAccessToken e (r # rs) toks w = (Inr ps, w')"
  shows "list_all2 (\<lambda>row p. scan_policy row = Inr p)
      (filter (unexpired (now_at e (Suc (tick w))))
        (filter (\<lambda>row. p_resource_id row \<in> set (''*'' # map res_ID (r # rs)) \<and>
                        p_resource_type row = res_Type r \<and> p_accessor_id row \<in> set toks)
          (t_policy w))) ps"
    and "w' = tock (tock w)"
  using assms
  by (auto simp: GetPoliciesByResourcesAndAccessToken_def bindM_Inr_iff bindE_Inr_iff mapE_Inr_iff
      Let_def)

lemma getAccessorIDs_tock:
  assumes "getAccessorIDs e accessor w = (Inr toks, w')"
  shows "w' = tock w"
  using assms
  by (auto simp: getAccessorIDs_def bindM_Inr_iff role_GetRoleByMembers_def
      memberDB_GetRoleByMembers_def split: visitor_type.splits if_splits)

lemma levelIDs_create:
  "levelIDs (createAncestorsResource resource) =
     replicate (length (res_Ancestors resource) + 1) '''' @ levels resource"
  by (simp add: levelIDs_def resourceIDs_def createAncestorsResource_def levels_def lastID_def
      rev_map comp_def)

text \<open>
  The empty identifiers in front change nothing: no row is fetched for them
  unless the resource itself has the empty identifier.
\<close>

lemma nearest_skip_empty:
  assumes "i \<noteq> '''' \<Longrightarrow> f '''' = None"
  shows "nearest (map f (replicate n '''' @ i # is)) = nearest (map f (i # is))"
  using assms nearest_replicate [of n "f ''''"] nearest_replicate_None [of n]
  by (cases "i = ''''") (simp_all add: map_replicate)

lemma fetched_level:
  assumes "i \<in> set (''*'' # ids)"
  shows "filter (\<lambda>r. p_resource_id r = i) (filter (unexpired t)
      (filter (\<lambda>row. p_resource_id row \<in> set (''*'' # ids) \<and> p_resource_type row = ty \<and>
                      p_accessor_id row \<in> set toks) rows)) =
    matching rows toks t ty i"
  using assms by (auto simp: matching_def intro!: filter_cong)

lemma unfetched_level:
  assumes "i \<notin> set (''*'' # ids)"
  shows "filter (\<lambda>r. p_resource_id r = i) (filter (unexpired t)
      (filter (\<lambda>row. p_resource_id row \<in> set (''*'' # ids) \<and> p_resource_type row = ty \<and>
                      p_accessor_id row \<in> set toks) rows)) = []"
  using assms by (auto simp: filter_empty_conv)

lemma levels_fetched:
  "set (levels resource) \<subseteq> set (''*'' # map res_ID (createAncestorsResource resource))"
  by (auto simp: levels_def createAncestorsResource_def)

lemma create_nonempty: "\<exists>r rs. createAncestorsResource resource = r # rs \<and> res_Type r = res_Type resource"
  by (cases "res_Ancestors resource") (simp_all add: createAncestorsResource_def)

text \<open>The permissions computed from the fetched policies decide what the rows decide.\<close>

lemma levels_decision:
  assumes ok: "env_ok e"
    and fetched: "list_all2 (\<lambda>row p. scan_policy row = Inr p)
      (filter (unexpired t) (filter (\<lambda>row. p_resource_id row \<in> set (''*'' # ids) \<and>
          p_resource_type row = res_Type resource \<and> p_accessor_id row \<in> set toks) rows)) ps"
    and ids: "ids = map res_ID (createAncestorsResource resource)"
  shows "nearest (map (\<lambda>i. level_decision
        (permOf (permMapOf e (\<lambda>_. data) (group_by pol_ResourceID ps)) i) op)
        (levelIDs (createAncestorsResource resource))) =
     access_decision e data rows toks t resource op"
proof -
  let ?d = "\<lambda>i. level_decision (permOf (permMapOf e (\<lambda>_. data) (group_by pol_ResourceID ps)) i) op"
  have level: "?d i = rows_decision e data (filter (\<lambda>r. p_resource_id r = i)
      (filter (unexpired t) (filter (\<lambda>row. p_resource_id row \<in> set (''*'' # ids) \<and>
          p_resource_type row = res_Type resource \<and> p_accessor_id row \<in> set toks) rows))) op" for i
    by (simp only: permOf_permMapOf [OF ok] level_decision_calcOne scanned_rules_decision [OF fetched])
  have at: "?d i = rows_decision e data (matching rows toks t (res_Type resource) i) op"
    if "i \<in> set (levels resource)" for i
    using that levels_fetched [of resource] by (subst level, subst fetched_level) (auto simp: ids)
  have empty: "?d '''' = None" if "res_ID resource \<noteq> ''''"
    using that
    by (subst level, subst unfetched_level)
      (auto simp: ids createAncestorsResource_def rows_decision_def)
  have "nearest (map ?d (levelIDs (createAncestorsResource resource))) = nearest (map ?d (levels resource))"
    unfolding levelIDs_create levels_def
    by (rule nearest_skip_empty) (use empty in simp)
  also have "\<dots> = access_decision e data rows toks t resource op"
    unfolding access_decision_def by (rule arg_cong [where f = nearest]) (auto simp: at)
  finally show ?thesis .
qed

lemma Check_decides:
  assumes "env_ok e"
    and "getAccessorIDs e accessor w = (Inr toks, w1)"
    and "Check e resource accessor ops incl w = (Inr cr, w')"
  shows "cr_Result cr \<longleftrightarrow>
     (\<forall>op\<in>set ops. access_decision e (checkData resource accessor) (t_policy w) toks
        (now_at e (tick w + 2)) resource op = Some True)"
proof -
  obtain r rs where rs: "createAncestorsResource resource = r # rs" "res_Type r = res_Type resource"
    using create_nonempty by blast
  have w1: "w1 = tock w" using assms(2) by (rule getAccessorIDs_tock)
  from assms(3) obtain ps w2 where
    q: "GetPoliciesByResourcesAndAccessToken e (r # rs) toks (tock w) = (Inr ps, w2)"
    by (auto simp: Check_def bindM_Inr_iff assms(2) w1 rs Let_def)
  let ?m = "permMapOf e (\<lambda>_. checkData resource accessor) (group_by pol_ResourceID ps)"
  have res: "cr_Result cr \<longleftrightarrow> allAllowed ops (calcResourceInheritedOperation e (r # rs) ?m)"
    using assms(3)
    by (auto simp: Check_def bindM_Inr_iff assms(2) w1 rs q Let_def split: if_splits)
  have fetched: "list_all2 (\<lambda>row p. scan_policy row = Inr p)
      (filter (unexpired (now_at e (tick w + 2)))
        (filter (\<lambda>row. p_resource_id row \<in> set (''*'' # map res_ID (r # rs)) \<and>
                        p_resource_type row = res_Type resource \<and> p_accessor_id row \<in> set toks)
          (t_policy w))) ps"
    using GetPolicies_run(1) [OF q] by (simp add: rs(2) numeral_2_eq_2)
  show ?thesis
    unfolding res plain.calc_allAllowed [OF assms(1)]
    using levels_decision [OF assms(1) fetched] by (simp add: rs)
qed

section \<open>Tokens, monotonicity and expiry\<close>

lemma keeps_calcObligation [keeps_intros]:
  "(\<And>w. f (tock w) = f w) \<Longrightarrow> keeps f (calcObligationWithPriority e m)"
  unfolding calcObligationWithPriority_def by (intro keeps_intros; simp)

lemma keeps_case_visitor [keeps_intros]:
  "keeps f a \<Longrightarrow> keeps f b \<Longrightarrow> keeps f c \<Longrightarrow> keeps f d \<Longrightarrow> keeps f (case_visitor_type a b c d v)"
  by (cases v) simp_all

lemma keeps_getAccessorIDs [keeps_intros]:
  "(\<And>w. f (tock w) = f w) \<Longrightarrow> keeps f (getAccessorIDs e a)"
  unfolding getAccessorIDs_def by (intro keeps_intros; simp)

lemma keeps_decisions:
  assumes "\<And>w. f (tock w) = f w"
  shows "keeps f (Check e r a ops incl)"
    and "keeps f (GetResourceList e t a ops incl)"
    and "keeps f (ResourceFilter e rs a ops incl)"
    and "keeps f (GetResourceTypeOperation e ts a)"
    and "keeps f (GetResourceOperation e rs a)"
  unfolding Check_def GetResourceList_def ResourceFilter_def GetResourceTypeOperation_def
    GetResourceOperation_def Let_def
  using assms by (intro keeps_intros; simp)+

lemma GetRoleByMembers_run:
  assumes "role_GetRoleByMembers e ids w = (Inr rs, w')"
  shows "role_ID ` set rs = m_role_id ` {m \<in> set (t_role_member w). m_member_id m \<in> set ids}"
  using assms
  by (auto simp: role_GetRoleByMembers_def memberDB_GetRoleByMembers_def bindE_Inr_iff image_image)

definition ownTokens :: "env \<Rightarrow> accessor_info \<Rightarrow> string list" where
  "ownTokens e accessor =
     (case acc_Type accessor of
        RealName \<Rightarrow> projr (um_GetAccessorIDsByUserID e (acc_ID accessor)) @ [rootDepID]
      | App \<Rightarrow> [acc_ID accessor]
      | _ \<Rightarrow> [])"

definition systemTokens :: "env \<Rightarrow> accessor_info \<Rightarrow> string list" where
  "systemTokens e accessor =
     (if acc_Type accessor = RealName
      then concat (map systemRoleToken (projr (um_GetUserRolesByUserID e (acc_ID accessor)))) else [])"

lemma getAccessorIDs_run:
  assumes "getAccessorIDs e accessor w = (Inr toks, w')"
  obtains roles w1 where "role_GetRoleByMembers e (ownTokens e accessor) w = (Inr roles, w1)"
    and "toks = Distinct (ownTokens e accessor @ map role_ID roles @ systemTokens e accessor)"
  using assms
  by (cases "acc_Type accessor")
    (auto simp: getAccessorIDs_def bindM_Inr_iff ownTokens_def systemTokens_def)

lemma getAccessorIDs_tokens:
  assumes "getAccessorIDs e accessor w = (Inr toks, w')"
  shows "distinct toks \<and> set toks = set (ownTokens e accessor) \<union>
      m_role_id ` {m \<in> set (t_role_member w). m_member_id m \<in> set (ownTokens e accessor)} \<union>
      set (systemTokens e accessor)"
  using assms
proof (rule getAccessorIDs_run)
  fix roles w1
  assume "role_GetRoleByMembers e (ownTokens e accessor) w = (Inr roles, w1)"
    and t: "toks = Distinct (ownTokens e accessor @ map role_ID roles @ systemTokens e accessor)"
  then have "role_ID ` set roles =
      m_role_id ` {m \<in> set (t_role_member w). m_member_id m \<in> set (ownTokens e accessor)}"
    by (intro GetRoleByMembers_run)
  then show ?thesis by (simp add: t Un_assoc)
qed

lemma nearest_deny_more:
  assumes "\<And>i. d' i = d i \<or> d' i = Some False" and "nearest (map d' is) = Some True"
  shows "nearest (map d is) = Some True"
  using assms(2)
proof (induction "is")
  case (Cons i "is")
  then show ?case using assms(1) [of i] by (auto split: option.splits)
qed simp

lemma rows_decision_deny_only:
  assumes "rules_Allow (row_rules r) = []"
    and "set rows' = set rows \<or> set rows' = insert r (set rows)"
  shows "rows_decision e data rows' op = rows_decision e data rows op \<or>
     rows_decision e data rows' op = Some False"
proof -
  have "\<not> speaks e data (rules_Allow (row_rules r)) op"
    using assms(1) by (simp add: speaks_def)
  with assms(2) show ?thesis unfolding rows_decision_def by auto
qed

lemma access_decision_deny_only:
  assumes "rules_Allow (row_rules r) = []"
    and "access_decision e data (rs1 @ r # rs2) toks t resource op = Some True"
  shows "access_decision e data (rs1 @ rs2) toks t resource op = Some True"
proof -
  let ?m = "\<lambda>rows i. matching rows toks t (res_Type resource) i"
  have "set (?m (rs1 @ r # rs2) i) = set (?m (rs1 @ rs2) i) \<or>
      set (?m (rs1 @ r # rs2) i) = insert r (set (?m (rs1 @ rs2) i))" for i
    by (auto simp: matching_def)
  from rows_decision_deny_only [OF assms(1) this]
  have "rows_decision e data (?m (rs1 @ r # rs2) i) op = rows_decision e data (?m (rs1 @ rs2) i) op \<or>
      rows_decision e data (?m (rs1 @ r # rs2) i) op = Some False" for i .
  then show ?thesis
    using assms(2) unfolding access_decision_def by (rule nearest_deny_more)
qed

lemma access_decision_purge:
  assumes "t0 \<le> t"
  shows "access_decision e data (filter (\<lambda>r. \<not> (p_end_time r < t0 \<and> p_end_time r \<noteq> -1)) rows) toks t resource op =
    access_decision e data rows toks t resource op"
proof -
  have "matching (filter (\<lambda>r. \<not> (p_end_time r < t0 \<and> p_end_time r \<noteq> -1)) rows) toks t ty i =
      matching rows toks t ty i" for ty i
    using assms by (auto simp: matching_def unexpired_def intro!: filter_cong)
  then show ?thesis by (simp add: access_decision_def)
qed

lemma anonymous_tokens:
  "acc_Type accessor \<notin> {RealName, App} \<Longrightarrow> fst (getAccessorIDs e accessor w) = Inl DBError"
  by (cases "acc_Type accessor") (simp_all add: getAccessorIDs_def role_GetRoleByMembers_def
      memberDB_GetRoleByMembers_def bindM_def db_query_def sql_in_def split: fault.splits)


section \<open>A concrete run\<close>

definition demo_op :: "string \<Rightarrow> operation_item" where
  "demo_op i = \<lparr> ope_ID = i, ope_Name = '''', ope_Obligations = [] \<rparr>"

definition demo_rule :: "string list \<Rightarrow> rule_item" where
  "demo_rule ops = \<lparr> rule_Condition = JObj [], rule_Operations = map demo_op ops \<rparr>"

definition demo_row :: "string \<Rightarrow> string \<Rightarrow> string list \<Rightarrow> string list \<Rightarrow> policy_row" where
  "demo_row i resource allow deny =
     \<lparr> p_primary_id = 1, p_id = i, p_resource_id = resource, p_resource_type = ''doc'',
       p_resource_name = '''', p_accessor_id = ''u1'', p_accessor_type = AccessorUser,
       p_accessor_name = ''ann'',
       p_operation = rulesInfoToString \<lparr> rules_Allow = [demo_rule allow], rules_Deny = [demo_rule deny] \<rparr>,
       p_condition = '''', p_ancestors = None, p_end_time = -1, p_create_time = 0, p_modify_time = 0 \<rparr>"

definition demo_world :: world where
  "demo_world = empty_world\<lparr> t_policy :=
     [demo_row ''p1'' ''d1'' [''read''] [], demo_row ''p2'' ''*'' [''read'', ''write''] [''share''],
      demo_row ''p3'' ''f1/*'' [''list''] [''write'']] \<rparr>"

definition demo_resource :: resource_info where
  "demo_resource =
     \<lparr> res_ID = ''d1'', res_Type = ''doc'', res_Name = '''',
       res_Ancestors = [\<lparr> anc_ID = ''f1'', anc_Type = ''folder'', anc_Name = '''' \<rparr>],
       res_CreatedBy = '''' \<rparr>"

definition demo_accessor :: accessor_info where
  "demo_accessor = \<lparr> acc_ID = ''u1'', acc_Type = RealName, acc_Name = '''' \<rparr>"

lemmas demo_defs = demo_accessor_def demo_world_def demo_resource_def demo_row_def demo_rule_def
  demo_op_def

lemma demo_tokens:
  "getAccessorIDs quiet_env demo_accessor demo_world =
     (Inr [''u1'', rootDepID, superAdminRoleID], tock demo_world)"
  by (simp add: run_simps demo_defs cong: run_congs)

lemma demo_check:
  "Check quiet_env demo_resource demo_accessor [''read'', ''list''] [] demo_world =
     (Inr \<lparr> cr_Result = True, cr_OperatrionOblist = [] \<rparr>, tock (tock (tock demo_world)))"
  by (simp add: run_simps demo_defs cong: run_congs)

lemma demo_check_denied:
  "Check quiet_env demo_resource demo_accessor [''write''] [] demo_world =
     (Inr \<lparr> cr_Result = False, cr_OperatrionOblist = [] \<rparr>, tock (tock (tock demo_world)))"
  by (simp add: run_simps demo_defs cong: run_congs)

end
