(* ===== verification/CalcObligations.thy ===== *)
theory CalcObligations
  imports Decision
begin

text \<open>
  The obligations that accompany a permission (\<open>calcObligationWithPriority\<close>): for
  every obligation type one item is returned, of the best priority, whether the
  lookup of the stored obligations succeeds or not; and only permitted operations
  carry obligations.
\<close>

section \<open>Choosing and resolving items\<close>

definition plainItem :: "calc_item \<Rightarrow> obligation_item" where
  "plainItem c = \<lparr> obl_TypeID = obl_TypeID c, obl_ID = obl_ID c, obl_Value = obl_Value c \<rparr>"

lemma map_of_firstPerType:
  "map_of (firstPerType xs) t = map_option plainItem (find (\<lambda>x. obl_TypeID x = t) xs)"
proof -
  have "map_of (fold (\<lambda>obl r. if map_of r (obl_TypeID obl) \<noteq> None then r
        else mput (obl_TypeID obl) (plainItem obl) r) xs m) t =
      (case map_of m t of None \<Rightarrow> map_option plainItem (find (\<lambda>x. obl_TypeID x = t) xs) | Some v \<Rightarrow> Some v)"
    for m
    by (induction xs arbitrary: m) (auto split: option.splits)
  from this [of "[]"] show ?thesis unfolding firstPerType_def plainItem_def by simp
qed

lemma mwf_firstPerType [simp]: "mwf (firstPerType xs)"
proof -
  have "mwf m \<Longrightarrow> mwf (fold (\<lambda>obl r. if map_of r (obl_TypeID obl) \<noteq> None then r
        else mput (obl_TypeID obl) (plainItem obl) r) xs m)" for m
    by (induction xs arbitrary: m) auto
  from this [of "[]"] show ?thesis unfolding firstPerType_def plainItem_def by simp
qed

lemma firstPerType_entry:
  "map_of (firstPerType xs) t = Some it \<Longrightarrow> obl_TypeID it = t"
  by (auto simp: map_of_firstPerType find_Some_iff plainItem_def)

lemma find_sorted_min:
  assumes "sorted (map f xs)" "find P xs = Some x" "y \<in> set xs" "P y"
  shows "f x \<le> f y"
  using assms
proof (induction xs)
  case (Cons a xs)
  then show ?case by (auto split: if_splits)
qed simp

text \<open>The items chosen for one operation.\<close>

definition chosenItems :: "env \<Rightarrow> calc_item list \<Rightarrow> obligation_item list" where
  "chosenItems e obs = map snd (range_map (map_order e) (firstPerType (sort_slice e obs)))"

lemma set_chosenItems:
  assumes "env_ok e"
  shows "set (chosenItems e obs) = {it. \<exists>t. map_of (firstPerType (sort_slice e obs)) t = Some it}"
  using set_range_map [OF env_ok_key_order [OF assms], of "firstPerType (sort_slice e obs)"]
  by (force simp: chosenItems_def)

lemma types_chosenItems:
  assumes "env_ok e"
  shows "distinct (map obl_TypeID (chosenItems e obs))"
proof -
  let ?kvs = "range_map (map_order e) (firstPerType (sort_slice e obs))"
  have "distinct (map fst ?kvs)"
    using assms by (intro distinct_range_map) simp_all
  moreover have "map obl_TypeID (map snd ?kvs) = map fst ?kvs"
    using set_range_map [OF env_ok_key_order [OF assms], of "firstPerType (sort_slice e obs)"]
    by (auto dest: firstPerType_entry)
  ultimately show ?thesis by (simp only: chosenItems_def)
qed

lemma chosenItems_best:
  assumes "env_ok e" "it \<in> set (chosenItems e obs)"
  shows "\<exists>c\<in>set obs. plainItem c = it \<and>
     (\<forall>c'\<in>set obs. obl_TypeID c' = obl_TypeID it \<longrightarrow> ci_priority c \<le> ci_priority c')"
proof -
  from assms obtain t c where t: "find (\<lambda>x. obl_TypeID x = t) (sort_slice e obs) = Some c" "it = plainItem c"
    by (auto simp: set_chosenItems map_of_firstPerType)
  then have "c \<in> set obs" and ty: "obl_TypeID c = t"
    using env_ok_sort(2) [OF assms(1), of obs] by (auto simp: find_Some_iff)
  moreover have "ci_priority c \<le> ci_priority c'" if "c' \<in> set obs" "obl_TypeID c' = t" for c'
    using find_sorted_min [OF env_ok_sort(3) [OF assms(1)] t(1), of c'] that
    by (simp add: env_ok_sort(2) [OF assms(1)])
  ultimately show ?thesis using t(2) by (auto simp: plainItem_def intro!: bexI [of _ c])
qed

lemma chosenItems_complete:
  assumes "env_ok e" "c \<in> set obs"
  shows "\<exists>it\<in>set (chosenItems e obs). obl_TypeID it = obl_TypeID c"
proof -
  have "find (\<lambda>x. obl_TypeID x = obl_TypeID c) (sort_slice e obs) \<noteq> None"
    using assms by (auto simp: find_None_iff env_ok_sort(2))
  then obtain it where "map_of (firstPerType (sort_slice e obs)) (obl_TypeID c) = Some it"
    by (auto simp: map_of_firstPerType)
  then show ?thesis using assms(1) firstPerType_entry by (fastforce simp: set_chosenItems)
qed

lemma collect_fst:
  "fst (collectObligations e m) =
     fold (\<lambda>(v, obs). mput v (chosenItems e obs)) (range_map (map_order e) m) []"
proof -
  have "fst (fold (\<lambda>(v, obligations) (result, obligationMap).
        (let rTmp = firstPerType (sort_slice e obligations)
         in (mput v (map snd (range_map (map_order e) rTmp)) result, obligationIDsOf rTmp obligationMap)))
       kvs (r, im)) = fold (\<lambda>(v, obs). mput v (chosenItems e obs)) kvs r" for kvs r im
    by (induction kvs arbitrary: r im) (auto simp: Let_def chosenItems_def)
  then show ?thesis by (simp add: collectObligations_def)
qed

lemma map_of_collect:
  assumes "env_ok e" "mwf m"
  shows "map_of (fst (collectObligations e m)) op = map_option (chosenItems e) (map_of m op)"
proof -
  have "distinct (map fst (range_map (map_order e) m))"
    using assms by (intro distinct_range_map) simp_all
  from fold_mput_map_of [OF this, of "chosenItems e" "[]" op] show ?thesis
    using assms by (simp add: collect_fst map_of_range_map split: option.splits)
qed

lemma mwf_collect: "mwf (fst (collectObligations e m))"
proof -
  have "mwf r \<Longrightarrow> mwf (fold (\<lambda>(v, obs). mput v (chosenItems e obs)) kvs r)" for kvs r
    by (induction kvs arbitrary: r) auto
  from this [OF mwf_Nil] show ?thesis by (simp add: collect_fst)
qed

text \<open>Resolving an item against the obligations that still exist.\<close>

definition resolveItem :: "obligation_info list \<Rightarrow> obligation_item \<Rightarrow> obligation_item option" where
  "resolveItem obligations ob =
     (if obl_ID ob = '''' then Some ob
      else map_option (\<lambda>info. ob\<lparr> obl_Value := obi_Value info \<rparr>)
             (map_of (fold (\<lambda>v. mput (obi_ID v) v) obligations []) (obl_ID ob)))"

lemma resolve_inner:
  "mlist (fold (\<lambda>ob tmp. if obl_ID ob = '''' then mappend operation [ob] tmp
        else (case map_of (fold (\<lambda>v. mput (obi_ID v) v) obligations []) (obl_ID ob) of
                Some info \<Rightarrow> mappend operation [ob\<lparr> obl_Value := obi_Value info \<rparr>] tmp
              | None \<Rightarrow> tmp)) oblist tmp) k =
     mlist tmp k @ (if k = operation then List.map_filter (resolveItem obligations) oblist else [])"
  by (induction oblist arbitrary: tmp)
    (auto simp: resolveItem_def mlist_mappend List.map_filter_simps split: option.splits)

lemma mlist_resolve:
  assumes "env_ok e" "mwf result"
  shows "mlist (resolveObligations e obligations result) op =
     List.map_filter (resolveItem obligations) (mlist result op)"
proof -
  let ?body = "\<lambda>(operation, oblist) tmp.
      fold (\<lambda>ob tmp. if obl_ID ob = '''' then mappend operation [ob] tmp
        else (case map_of (fold (\<lambda>v. mput (obi_ID v) v) obligations []) (obl_ID ob) of
                Some info \<Rightarrow> mappend operation [ob\<lparr> obl_Value := obi_Value info \<rparr>] tmp
              | None \<Rightarrow> tmp)) oblist tmp"
  have loop: "mlist (fold ?body kvs tmp) op =
      mlist tmp op @ (case map_of kvs op of None \<Rightarrow> [] | Some l \<Rightarrow> List.map_filter (resolveItem obligations) l)"
    if "distinct (map fst kvs)" for kvs tmp
    using that
  proof (induction kvs arbitrary: tmp)
    case (Cons kv kvs)
    obtain v l where kv: "kv = (v, l)" by (cases kv)
    have "map_of kvs v = None" using Cons.prems kv by (simp add: map_of_eq_None_iff)
    then show ?case using Cons kv by (auto simp: resolve_inner split: option.splits)
  qed simp
  have "distinct (map fst (range_map (map_order e) result))"
    using assms by (intro distinct_range_map) simp_all
  from loop [OF this, of "[]"] show ?thesis
    using assms
    by (auto simp: resolveObligations_def Let_def map_of_range_map mlist_def List.map_filter_simps
        split: option.splits)
qed

lemma map_filter_resolve_types:
  "distinct (map obl_TypeID xs) \<Longrightarrow>
     distinct (map obl_TypeID (List.map_filter (resolveItem obs) xs))"
proof (induction xs)
  case (Cons x xs)
  have sub: "obl_TypeID ` set (List.map_filter (resolveItem obs) xs) \<subseteq> obl_TypeID ` set xs"
    by (auto simp: List.map_filter_def resolveItem_def split: if_splits)
  have keep: "resolveItem obs x = Some y \<Longrightarrow> obl_TypeID y = obl_TypeID x" for y
    by (auto simp: resolveItem_def split: if_splits)
  show ?case
  proof (cases "resolveItem obs x")
    case (Some y)
    then show ?thesis using Cons sub keep [OF Some] by (auto simp: List.map_filter_simps)
  qed (use Cons in \<open>simp add: List.map_filter_simps\<close>)
qed (simp add: List.map_filter_simps)

text \<open>Whatever happens to the lookup, the result lists are drawn from the chosen items.\<close>

lemma calcObligation_result:
  assumes "env_ok e" "mwf m" "calcObligationWithPriority e m w = (Inr res, w')"
  shows "mlist res op = mlist (fst (collectObligations e m)) op \<or>
     (\<exists>obs. mlist res op = List.map_filter (resolveItem obs) (mlist (fst (collectObligations e m)) op))"
proof -
  obtain result ids where c: "collectObligations e m = (result, ids)" by fastforce
  have "mwf result" using mwf_collect [of e m] by (simp add: c)
  from mlist_resolve [OF assms(1) this] show ?thesis
    using assms(3)
    by (auto simp: calcObligationWithPriority_def c bindM_Inr_iff tryM_run
        split: if_splits sum.splits)
qed

lemma mlist_collect:
  assumes "env_ok e" "mwf m"
  shows "mlist (fst (collectObligations e m)) op =
     (case map_of m op of None \<Rightarrow> [] | Some obs \<Rightarrow> chosenItems e obs)"
  using map_of_collect [OF assms] by (simp add: mlist_def split: option.splits)

lemma obligation_items:
  assumes "env_ok e" "mwf m" "calcObligationWithPriority e m w = (Inr res, w')"
  shows "distinct (map obl_TypeID (mlist res op)) \<and>
     (\<forall>it\<in>set (mlist res op). \<exists>c\<in>set (mlist m op).
        obl_TypeID c = obl_TypeID it \<and> obl_ID c = obl_ID it \<and>
        (obl_ID it = '''' \<longrightarrow> obl_Value it = obl_Value c) \<and>
        (\<forall>c'\<in>set (mlist m op). obl_TypeID c' = obl_TypeID it \<longrightarrow> ci_priority c \<le> ci_priority c'))"
proof (cases "map_of m op")
  case None
  then have "mlist res op = []"
    using calcObligation_result [OF assms, of op] assms(1,2)
    by (auto simp: mlist_collect List.map_filter_simps)
  then show ?thesis by simp
next
  case (Some obs)
  then have m: "mlist m op = obs" by (simp add: mlist_def)
  have "mlist res op = chosenItems e obs \<or>
      (\<exists>os. mlist res op = List.map_filter (resolveItem os) (chosenItems e obs))"
    using calcObligation_result [OF assms, of op] assms(1,2) Some by (simp add: mlist_collect)
  moreover have "\<exists>it'\<in>set (chosenItems e obs). obl_TypeID it' = obl_TypeID it \<and> obl_ID it' = obl_ID it \<and>
      (obl_ID it = '''' \<longrightarrow> it' = it)"
    if "it \<in> set (List.map_filter (resolveItem os) (chosenItems e obs))" for it os
    using that by (auto simp: List.map_filter_def resolveItem_def split: if_splits)
  ultimately have from_chosen: "\<exists>it'\<in>set (chosenItems e obs). obl_TypeID it' = obl_TypeID it \<and>
      obl_ID it' = obl_ID it \<and> (obl_ID it = '''' \<longrightarrow> it' = it)" if "it \<in> set (mlist res op)" for it
    using that by metis
  have "distinct (map obl_TypeID (mlist res op))"
    using \<open>mlist res op = chosenItems e obs \<or> _\<close> types_chosenItems [OF assms(1), of obs]
      map_filter_resolve_types by metis
  moreover have "\<exists>c\<in>set obs. obl_TypeID c = obl_TypeID it \<and> obl_ID c = obl_ID it \<and>
        (obl_ID it = '''' \<longrightarrow> obl_Value it = obl_Value c) \<and>
        (\<forall>c'\<in>set obs. obl_TypeID c' = obl_TypeID it \<longrightarrow> ci_priority c \<le> ci_priority c')"
    if "it \<in> set (mlist res op)" for it
    using from_chosen [OF that] chosenItems_best [OF assms(1)]
    by (fastforce simp: plainItem_def)
  ultimately show ?thesis by (simp add: m)
qed


section \<open>Obligations belong to permitted operations\<close>

definition obl_sync :: "inherited \<Rightarrow> bool" where
  "obl_sync r \<longleftrightarrow> mwf (snd (snd r)) \<and> (\<forall>op. op \<in> mkeys (snd (snd r)) \<longleftrightarrow> mtrue (fst r) op)"

lemma allowLevel_sync:
  assumes "mwf wo" "\<And>op. op \<in> mkeys wo \<longleftrightarrow> mtrue al op"
  shows "mwf (snd (allowLevel ord perm dn (al, wo))) \<and>
    (\<forall>op. op \<in> mkeys (snd (allowLevel ord perm dn (al, wo))) \<longleftrightarrow>
          mtrue (fst (allowLevel ord perm dn (al, wo))) op)"
proof -
  have "mwf (snd (fold (\<lambda>(v, val) (al, wo).
        (if \<not> mtrue dn v \<and> \<not> mtrue al v then mset_true v al else al,
         if \<not> mtrue dn v then mappend v val wo else wo)) kvs (al, wo))) \<and>
     (\<forall>op. op \<in> mkeys (snd (fold (\<lambda>(v, val) (al, wo).
        (if \<not> mtrue dn v \<and> \<not> mtrue al v then mset_true v al else al,
         if \<not> mtrue dn v then mappend v val wo else wo)) kvs (al, wo))) \<longleftrightarrow>
      mtrue (fst (fold (\<lambda>(v, val) (al, wo).
        (if \<not> mtrue dn v \<and> \<not> mtrue al v then mset_true v al else al,
         if \<not> mtrue dn v then mappend v val wo else wo)) kvs (al, wo))) op)"
    for kvs :: "(string \<times> calc_item list) list"
    using assms
  proof (induction kvs arbitrary: al wo)
    case (Cons kv kvs)
    obtain v val where kv: "kv = (v, val)" by (cases kv)
    show ?case
      unfolding kv fold_simps prod.case by (rule Cons.IH) (use Cons.prems in auto)
  qed simp
  then show ?thesis unfolding allowLevel_def by blast
qed

lemma inheritStep_sync: "obl_sync r \<Longrightarrow> obl_sync (inheritStep ord perm r)"
  using allowLevel_sync by (cases r) (simp add: obl_sync_def inheritStep_def Let_def)

context inheritance
begin

lemma calc_sync: "obl_sync (calc e rs m)"
proof -
  have "obl_sync r \<Longrightarrow> obl_sync (fold (\<lambda>i. inheritStep (map_order e) (permOf m i)) is r)" for "is" r
    by (induction "is" arbitrary: r) (auto simp: inheritStep_sync)
  moreover have "obl_sync ([], [], [])" by (simp add: obl_sync_def)
  ultimately show ?thesis by (simp add: calc_levels)
qed

end

lemma mkeys_mlist: "mlist m k \<noteq> [] \<Longrightarrow> k \<in> mkeys m"
  by (auto simp: mlist_def mkeys_iff split: option.splits)

lemma obligations_come_from:
  assumes "env_ok e" "mwf m" "calcObligationWithPriority e m w = (Inr res, w')" "mlist res op \<noteq> []"
  shows "mlist m op \<noteq> []"
proof -
  have "hd (mlist res op) \<in> set (mlist res op)" using assms(4) by simp
  with obligation_items [OF assms(1-3), of op] obtain c where "c \<in> set (mlist m op)" by blast
  then show ?thesis by auto
qed

lemma Check_obligations:
  assumes "env_ok e"
    and "getAccessorIDs e accessor w = (Inr toks, w1)"
    and "Check e resource accessor ops incl w = (Inr cr, w')"
    and "mlist (cr_OperatrionOblist cr) op \<noteq> []"
  shows "cr_Result cr \<and> access_decision e (checkData resource accessor) (t_policy w) toks
        (now_at e (tick w + 2)) resource op = Some True"
proof -
  from assms(2) have w1: "w1 = tock w" by (rule getAccessorIDs_tock)
  let ?rs = "createAncestorsResource resource"
  from assms(3,4) obtain ps w2 w3 where
    q: "GetPoliciesByResourcesAndAccessToken e ?rs toks (tock w) = (Inr ps, w2)"
    and res: "cr_Result cr"
    and obl: "calcObligationWithPriority e (snd (snd (calcResourceInheritedOperation e ?rs
       (permMapOf e (\<lambda>_. checkData resource accessor) (group_by pol_ResourceID ps))))) w2 =
       (Inr (cr_OperatrionOblist cr), w3)"
    by (auto simp: Check_def bindM_Inr_iff assms(2) w1 Let_def split: if_splits)
  let ?r = "calcResourceInheritedOperation e ?rs
       (permMapOf e (\<lambda>_. checkData resource accessor) (group_by pol_ResourceID ps))"
  have sync: "obl_sync ?r" by (rule plain.calc_sync)
  from assms(4) have "mlist (snd (snd ?r)) op \<noteq> []"
    using obligations_come_from [OF assms(1) _ obl assms(4)] sync by (simp add: obl_sync_def)
  then have "op \<in> mkeys (snd (snd ?r))" by (rule mkeys_mlist)
  then have "mtrue (fst ?r) op" using sync by (simp add: obl_sync_def)
  then have "decided ?r op = Some True" by (simp add: decided_def)
  obtain r rs where rs: "?rs = r # rs" "res_Type r = res_Type resource"
    using create_nonempty by blast
  have fetched: "list_all2 (\<lambda>row p. scan_policy row = Inr p)
      (filter (unexpired (now_at e (tick w + 2)))
        (filter (\<lambda>row. p_resource_id row \<in> set (''*'' # map res_ID (r # rs)) \<and>
                        p_resource_type row = res_Type resource \<and> p_accessor_id row \<in> set toks)
          (t_policy w))) ps"
    using GetPolicies_run(1) [OF q [unfolded rs(1)]] by (simp add: rs(2) numeral_2_eq_2)
  with \<open>decided ?r op = Some True\<close> res show ?thesis
    using levels_decision [OF assms(1) fetched] plain.calc_decided [OF assms(1)] by (simp add: rs)
qed

end
