(* ===== verification/FilterFacts.thy ===== *)
theory FilterFacts
  imports Decision
begin

text \<open>
  \<open>ResourceFilter\<close> answers for a whole list what \<open>Check\<close> answers for one
  resource: for a clean request, and as long as no rule on a \<open>parent/*\<close> level
  carries a condition, it keeps exactly the resources whose operations the
  abstract decision permits.
\<close>

section \<open>Permissions of a filter request\<close>

lemma typePerms_other:
  assumes "k \<noteq> ''*''" "\<And>x. x \<in> set rs \<Longrightarrow> k \<noteq> res_ID x @ ''_*''"
  shows "map_of (typePerms e acc tps rs m) k = map_of m k"
  using assms(2) unfolding typePerms_def
  by (induction rs arbitrary: m) (auto simp: assms(1))

lemma typePerms_star:
  assumes "''*'' \<in> res_ID ` set rs"
  shows "map_of (typePerms e acc tps rs m) ''*'' = Some (calcOneResourcePerm e None tps)"
proof -
  have keep: "map_of m ''*'' = Some (calcOneResourcePerm e None tps) \<Longrightarrow>
      map_of (typePerms e acc tps rs m) ''*'' = Some (calcOneResourcePerm e None tps)" for rs m
    unfolding typePerms_def by (induction rs arbitrary: m) auto
  show ?thesis
    using assms
  proof (induction rs arbitrary: m)
    case (Cons x rs)
    have step: "typePerms e acc tps (x # rs) m = typePerms e acc tps rs (typePerms e acc tps [x] m)"
      by (simp add: typePerms_def)
    show ?case
    proof (cases "res_ID x = ''*''")
      case True
      then have "map_of (typePerms e acc tps [x] m) ''*'' = Some (calcOneResourcePerm e None tps)"
        by (simp add: typePerms_def)
      then show ?thesis unfolding step by (rule keep)
    next
      case False
      then show ?thesis unfolding step using Cons by auto
    qed
  qed simp
qed

lemma typePerms_own:
  assumes "x \<in> set rs" "res_ID x \<noteq> ''*''" "distinct (map res_ID rs)"
  shows "map_of (typePerms e acc tps rs m) (res_ID x @ ''_*'') =
     Some (calcOneResourcePerm e (Some (makeDataInfo x acc [])) tps)"
  using assms(1,3)
proof (induction rs arbitrary: m)
  case (Cons y rs)
  have step: "typePerms e acc tps (y # rs) m = typePerms e acc tps rs (typePerms e acc tps [y] m)"
    by (simp add: typePerms_def)
  show ?case
  proof (cases "x = y")
    case True
    have "map_of (typePerms e acc tps rs (typePerms e acc tps [y] m)) (res_ID x @ ''_*'') =
        map_of (typePerms e acc tps [y] m) (res_ID x @ ''_*'')"
      using Cons.prems True by (intro typePerms_other) (auto simp: append_eq_Cons_conv)
    then show ?thesis unfolding step using True assms(2) by (simp add: typePerms_def)
  next
    case False
    then show ?thesis unfolding step using Cons by auto
  qed
qed simp

lemma map_of_put_all:
  assumes "x \<in> set rs" "distinct (map key rs)"
  shows "map_of (fold (\<lambda>r. mput (key r) (f r)) rs m) (key x) = Some (f x)"
  using assms
proof (induction rs arbitrary: m)
  case (Cons y rs)
  have other: "k \<notin> key ` set rs \<Longrightarrow> map_of (fold (\<lambda>r. mput (key r) (f r)) rs m) k = map_of m k" for k m
    by (induction rs arbitrary: m) auto
  show ?case using Cons other [of "key y" "mput (key y) (f y) m"] by (cases "x = y") auto
qed simp

text \<open>
  A request the filter treats one resource at a time: distinct non-empty IDs of
  one type, none of which looks like the internal key \<open>id_*\<close> of another.
\<close>

definition clean_request :: "resource_info list \<Rightarrow> bool" where
  "clean_request rs \<longleftrightarrow>
     distinct (map res_ID rs) \<and>
     (\<forall>x\<in>set rs. res_ID x \<noteq> '''' \<and> res_Type x = res_Type (hd rs)) \<and>
     (\<forall>x\<in>set rs. \<forall>y\<in>set rs. res_ID x \<noteq> res_ID y @ ''_*'')"

text \<open>Rules on the level \<open>parent/*\<close> of a requested resource carry no condition.\<close>

definition unconditional_ancestors :: "resource_info list \<Rightarrow> policy_row list \<Rightarrow> bool" where
  "unconditional_ancestors rs rows \<longleftrightarrow>
     (\<forall>x\<in>set rs. \<forall>a\<in>set (res_Ancestors x). \<forall>row\<in>set rows.
        p_resource_id row = anc_ID a @ ''/*'' \<longrightarrow>
        (\<forall>v\<in>set (rules_Allow (row_rules row)) \<union> set (rules_Deny (row_rules row)).
           isConditionEmpty (rule_Condition v)))"

lemma speaks_unconditional:
  assumes "\<forall>v\<in>set vs. isConditionEmpty (rule_Condition v)"
  shows "speaks e data vs op = speaks e data' vs op"
  using assms by (auto simp: speaks_def rule_active_def)

lemma rows_decision_unconditional:
  assumes "\<forall>row\<in>set rows. \<forall>v\<in>set (rules_Allow (row_rules row)) \<union> set (rules_Deny (row_rules row)).
     isConditionEmpty (rule_Condition v)"
  shows "rows_decision e data rows op = rows_decision e data' rows op"
proof -
  have "\<forall>row\<in>set rows. speaks e data (rules_Deny (row_rules row)) op = speaks e data' (rules_Deny (row_rules row)) op"
    and "\<forall>row\<in>set rows. speaks e data (rules_Allow (row_rules row)) op = speaks e data' (rules_Allow (row_rules row)) op"
    using assms by (auto intro!: speaks_unconditional)
  then show ?thesis unfolding rows_decision_def by simp
qed

lemma filterPerms_at:
  assumes "env_ok e" "i \<noteq> ''*''"
  shows "permOf (filterPerms e rs acc ps) i =
     calcOneResourcePerm e (filterData (fold (\<lambda>r. mput (res_ID r) r) rs []) acc i)
       (filter (\<lambda>p. pol_ResourceID p = i) ps)"
proof -
  have "filter (\<lambda>p. pol_ResourceID p = i) (filter (\<lambda>p. pol_ResourceID p \<noteq> ''*'') ps) =
      filter (\<lambda>p. pol_ResourceID p = i) ps"
    using assms(2) by (auto intro: filter_cong)
  then show ?thesis
    by (simp only: filterPerms_def Let_def permOf_permMapOf [OF assms(1)])
qed

lemma levelIDsEx_create:
  "levelIDsEx (createAncestorsResource r) =
     replicate (length (res_Ancestors r) + 1) '''' @ res_ID r #
       rev (map (\<lambda>a. anc_ID a @ ''/*'') (res_Ancestors r)) @
       (if res_ID r \<noteq> ''*'' then [res_ID r @ ''_*''] else [])"
  by (simp add: levelIDsEx_def resourceIDs_def createAncestorsResource_def lastID_def rev_map comp_def)

lemma suffix_differs: "xs @ ''/*'' \<noteq> ys @ ''_*''"
proof
  assume "xs @ ''/*'' = ys @ ''_*''"
  then have "rev (xs @ ''/*'') = rev (ys @ ''_*'')" by simp
  then show False by simp
qed

lemma filter_ids:
  "res_ID ` (\<Union>x\<in>set rs. set (createAncestorsResource x)) =
     (\<Union>x\<in>set rs. insert (res_ID x) ((\<lambda>a. anc_ID a @ ''/*'') ` set (res_Ancestors x)))"
  by (simp add: createAncestorsResource_def image_UN image_image)

definition fetched_policies ::
    "policy_row list \<Rightarrow> string list \<Rightarrow> int \<Rightarrow> string \<Rightarrow> resource_info list \<Rightarrow> policy_info list \<Rightarrow> bool" where
  "fetched_policies rows toks t ty rs ps \<longleftrightarrow>
     list_all2 (\<lambda>row p. scan_policy row = Inr p)
      (filter (unexpired t) (filter (\<lambda>row.
          p_resource_id row \<in> set (''*'' # map res_ID (concat (map createAncestorsResource rs))) \<and>
          p_resource_type row = ty \<and> p_accessor_id row \<in> set toks) rows)) ps"

definition filterPermMap ::
    "env \<Rightarrow> resource_info list \<Rightarrow> accessor_info \<Rightarrow> policy_info list \<Rightarrow> (string, resource_perm) gomap" where
  "filterPermMap e rs acc ps =
     typePerms e acc (filter (\<lambda>p. pol_ResourceID p = ''*'') ps) rs (filterPerms e rs acc ps)"

lemma fetched_at:
  assumes "fetched_policies rows toks t ty rs ps"
    and "i = ''*'' \<or> i \<in> res_ID ` (\<Union>x\<in>set rs. set (createAncestorsResource x))"
  shows "rules_decision e data (filter (\<lambda>p. pol_ResourceID p = i) ps) op =
      rows_decision e data (matching rows toks t ty i) op"
  using assms(2)
  by (subst scanned_rules_decision [OF assms(1) [unfolded fetched_policies_def]], subst fetched_level) auto

lemma filter_named_level:
  assumes "env_ok e" "i \<noteq> ''*''" "\<And>x. x \<in> set rs \<Longrightarrow> i \<noteq> res_ID x @ ''_*''"
  shows "level_decision (permOf (filterPermMap e rs acc ps) i) op =
     rules_decision e (filterData (fold (\<lambda>r. mput (res_ID r) r) rs []) acc i)
       (filter (\<lambda>p. pol_ResourceID p = i) ps) op"
proof -
  have "permOf (filterPermMap e rs acc ps) i = permOf (filterPerms e rs acc ps) i"
    using typePerms_other [OF assms(2,3)] by (simp add: permOf_def filterPermMap_def)
  then show ?thesis using assms(1,2) by (simp add: filterPerms_at level_decision_calcOne)
qed

lemma filter_own_level:
  assumes "env_ok e" "clean_request rs" "r \<in> set rs" "fetched_policies rows toks t ty rs ps"
  shows "level_decision (permOf (filterPermMap e rs acc ps) (res_ID r)) op =
     rows_decision e (checkData r acc) (matching rows toks t ty (res_ID r)) op"
proof (cases "res_ID r = ''*''")
  case True
  have "''*'' \<in> res_ID ` set rs" using assms(3) True by force
  then show ?thesis
    using True fetched_at [OF assms(4), of "''*''"]
    by (simp add: filterPermMap_def permOf_def typePerms_star level_decision_calcOne checkData_def)
next
  case False
  have dist: "distinct (map res_ID rs)" and clash: "\<And>x. x \<in> set rs \<Longrightarrow> res_ID r \<noteq> res_ID x @ ''_*''"
    using assms(2,3) by (auto simp: clean_request_def)
  have "filterData (fold (\<lambda>r. mput (res_ID r) r) rs []) acc (res_ID r) = checkData r acc"
    using map_of_put_all [OF assms(3) dist, of "\<lambda>r. r" "[]"] False
    by (simp add: filterData_def checkData_def)
  moreover have "res_ID r \<in> res_ID ` (\<Union>x\<in>set rs. set (createAncestorsResource x))"
    using assms(3) by (auto simp: filter_ids)
  ultimately show ?thesis
    using filter_named_level [OF assms(1) False clash] fetched_at [OF assms(4)] by simp
qed

lemma filter_ancestor_level:
  assumes "env_ok e" "r \<in> set rs" "a \<in> set (res_Ancestors r)" "unconditional_ancestors rs rows"
    and "fetched_policies rows toks t ty rs ps"
  shows "level_decision (permOf (filterPermMap e rs acc ps) (anc_ID a @ ''/*'')) op =
     rows_decision e data (matching rows toks t ty (anc_ID a @ ''/*'')) op"
proof -
  let ?i = "anc_ID a @ ''/*''"
  have "?i \<noteq> ''*''" by (simp add: append_eq_Cons_conv)
  from filter_named_level [OF assms(1) this]
  have "level_decision (permOf (filterPermMap e rs acc ps) ?i) op =
      rules_decision e (filterData (fold (\<lambda>r. mput (res_ID r) r) rs []) acc ?i)
        (filter (\<lambda>p. pol_ResourceID p = ?i) ps) op"
    using suffix_differs by blast
  also have "\<dots> = rows_decision e (filterData (fold (\<lambda>r. mput (res_ID r) r) rs []) acc ?i)
      (matching rows toks t ty ?i) op"
    using assms(2,3) by (intro fetched_at [OF assms(5)]) (auto simp: filter_ids)
  also have "\<dots> = rows_decision e data (matching rows toks t ty ?i) op"
    using assms(2-4)
    by (intro rows_decision_unconditional) (auto simp: unconditional_ancestors_def matching_def)
  finally show ?thesis .
qed

lemma filter_star_level:
  assumes "clean_request rs" "r \<in> set rs" "res_ID r \<noteq> ''*''" "fetched_policies rows toks t ty rs ps"
  shows "level_decision (permOf (filterPermMap e rs acc ps) (res_ID r @ ''_*'')) op =
     rows_decision e (checkData r acc) (matching rows toks t ty ''*'') op"
proof -
  have "distinct (map res_ID rs)" using assms(1) by (simp add: clean_request_def)
  from typePerms_own [OF assms(2,3) this] show ?thesis
    using fetched_at [OF assms(4), of "''*''"] assms(3)
    by (simp add: filterPermMap_def permOf_def level_decision_calcOne checkData_def)
qed

lemma filter_empty_level:
  assumes "env_ok e" "clean_request rs" "fetched_policies rows toks t ty rs ps"
  shows "level_decision (permOf (filterPermMap e rs acc ps) '''') op = None"
proof -
  have "'''' \<notin> set (''*'' # map res_ID (concat (map createAncestorsResource rs)))"
    using assms(2) by (force simp: filter_ids clean_request_def)
  then show ?thesis
    using filter_named_level [OF assms(1), of "''''" rs acc ps op]
      scanned_rules_decision [OF assms(3) [unfolded fetched_policies_def]]
    by (simp add: unfetched_level rows_decision_def)
qed

text \<open>Level by level, the permissions of the filter decide what the rows decide.\<close>

lemma filter_levels:
  assumes "env_ok e" "clean_request rs" "r \<in> set rs" "unconditional_ancestors rs rows"
    and "fetched_policies rows toks t (res_Type r) rs ps"
  shows "nearest (map (\<lambda>i. level_decision (permOf (filterPermMap e rs acc ps) i) op)
      (levelIDsEx (createAncestorsResource r))) =
     access_decision e (checkData r acc) rows toks t r op"
proof -
  let ?d = "\<lambda>i. level_decision (permOf (filterPermMap e rs acc ps) i) op"
  let ?s = "\<lambda>i. rows_decision e (checkData r acc) (matching rows toks t (res_Type r) i) op"
  let ?ancs = "rev (map (\<lambda>a. anc_ID a @ ''/*'') (res_Ancestors r))"
  have own: "?d (res_ID r) = ?s (res_ID r)"
    using assms by (intro filter_own_level) auto
  have ancs: "map ?d ?ancs = map ?s ?ancs"
    using assms by (auto simp: filter_ancestor_level)
  have star: "map ?d (if res_ID r \<noteq> ''*'' then [res_ID r @ ''_*''] else []) =
      map ?s (if res_ID r \<noteq> ''*'' then [''*''] else [])"
    using assms by (simp add: filter_star_level)
  have "nearest (map ?d (levelIDsEx (createAncestorsResource r))) =
      nearest (map ?d (res_ID r # ?ancs @ (if res_ID r \<noteq> ''*'' then [res_ID r @ ''_*''] else [])))"
    unfolding levelIDsEx_create
    by (rule nearest_skip_empty) (rule filter_empty_level [OF assms(1,2,5)])
  also have "\<dots> = access_decision e (checkData r acc) rows toks t r op"
    unfolding access_decision_def levels_def map_append list.map(2) own ancs star by (simp only:)
  finally show ?thesis .
qed

text \<open>The loop over the requested resources keeps the ones that pass.\<close>

lemma filter_loop:
  assumes "foldM (\<lambda>resource (result, opMap, oblMap).
       if \<not> allAllowed ops (calc resource) then returnM (result, opMap, oblMap)
       else bindM (obl resource oblMap) (\<lambda>oblMap'.
              returnM (result @ [resource], mput (res_ID resource) (keys resource) opMap, oblMap')))
     rs (acc0, om0, ob0) w = (Inr (res, om, ob), w')"
  shows "res = acc0 @ filter (\<lambda>r. allAllowed ops (calc r)) rs"
  using assms
proof (induction rs arbitrary: acc0 om0 ob0 w)
  case (Cons r rs)
  show ?case
  proof (cases "allAllowed ops (calc r)")
    case True
    with Cons.prems obtain ob1 w1 where
      "foldM (\<lambda>resource (result, opMap, oblMap).
         if \<not> allAllowed ops (calc resource) then returnM (result, opMap, oblMap)
         else bindM (obl resource oblMap) (\<lambda>oblMap'.
                returnM (result @ [resource], mput (res_ID resource) (keys resource) opMap, oblMap')))
       rs (acc0 @ [r], mput (res_ID r) (keys r) om0, ob1) w1 = (Inr (res, om, ob), w')"
      by (auto simp: bindM_Inr_iff)
    from Cons.IH [OF this] show ?thesis using True by simp
  next
    case False
    with Cons.prems show ?thesis using Cons.IH by simp
  qed
qed simp

lemma ResourceFilter_decides:
  assumes "env_ok e" "clean_request rs" "unconditional_ancestors rs (t_policy w)"
    and "getAccessorIDs e acc w = (Inr toks, w1)"
    and "ResourceFilter e rs acc ops incl w = (Inr (res, om, ob), w')"
  shows "res = filter (\<lambda>r. \<forall>op\<in>set ops.
     access_decision e (checkData r acc) (t_policy w) toks (now_at e (tick w + 2)) r op = Some True) rs"
proof (cases "rs = []")
  case True
  then show ?thesis using assms(5) by (simp add: ResourceFilter_def)
next
  case False
  let ?all = "concat (map createAncestorsResource rs)"
  have w1: "w1 = tock w" using assms(4) by (rule getAccessorIDs_tock)
  from False obtain x xs where xs: "rs = x # xs" by (cases rs) auto
  obtain r0 rest where all: "?all = r0 # rest" and r0: "res_Type r0 = res_Type (hd rs)"
    using create_nonempty [of x] by (auto simp: xs)
  from assms(5) False obtain ps w2 where
    q: "GetPoliciesByResourcesAndAccessToken e ?all toks (tock w) = (Inr ps, w2)"
    by (auto simp: ResourceFilter_def bindM_Inr_iff assms(4) w1 Let_def)
  have fetched: "fetched_policies (t_policy w) toks (now_at e (tick w + 2)) (res_Type (hd rs)) rs ps"
    using GetPolicies_run(1) [OF q [unfolded all]] unfolding fetched_policies_def all
    by (simp add: r0 numeral_2_eq_2)
  let ?calc = "\<lambda>r. calcResourceInheritedOperationEx e (mlist
      (fold (\<lambda>r. mput (res_ID r) (createAncestorsResource r)) rs []) (res_ID r)) (filterPermMap e rs acc ps)"
  have "res = filter (\<lambda>r. allAllowed ops (?calc r)) rs"
    using assms(5) False q
    by (auto simp: ResourceFilter_def bindM_Inr_iff assms(4) w1 Let_def
        filterPermMap_def [symmetric] dest!: filter_loop)
  moreover have "allAllowed ops (?calc r) \<longleftrightarrow> (\<forall>op\<in>set ops.
      access_decision e (checkData r acc) (t_policy w) toks (now_at e (tick w + 2)) r op = Some True)"
    if r: "r \<in> set rs" for r
  proof -
    have "mlist (fold (\<lambda>r. mput (res_ID r) (createAncestorsResource r)) rs []) (res_ID r) =
        createAncestorsResource r"
      using map_of_put_all [OF r, of res_ID createAncestorsResource "[]"] assms(2)
      by (simp add: mlist_def clean_request_def)
    moreover have "res_Type (hd rs) = res_Type r"
      using assms(2) r by (simp add: clean_request_def)
    ultimately show ?thesis
      using filter_levels [OF assms(1,2) r assms(3)] fetched
      by (simp add: per_resource.calc_allAllowed [OF assms(1)])
  qed
  ultimately show ?thesis by (auto intro: filter_cong)
qed


section \<open>Concrete requests\<close>

text \<open>An evaluator that is true when the data names the accessor.\<close>

definition accessor_env :: env where
  "accessor_env = quiet_env\<lparr> jsonlogic_Apply := (\<lambda>c d. Some (JBool (d \<noteq> JObj []))) \<rparr>"

lemma accessor_env_run [run_simps]:
  "fault_at accessor_env n = NoFault" "now_at accessor_env n = 1000 + int n"
  "map_order accessor_env ks = ks"
  "um_GetUserRolesByUserID accessor_env u = Inr [SuperAdmin]"
  "um_GetAccessorIDsByUserID accessor_env u = Inr [u]"
  "jsonlogic_Apply accessor_env c d = Some (JBool (d \<noteq> JObj []))"
  by (simp_all add: accessor_env_def quiet_env_run)

definition conditional_row :: policy_row where
  "conditional_row = (demo_row ''p4'' ''f1/*'' [] [])\<lparr> p_operation := rulesInfoToString
     \<lparr> rules_Allow = [\<lparr> rule_Condition = JObj [(''var'', JStr ''accessor.id'')],
                        rule_Operations = [demo_op ''read''] \<rparr>], rules_Deny = [] \<rparr> \<rparr>"

definition child_row :: policy_row where
  "child_row = (demo_row ''p5'' ''d1'' [''list''] [])\<lparr> p_ancestors :=
     Some (ancestorsInfoToString (res_Ancestors demo_resource)) \<rparr>"

end
