(* ===== verification/Policies.thy ===== *)
theory Policies
  imports PolicyCalc
begin

text \<open>
  \<open>logics/policy.go\<close>: policies are created (a second policy of an accessor on a resource
  is merged into the first), changed, deleted and listed.  Only administrators, and
  accessors with the \<open>authorize\<close> operation on every resource involved, may do so.  The
  writes of one request run in a transaction.
\<close>

section \<open>Rules without a condition\<close>

definition firstUnconditional :: "rule_item list \<Rightarrow> operation_item list" where
  "firstUnconditional items =
     (case find (\<lambda>item. isConditionEmpty (rule_Condition item)) items of
        None \<Rightarrow> [] | Some item \<Rightarrow> rule_Operations item)"

definition getPolicyNoConditionOperations ::
    "policy_info \<Rightarrow> operation_item list \<times> operation_item list" where
  "getPolicyNoConditionOperations p =
     (firstUnconditional (rules_Allow (pol_Rules p)), firstUnconditional (rules_Deny (pol_Rules p)))"

definition checkPolicyOperationValid :: "(string, bool) gomap \<Rightarrow> policy_info \<Rightarrow> err + unit" where
  "checkPolicyOperationValid operationIDMap p =
     (case getPolicyNoConditionOperations p of (allowOperations, denyOperations) \<Rightarrow>
        if allowOperations = [] \<and> denyOperations = [] then Inl PublicBadRequest
        else if list_ex (\<lambda>deny. \<not> mtrue operationIDMap (ope_ID deny)) denyOperations then Inl PublicBadRequest
        else (let denyOperationMap = fold (\<lambda>deny. mset_true (ope_ID deny)) denyOperations [] in
              if list_ex (\<lambda>allow. \<not> mtrue operationIDMap (ope_ID allow) \<or> mtrue denyOperationMap (ope_ID allow))
                   allowOperations
              then Inl PublicBadRequest else Inr ()))"

text \<open>\<open>reflect.DeepEqual\<close> on the items; the empty and the nil slice count as equal.\<close>

definition obligationsEqual :: "obligation_item list \<Rightarrow> obligation_item list \<Rightarrow> bool" where
  "obligationsEqual a b \<longleftrightarrow>
     list_all2 (\<lambda>x y. obl_TypeID x = obl_TypeID y \<and> obl_ID x = obl_ID y \<and>
                      deep_equal (obl_Value x) (obl_Value y)) a b"

definition operationMap :: "operation_item list \<Rightarrow> (string, operation_item) gomap" where
  "operationMap ops = fold (\<lambda>op. mput (ope_ID op) op) ops []"

definition operationsCovered :: "operation_item list \<Rightarrow> operation_item list \<Rightarrow> bool" where
  "operationsCovered oldOps newOps \<longleftrightarrow>
     list_all (\<lambda>op. case map_of (operationMap oldOps) (ope_ID op) of
         None \<Rightarrow> False
       | Some oldOp \<Rightarrow> obligationsEqual (ope_Obligations op) (ope_Obligations oldOp)) newOps"

definition cmpPolicy :: "policy_info \<Rightarrow> policy_info \<Rightarrow> bool" where
  "cmpPolicy old newInfo \<longleftrightarrow>
     pol_EndTime old = pol_EndTime newInfo \<and>
     operationsCovered (fst (getPolicyNoConditionOperations old)) (fst (getPolicyNoConditionOperations newInfo)) \<and>
     operationsCovered (snd (getPolicyNoConditionOperations old)) (snd (getPolicyNoConditionOperations newInfo))"

definition calcMinEndTime :: "int \<Rightarrow> int \<Rightarrow> int" where
  "calcMinEndTime endTime1 endTime2 =
     (if endTime1 = -1 then endTime2
      else if endTime2 = -1 then endTime1
      else if endTime1 < endTime2 then endTime1 else endTime2)"

text \<open>The two maps of \<open>mergeNewPolicy\<close>: denials first, new operations before old ones.\<close>

definition mergeDeny :: "operation_item list \<Rightarrow> operation_item list \<Rightarrow> (string, operation_item) gomap" where
  "mergeDeny newDeny oldDeny =
     fold (\<lambda>deny m. if map_of m (ope_ID deny) \<noteq> None then m else mput (ope_ID deny) deny m) oldDeny
       (operationMap newDeny)"

definition mergeAllow ::
    "(string, operation_item) gomap \<Rightarrow> operation_item list \<Rightarrow> operation_item list \<Rightarrow>
     (string, operation_item) gomap" where
  "mergeAllow denyMap newAllow oldAllow =
     fold (\<lambda>allow m. if map_of denyMap (ope_ID allow) \<noteq> None then m
                     else if map_of m (ope_ID allow) \<noteq> None then m
                     else mput (ope_ID allow) allow m) oldAllow
       (fold (\<lambda>allow m. if map_of denyMap (ope_ID allow) \<noteq> None then m
                        else mput (ope_ID allow) allow m) newAllow [])"

definition unconditionalRule :: "operation_item list \<Rightarrow> rule_item list" where
  "unconditionalRule ops = (if ops = [] then [] else [\<lparr> rule_Condition = JNull, rule_Operations = ops \<rparr>])"

definition mergeNewPolicy :: "env \<Rightarrow> policy_info \<Rightarrow> policy_info \<Rightarrow> policy_info" where
  "mergeNewPolicy e old newInfo =
     (let (oldAllow, oldDeny) = getPolicyNoConditionOperations old;
          (newAllow, newDeny) = getPolicyNoConditionOperations newInfo;
          denyMap = mergeDeny newDeny oldDeny;
          allowMap = mergeAllow denyMap newAllow oldAllow;
          conditional = filter (\<lambda>item. \<not> isConditionEmpty (rule_Condition item))
      in zero_policy\<lparr>
           pol_ID := pol_ID old,
           pol_Rules := \<lparr>
             rules_Allow = unconditionalRule (map snd (range_map (map_order e) allowMap))
                           @ conditional (rules_Allow (pol_Rules old)),
             rules_Deny = unconditionalRule (map snd (range_map (map_order e) denyMap))
                          @ conditional (rules_Deny (pol_Rules old)) \<rparr>,
           pol_ResourceID := pol_ResourceID old, pol_ResourceType := pol_ResourceType old,
           pol_ResourceName := pol_ResourceName old, pol_AccessorID := pol_AccessorID old,
           pol_AccessorType := pol_AccessorType old, pol_AccessorName := pol_AccessorName old,
           pol_EndTime := calcMinEndTime (pol_EndTime old) (pol_EndTime newInfo) \<rparr>)"


section \<open>Rules with conditions\<close>

definition sameCondition :: "json \<Rightarrow> json \<Rightarrow> bool" where
  "sameCondition a b \<longleftrightarrow> isConditionEmpty a \<and> isConditionEmpty b \<or> deep_equal a b"

definition rulesCovered :: "rule_item list \<Rightarrow> rule_item list \<Rightarrow> bool" where
  "rulesCovered oldItems newItems \<longleftrightarrow>
     list_all (\<lambda>newRule.
       case find (\<lambda>oldRule. sameCondition (rule_Condition oldRule) (rule_Condition newRule)) oldItems of
         None \<Rightarrow> False
       | Some oldRule \<Rightarrow> operationsCovered (rule_Operations oldRule) (rule_Operations newRule)) newItems"

definition cmpPolicyWithCondition :: "policy_info \<Rightarrow> policy_info \<Rightarrow> bool" where
  "cmpPolicyWithCondition old newInfo \<longleftrightarrow>
     pol_EndTime old = pol_EndTime newInfo \<and>
     rulesCovered (rules_Allow (pol_Rules old)) (rules_Allow (pol_Rules newInfo)) \<and>
     rulesCovered (rules_Deny (pol_Rules old)) (rules_Deny (pol_Rules newInfo))"

definition mergeOperations :: "env \<Rightarrow> operation_item list \<Rightarrow> operation_item list \<Rightarrow> operation_item list" where
  "mergeOperations e oldOps newOps =
     (if oldOps = [] then newOps
      else if newOps = [] then oldOps
      else (let newMap = operationMap newOps in
            map snd (range_map (map_order e) newMap)
            @ filter (\<lambda>op. map_of newMap (ope_ID op) = None) oldOps))"

definition findOld :: "rule_item list \<Rightarrow> bool list \<Rightarrow> json \<Rightarrow> nat option" where
  "findOld oldItems usedOld cond =
     find (\<lambda>i. \<not> usedOld ! i \<and> sameCondition (rule_Condition (oldItems ! i)) cond) [0 ..< length oldItems]"

definition mergeRuleStep ::
    "env \<Rightarrow> rule_item list \<Rightarrow> rule_item \<Rightarrow> bool list \<times> rule_item list \<Rightarrow> bool list \<times> rule_item list" where
  "mergeRuleStep e oldItems newItem acc =
     (case acc of (usedOld, out) \<Rightarrow>
        (case findOld oldItems usedOld (rule_Condition newItem) of
           None \<Rightarrow> (usedOld, out @ [newItem])
         | Some oi \<Rightarrow>
             (usedOld[oi := True],
              out @ [\<lparr> rule_Condition = rule_Condition (oldItems ! oi),
                       rule_Operations = mergeOperations e (rule_Operations (oldItems ! oi))
                                           (rule_Operations newItem) \<rparr>])))"

definition mergeRuleItems :: "env \<Rightarrow> rule_item list \<Rightarrow> rule_item list \<Rightarrow> rule_item list" where
  "mergeRuleItems e oldItems newItems =
     (case fold (mergeRuleStep e oldItems) newItems (replicate (length oldItems) False, []) of
        (usedOld, out) \<Rightarrow> out @ map snd (filter (\<lambda>(used, _). \<not> used) (zip usedOld oldItems)))"

definition mergeNewPolicyWithCondition :: "env \<Rightarrow> policy_info \<Rightarrow> policy_info \<Rightarrow> policy_info" where
  "mergeNewPolicyWithCondition e old newInfo =
     old\<lparr> pol_Rules := \<lparr>
            rules_Allow = mergeRuleItems e (rules_Allow (pol_Rules old)) (rules_Allow (pol_Rules newInfo)),
            rules_Deny = mergeRuleItems e (rules_Deny (pol_Rules old)) (rules_Deny (pol_Rules newInfo)) \<rparr>,
          pol_EndTime := calcMinEndTime (pol_EndTime old) (pol_EndTime newInfo) \<rparr>"

section \<open>Checks\<close>

definition authorizeOperation :: string where
  "authorizeOperation = ''authorize''"

text \<open>Every resource of the map is checked, unless the caller is an administrator.\<close>

definition checkVisitorAuthorize ::
    "env \<Rightarrow> visitor \<Rightarrow> (string, (string, bool) gomap) gomap \<Rightarrow> unit op" where
  "checkVisitorAuthorize e visitor resourceTypeMap =
     bindM (if vis_Type visitor = RealName
            then bindM (liftE (um_GetUserRolesByUserID e (vis_ID visitor))) (\<lambda>roleTypes.
              returnM (list_ex (\<lambda>r. r \<in> {SuperAdmin, SystemAdmin, SecurityAdmin}) roleTypes))
            else returnM False) (\<lambda>accepted.
       if accepted then returnM ()
       else iterM (\<lambda>(resourceType, resourceMap).
              iterM (\<lambda>(resourceID, _).
                bindM (Check e (bareResource resourceID\<lparr> res_Type := resourceType \<rparr>)
                    \<lparr> acc_ID = vis_ID visitor, acc_Type = vis_Type visitor, acc_Name = '''' \<rparr>
                    [authorizeOperation] []) (\<lambda>checkResult.
                  if \<not> cr_Result checkResult then throwM PublicForbidden else returnM ()))
                (range_map (map_order e) resourceMap))
              (range_map (map_order e) resourceTypeMap))"

text \<open>\<open>strings.Split(s, "/")\<close>\<close>

fun splitSlash :: "string \<Rightarrow> string list" where
  "splitSlash [] = ['''']"
| "splitSlash (c # cs) =
     (if c = CHR ''/'' then '''' # splitSlash cs
      else (case splitSlash cs of p # ps \<Rightarrow> (c # p) # ps | [] \<Rightarrow> [[c]]))"

definition checkResourceID :: "policy_info \<Rightarrow> err + unit" where
  "checkResourceID p =
     (if CHR ''/'' \<in> set (pol_ResourceID p) then
        (if pol_Ancestors p = [] then Inl PublicBadRequest
         else (case splitSlash (pol_ResourceID p) of
                 [parent, child] \<Rightarrow>
                   if child \<noteq> ''*'' then Inl PublicBadRequest
                   else if parent \<noteq> anc_ID (last (pol_Ancestors p)) then Inl PublicBadRequest
                   else Inr ()
               | _ \<Rightarrow> Inl PublicBadRequest))
      else Inr ())"

definition checkResourceIDAndAncestors :: "env \<Rightarrow> policy_info \<Rightarrow> unit op" where
  "checkResourceIDAndAncestors e p =
     bindM (hierarchy_HasHierarchy e (pol_ResourceType p)) (\<lambda>hasHierarchy.
       if hasHierarchy \<and> \<not> pol_HasAncestors p then throwM PublicBadRequest
       else bindM (liftE (checkResourceID p)) (\<lambda>_.
         if list_ex (\<lambda>a. anc_ID a = ''*'') (pol_Ancestors p) then throwM PublicBadRequest
         else returnM ()))"

definition getResourceTypeOperations ::
    "env \<Rightarrow> (string, string list) gomap \<Rightarrow> (string, (string, bool) gomap) gomap op" where
  "getResourceTypeOperations e resourceTypeMap =
     (let resourceTypeIDs = map fst (range_map (map_order e) resourceTypeMap) in
      bindM (resourceType_GetByIDsInternal e resourceTypeIDs) (\<lambda>infoMap.
        liftE (mapE (\<lambda>i. case map_of infoMap i of
            None \<Rightarrow> Inl PublicBadRequest
          | Some t \<Rightarrow> Inr (i, fold (\<lambda>op. mset_true (rto_ID op)) (rt_Operation t) [])) resourceTypeIDs)))"

definition operationsOf :: "(string, (string, bool) gomap) gomap \<Rightarrow> string \<Rightarrow> (string, bool) gomap" where
  "operationsOf m i = (case map_of m i of None \<Rightarrow> [] | Some ops \<Rightarrow> ops)"

definition getAccessorName ::
    "env \<Rightarrow> (string, accessor_type) gomap \<Rightarrow> (string, string) gomap \<Rightarrow> (string, string) gomap op" where
  "getAccessorName e accessorTypeMap accessorRoleMap =
     bindM (if accessorTypeMap \<noteq> [] then liftE (um_GetNameByAccessorIDs e accessorTypeMap)
            else returnM []) (\<lambda>idNameMap.
       if accessorRoleMap \<noteq> [] then
         bindM (role_GetRolesByIDs e (map fst (range_map (map_order e) accessorRoleMap))) (\<lambda>roleInfoMap.
           if list_ex (\<lambda>(i, _). map_of roleInfoMap i = None) (range_map (map_order e) accessorRoleMap)
           then throwM RoleNotFound
           else returnM (fold (\<lambda>(_, r). mput (role_ID r) (role_Name r))
                  (range_map (map_order e) roleInfoMap) idNameMap))
       else returnM idNameMap)"


section \<open>What to insert and what to update\<close>

definition oldPolicies ::
    "env \<Rightarrow> (string, string list) gomap \<Rightarrow> (string, (string, policy_info list) gomap) gomap op" where
  "oldPolicies e resourceTypeMap =
     foldM (\<lambda>(resourceTypeID, resourceIDs) m.
         bindM (policy_GetByResourceIDs e resourceTypeID resourceIDs) (\<lambda>oldPoliciesMap.
           returnM (if oldPoliciesMap = [] then m else mput resourceTypeID oldPoliciesMap m)))
       (range_map (map_order e) resourceTypeMap) []"

definition byAccessor :: "policy_info list \<Rightarrow> (string, policy_info) gomap" where
  "byAccessor policys = fold (\<lambda>p. mput (pol_AccessorID p) p) policys []"

definition oldResourceAccessorsPolicies ::
    "env \<Rightarrow> (string, (string, policy_info list) gomap) gomap \<Rightarrow>
     (string, (string, (string, policy_info) gomap) gomap) gomap" where
  "oldResourceAccessorsPolicies e m =
     fold (\<lambda>(resourceTypeID, byResource).
         mput resourceTypeID (fold (\<lambda>(resourceID, policys). mput resourceID (byAccessor policys))
           (range_map (map_order e) byResource) []))
       (range_map (map_order e) m) []"

definition oldPolicyOf ::
    "(string, (string, (string, policy_info) gomap) gomap) gomap \<Rightarrow> policy_info \<Rightarrow> policy_info option" where
  "oldPolicyOf m p =
     (case map_of m (pol_ResourceType p) of
        None \<Rightarrow> None
      | Some byResource \<Rightarrow>
          (case map_of byResource (pol_ResourceID p) of
             None \<Rightarrow> None
           | Some policysMap \<Rightarrow> map_of policysMap (pol_AccessorID p)))"

text \<open>
  One round of the loop of \<open>getCreateAndUpdatePolicy\<close> and of its variant with conditions,
  which differ in the comparison and in the merge.
\<close>

definition createOrUpdateStep ::
    "env \<Rightarrow> (policy_info \<Rightarrow> policy_info \<Rightarrow> bool) \<Rightarrow> (policy_info \<Rightarrow> policy_info \<Rightarrow> policy_info) \<Rightarrow>
     (string, string) gomap \<Rightarrow> (string, (string, (string, policy_info) gomap) gomap) gomap \<Rightarrow>
     policy_info \<Rightarrow> policy_info list \<times> policy_info list \<times> string list \<Rightarrow>
     (policy_info list \<times> policy_info list \<times> string list) op" where
  "createOrUpdateStep e same merge idNameMap oldMap p acc =
     (case acc of (newPolicy, updatePolicy, policyIDs) \<Rightarrow>
        (case oldPolicyOf oldMap p of
           Some old \<Rightarrow>
             returnM (newPolicy, if same old p then updatePolicy else updatePolicy @ [merge old p],
                      policyIDs @ [pol_ID old])
         | None \<Rightarrow>
             bindM (newUUID e) (\<lambda>i.
               returnM (newPolicy @ [p\<lparr> pol_ID := i, pol_AccessorName :=
                   (case map_of idNameMap (pol_AccessorID p) of None \<Rightarrow> pol_AccessorID p | Some n \<Rightarrow> n) \<rparr>],
                 updatePolicy, policyIDs @ [i]))))"

definition getCreateAndUpdatePolicy ::
    "env \<Rightarrow> policy_info list \<Rightarrow> (string, string list) gomap \<Rightarrow> (string, string) gomap \<Rightarrow>
     (policy_info list \<times> policy_info list \<times> string list) op" where
  "getCreateAndUpdatePolicy e policys resourceTypeMap idNameMap =
     bindM (oldPolicies e resourceTypeMap) (\<lambda>m.
       foldM (createOrUpdateStep e cmpPolicy (mergeNewPolicy e) idNameMap
         (oldResourceAccessorsPolicies e m)) policys ([], [], []))"

definition getCreateAndUpdatePolicyWithCondition ::
    "env \<Rightarrow> policy_info list \<Rightarrow> (string, string list) gomap \<Rightarrow> (string, string) gomap \<Rightarrow>
     (policy_info list \<times> policy_info list \<times> string list) op" where
  "getCreateAndUpdatePolicyWithCondition e policys resourceTypeMap idNameMap =
     bindM (oldPolicies e resourceTypeMap) (\<lambda>m.
       foldM (createOrUpdateStep e cmpPolicyWithCondition (mergeNewPolicyWithCondition e) idNameMap
         (oldResourceAccessorsPolicies e m)) policys ([], [], []))"

section \<open>Transactions\<close>

text \<open>
  \<open>pool.Begin\<close>, the statements, and the deferred \<open>Commit\<close> or \<open>Rollback\<close>.  What an
  uncommitted transaction wrote is never seen: a failed statement, and a commit that did
  not reach the database, leave the tables as they were at \<open>Begin\<close>.  An error of
  \<open>Rollback\<close> is only logged.
\<close>

definition rolledBack :: "world \<Rightarrow> world \<Rightarrow> world" where
  "rolledBack begun w = begun\<lparr> next_id := next_id w, tick := Suc (tick w) \<rparr>"

definition transaction :: "env \<Rightarrow> unit op \<Rightarrow> unit op" where
  "transaction e body =
     bindM (db_exec e (\<lambda>w. w)) (\<lambda>_ begun.
       (case body begun of
          (Inl er, w) \<Rightarrow> (Inl er, rolledBack begun w)
        | (Inr _, w) \<Rightarrow>
            (case fault_at e (tick w) of
               NoFault \<Rightarrow> (Inr (), tock w)
             | FaultBefore \<Rightarrow> (Inl DBError, rolledBack begun w)
             | FaultAfter \<Rightarrow> (Inl DBError, tock w))))"

definition writePolicies :: "env \<Rightarrow> policy_info list \<Rightarrow> policy_info list \<Rightarrow> unit op" where
  "writePolicies e newPolicy updatePolicy =
     transaction e
       (bindM (if newPolicy \<noteq> [] then policy_Create e newPolicy else returnM ()) (\<lambda>_.
          if updatePolicy \<noteq> [] then policy_Update e updatePolicy else returnM ()))"


section \<open>Creating policies\<close>

definition resourceTypeMapOf :: "policy_info list \<Rightarrow> (string, string list) gomap" where
  "resourceTypeMapOf policys = fold (\<lambda>p. mappend (pol_ResourceType p) [pol_ResourceID p]) policys []"

definition resourcesOf :: "policy_info list \<Rightarrow> (string, (string, bool) gomap) gomap" where
  "resourcesOf policys =
     fold (\<lambda>p m. mput (pol_ResourceType p)
         (mset_true (pol_ResourceID p) (operationsOf m (pol_ResourceType p))) m) policys []"

text \<open>
  The loop that checks the policies of one request.  The three nested maps of the
  duplicate check are one map on triples.
\<close>

type_synonym create_acc =
  "(string \<times> string \<times> string, bool) gomap \<times> (string, accessor_type) gomap \<times> (string, string) gomap"

definition createCheckStep ::
    "env \<Rightarrow> (string, (string, bool) gomap) gomap \<Rightarrow> policy_info \<Rightarrow> create_acc \<Rightarrow> create_acc op" where
  "createCheckStep e operationIDs p acc =
     (case acc of (dup, accessorTypeMap, accessorRoleMap) \<Rightarrow>
        bindM (checkEndTime e (pol_EndTime p)) (\<lambda>_.
        bindM (checkResourceIDAndAncestors e p) (\<lambda>_.
          (let key = (pol_ResourceType p, pol_ResourceID p, pol_AccessorID p) in
           if mtrue dup key then throwM PublicBadRequest
           else bindM (liftE (checkPolicyOperationValid (operationsOf operationIDs (pol_ResourceType p)) p)) (\<lambda>_.
             returnM (mset_true key dup,
               if pol_AccessorType p \<noteq> AccessorRole \<and> pol_AccessorID p \<noteq> rootDepID
               then mput (pol_AccessorID p) (pol_AccessorType p) accessorTypeMap else accessorTypeMap,
               if pol_AccessorType p = AccessorRole
               then mput (pol_AccessorID p) (pol_AccessorName p) accessorRoleMap else accessorRoleMap))))))"

definition createChecked :: "env \<Rightarrow> policy_info list \<Rightarrow> string list op" where
  "createChecked e policys =
     bindM (getResourceTypeOperations e (resourceTypeMapOf policys)) (\<lambda>operationIDs.
     bindM (foldM (createCheckStep e operationIDs) policys ([], [], [])) (\<lambda>(_, accessorTypeMap, accessorRoleMap).
     bindM (getAccessorName e accessorTypeMap accessorRoleMap) (\<lambda>idNameMap.
     bindM (getCreateAndUpdatePolicy e policys (resourceTypeMapOf policys) idNameMap)
       (\<lambda>(newPolicy, updatePolicy, policyIDs).
       if newPolicy = [] \<and> updatePolicy = [] then returnM policyIDs
       else bindM (writePolicies e newPolicy updatePolicy) (\<lambda>_. returnM policyIDs)))))"

definition policyLogic_Create :: "env \<Rightarrow> visitor \<Rightarrow> policy_info list \<Rightarrow> string list op" where
  "policyLogic_Create e visitor policys =
     (if policys = [] then returnM []
      else bindM (checkVisitorAuthorize e visitor (resourcesOf policys)) (\<lambda>_. createChecked e policys))"

definition policyLogic_CreatePrivate :: "env \<Rightarrow> policy_info list \<Rightarrow> unit op" where
  "policyLogic_CreatePrivate e policys =
     (if policys = [] then returnM () else bindM (createChecked e policys) (\<lambda>_. returnM ()))"

definition policyLogic_InitPolicy :: "env \<Rightarrow> policy_info list \<Rightarrow> unit op" where
  "policyLogic_InitPolicy e policys =
     (if policys = [] then returnM ()
      else
        (let idNameMap = fold (\<lambda>p m. if pol_AccessorID p \<noteq> rootDepID
               then mput (pol_AccessorID p) (pol_AccessorName p) m else m) policys []
         in bindM (getCreateAndUpdatePolicyWithCondition e policys (resourceTypeMapOf policys) idNameMap)
              (\<lambda>(newPolicy, updatePolicy, _).
              if newPolicy = [] \<and> updatePolicy = [] then returnM ()
              else writePolicies e newPolicy updatePolicy)))"


section \<open>Changing and deleting policies\<close>

primrec replaceFirstUnconditional :: "operation_item list \<Rightarrow> rule_item list \<Rightarrow> rule_item list" where
  "replaceFirstUnconditional ops [] = []"
| "replaceFirstUnconditional ops (item # rest) =
     (if isConditionEmpty (rule_Condition item) then item\<lparr> rule_Operations := ops \<rparr> # rest
      else item # replaceFirstUnconditional ops rest)"

definition setUnconditional :: "operation_item list \<Rightarrow> rule_item list \<Rightarrow> rule_item list" where
  "setUnconditional ops items =
     (if list_ex (\<lambda>item. isConditionEmpty (rule_Condition item)) items
      then replaceFirstUnconditional ops items
      else \<lparr> rule_Condition = JNull, rule_Operations = ops \<rparr> # items)"

definition updatedPolicy ::
    "(string, policy_info) gomap \<Rightarrow> (string, (string, bool) gomap) gomap \<Rightarrow> policy_info \<Rightarrow> err + policy_info" where
  "updatedPolicy oldPoliciesMap operationIDs p =
     (case map_of oldPoliciesMap (pol_ID p) of
        None \<Rightarrow> Inr p
      | Some old \<Rightarrow>
          bindE (checkPolicyOperationValid (operationsOf operationIDs (pol_ResourceType old)) p) (\<lambda>_.
            (case getPolicyNoConditionOperations p of (newAllow, newDeny) \<Rightarrow>
               Inr (p\<lparr> pol_Rules := \<lparr>
                 rules_Allow = setUnconditional newAllow (rules_Allow (pol_Rules old)),
                 rules_Deny = setUnconditional newDeny (rules_Deny (pol_Rules old)) \<rparr> \<rparr>))))"

definition updateCheckStep :: "env \<Rightarrow> policy_info \<Rightarrow> (string, bool) gomap \<Rightarrow> (string, bool) gomap op" where
  "updateCheckStep e p idDupCheck =
     (if mtrue idDupCheck (pol_ID p) then throwM PublicBadRequest
      else bindM (checkEndTime e (pol_EndTime p)) (\<lambda>_. returnM (mset_true (pol_ID p) idDupCheck)))"

definition policyLogic_Update :: "env \<Rightarrow> visitor \<Rightarrow> policy_info list \<Rightarrow> unit op" where
  "policyLogic_Update e visitor policys =
     (if policys = [] then returnM ()
      else bindM (foldM (updateCheckStep e) policys []) (\<lambda>_.
      bindM (policy_GetByPolicyIDs e (map pol_ID policys)) (\<lambda>oldPoliciesMap.
        if oldPoliciesMap = [] then returnM ()
        else
          (let olds = map snd (range_map (map_order e) oldPoliciesMap) in
           bindM (checkVisitorAuthorize e visitor (resourcesOf olds)) (\<lambda>_.
           bindM (getResourceTypeOperations e (resourceTypeMapOf olds)) (\<lambda>operationIDs.
           bindM (liftE (mapE (updatedPolicy oldPoliciesMap operationIDs) policys)) (\<lambda>policys'.
             transaction e (policy_Update e policys'))))))))"

definition hasCondition :: "policy_info \<Rightarrow> bool" where
  "hasCondition p \<longleftrightarrow>
     list_ex (\<lambda>item. \<not> isConditionEmpty (rule_Condition item)) (rules_Allow (pol_Rules p)) \<or>
     list_ex (\<lambda>item. \<not> isConditionEmpty (rule_Condition item)) (rules_Deny (pol_Rules p))"

definition onlyConditional :: "policy_info \<Rightarrow> policy_info" where
  "onlyConditional p =
     p\<lparr> pol_Rules := \<lparr>
          rules_Allow = filter (\<lambda>item. \<not> isConditionEmpty (rule_Condition item)) (rules_Allow (pol_Rules p)),
          rules_Deny = filter (\<lambda>item. \<not> isConditionEmpty (rule_Condition item)) (rules_Deny (pol_Rules p)) \<rparr> \<rparr>"

definition policyLogic_Delete :: "env \<Rightarrow> visitor \<Rightarrow> string list \<Rightarrow> unit op" where
  "policyLogic_Delete e visitor ids =
     (if ids = [] then returnM ()
      else bindM (policy_GetByPolicyIDs e ids) (\<lambda>oldPoliciesMap.
        (let olds = map snd (range_map (map_order e) oldPoliciesMap);
             updatePolicys = map onlyConditional (filter hasCondition olds);
             deletePolicyIDs = map pol_ID (filter (\<lambda>p. \<not> hasCondition p) olds)
         in bindM (checkVisitorAuthorize e visitor (resourcesOf olds)) (\<lambda>_.
            transaction e
              (bindM (if updatePolicys \<noteq> [] then policy_Update e updatePolicys else returnM ()) (\<lambda>_.
                 if deletePolicyIDs \<noteq> [] then policy_Delete e deletePolicyIDs else returnM ()))))))"

definition policyLogic_DeleteByResourceIDs :: "env \<Rightarrow> (string \<times> string) list \<Rightarrow> unit op" where
  "policyLogic_DeleteByResourceIDs e resources =
     (if resources = [] then returnM () else policy_DeleteByResourceIDs e resources)"

definition deletePolicyByAccessorID :: "env \<Rightarrow> string \<Rightarrow> unit op" where
  "deletePolicyByAccessorID e accessorID = policy_DeleteByAccessorIDs e [accessorID]"

definition updatePolicyAccessorName :: "env \<Rightarrow> string \<Rightarrow> string \<Rightarrow> unit op" where
  "updatePolicyAccessorName e i name = policy_UpdateAccessorName e i name"

definition policyLogic_updateAppName :: "env \<Rightarrow> app_info \<Rightarrow> unit op" where
  "policyLogic_updateAppName e info = policy_UpdateAccessorName e (app_ID info) (app_Name info)"

definition policyLogic_UpdateResourceName :: "env \<Rightarrow> string \<Rightarrow> string \<Rightarrow> string \<Rightarrow> unit op" where
  "policyLogic_UpdateResourceName e resourceID resourceType name =
     policy_UpdateResourceName e resourceID resourceType name"

definition policyLogic_UpdateResourceAncestors ::
    "env \<Rightarrow> string \<Rightarrow> string \<Rightarrow> ancestor list \<Rightarrow> unit op" where
  "policyLogic_UpdateResourceAncestors e resourceID resourceType ancestors =
     policy_UpdateResourceAncestors e resourceID resourceType ancestors"

definition policyLogic_DeleteByEndTime :: "env \<Rightarrow> int \<Rightarrow> unit op" where
  "policyLogic_DeleteByEndTime e curTime = policy_DeleteByEndTime e curTime"

text \<open>The registrations of \<open>NewPolicy\<close>.\<close>

definition policy_register :: "env \<Rightarrow> event \<Rightarrow> event" where
  "policy_register e ev =
     RegisterRoleNameModified (updatePolicyAccessorName e)
     (RegisterRoleDeleted (deletePolicyByAccessorID e)
     (RegisterAppNameModified (policyLogic_updateAppName e)
     (RegisterOrgNameModified (updatePolicyAccessorName e)
     (RegisterAppDeleted (deletePolicyByAccessorID e)
     (RegisterDepartmentDeleted (deletePolicyByAccessorID e)
     (RegisterUserGroupDeleted (deletePolicyByAccessorID e)
     (RegisterUserDeleted (deletePolicyByAccessorID e) ev)))))))"

section \<open>Listing policies\<close>

text \<open>\<open>list[start:end]\<close> panics when \<open>end\<close> lies before \<open>start\<close> or \<open>start\<close> is negative.\<close>

definition applyPagination :: "'a list \<Rightarrow> int \<Rightarrow> int \<Rightarrow> err + 'a list" where
  "applyPagination xs offset limit =
     (if limit = -1 then Inr xs
      else if xs = [] \<or> offset \<ge> int (length xs) then Inr []
      else (let end0 = wrap64 (offset + limit) in
            go_slice offset (if end0 > int (length xs) then int (length xs) else end0) xs))"

record operation_info =
  opi_id :: string
  opi_name :: string

definition policy_getOperationNameByLanguage :: "string \<Rightarrow> operation_name list \<Rightarrow> string" where
  "policy_getOperationNameByLanguage language operationName =
     (case find (\<lambda>n. EqualFold (opn_Language n) language) operationName of
        None \<Rightarrow> '''' | Some n \<Rightarrow> opn_Value n)"

definition getResourceTypesOperation ::
    "env \<Rightarrow> visitor \<Rightarrow> string list \<Rightarrow> (string, operation_info list) gomap op" where
  "getResourceTypesOperation e visitor resourceTypes =
     bindM (resourceType_GetByIDsInternal e resourceTypes) (\<lambda>infoMap.
       liftE (foldE (\<lambda>resourceType m.
           case map_of infoMap resourceType of
             None \<Rightarrow> Inl PublicBadRequest
           | Some t \<Rightarrow> Inr (mput resourceType (map (\<lambda>operation.
                 \<lparr> opi_id = rto_ID operation,
                   opi_name = policy_getOperationNameByLanguage (vis_Language visitor) (rto_Name operation) \<rparr>)
               (rt_Operation t)) m)) resourceTypes []))"

definition parentDepsStep ::
    "env \<Rightarrow> policy_info \<Rightarrow> (string, department list list) gomap \<times> string list \<Rightarrow>
     err + (string, department list list) gomap \<times> string list" where
  "parentDepsStep e p acc =
     (case acc of (parentDepsMap, userIDs) \<Rightarrow>
        if pol_AccessorType p = AccessorUser then Inr (parentDepsMap, userIDs @ [pol_AccessorID p])
        else if pol_AccessorType p = AccessorDepartment then
          (if pol_AccessorID p = rootDepID then Inr acc
           else bindE (um_GetParentDepartmentsByDepartmentID e (pol_AccessorID p)) (\<lambda>dep.
             Inr (mput (pol_AccessorID p) [dep] parentDepsMap, userIDs)))
        else Inr acc)"

definition getParentDeps :: "env \<Rightarrow> policy_info list \<Rightarrow> err + (string, department list list) gomap" where
  "getParentDeps e policies =
     bindE (foldE (parentDepsStep e) policies ([], [])) (\<lambda>(parentDepsMap, userIDs0).
       (let userIDs = Distinct userIDs0 in
        if userIDs = [] then Inr parentDepsMap
        else bindE (um_BatchGetUserInfoByID e userIDs) (\<lambda>userInfoMaps.
          Inr (fold (\<lambda>(userID, u). mput userID (ui_ParentDeps u))
            (range_map (map_order e) userInfoMaps) parentDepsMap))))"

definition sortOperationAndFillName ::
    "operation_item list \<Rightarrow> operation_item list \<Rightarrow> operation_info list \<Rightarrow>
     operation_item list \<times> operation_item list" where
  "sortOperationAndFillName allow deny operationInfos =
     (let fill = (\<lambda>ops. List.map_filter (\<lambda>opeName.
            map_option (\<lambda>op. \<lparr> ope_ID = opi_id opeName, ope_Name = opi_name opeName,
                                ope_Obligations = ope_Obligations op \<rparr>)
              (map_of (operationMap ops) (opi_id opeName))) operationInfos)
      in (fill allow, fill deny))"

text \<open>Policies whose unconditional rules name no operation are left out of the lists.\<close>

definition listedPolicy :: "policy_info \<Rightarrow> policy_info option" where
  "listedPolicy p =
     (case getPolicyNoConditionOperations p of (allowOperations, denyOperations) \<Rightarrow>
        if allowOperations = [] \<and> denyOperations = [] then None
        else Some (p\<lparr> pol_Rules := \<lparr>
          rules_Allow = (if allowOperations \<noteq> [] then unconditionalRule allowOperations
                         else rules_Allow (pol_Rules p)),
          rules_Deny = (if denyOperations \<noteq> [] then unconditionalRule denyOperations
                        else rules_Deny (pol_Rules p)) \<rparr> \<rparr>))"

definition fillNames :: "operation_info list \<Rightarrow> policy_info \<Rightarrow> policy_info" where
  "fillNames opeInfo p =
     (case getPolicyNoConditionOperations p of (allowOps, denyOps) \<Rightarrow>
        (case sortOperationAndFillName allowOps denyOps opeInfo of (allowFilled, denyFilled) \<Rightarrow>
           p\<lparr> pol_Rules := \<lparr> rules_Allow = unconditionalRule allowFilled,
                              rules_Deny = unconditionalRule denyFilled \<rparr> \<rparr>))"

definition fillParentDeps :: "(string, department list list) gomap \<Rightarrow> policy_info \<Rightarrow> policy_info" where
  "fillParentDeps parentDepsMap p =
     p\<lparr> pol_ParentDeps :=
          (if (pol_AccessorType p = AccessorUser \<or> pol_AccessorType p = AccessorDepartment) \<and>
              pol_AccessorID p \<noteq> rootDepID
           then mlist parentDepsMap (pol_AccessorID p) else []) \<rparr>"

definition operationInfosOf :: "(string, operation_info list) gomap \<Rightarrow> string \<Rightarrow> operation_info list" where
  "operationInfosOf m t = mlist m t"

record policy_pagination =
  pp_ResourceID :: string
  pp_ResourceType :: string
  pp_Offset :: int
  pp_Limit :: int

definition policyLogic_GetPagination ::
    "env \<Rightarrow> visitor \<Rightarrow> policy_pagination \<Rightarrow> (nat \<times> policy_info list) op" where
  "policyLogic_GetPagination e visitor params =
     bindM (checkVisitorAuthorize e visitor [(pp_ResourceType params, [(pp_ResourceID params, True)])]) (\<lambda>_.
     bindM (policy_GetPagination e (pp_ResourceID params) (pp_ResourceType params)) (\<lambda>policiesTmp.
       if policiesTmp = [] then returnM (0, [])
       else
         (let policies = List.map_filter listedPolicy policiesTmp; num = length policies in
          if num = 0 then returnM (num, policies)
          else bindM (liftE (applyPagination policies (pp_Offset params) (pp_Limit params))) (\<lambda>page.
            case page of
              [] \<Rightarrow> returnM (num, [])
            | first # _ \<Rightarrow>
                bindM (getResourceTypesOperation e visitor [pol_ResourceType first]) (\<lambda>operationInfoMap.
                bindM (liftE (getParentDeps e page)) (\<lambda>parentDepsMap.
                  returnM (num, map (\<lambda>p. fillNames (operationInfosOf operationInfoMap (pol_ResourceType first))
                    (fillParentDeps parentDepsMap p)) page)))))))"


subsection \<open>Obligations of listed policies\<close>

definition listedObligations :: "policy_info list \<Rightarrow> obligation_item list" where
  "listedObligations policies =
     concat (map (\<lambda>p. concat (map ope_Obligations (fst (getPolicyNoConditionOperations p)))) policies)"

definition obligationTypeMapOf :: "policy_info list \<Rightarrow> (string, bool) gomap" where
  "obligationTypeMapOf policies = fold (\<lambda>ob. mset_true (obl_TypeID ob)) (listedObligations policies) []"

definition obligationMapOf :: "policy_info list \<Rightarrow> (string, bool) gomap" where
  "obligationMapOf policies =
     fold (\<lambda>ob m. if obl_ID ob \<noteq> '''' then mset_true (obl_ID ob) m else m) (listedObligations policies) []"

definition validObligation :: "(string, bool) gomap \<Rightarrow> (string, bool) gomap \<Rightarrow> obligation_item \<Rightarrow> bool" where
  "validObligation validTypes validObligations ob \<longleftrightarrow>
     mtrue validTypes (obl_TypeID ob) \<and> (obl_ID ob \<noteq> '''' \<longrightarrow> mtrue validObligations (obl_ID ob))"

definition dropInvalid :: "(obligation_item \<Rightarrow> bool) \<Rightarrow> policy_info \<Rightarrow> policy_info" where
  "dropInvalid valid p =
     p\<lparr> pol_Rules := (pol_Rules p)\<lparr> rules_Allow := map (\<lambda>item. item\<lparr> rule_Operations :=
          map (\<lambda>op. op\<lparr> ope_Obligations := filter valid (ope_Obligations op) \<rparr>) (rule_Operations item) \<rparr>)
        (rules_Allow (pol_Rules p)) \<rparr> \<rparr>"

record policy_include_resp =
  inc_ObligationTypes :: "obligation_type_info list"
  inc_Obligations :: "obligation_info list"

definition emptyInclude :: policy_include_resp where
  "emptyInclude = \<lparr> inc_ObligationTypes = [], inc_Obligations = [] \<rparr>"

definition includeStep ::
    "obligation_type_info list \<Rightarrow> obligation_info list \<Rightarrow> policy_include \<Rightarrow> policy_include_resp \<Rightarrow>
     policy_include_resp" where
  "includeStep types obligations i resp =
     (case i of
        PolicyIncludeObligationType \<Rightarrow> resp\<lparr> inc_ObligationTypes := inc_ObligationTypes resp @ types \<rparr>
      | PolicyIncludeObligation \<Rightarrow> resp\<lparr> inc_Obligations := inc_Obligations resp @ obligations \<rparr>)"

text \<open>
  The part the two listings share after the names are filled in: \<open>page\<close> are the policies
  before, \<open>filled\<close> those after.
\<close>

definition withObligations ::
    "env \<Rightarrow> policy_include list \<Rightarrow> nat \<Rightarrow> policy_info list \<Rightarrow> policy_info list \<Rightarrow>
     (nat \<times> policy_info list \<times> policy_include_resp) op" where
  "withObligations e include num page filled =
     (if obligationTypeMapOf page = [] \<and> obligationMapOf page = []
      then returnM (num, filled, emptyInclude)
      else bindM (obligationType_GetByIDSInternal e (obligationTypeMapOf page)) (\<lambda>types.
      bindM (obligation_GetByIDSInternal e (obligationMapOf page)) (\<lambda>obligations.
        (let validTypes = fold (\<lambda>t. mset_true (oti_ID t)) types [];
             validObligations = fold (\<lambda>ob m. if mtrue validTypes (obi_TypeID ob)
                 then mset_true (obi_ID ob) m else m) obligations []
         in returnM (num, map (dropInvalid (validObligation validTypes validObligations)) filled,
                     fold (includeStep types obligations) include emptyInclude)))))"

definition resourceTypeIDsOf :: "policy_info list \<Rightarrow> string list" where
  "resourceTypeIDsOf policies =
     snd (fold (\<lambda>p (seen, ids). if map_of seen (pol_ResourceType p) \<noteq> None then (seen, ids)
            else (mset_true (pol_ResourceType p) seen, ids @ [pol_ResourceType p])) policies ([], []))"

definition policyLogic_GetAccessorPolicy ::
    "env \<Rightarrow> visitor \<Rightarrow> accessor_policy_param \<Rightarrow> (nat \<times> policy_info list \<times> policy_include_resp) op" where
  "policyLogic_GetAccessorPolicy e visitor param =
     (if app_AccessorID param = '''' then throwM PublicBadRequest
      else if app_ResourceID param \<noteq> '''' \<and> app_ResourceType param = '''' then throwM PublicBadRequest
      else bindM (policy_GetAccessorPolicy e param) (\<lambda>policiesTmp.
        if policiesTmp = [] then returnM (0, [], emptyInclude)
        else
          (let policies = List.map_filter listedPolicy policiesTmp; num = length policies in
           if num = 0 then returnM (num, policies, emptyInclude)
           else bindM (liftE (applyPagination policies (app_Offset param) (app_Limit param))) (\<lambda>page.
             if page = [] then returnM (num, [], emptyInclude)
             else bindM (getResourceTypesOperation e visitor (resourceTypeIDsOf page))
               (\<lambda>operationInfoMap.
               withObligations e (app_Include param) num page
                 (map (\<lambda>p. fillNames (operationInfosOf operationInfoMap (pol_ResourceType p)) p) page))))))"

definition policyLogic_GetResourcePolicy ::
    "env \<Rightarrow> visitor \<Rightarrow> resource_policy_pagination \<Rightarrow> (nat \<times> policy_info list \<times> policy_include_resp) op" where
  "policyLogic_GetResourcePolicy e visitor params =
     bindM (checkVisitorAuthorize e visitor [(rpp_ResourceType params, [(rpp_ResourceID params, True)])]) (\<lambda>_.
     bindM (policy_GetPagination e (rpp_ResourceID params) (rpp_ResourceType params)) (\<lambda>policiesTmp.
       if policiesTmp = [] then returnM (0, [], emptyInclude)
       else
         (let policies = List.map_filter listedPolicy policiesTmp; num = length policies in
          if num = 0 then returnM (num, policies, emptyInclude)
          else bindM (liftE (applyPagination policies (rpp_Offset params) (rpp_Limit params))) (\<lambda>page.
            case page of
              [] \<Rightarrow> throwM Panic
            | first # _ \<Rightarrow>
                bindM (getResourceTypesOperation e visitor [pol_ResourceType first]) (\<lambda>operationInfoMap.
                bindM (liftE (getParentDeps e page)) (\<lambda>parentDepsMap.
                  withObligations e (rpp_Include params) num page
                    (map (\<lambda>p. fillNames (operationInfosOf operationInfoMap (pol_ResourceType first))
                      (fillParentDeps parentDepsMap p)) page)))))))"

end
