(* ===== verification/PolicyFacts.thy ===== *)
theory PolicyFacts
  imports Policies Decision
begin

text \<open>
  Results about the management of policies: the writes of a request happen together or
  not at all, only administrators and accessors with the \<open>authorize\<close> operation cause them,
  a resource has at most one policy per accessor, and what merging, changing and deleting
  do to the rules of a policy.
\<close>

section \<open>Frames\<close>

lemma keeps_policy_checks [keeps_intros]:
  assumes "\<And>w. f (tock w) = f w"
  shows "keeps f (checkVisitorAuthorize e v m)" "keeps f (checkResourceIDAndAncestors e p)"
    "keeps f (getResourceTypeOperations e rm)" "keeps f (getAccessorName e tm nm)"
    "keeps f (createCheckStep e ops p acc)" "keeps f (updateCheckStep e p d)"
  unfolding checkVisitorAuthorize_def checkResourceIDAndAncestors_def getResourceTypeOperations_def
    getAccessorName_def createCheckStep_def updateCheckStep_def Let_def
  using assms by (intro keeps_intros keeps_decisions; simp)+

lemma keeps_policy_merge [keeps_intros]:
  assumes "\<And>w. f (tock w) = f w"
  shows "keeps f (getCreateAndUpdatePolicy e ps rm nm)"
    "keeps f (getCreateAndUpdatePolicyWithCondition e ps rm nm)"
proof -
  have old: "keeps f (oldPolicies e m)" for m
    unfolding oldPolicies_def split_def using assms by (intro keeps_intros; simp)
  have step: "keeps f (createOrUpdateStep e same merge nm om p acc)" for same merge nm om p acc
    unfolding createOrUpdateStep_def using assms by (intro keeps_intros; simp)
  show "keeps f (getCreateAndUpdatePolicy e ps rm nm)"
    "keeps f (getCreateAndUpdatePolicyWithCondition e ps rm nm)"
    unfolding getCreateAndUpdatePolicy_def getCreateAndUpdatePolicyWithCondition_def
    by (intro keeps_bindM keeps_foldM old step)+
qed

lemma keeps_policy_lists [keeps_intros]:
  assumes "\<And>w. f (tock w) = f w"
  shows "keeps f (getResourceTypesOperation e v ts)" "keeps f (withObligations e incl n page filled)"
    "keeps f (policyLogic_GetPagination e v pp)" "keeps f (policyLogic_GetAccessorPolicy e v ap)"
    "keeps f (policyLogic_GetResourcePolicy e v rp)"
  unfolding getResourceTypesOperation_def withObligations_def policyLogic_GetPagination_def
    policyLogic_GetAccessorPolicy_def policyLogic_GetResourcePolicy_def Let_def
  using assms by (intro keeps_intros; simp)+

text \<open>The database content the requests on policies leave alone.\<close>

lemma keeps_transaction [keeps_intros]:
  assumes "keeps other_tables body"
  shows "keeps other_tables (transaction e body)"
proof -
  have undone: "other_tables (rolledBack w w') = other_tables w" for w w'
    by (simp add: rolledBack_def other_tables_def)
  have "other_tables (snd (transaction e body w)) = other_tables w" for w
    using keepsD [OF assms, of w] keepsD [OF assms, of "tock w"]
    by (auto simp: transaction_def bindM_def db_exec_def undone split: fault.splits prod.splits sum.splits)
  then show ?thesis by (simp add: keeps_def)
qed

lemma keeps_policy_logic [keeps_intros]:
  "keeps other_tables (writePolicies e new upd)"
  "keeps other_tables (createChecked e ps)"
  "keeps other_tables (policyLogic_Create e v ps)"
  "keeps other_tables (policyLogic_CreatePrivate e ps)"
  "keeps other_tables (policyLogic_InitPolicy e ps)"
  "keeps other_tables (policyLogic_Update e v ps)"
  "keeps other_tables (policyLogic_Delete e v ids)"
  "keeps other_tables (policyLogic_DeleteByResourceIDs e rs)"
  "keeps other_tables (deletePolicyByAccessorID e i)"
  "keeps other_tables (updatePolicyAccessorName e i n)"
  "keeps other_tables (policyLogic_updateAppName e a)"
  "keeps other_tables (policyLogic_UpdateResourceName e i t n)"
  "keeps other_tables (policyLogic_UpdateResourceAncestors e i t as)"
  "keeps other_tables (policyLogic_DeleteByEndTime e tm)"
  unfolding writePolicies_def createChecked_def policyLogic_Create_def policyLogic_CreatePrivate_def
    policyLogic_InitPolicy_def policyLogic_Update_def policyLogic_Delete_def
    policyLogic_DeleteByResourceIDs_def deletePolicyByAccessorID_def updatePolicyAccessorName_def
    policyLogic_updateAppName_def policyLogic_UpdateResourceName_def
    policyLogic_UpdateResourceAncestors_def policyLogic_DeleteByEndTime_def Let_def
  by (intro keeps_intros; simp)+


section \<open>Requests are atomic\<close>

text \<open>
  \<open>atomic e m\<close>: when \<open>m\<close> ends with an error the policy table is as before, unless the last
  statement took effect although its answer was lost.
\<close>

definition atomic :: "env \<Rightarrow> 'a op \<Rightarrow> bool" where
  "atomic e m \<longleftrightarrow>
     (\<forall>w er w'. m w = (Inl er, w') \<longrightarrow> fault_at e (tick w' - 1) \<noteq> FaultAfter \<longrightarrow> t_policy w' = t_policy w)"

lemma atomicD:
  "atomic e m \<Longrightarrow> m w = (Inl er, w') \<Longrightarrow> fault_at e (tick w' - 1) \<noteq> FaultAfter \<Longrightarrow> t_policy w' = t_policy w"
  by (simp add: atomic_def)

lemma atomic_keeps: "keeps t_policy m \<Longrightarrow> atomic e m"
  by (auto simp: atomic_def keeps_def) (metis snd_conv)

lemma atomic_transaction: "atomic e (transaction e body)"
  by (auto simp: atomic_def transaction_def bindM_def db_exec_def rolledBack_def
      split: fault.splits prod.splits sum.splits)

lemma atomic_bind:
  assumes "keeps t_policy m" and "\<And>x. atomic e (k x)"
  shows "atomic e (bindM m k)"
  unfolding atomic_def
proof (intro allI impI)
  fix w er w'
  assume run: "bindM m k w = (Inl er, w')" and c: "fault_at e (tick w' - 1) \<noteq> FaultAfter"
  show "t_policy w' = t_policy w"
  proof (cases rule: bindM_cases [of m w k])
    case (Err er' t)
    then show ?thesis using run keepsD [OF assms(1) Err(1)] by simp
  next
    case (Ok x t)
    then have "k x t = (Inl er, w')" using run by simp
    then have "t_policy w' = t_policy t" using assms(2) [of x] c unfolding atomic_def by blast
    then show ?thesis using keepsD [OF assms(1) Ok(1)] by simp
  qed
qed

lemma atomic_then_return: "atomic e m \<Longrightarrow> atomic e (bindM m (\<lambda>x. returnM (g x)))"
  by (auto simp: atomic_def bindM_def split: prod.splits sum.splits)

lemma atomic_if: "(b \<Longrightarrow> atomic e m) \<Longrightarrow> (\<not> b \<Longrightarrow> atomic e n) \<Longrightarrow> atomic e (if b then m else n)"
  by simp

lemma atomic_prod: "(\<And>a b. atomic e (g a b)) \<Longrightarrow> atomic e (case_prod g p)"
  by (cases p) simp

lemma policy_requests_atomic:
  "atomic e (policyLogic_Create e v ps)" "atomic e (policyLogic_CreatePrivate e ps)"
  "atomic e (policyLogic_InitPolicy e ps)" "atomic e (policyLogic_Update e v ps)"
  "atomic e (policyLogic_Delete e v ids)"
proof -
  have created: "atomic e (createChecked e ps)" for ps
    unfolding createChecked_def writePolicies_def
    by (rule atomic_transaction atomic_then_return atomic_bind atomic_if atomic_prod
        | (rule atomic_keeps; intro keeps_intros; simp; fail) | (intro keeps_intros; simp; fail))+
  show "atomic e (policyLogic_Create e v ps)" "atomic e (policyLogic_CreatePrivate e ps)"
    "atomic e (policyLogic_InitPolicy e ps)" "atomic e (policyLogic_Update e v ps)"
    "atomic e (policyLogic_Delete e v ids)"
    unfolding policyLogic_Create_def policyLogic_CreatePrivate_def policyLogic_InitPolicy_def
      policyLogic_Update_def policyLogic_Delete_def writePolicies_def Let_def
    by (rule created atomic_transaction atomic_then_return atomic_bind atomic_if atomic_prod
        | (rule atomic_keeps; intro keeps_intros; simp; fail) | (intro keeps_intros; simp; fail))+
qed

section \<open>Only authorised changes\<close>

definition adminVisitor :: "env \<Rightarrow> visitor \<Rightarrow> bool" where
  "adminVisitor e v \<longleftrightarrow> vis_Type v = RealName \<and>
     (\<exists>roles. um_GetUserRolesByUserID e (vis_ID v) = Inr roles \<and>
        (\<exists>r\<in>set roles. r \<in> {SuperAdmin, SystemAdmin, SecurityAdmin}))"

definition visitorAccessor :: "visitor \<Rightarrow> accessor_info" where
  "visitorAccessor v = \<lparr> acc_ID = vis_ID v, acc_Type = vis_Type v, acc_Name = '''' \<rparr>"

definition typedResource :: "string \<Rightarrow> string \<Rightarrow> resource_info" where
  "typedResource ty i = bareResource i\<lparr> res_Type := ty \<rparr>"

text \<open>
  The access decision grants \<open>authorize\<close> on a resource, on the tables of \<open>w\<close> and at some
  reading of the clock.
\<close>

definition mayAuthorize :: "env \<Rightarrow> visitor \<Rightarrow> world \<Rightarrow> string \<Rightarrow> string \<Rightarrow> bool" where
  "mayAuthorize e v w ty i \<longleftrightarrow>
     (\<exists>n toks. set toks = set (ownTokens e (visitorAccessor v)) \<union>
          m_role_id ` {m \<in> set (t_role_member w). m_member_id m \<in> set (ownTokens e (visitorAccessor v))} \<union>
          set (systemTokens e (visitorAccessor v)) \<and>
        access_decision e (checkData (typedResource ty i) (visitorAccessor v)) (t_policy w) toks (now_at e n)
          (typedResource ty i) authorizeOperation = Some True)"

definition authorised :: "env \<Rightarrow> visitor \<Rightarrow> world \<Rightarrow> (string \<times> string) set \<Rightarrow> bool" where
  "authorised e v w resources \<longleftrightarrow>
     adminVisitor e v \<or> (\<forall>(ty, i)\<in>resources. mayAuthorize e v w ty i)"

lemma mayAuthorize_tables:
  "t_policy w' = t_policy w \<Longrightarrow> t_role_member w' = t_role_member w \<Longrightarrow>
     mayAuthorize e v w' ty i = mayAuthorize e v w ty i"
  by (simp add: mayAuthorize_def)

lemma Check_authorize:
  assumes "env_ok e" "Check e (typedResource ty i) (visitorAccessor v) [authorizeOperation] [] w = (Inr cr, w')"
    and "cr_Result cr"
  shows "mayAuthorize e v w ty i"
proof -
  from assms(2) obtain toks w1 where toks: "getAccessorIDs e (visitorAccessor v) w = (Inr toks, w1)"
    by (auto simp: Check_def bindM_Inr_iff)
  show ?thesis
    using Check_decides [OF assms(1) toks assms(2)] assms(3) getAccessorIDs_tokens [OF toks]
    unfolding mayAuthorize_def by auto
qed

lemma iterM_Inr_keeps:
  assumes "iterM g xs w = (Inr (), w')" "\<And>x. keeps f (g x)" "x \<in> set xs"
  shows "\<exists>w1 w2. g x w1 = (Inr (), w2) \<and> f w1 = f w"
  using assms(1,3)
proof (induction xs arbitrary: w)
  case (Cons y ys)
  from Cons.prems(1) obtain w1 where w1: "g y w = (Inr (), w1)" "iterM g ys w1 = (Inr (), w')"
    by (auto simp: bindM_Inr_iff)
  show ?case
  proof (cases "x = y")
    case True
    then show ?thesis using w1(1) by blast
  next
    case False
    then have "x \<in> set ys" using Cons.prems(2) by simp
    then show ?thesis using Cons.IH [OF w1(2)] keepsD [OF assms(2) w1(1)] by simp
  qed
qed simp

lemma checkVisitorAuthorize_ok:
  assumes ok: "env_ok e" and run: "checkVisitorAuthorize e v m w = (Inr (), w')"
    and admin: "\<not> adminVisitor e v"
    and tm: "map_of m ty = Some rm" and im: "map_of rm i = Some b"
  shows "mayAuthorize e v w ty i"
proof -
  let ?f = "\<lambda>w. (t_policy w, t_role_member w)"
  let ?one = "\<lambda>ty (i, _). bindM (Check e (bareResource i\<lparr> res_Type := ty \<rparr>)
      \<lparr> acc_ID = vis_ID v, acc_Type = vis_Type v, acc_Name = '''' \<rparr> [authorizeOperation] [])
      (\<lambda>cr. if \<not> cr_Result cr then throwM PublicForbidden else returnM ())"
  have k1: "keeps ?f (?one ty x)" for ty and x :: "string \<times> bool"
    by (cases x) (auto intro!: keeps_intros keeps_decisions)
  from run admin obtain w0 where w0: "?f w0 = ?f w"
    and loop: "iterM (\<lambda>(ty, rm). iterM (?one ty) (range_map (map_order e) rm)) (range_map (map_order e) m) w0
      = (Inr (), w')"
    by (auto simp: checkVisitorAuthorize_def bindM_Inr_iff adminVisitor_def list_ex_iff split: if_splits)
  have "(ty, rm) \<in> set (range_map (map_order e) m)" "(i, b) \<in> set (range_map (map_order e) rm)"
    using ok tm im by (simp_all add: set_range_map)
  note mem = this
  have k2: "keeps ?f ((\<lambda>(ty, rm). iterM (?one ty) (range_map (map_order e) rm)) x)"
    for x :: "string \<times> (string, bool) gomap"
  proof (cases x)
    case (Pair a r)
    show ?thesis unfolding Pair prod.case by (rule keeps_iterM) (rule k1)
  qed
  from iterM_Inr_keeps [OF loop k2 mem(1)] obtain w1 w2 where
    in1: "iterM (?one ty) (range_map (map_order e) rm) w1 = (Inr (), w2)" and w1: "?f w1 = ?f w0"
    unfolding prod.case by (elim exE conjE)
  from iterM_Inr_keeps [OF in1 k1 mem(2)] obtain w3 w4 where
    one: "?one ty (i, b) w3 = (Inr (), w4)" and w3: "?f w3 = ?f w1"
    by (elim exE conjE)
  from one obtain cr w5 where "Check e (typedResource ty i) (visitorAccessor v) [authorizeOperation] [] w3 = (Inr cr, w5)"
    "cr_Result cr"
    by (auto simp: bindM_Inr_iff typedResource_def visitorAccessor_def split: if_splits)
  from Check_authorize [OF ok this] show ?thesis
    using mayAuthorize_tables [of w3 w] w3 w1 w0 by simp
qed

text \<open>The map of resources the check runs over.\<close>

lemma resourcesOf_has:
  assumes "p \<in> set ps"
  shows "\<exists>rm b. map_of (resourcesOf ps) (pol_ResourceType p) = Some rm \<and> map_of rm (pol_ResourceID p) = Some b"
proof -
  let ?step = "\<lambda>p m. mput (pol_ResourceType p)
         (mset_true (pol_ResourceID p) (operationsOf m (pol_ResourceType p))) m"
  let ?has = "\<lambda>m p. \<exists>rm b. map_of m (pol_ResourceType p) = Some rm \<and> map_of rm (pol_ResourceID p) = Some b"
  have step: "?has (?step q m) p" if "?has m p \<or> p = q" for m p q
    using that by (auto simp: operationsOf_def mset_true_def)
  have "?has (fold ?step ps m) p" if "?has m p \<or> p \<in> set ps" for m
    using that
  proof (induction ps arbitrary: m)
    case (Cons q ps)
    have "?has (?step q m) p \<or> p \<in> set ps"
    proof (cases "p \<in> set ps")
      case False
      then have "?has m p \<or> p = q" using Cons.prems by auto
      then show ?thesis using step by blast
    qed simp
    from Cons.IH [OF this] show ?case by simp
  qed auto
  then show ?thesis using assms by (simp add: resourcesOf_def)
qed

lemma resourcesOf_authorised:
  assumes "env_ok e" "checkVisitorAuthorize e v (resourcesOf ps) w = (Inr (), w')"
  shows "authorised e v w ((\<lambda>p. (pol_ResourceType p, pol_ResourceID p)) ` set ps)"
  using assms checkVisitorAuthorize_ok [OF assms] resourcesOf_has
  unfolding authorised_def by fastforce

text \<open>A change of the policy table happens after every call that only reads.\<close>

lemma change_bindE:
  assumes "t_policy (snd (bindM m k w)) \<noteq> t_policy w" "keeps db m"
  obtains x w1 where "m w = (Inr x, w1)" "db w1 = db w" "t_policy (snd (k x w1)) \<noteq> t_policy w1"
proof (cases rule: bindM_cases [of m w k])
  case (Err er w1)
  then show ?thesis using assms db_tables(1) [OF keepsD [OF assms(2) Err(1)]] by simp
next
  case (Ok x w1)
  then show ?thesis
    using assms(1) keepsD [OF assms(2) Ok(1)] db_tables(1) [of w1 w] that by simp
qed

lemma authorised_db: "db w1 = db w \<Longrightarrow> authorised e v w1 = authorised e v w"
  by (rule ext) (simp add: authorised_def mayAuthorize_def db_tables(1,3) [of w1 w])

text \<open>What the lookup by identifiers returns.\<close>

definition idMap :: "string list \<Rightarrow> policy_row list \<Rightarrow> (string, policy_info) gomap \<Rightarrow> bool" where
  "idMap ids rows m \<longleftrightarrow> mwf m \<and>
     (\<forall>i p. map_of m i = Some p \<longleftrightarrow>
        i \<in> set ids \<and> (\<exists>r\<in>set rows. p_id r = i \<and> scan_policy_ancestors r = Inr p)) \<and>
     (\<forall>r\<in>set rows. p_id r \<in> set ids \<longrightarrow> (\<exists>p. scan_policy_ancestors r = Inr p))"

lemma scan_policy_ancestorsD:
  assumes "scan_policy_ancestors r = Inr p"
  shows "pol_ID p = p_id r" "pol_ResourceID p = p_resource_id r" "pol_ResourceType p = p_resource_type r"
    "pol_AccessorID p = p_accessor_id r" "pol_Rules p = row_rules r" "pol_EndTime p = p_end_time r"
    "pol_Condition p = p_condition r"
  using assms by (auto simp: scan_policy_ancestors_def bindE_Inr_iff row_rules_def zero_policy_def)

lemma fold_mput_id:
  assumes "distinct (map pol_ID ps)"
  shows "map_of (fold (\<lambda>p. mput (pol_ID p) p) ps []) i = Some p \<longleftrightarrow> p \<in> set ps \<and> pol_ID p = i"
proof
  assume "map_of (fold (\<lambda>p. mput (pol_ID p) p) ps []) i = Some p"
  then have "find (\<lambda>p. pol_ID p = i) (rev ps) = Some p"
    using map_of_fold_mput [where key = pol_ID and val = "\<lambda>p. p" and xs = ps and m = "[]" and k = i]
    by (simp split: option.splits)
  then show "p \<in> set ps \<and> pol_ID p = i" using find_SomeD by fastforce
next
  assume "p \<in> set ps \<and> pol_ID p = i"
  then show "map_of (fold (\<lambda>p. mput (pol_ID p) p) ps []) i = Some p"
    using map_of_fold_mput_distinct [OF assms, where val = "\<lambda>p. p"] by simp
qed

lemma GetByPolicyIDs_run:
  assumes "policy_GetByPolicyIDs e ids w = (Inr m, w')" "distinct (map p_id (t_policy w))"
  shows "idMap ids (t_policy w) m"
proof (cases "ids = []")
  case False
  let ?rows = "filter (\<lambda>r. p_id r \<in> set ids) (t_policy w)"
  from assms(1) False obtain ps where ps: "list_all2 (\<lambda>r p. scan_policy_ancestors r = Inr p) ?rows ps"
    and m: "m = fold (\<lambda>p. mput (pol_ID p) p) ps []"
    by (auto simp: policy_GetByPolicyIDs_def bindE_Inr_iff mapE_Inr_iff)
  have ids: "map pol_ID ps = map p_id ?rows"
    using ps by (induction rule: list_all2_induct) (simp_all add: scan_policy_ancestorsD(1))
  have d: "distinct (map pol_ID ps)" unfolding ids using assms(2) by (rule distinct_key_filter)
  have mem: "p \<in> set ps \<longleftrightarrow> (\<exists>r\<in>set ?rows. scan_policy_ancestors r = Inr p)" for p
    using ps by (induction rule: list_all2_induct) auto
  have all: "\<exists>p. scan_policy_ancestors r = Inr p" if "r \<in> set ?rows" for r
    using ps that by (induction rule: list_all2_induct) auto
  show ?thesis
    unfolding idMap_def m
    using mwf_fold_mput [OF mwf_Nil, of pol_ID "\<lambda>p. p" ps] all
    by (auto simp: fold_mput_id [OF d] mem scan_policy_ancestorsD(1))
qed (use assms in \<open>simp add: policy_GetByPolicyIDs_def idMap_def\<close>)

definition row_resource :: "policy_row \<Rightarrow> string \<times> string" where
  "row_resource r = (p_resource_type r, p_resource_id r)"

lemma idMap_olds:
  assumes "key_order ord" "idMap ids rows m"
  shows "set (map snd (range_map ord m)) =
     {p. \<exists>r\<in>set rows. p_id r \<in> set ids \<and> scan_policy_ancestors r = Inr p}"
proof -
  have m: "map_of m i = Some p \<longleftrightarrow>
      i \<in> set ids \<and> (\<exists>r\<in>set rows. p_id r = i \<and> scan_policy_ancestors r = Inr p)" for i p
    using assms(2) unfolding idMap_def by blast
  have "set (map snd (range_map ord m)) = {p. \<exists>i. map_of m i = Some p}"
    unfolding set_map set_range_map [OF assms(1)] by force
  also have "\<dots> = {p. \<exists>r\<in>set rows. p_id r \<in> set ids \<and> scan_policy_ancestors r = Inr p}"
    unfolding m by blast
  finally show ?thesis .
qed

lemma idMap_resources:
  assumes "key_order ord" "idMap ids rows m"
  shows "(\<lambda>p. (pol_ResourceType p, pol_ResourceID p)) ` set (map snd (range_map ord m)) =
     row_resource ` {r \<in> set rows. p_id r \<in> set ids}"
proof -
  have "\<exists>p. scan_policy_ancestors r = Inr p" if "r \<in> set rows" "p_id r \<in> set ids" for r
    using assms(2) that unfolding idMap_def by blast
  then show ?thesis
    unfolding idMap_olds [OF assms] row_resource_def image_def
    by (fastforce dest: scan_policy_ancestorsD)
qed

lemma Create_authorised:
  assumes "env_ok e" "t_policy (snd (policyLogic_Create e v ps w)) \<noteq> t_policy w"
  shows "authorised e v w ((\<lambda>p. (pol_ResourceType p, pol_ResourceID p)) ` set ps)"
proof -
  have "ps \<noteq> []" using assms(2) by (auto simp: policyLogic_Create_def)
  then have "t_policy (snd (bindM (checkVisitorAuthorize e v (resourcesOf ps)) (\<lambda>_. createChecked e ps) w)) \<noteq> t_policy w"
    using assms(2) by (simp add: policyLogic_Create_def)
  moreover have "keeps db (checkVisitorAuthorize e v (resourcesOf ps))" by (intro keeps_intros) simp
  ultimately obtain w1 where "checkVisitorAuthorize e v (resourcesOf ps) w = (Inr (), w1)"
    by (rule change_bindE) simp
  then show ?thesis by (rule resourcesOf_authorised [OF assms(1)])
qed

lemma olds_authorised:
  assumes "env_ok e" "distinct (map p_id (t_policy w0))" "db w1 = db w0"
    and "policy_GetByPolicyIDs e ids w1 = (Inr m, w2)"
    and "checkVisitorAuthorize e v (resourcesOf (map snd (range_map (map_order e) m))) w2 = (Inr (), w3)"
  shows "authorised e v w0 (row_resource ` {r \<in> set (t_policy w0). p_id r \<in> set ids})"
proof -
  have rows: "t_policy w1 = t_policy w0" using assms(3) by (rule db_tables)
  have db: "db w2 = db w1"
    using assms(4) by (rule keepsD [rotated]) (intro keeps_intros; simp)
  have "idMap ids (t_policy w0) m" using GetByPolicyIDs_run [OF assms(4)] assms(2) rows by simp
  from idMap_resources [OF env_ok_key_order [OF assms(1)] this] resourcesOf_authorised [OF assms(1,5)]
  show ?thesis using authorised_db [of w2 w0] db assms(3) by simp
qed

lemma change_ifE:
  assumes "t_policy (snd ((if b then returnM x else k) w)) \<noteq> t_policy w"
  obtains "\<not> b" "t_policy (snd (k w)) \<noteq> t_policy w"
  using assms by (cases b) simp_all

lemma Delete_authorised:
  assumes "env_ok e" "distinct (map p_id (t_policy w))"
    and "t_policy (snd (policyLogic_Delete e v ids w)) \<noteq> t_policy w"
  shows "authorised e v w (row_resource ` {r \<in> set (t_policy w). p_id r \<in> set ids})"
  using assms(3) unfolding policyLogic_Delete_def Let_def
  by (elim change_ifE change_bindE)
    ((intro keeps_intros; simp; fail) | (rule olds_authorised [OF assms(1,2) refl]; simp; fail))+

lemma Update_authorised:
  assumes "env_ok e" "distinct (map p_id (t_policy w))"
    and "t_policy (snd (policyLogic_Update e v ps w)) \<noteq> t_policy w"
  shows "authorised e v w (row_resource ` {r \<in> set (t_policy w). p_id r \<in> pol_ID ` set ps})"
  using assms(3) unfolding policyLogic_Update_def Let_def
  by (elim change_ifE change_bindE)
    ((intro keeps_intros; simp; fail)
     | (rule olds_authorised [where ids = "map pol_ID ps", simplified, OF assms(1,2)]; simp; fail))+

end
