(* ===== verification/PolicyWrites.thy ===== *)
theory PolicyWrites
  imports PolicyFacts
begin

text \<open>
  What a successful request does to the rows of the policy table: \<open>Create\<close> appends new
  policies and merges the others into the rows that are there, \<open>Update\<close> rewrites and
  \<open>Delete\<close> removes the named rows; identifiers, and the combination of resource and
  accessor, stay unique.
\<close>

section \<open>Unique policies\<close>

definition pol_key :: "policy_info \<Rightarrow> string \<times> string \<times> string" where
  "pol_key p = (pol_ResourceType p, pol_ResourceID p, pol_AccessorID p)"

definition policy_key :: "policy_row \<Rightarrow> string \<times> string \<times> string" where
  "policy_key r = (p_resource_type r, p_resource_id r, p_accessor_id r)"

definition policy_rows_ok :: "policy_row list \<Rightarrow> bool" where
  "policy_rows_ok rows \<longleftrightarrow> distinct (map p_id rows) \<and> distinct (map policy_key rows)"

definition policies_ok :: "world \<Rightarrow> bool" where
  "policies_ok w \<longleftrightarrow> policy_rows_ok (t_policy w)"

lemma policy_rows_ok_map:
  assumes "policy_rows_ok rows" "\<And>r. p_id (g r) = p_id r \<and> policy_key (g r) = policy_key r"
  shows "policy_rows_ok (map g rows)"
  using assms by (simp add: policy_rows_ok_def comp_def)

lemma policy_rows_ok_filter: "policy_rows_ok rows \<Longrightarrow> policy_rows_ok (filter P rows)"
  by (simp add: policy_rows_ok_def distinct_map_filter)

lemma policies_ok_tock [simp]: "policies_ok (tock w) = policies_ok w"
  by (simp add: policies_ok_def)

lemma policies_ok_keeps: "keeps t_policy m \<Longrightarrow> preserves policies_ok m"
  using keeps_preserves [of t_policy m policy_rows_ok] by (simp add: policies_ok_def [abs_def])

lemma same_row:
  assumes "policy_rows_ok rows" "r \<in> set rows" "r' \<in> set rows"
  shows "p_id r = p_id r' \<longleftrightarrow> policy_key r = policy_key r'"
proof -
  have "inj_on p_id (set rows)" "inj_on policy_key (set rows)"
    using assms(1) by (auto simp: policy_rows_ok_def distinct_map)
  then show ?thesis using assms(2,3) by (auto dest: inj_onD)
qed


section \<open>Sequences of updates\<close>

lemma update_policy_row_simps [simp]:
  "p_id (update_policy_row t q r) = p_id r" "policy_key (update_policy_row t q r) = policy_key r"
  by (simp_all add: update_policy_row_def policy_key_def)

definition updated_row :: "int \<Rightarrow> policy_info list \<Rightarrow> policy_row \<Rightarrow> policy_row" where
  "updated_row t qs r =
     (case find (\<lambda>q. pol_ID q = p_id r) qs of None \<Rightarrow> r | Some q \<Rightarrow> update_policy_row t q r)"

lemma updated_row_Nil [simp]: "updated_row t [] r = r"
  by (simp add: updated_row_def)

lemma fold_updates:
  assumes "distinct (map pol_ID qs)"
  shows "fold (\<lambda>q. map (update_policy_row t q)) qs rows = map (updated_row t qs) rows"
  using assms
proof (induction qs arbitrary: rows)
  case (Cons q qs)
  have "updated_row t qs (update_policy_row t q r) = updated_row t (q # qs) r" for r
  proof (cases "p_id r = pol_ID q")
    case True
    then have "find (\<lambda>x. pol_ID x = p_id r) qs = None"
      using Cons.prems by (auto simp: find_None_iff image_iff)
    then show ?thesis using True by (simp add: updated_row_def)
  next
    case False
    then have "update_policy_row t q r = r" by (simp add: update_policy_row_def)
    then show ?thesis using False by (simp add: updated_row_def)
  qed
  then show ?case using Cons by simp
qed (simp add: map_idI)

lemma policy_Update_run:
  assumes "policy_Update e qs w = (Inr u, w')"
  shows "\<exists>t. t_policy w' = fold (\<lambda>q. map (update_policy_row t q)) qs (t_policy w)"
proof -
  have "t_policy w' = fold (\<lambda>q. map (update_policy_row t q)) qs (t_policy w)"
    if "iterM (\<lambda>p. db_exec e (\<lambda>w. w\<lparr> t_policy := map (update_policy_row t p) (t_policy w) \<rparr>)) qs w = (Inr u, w')"
    for t w
    using that by (induction qs arbitrary: w) (auto simp: bindM_Inr_iff)
  then show ?thesis using assms by (fastforce simp: policy_Update_def bindM_Inr_iff)
qed

lemma transaction_run:
  assumes "transaction e body w = (Inr u, w')"
  obtains w1 where "body (tock w) = (Inr (), w1)" "w' = tock w1"
  using assms by (auto simp: transaction_def bindM_Inr_iff split: prod.splits sum.splits fault.splits)

lemma transaction_cases:
  assumes "transaction e body w = (r, w')"
  shows "t_policy w' = t_policy w \<or> (\<exists>w1. body (tock w) = (Inr (), w1) \<and> w' = tock w1)"
  using assms
  by (auto simp: transaction_def bindM_def db_exec_def rolledBack_def
      split: prod.splits sum.splits fault.splits)

lemma filter_map_map_filter:
  assumes "\<And>r. r \<in> set rows \<Longrightarrow> f r = (if P (g r) then Some (g r) else None)"
  shows "filter P (map g rows) = List.map_filter f rows"
  using assms by (induction rows) (simp_all add: List.map_filter_simps)


section \<open>Deleting\<close>

definition conditionalRules :: "rule_item list \<Rightarrow> rule_item list" where
  "conditionalRules items = filter (\<lambda>item. \<not> isConditionEmpty (rule_Condition item)) items"

text \<open>
  The effect of \<open>Delete\<close> on one row: a row without conditional rules goes, another keeps
  exactly these.
\<close>

definition deleted_row :: "int \<Rightarrow> string list \<Rightarrow> policy_row \<Rightarrow> policy_row option" where
  "deleted_row t ids r =
     (let allow = conditionalRules (rules_Allow (row_rules r));
          deny = conditionalRules (rules_Deny (row_rules r))
      in if p_id r \<notin> set ids then Some r
         else if allow = [] \<and> deny = [] then None
         else Some (r\<lparr> p_operation := rulesInfoToString \<lparr> rules_Allow = allow, rules_Deny = deny \<rparr>,
                        p_modify_time := t \<rparr>))"

lemma hasCondition_iff:
  "hasCondition p \<longleftrightarrow>
     conditionalRules (rules_Allow (pol_Rules p)) \<noteq> [] \<or> conditionalRules (rules_Deny (pol_Rules p)) \<noteq> []"
  by (auto simp: hasCondition_def conditionalRules_def list_ex_iff filter_empty_conv)

lemma update_onlyConditional:
  assumes "scan_policy_ancestors r = Inr p"
  shows "update_policy_row t (onlyConditional p) r =
    r\<lparr> p_operation := rulesInfoToString
         \<lparr> rules_Allow = conditionalRules (rules_Allow (row_rules r)),
           rules_Deny = conditionalRules (rules_Deny (row_rules r)) \<rparr>,
       p_modify_time := t \<rparr>"
  by (cases r) (use scan_policy_ancestorsD [OF assms] in
      \<open>simp add: update_policy_row_def onlyConditional_def conditionalRules_def\<close>)

lemma olds_distinct:
  assumes "key_order ord" "idMap ids rows m"
  shows "distinct (map pol_ID (map snd (range_map ord m)))"
proof -
  have "pol_ID (snd kv) = fst kv" if "kv \<in> set (range_map ord m)" for kv
  proof -
    have "map_of m (fst kv) = Some (snd kv)" using that unfolding set_range_map [OF assms(1)] by auto
    then obtain r where "p_id r = fst kv" "scan_policy_ancestors r = Inr (snd kv)"
      using assms(2) unfolding idMap_def by blast
    then show ?thesis using scan_policy_ancestorsD(1) by metis
  qed
  then have "map pol_ID (map snd (range_map ord m)) = map fst (range_map ord m)"
    by simp
  moreover have "mwf m" using assms(2) by (simp add: idMap_def)
  ultimately show ?thesis using distinct_range_map [OF assms(1)] by metis
qed

lemma delete_rows:
  fixes olds :: "policy_info list"
  defines "upd \<equiv> map onlyConditional (filter hasCondition olds)"
    and "del \<equiv> map pol_ID (filter (\<lambda>p. \<not> hasCondition p) olds)"
  assumes d: "distinct (map pol_ID olds)" and r: "r \<in> set rows"
    and olds: "set olds = {p. \<exists>r\<in>set rows. p_id r \<in> set ids \<and> scan_policy_ancestors r = Inr p}"
    and read: "p_id r \<in> set ids \<Longrightarrow> \<exists>p. scan_policy_ancestors r = Inr p"
  shows "deleted_row t ids r = (if p_id r \<notin> set del then Some (updated_row t upd r) else None)"
proof (cases "p_id r \<in> set ids")
  case False
  then have "p_id r \<notin> pol_ID ` set olds" by (auto simp: olds dest: scan_policy_ancestorsD(1))
  then have "p_id r \<notin> set del" "find (\<lambda>q. pol_ID q = p_id r) upd = None"
    by (auto simp: del_def upd_def find_None_iff onlyConditional_def image_iff)
  then show ?thesis using False by (simp add: deleted_row_def updated_row_def)
next
  case True
  then obtain p where p: "scan_policy_ancestors r = Inr p" using read by blast
  have po: "p \<in> set olds" using True r p by (auto simp: olds)
  have pid: "pol_ID p = p_id r" using p by (rule scan_policy_ancestorsD)
  have one: "q = p" if "q \<in> set olds" "pol_ID q = p_id r" for q
    using d po pid that unfolding distinct_map inj_on_def by metis
  have has: "hasCondition p \<longleftrightarrow> conditionalRules (rules_Allow (row_rules r)) \<noteq> [] \<or>
      conditionalRules (rules_Deny (row_rules r)) \<noteq> []"
    using scan_policy_ancestorsD(5) [OF p] by (simp add: hasCondition_iff)
  show ?thesis
  proof (cases "hasCondition p")
    case True
    have "distinct (map pol_ID upd)"
      using d by (simp add: upd_def comp_def onlyConditional_def distinct_map_filter)
    then have "find (\<lambda>q. pol_ID q = p_id r) upd = Some (onlyConditional p)"
      by (rule find_distinct_key) (use po True pid in \<open>simp_all add: upd_def onlyConditional_def\<close>)
    moreover have "p_id r \<notin> set del" using one True by (auto simp: del_def)
    ultimately show ?thesis
      using \<open>p_id r \<in> set ids\<close> True has update_onlyConditional [OF p]
      by (simp add: deleted_row_def updated_row_def Let_def)
  next
    case False
    then have "p_id r \<in> set del" using po pid by (force simp: del_def)
    then show ?thesis using \<open>p_id r \<in> set ids\<close> False has by (simp add: deleted_row_def)
  qed
qed

lemma Delete_run:
  assumes ok: "env_ok e" and rows: "policies_ok w" and run: "policyLogic_Delete e v ids w = (Inr (), w')"
  shows "\<exists>t. t_policy w' = List.map_filter (deleted_row t ids) (t_policy w)"
proof (cases "ids = []")
  case True
  then have "deleted_row t ids = Some" for t by (simp add: fun_eq_iff deleted_row_def)
  then show ?thesis using True run by (simp add: policyLogic_Delete_def List.map_filter_def)
next
  case False
  let ?olds = "\<lambda>m. map snd (range_map (map_order e) m)"
  let ?upd = "\<lambda>m. map onlyConditional (filter hasCondition (?olds m))"
  let ?del = "\<lambda>m. map pol_ID (filter (\<lambda>p. \<not> hasCondition p) (?olds m))"
  from run False obtain m w1 w2 where m: "policy_GetByPolicyIDs e ids w = (Inr m, w1)"
    and c: "checkVisitorAuthorize e v (resourcesOf (?olds m)) w1 = (Inr (), w2)"
    and tr: "transaction e (bindM (if ?upd m \<noteq> [] then policy_Update e (?upd m) else returnM ())
        (\<lambda>_. if ?del m \<noteq> [] then policy_Delete e (?del m) else returnM ())) w2 = (Inr (), w')"
    by (auto simp: policyLogic_Delete_def Let_def bindM_Inr_iff)
  have im: "idMap ids (t_policy w) m"
    using GetByPolicyIDs_run [OF m] rows by (simp add: policies_ok_def policy_rows_ok_def)
  note ord = env_ok_key_order [OF ok]
  have "keeps t_policy (policy_GetByPolicyIDs e ids)" by (intro keeps_intros) simp
  from keepsD [OF this m] have w1: "t_policy w1 = t_policy w" .
  have "keeps t_policy (checkVisitorAuthorize e v (resourcesOf (?olds m)))" by (intro keeps_intros) simp
  from keepsD [OF this c] w1 have w2: "t_policy w2 = t_policy w" by simp
  from transaction_run [OF tr] obtain w3 where
    "bindM (if ?upd m \<noteq> [] then policy_Update e (?upd m) else returnM ())
      (\<lambda>_. if ?del m \<noteq> [] then policy_Delete e (?del m) else returnM ()) (tock w2) = (Inr (), w3)"
    and w': "w' = tock w3" by blast
  then obtain w4 where u: "(if ?upd m \<noteq> [] then policy_Update e (?upd m) else returnM ()) (tock w2) = (Inr (), w4)"
    and dl: "(if ?del m \<noteq> [] then policy_Delete e (?del m) else returnM ()) w4 = (Inr (), w3)"
    by (auto elim!: bindM_InrE)
  have d: "distinct (map pol_ID (?upd m))"
    using olds_distinct [OF ord im] by (simp add: comp_def onlyConditional_def distinct_map_filter)
  obtain t where t: "t_policy w4 = map (updated_row t (?upd m)) (t_policy w)"
  proof (cases "?upd m = []")
    case True
    then have "w4 = tock w2" using u by simp
    then show ?thesis using True w2 that by (simp add: map_idI)
  next
    case False
    then show ?thesis
      using u policy_Update_run [of e "?upd m" "tock w2" "()" w4] fold_updates [OF d] w2 that by auto
  qed
  have "t_policy w3 = filter (\<lambda>r. p_id r \<notin> set (?del m)) (t_policy w4)"
  proof (cases "?del m = []")
    case True
    then have "w3 = w4" using dl by simp
    then show ?thesis unfolding True by simp
  next
    case False
    then show ?thesis using dl by (simp add: policy_Delete_def delete_policies_def)
  qed
  also have "\<dots> = List.map_filter (deleted_row t ids) (t_policy w)"
    unfolding t
  proof (rule filter_map_map_filter)
    fix r assume r: "r \<in> set (t_policy w)"
    have "p_id r \<in> set ids \<Longrightarrow> \<exists>p. scan_policy_ancestors r = Inr p"
      using im r unfolding idMap_def by blast
    from delete_rows [OF olds_distinct [OF ord im] r idMap_olds [OF ord im] this]
    have "deleted_row t ids r = (if p_id r \<notin> set (?del m) then Some (updated_row t (?upd m) r) else None)" .
    moreover have "p_id (updated_row t (?upd m) r) = p_id r"
      by (simp add: updated_row_def split: option.splits)
    ultimately show "deleted_row t ids r = (if p_id (updated_row t (?upd m) r) \<notin> set (?del m)
        then Some (updated_row t (?upd m) r) else None)" by (simp only:)
  qed
  finally show ?thesis using w' by auto
qed

section \<open>Updating\<close>

text \<open>
  The effect of \<open>Update\<close> on one row: the operations of the first rule without a condition
  and the end time come from the request, conditional rules stay.
\<close>

definition changed_row :: "int \<Rightarrow> policy_info list \<Rightarrow> policy_row \<Rightarrow> policy_row" where
  "changed_row t ps r =
     (case find (\<lambda>p. pol_ID p = p_id r) ps of
        None \<Rightarrow> r
      | Some p \<Rightarrow> r\<lparr> p_operation := rulesInfoToString
            \<lparr> rules_Allow = setUnconditional (firstUnconditional (rules_Allow (pol_Rules p))) (rules_Allow (row_rules r)),
              rules_Deny = setUnconditional (firstUnconditional (rules_Deny (pol_Rules p))) (rules_Deny (row_rules r)) \<rparr>,
          p_end_time := pol_EndTime p, p_condition := pol_Condition p, p_modify_time := t \<rparr>)"

lemma setUnconditional_rules:
  "firstUnconditional (setUnconditional ops items) = ops"
  "conditionalRules (setUnconditional ops items) = conditionalRules items"
proof -
  have "firstUnconditional (replaceFirstUnconditional ops items) = ops"
    if "list_ex (\<lambda>item. isConditionEmpty (rule_Condition item)) items"
    using that by (induction items) (auto simp: firstUnconditional_def)
  moreover have "conditionalRules (replaceFirstUnconditional ops items) = conditionalRules items"
    by (induction items) (simp_all add: conditionalRules_def)
  ultimately show "firstUnconditional (setUnconditional ops items) = ops"
    "conditionalRules (setUnconditional ops items) = conditionalRules items"
    by (simp_all add: setUnconditional_def firstUnconditional_def conditionalRules_def isConditionEmpty_def)
qed

lemma updateCheck_distinct:
  assumes "foldM (updateCheckStep e) ps d w = (Inr d', w')"
  shows "distinct (map pol_ID ps) \<and> (\<forall>p\<in>set ps. \<not> mtrue d (pol_ID p))"
  using assms
proof (induction ps arbitrary: d w)
  case (Cons p ps)
  from Cons.prems obtain d1 w1 where step: "updateCheckStep e p d w = (Inr d1, w1)"
    and rest: "foldM (updateCheckStep e) ps d1 w1 = (Inr d', w')"
    by (auto elim!: bindM_InrE)
  from step have "\<not> mtrue d (pol_ID p)" "d1 = mset_true (pol_ID p) d"
    by (auto simp: updateCheckStep_def bindM_Inr_iff split: if_splits)
  with Cons.IH [OF rest] show ?case by auto
qed simp

lemma updatedPolicy_ID: "updatedPolicy m ops p = Inr p' \<Longrightarrow> pol_ID p' = pol_ID p"
  by (auto simp: updatedPolicy_def getPolicyNoConditionOperations_def bindE_Inr_iff split: option.splits)

lemma find_list_all2:
  assumes "list_all2 R xs ys" "\<And>x y. R x y \<Longrightarrow> P x = Q y"
  shows "find P xs = None \<and> find Q ys = None \<or> (\<exists>x y. find P xs = Some x \<and> find Q ys = Some y \<and> R x y)"
  using assms(1) by (induction rule: list_all2_induct) (auto simp: assms(2))

lemma changed_rows:
  assumes "list_all2 (\<lambda>p p'. updatedPolicy m ops p = Inr p') ps ps'"
    and "idMap (map pol_ID ps) rows m" "r \<in> set rows"
  shows "updated_row t ps' r = changed_row t ps r"
proof -
  let ?at = "\<lambda>p. pol_ID p = p_id r"
  have corresponding: "find ?at ps = None \<and> find ?at ps' = None \<or>
      (\<exists>p p'. find ?at ps = Some p \<and> find ?at ps' = Some p' \<and> updatedPolicy m ops p = Inr p')"
    by (rule find_list_all2 [OF assms(1)]) (simp add: updatedPolicy_ID)
  have unmatched: ?thesis if "find (\<lambda>p. pol_ID p = p_id r) ps = None" "find (\<lambda>p. pol_ID p = p_id r) ps' = None"
    using that by (simp add: updated_row_def changed_row_def)
  have matched: ?thesis
    if p: "find (\<lambda>p. pol_ID p = p_id r) ps = Some p" and p': "find (\<lambda>p. pol_ID p = p_id r) ps' = Some p'"
      and up: "updatedPolicy m ops p = Inr p'" for p p'
  proof -
    have pid: "pol_ID p = p_id r" "p \<in> set ps" using find_SomeD [OF p] by simp_all
    then have "p_id r \<in> set (map pol_ID ps)" by (metis image_eqI set_map)
    then obtain old where old: "scan_policy_ancestors r = Inr old" "map_of m (pol_ID p) = Some old"
      using assms(2,3) pid(1) unfolding idMap_def by metis
    have "p' = p\<lparr> pol_Rules :=
        \<lparr> rules_Allow = setUnconditional (firstUnconditional (rules_Allow (pol_Rules p))) (rules_Allow (row_rules r)),
          rules_Deny = setUnconditional (firstUnconditional (rules_Deny (pol_Rules p))) (rules_Deny (row_rules r)) \<rparr> \<rparr>"
      using up old scan_policy_ancestorsD(5) [OF old(1)]
      by (auto simp: updatedPolicy_def getPolicyNoConditionOperations_def bindE_Inr_iff)
    then show ?thesis by (simp add: updated_row_def changed_row_def update_policy_row_def p p' pid(1))
  qed
  show ?thesis using corresponding unmatched matched by blast
qed

lemma Update_run:
  assumes ok: "env_ok e" and rows: "policies_ok w" and run: "policyLogic_Update e v ps w = (Inr (), w')"
  shows "\<exists>t. t_policy w' = map (changed_row t ps) (t_policy w)"
proof (cases "ps = []")
  case True
  then show ?thesis using run by (simp add: policyLogic_Update_def changed_row_def map_idI)
next
  case False
  from run False obtain d w1 where f: "foldM (updateCheckStep e) ps [] w = (Inr d, w1)"
    and rest: "bindM (policy_GetByPolicyIDs e (map pol_ID ps)) (\<lambda>oldPoliciesMap.
        if oldPoliciesMap = [] then returnM ()
        else
          (let olds = map snd (range_map (map_order e) oldPoliciesMap) in
           bindM (checkVisitorAuthorize e v (resourcesOf olds)) (\<lambda>_.
           bindM (getResourceTypeOperations e (resourceTypeMapOf olds)) (\<lambda>operationIDs.
           bindM (liftE (mapE (updatedPolicy oldPoliciesMap operationIDs) ps)) (\<lambda>policys'.
             transaction e (policy_Update e policys')))))) w1 = (Inr (), w')"
    unfolding policyLogic_Update_def by (auto simp only: if_False elim: bindM_InrE)
  have "keeps t_policy (foldM (updateCheckStep e) ps [])" by (intro keeps_intros) simp
  from keepsD [OF this f] have w1: "t_policy w1 = t_policy w" .
  from rest obtain m w2 where m: "policy_GetByPolicyIDs e (map pol_ID ps) w1 = (Inr m, w2)"
    and rest2: "(if m = [] then returnM ()
        else
          (let olds = map snd (range_map (map_order e) m) in
           bindM (checkVisitorAuthorize e v (resourcesOf olds)) (\<lambda>_.
           bindM (getResourceTypeOperations e (resourceTypeMapOf olds)) (\<lambda>operationIDs.
           bindM (liftE (mapE (updatedPolicy m operationIDs) ps)) (\<lambda>policys'.
             transaction e (policy_Update e policys')))))) w2 = (Inr (), w')"
    by (rule bindM_InrE)
  have "keeps t_policy (policy_GetByPolicyIDs e (map pol_ID ps))" by (intro keeps_intros) simp
  from keepsD [OF this m] w1 have w2: "t_policy w2 = t_policy w" by simp
  have im: "idMap (map pol_ID ps) (t_policy w) m"
    using GetByPolicyIDs_run [OF m] rows w1 by (simp add: policies_ok_def policy_rows_ok_def)
  show ?thesis
  proof (cases "m = []")
    case True
    have "changed_row t ps r = r" if r: "r \<in> set (t_policy w)" for t r
    proof -
      have "p_id r \<notin> set (map pol_ID ps)"
        using True im r unfolding idMap_def by (metis map_of.simps(1) option.distinct(1))
      then have "find (\<lambda>p. pol_ID p = p_id r) ps = None" by (auto simp: find_None_iff image_iff)
      then show ?thesis by (simp add: changed_row_def)
    qed
    then show ?thesis using True rest2 w2 by (simp add: map_idI)
  next
    case False
    let ?olds = "map snd (range_map (map_order e) m)"
    from rest2 False obtain w3 ops w4 ps' where
      c: "checkVisitorAuthorize e v (resourcesOf ?olds) w2 = (Inr (), w3)"
      and g: "getResourceTypeOperations e (resourceTypeMapOf ?olds) w3 = (Inr ops, w4)"
      and ps': "mapE (updatedPolicy m ops) ps = Inr ps'"
      and tr: "transaction e (policy_Update e ps') w4 = (Inr (), w')"
      by (auto simp: Let_def bindM_Inr_iff)
    have k: "keeps t_policy (checkVisitorAuthorize e v (resourcesOf ?olds))"
      "keeps t_policy (getResourceTypeOperations e (resourceTypeMapOf ?olds))"
      by (intro keeps_intros; simp)+
    have w4: "t_policy w4 = t_policy w"
      using keepsD [OF k(1) c] keepsD [OF k(2) g] w2 by simp
    have la: "list_all2 (\<lambda>p p'. updatedPolicy m ops p = Inr p') ps ps'"
      using ps' by (simp add: mapE_Inr_iff)
    have "map pol_ID ps' = map pol_ID ps"
      using la by (induction rule: list_all2_induct) (simp_all add: updatedPolicy_ID)
    then have d: "distinct (map pol_ID ps')" using updateCheck_distinct [OF f] by simp
    from transaction_run [OF tr] obtain w5 where "policy_Update e ps' (tock w4) = (Inr (), w5)" "w' = tock w5"
      by blast
    with policy_Update_run obtain t where "t_policy w' = map (updated_row t ps') (t_policy w)"
      using w4 fold_updates [OF d] by fastforce
    then show ?thesis using changed_rows [OF la im] by (auto intro: exI [of _ t])
  qed
qed

section \<open>Looking up the policies that are there\<close>

lemma resourceTypeMapOf_has:
  assumes "p \<in> set ps"
  shows "\<exists>ids. map_of (resourceTypeMapOf ps) (pol_ResourceType p) = Some ids \<and> pol_ResourceID p \<in> set ids"
proof -
  let ?step = "\<lambda>p. mappend (pol_ResourceType p) [pol_ResourceID p]"
  have mem: "pol_ResourceID p \<in> set (mlist (fold ?step ps m) (pol_ResourceType p))"
    if "pol_ResourceID p \<in> set (mlist m (pol_ResourceType p)) \<or> p \<in> set ps" for m
    using that
  proof (induction ps arbitrary: m)
    case (Cons q ps)
    have "pol_ResourceID p \<in> set (mlist (?step q m) (pol_ResourceType p)) \<or> p \<in> set ps"
      using Cons.prems by (cases "p = q") (auto simp: mlist_mappend)
    from Cons.IH [OF this] show ?case by simp
  qed simp
  show ?thesis
    using mem [of "[]"] assms
    by (cases "map_of (resourceTypeMapOf ps) (pol_ResourceType p)") (auto simp: resourceTypeMapOf_def mlist_def)
qed

lemma mwf_resourceTypeMapOf [simp]: "mwf (resourceTypeMapOf ps)"
proof -
  have "mwf m \<Longrightarrow> mwf (fold (\<lambda>p. mappend (pol_ResourceType p) [pol_ResourceID p]) ps m)" for m
    by (induction ps arbitrary: m) simp_all
  then show ?thesis by (simp add: resourceTypeMapOf_def)
qed

text \<open>The rows of one type and some resources, as they are read.\<close>

definition readRows :: "policy_row list \<Rightarrow> string \<Rightarrow> string list \<Rightarrow> policy_info list \<Rightarrow> bool" where
  "readRows rows ty ids qs \<longleftrightarrow>
     list_all2 (\<lambda>r p. scan_policy_ancestors r = Inr p)
       (filter (\<lambda>r. p_resource_id r \<in> set ids \<and> p_resource_type r = ty) rows) qs"

definition groupsOf :: "policy_info list \<Rightarrow> (string, policy_info list) gomap option" where
  "groupsOf qs = (if qs = [] then None else Some (group_by pol_ResourceID qs))"

lemma group_by_Nil_iff: "group_by key xs = [] \<longleftrightarrow> xs = []"
proof -
  have "fst ` set (group_by key xs) = key ` set xs" by (rule keys_group_by)
  then show ?thesis by (cases xs) (auto simp: group_by_def)
qed

lemma GetByResourceIDs_run:
  assumes "policy_GetByResourceIDs e ty ids w = (Inr m, w')"
  shows "\<exists>qs. readRows (t_policy w) ty ids qs \<and> m = group_by pol_ResourceID qs \<and> w' = tock w"
  using assms by (auto simp: policy_GetByResourceIDs_def bindE_Inr_iff mapE_Inr_iff readRows_def)

lemma oldPolicies_run:
  assumes ok: "env_ok e" and wf: "mwf rtm" and run: "oldPolicies e rtm w = (Inr m, w')"
    and ty: "map_of rtm ty = Some ids"
  shows "mwf m \<and> (\<exists>qs. readRows (t_policy w) ty ids qs \<and> map_of m ty = groupsOf qs)"
proof -
  let ?step = "\<lambda>(ty, ids) m. bindM (policy_GetByResourceIDs e ty ids) (\<lambda>om.
      returnM (if om = [] then m else mput ty om m))"
  have fold: "(mwf m0 \<longrightarrow> mwf m) \<and> (\<forall>ty. ty \<notin> fst ` set L \<longrightarrow> map_of m ty = map_of m0 ty) \<and>
      (\<forall>(ty, ids)\<in>set L. map_of m0 ty = None \<longrightarrow>
         (\<exists>qs. readRows (t_policy w) ty ids qs \<and> map_of m ty = groupsOf qs))"
    if "foldM ?step L m0 w = (Inr m, w')" "distinct (map fst L)" for L m0 w
    using that
  proof (induction L arbitrary: m0 w)
    case (Cons x L)
    obtain ty ids where x: "x = (ty, ids)" by (cases x)
    from Cons.prems(1) have "bindM (?step x m0) (foldM ?step L) w = (Inr m, w')"
      by (simp only: foldM.simps)
    then obtain m1 w1 where s1: "?step x m0 w = (Inr m1, w1)" and rest1: "foldM ?step L m1 w1 = (Inr m, w')"
      by (rule bindM_InrE)
    from s1 obtain om where g: "policy_GetByResourceIDs e ty ids w = (Inr om, w1)"
      and m1: "m1 = (if om = [] then m0 else mput ty om m0)"
      by (auto simp: x bindM_Inr_iff)
    note rest = rest1 [unfolded m1]
    from GetByResourceIDs_run [OF g] obtain qs where qs: "readRows (t_policy w) ty ids qs"
      and om: "om = group_by pol_ResourceID qs" and w1: "w1 = tock w" by blast
    have tn: "ty \<notin> fst ` set L" "distinct (map fst L)" using Cons.prems(2) x by auto
    note IH = Cons.IH [OF rest tn(2)]
    have here: "map_of m ty = groupsOf qs" if "map_of m0 ty = None"
      using IH tn(1) that by (auto simp: groupsOf_def om group_by_Nil_iff)
    have keep: "map_of (if om = [] then m0 else mput ty om m0) ty' = map_of m0 ty'" if "ty' \<noteq> ty" for ty'
      using that by simp
    have "mwf m0 \<longrightarrow> mwf m" using IH by simp
    moreover have "\<forall>ty'. ty' \<notin> fst ` set (x # L) \<longrightarrow> map_of m ty' = map_of m0 ty'"
      using IH keep x by simp
    moreover have "\<exists>qs. readRows (t_policy w) ty' ids' qs \<and> map_of m ty' = groupsOf qs"
      if mem: "(ty', ids') \<in> set (x # L)" and none: "map_of m0 ty' = None" for ty' ids'
    proof (cases "(ty', ids') = x")
      case True
      then show ?thesis using here qs none x by auto
    next
      case False
      then have L: "(ty', ids') \<in> set L" using mem by simp
      then have "ty' \<noteq> ty" using tn(1) by force
      then have "map_of (if om = [] then m0 else mput ty om m0) ty' = None" using keep none by simp
      then show ?thesis using IH L w1 by fastforce
    qed
    ultimately show ?case by blast
  qed simp
  have start: "foldM ?step (range_map (map_order e) rtm) [] w = (Inr m, w')"
    using run by (simp add: oldPolicies_def)
  have dist: "distinct (map fst (range_map (map_order e) rtm))"
    using ok wf by (simp add: distinct_range_map)
  have "(ty, ids) \<in> set (range_map (map_order e) rtm)" using ok ty by (simp add: set_range_map)
  then show ?thesis using fold [OF start dist] by auto
qed

lemma oldPolicyOf_eq:
  assumes "env_ok e" "mwf m" "map_of m (pol_ResourceType p) = groupsOf qs"
  shows "oldPolicyOf (oldResourceAccessorsPolicies e m) p =
     find (\<lambda>q. pol_AccessorID q = pol_AccessorID p) (rev (filter (\<lambda>q. pol_ResourceID q = pol_ResourceID p) qs))"
proof -
  note ord = env_ok_key_order [OF assms(1)]
  let ?inner = "\<lambda>byRes. fold (\<lambda>(i, ps). mput i (byAccessor ps)) (range_map (map_order e) byRes) []"
  have outer: "map_of (oldResourceAccessorsPolicies e m) ty = map_option ?inner (map_of m ty)" for ty
    unfolding oldResourceAccessorsPolicies_def by (rule map_of_fold_range_map [OF ord assms(2)])
  have acc: "map_of (byAccessor ps) a = find (\<lambda>q. pol_AccessorID q = a) (rev ps)" for ps a
    using map_of_fold_mput [where key = pol_AccessorID and val = "\<lambda>p. p" and xs = ps and m = "[]" and k = a]
    by (simp add: byAccessor_def split: option.splits)
  have inner: "map_of (?inner (group_by pol_ResourceID qs)) i =
      map_option byAccessor (map_of (group_by pol_ResourceID qs) i)" for i
    by (rule map_of_fold_range_map [OF ord mwf_group_by])
  show ?thesis
  proof (cases "pol_ResourceID p \<in> pol_ResourceID ` set qs")
    case True
    then have "qs \<noteq> []" by auto
    then show ?thesis using True
      by (simp add: oldPolicyOf_def outer assms(3) groupsOf_def inner map_of_group_by acc)
  next
    case False
    then have "filter (\<lambda>q. pol_ResourceID q = pol_ResourceID p) qs = []" by (auto simp: filter_empty_conv image_iff)
    then show ?thesis using False
      by (simp add: oldPolicyOf_def outer assms(3) groupsOf_def inner map_of_group_by)
  qed
qed

text \<open>The policy found for a request is the row with the same resource and accessor.\<close>

definition foundOld :: "policy_row list \<Rightarrow> policy_info \<Rightarrow> policy_info option \<Rightarrow> bool" where
  "foundOld rows p old \<longleftrightarrow>
     (case old of
        None \<Rightarrow> pol_key p \<notin> policy_key ` set rows
      | Some q \<Rightarrow> \<exists>r\<in>set rows. scan_policy_ancestors r = Inr q \<and> policy_key r = pol_key p)"

lemma oldPolicies_found:
  assumes ok: "env_ok e" and run: "oldPolicies e (resourceTypeMapOf ps) w = (Inr m, w')" and p: "p \<in> set ps"
  shows "foundOld (t_policy w) p (oldPolicyOf (oldResourceAccessorsPolicies e m) p)"
proof -
  obtain ids where ids: "map_of (resourceTypeMapOf ps) (pol_ResourceType p) = Some ids" "pol_ResourceID p \<in> set ids"
    using resourceTypeMapOf_has [OF p] by blast
  from oldPolicies_run [OF ok _ run ids(1)] obtain qs where wf: "mwf m"
    and qs: "readRows (t_policy w) (pol_ResourceType p) ids qs" and m: "map_of m (pol_ResourceType p) = groupsOf qs"
    by auto
  let ?rows = "filter (\<lambda>r. p_resource_id r \<in> set ids \<and> p_resource_type r = pol_ResourceType p) (t_policy w)"
  have la: "list_all2 (\<lambda>r q. scan_policy_ancestors r = Inr q) ?rows qs" using qs by (simp add: readRows_def)
  have q_of: "\<exists>q\<in>set qs. scan_policy_ancestors r = Inr q" if "r \<in> set ?rows" for r
    using la that by (induction rule: list_all2_induct) auto
  have r_of: "\<exists>r\<in>set ?rows. scan_policy_ancestors r = Inr q" if "q \<in> set qs" for q
    using la that by (induction rule: list_all2_induct) auto
  let ?found = "find (\<lambda>q. pol_AccessorID q = pol_AccessorID p)
      (rev (filter (\<lambda>q. pol_ResourceID q = pol_ResourceID p) qs))"
  have "foundOld (t_policy w) p ?found"
  proof (cases ?found)
    case None
    have "policy_key r \<noteq> pol_key p" if r: "r \<in> set (t_policy w)" for r
    proof
      assume key: "policy_key r = pol_key p"
      then have "r \<in> set ?rows" using r ids(2) by (simp add: policy_key_def pol_key_def)
      then obtain q where "q \<in> set qs" "scan_policy_ancestors r = Inr q" using q_of by blast
      then have "pol_AccessorID q = pol_AccessorID p" "pol_ResourceID q = pol_ResourceID p" "q \<in> set qs"
        using key scan_policy_ancestorsD [of r q] by (simp_all add: policy_key_def pol_key_def)
      then show False using None by (auto simp: find_None_iff)
    qed
    then have "pol_key p \<notin> policy_key ` set (t_policy w)" by (metis imageE)
    then show ?thesis using None by (simp add: foundOld_def)
  next
    case (Some q)
    then have q: "q \<in> set qs" "pol_ResourceID q = pol_ResourceID p" "pol_AccessorID q = pol_AccessorID p"
      using find_SomeD [OF Some] by auto
    then obtain r where "r \<in> set ?rows" "scan_policy_ancestors r = Inr q" using r_of by blast
    then show ?thesis using Some q scan_policy_ancestorsD [of r q]
      by (auto simp: foundOld_def policy_key_def pol_key_def)
  qed
  then show ?thesis using oldPolicyOf_eq [OF ok wf m] by simp
qed

section \<open>Creating\<close>

lemma createCheck_distinct:
  assumes "foldM (createCheckStep e ops) ps acc0 w = (Inr acc, w')"
  shows "distinct (map pol_key ps) \<and> (\<forall>p\<in>set ps. \<not> mtrue (fst acc0) (pol_key p))"
  using assms
proof (induction ps arbitrary: acc0 w)
  case (Cons p ps)
  from Cons.prems obtain acc1 w1 where step: "createCheckStep e ops p acc0 w = (Inr acc1, w1)"
    and rest: "foldM (createCheckStep e ops) ps acc1 w1 = (Inr acc, w')"
    by (auto elim!: bindM_InrE)
  from step have "\<not> mtrue (fst acc0) (pol_key p)" "fst acc1 = mset_true (pol_key p) (fst acc0)"
    by (auto simp: createCheckStep_def bindM_Inr_iff Let_def pol_key_def split: if_splits prod.splits)
  with Cons.IH [OF rest] show ?case by auto
qed simp

definition newOf :: "policy_info \<Rightarrow> policy_info \<Rightarrow> bool" where
  "newOf p q \<longleftrightarrow> (\<exists>i n. q = p\<lparr> pol_ID := i, pol_AccessorName := n \<rparr>)"

definition mergeOf ::
    "(policy_info \<Rightarrow> policy_info \<Rightarrow> bool) \<Rightarrow> (policy_info \<Rightarrow> policy_info \<Rightarrow> policy_info) \<Rightarrow>
     (policy_info \<Rightarrow> policy_info option) \<Rightarrow> policy_info \<Rightarrow> policy_info option" where
  "mergeOf same merge old p =
     (case old p of None \<Rightarrow> None | Some q \<Rightarrow> if same q p then None else Some (merge q p))"

definition mergesOf ::
    "(policy_info \<Rightarrow> policy_info \<Rightarrow> bool) \<Rightarrow> (policy_info \<Rightarrow> policy_info \<Rightarrow> policy_info) \<Rightarrow>
     (policy_info \<Rightarrow> policy_info option) \<Rightarrow> policy_info list \<Rightarrow> policy_info list" where
  "mergesOf same merge old ps = List.map_filter (mergeOf same merge old) ps"

lemma mergesOf_simps [simp]:
  "mergesOf same merge old [] = []"
  "mergesOf same merge old (p # ps) =
     (case mergeOf same merge old p of None \<Rightarrow> [] | Some q \<Rightarrow> [q]) @ mergesOf same merge old ps"
  by (simp_all add: mergesOf_def List.map_filter_simps split: option.splits)

lemma mergeOf_Some_iff:
  "mergeOf same merge old p = Some q \<longleftrightarrow> (\<exists>q0. old p = Some q0 \<and> \<not> same q0 p \<and> q = merge q0 p)"
  by (auto simp: mergeOf_def split: option.splits)

lemma set_mergesOf: "q \<in> set (mergesOf same merge old ps) \<longleftrightarrow> (\<exists>p\<in>set ps. mergeOf same merge old p = Some q)"
  by (induction ps) (auto split: option.splits)

text \<open>The identifier returned for a request: that of its old policy, or of its new one.\<close>

definition answers :: "(policy_info \<Rightarrow> policy_info option) \<Rightarrow> policy_info list \<Rightarrow> policy_info \<Rightarrow> string \<Rightarrow> bool" where
  "answers old new p i \<longleftrightarrow>
     (case old p of Some q \<Rightarrow> i = pol_ID q | None \<Rightarrow> \<exists>q\<in>set new. pol_ID q = i \<and> newOf p q)"

lemma answers_at:
  "old p = Some q \<Longrightarrow> answers old new p i \<longleftrightarrow> i = pol_ID q"
  "old p = None \<Longrightarrow> answers old new p i \<longleftrightarrow> (\<exists>q\<in>set new. pol_ID q = i \<and> newOf p q)"
  by (simp_all add: answers_def)

lemma answers_more: "answers old new p i \<Longrightarrow> set new \<subseteq> set new' \<Longrightarrow> answers old new' p i"
  by (auto simp: answers_def split: option.splits)

lemma createOrUpdate_run:
  assumes "foldM (createOrUpdateStep e same merge nm om) ps (n0, u0, i0) w = (Inr (n, u, i), w')"
  shows "\<exists>N I js. n = n0 @ N \<and> u = u0 @ mergesOf same merge (oldPolicyOf om) ps \<and> i = i0 @ I \<and>
      map pol_ID N = map (uuid_at e) js \<and> distinct js \<and> (\<forall>j\<in>set js. tick w \<le> j) \<and>
      list_all2 newOf (filter (\<lambda>p. oldPolicyOf om p = None) ps) N \<and>
      list_all2 (answers (oldPolicyOf om) N) ps I"
  using assms
proof (induction ps arbitrary: n0 u0 i0 w)
  case Nil
  then show ?case by simp
next
  case (Cons p ps)
  from Cons.prems obtain acc w1 where step: "createOrUpdateStep e same merge nm om p (n0, u0, i0) w = (Inr acc, w1)"
    and rest: "foldM (createOrUpdateStep e same merge nm om) ps acc w1 = (Inr (n, u, i), w')"
    by (auto elim!: bindM_InrE)
  show ?case
  proof (cases "oldPolicyOf om p")
    case (Some old)
    with step have w1: "w1 = w"
      and acc: "acc = (n0, if same old p then u0 else u0 @ [merge old p], i0 @ [pol_ID old])"
      by (simp_all add: createOrUpdateStep_def)
    from Cons.IH [OF rest [unfolded acc]] obtain N I js where IH:
      "n = n0 @ N" "u = (if same old p then u0 else u0 @ [merge old p]) @ mergesOf same merge (oldPolicyOf om) ps"
      "i = (i0 @ [pol_ID old]) @ I" "map pol_ID N = map (uuid_at e) js" "distinct js" "\<forall>j\<in>set js. tick w \<le> j"
      "list_all2 newOf (filter (\<lambda>p. oldPolicyOf om p = None) ps) N" "list_all2 (answers (oldPolicyOf om) N) ps I"
      unfolding w1 by blast
    show ?thesis
      by (intro exI [of _ N] exI [of _ "pol_ID old # I"] exI [of _ js])
        (use IH Some in \<open>simp add: mergeOf_def answers_at\<close>)
  next
    case None
    define q where "q = p\<lparr> pol_ID := uuid_at e (tick w), pol_AccessorName :=
        (case map_of nm (pol_AccessorID p) of None \<Rightarrow> pol_AccessorID p | Some n \<Rightarrow> n) \<rparr>"
    from None step have w1: "w1 = tock w" and acc: "acc = (n0 @ [q], u0, i0 @ [uuid_at e (tick w)])"
      by (simp_all add: createOrUpdateStep_def q_def bindM_Inr_iff)
    from Cons.IH [OF rest [unfolded acc]] obtain N I js where IH:
      "n = (n0 @ [q]) @ N" "u = u0 @ mergesOf same merge (oldPolicyOf om) ps"
      "i = (i0 @ [uuid_at e (tick w)]) @ I" "map pol_ID N = map (uuid_at e) js" "distinct js"
      "\<forall>j\<in>set js. tick w1 \<le> j" "list_all2 newOf (filter (\<lambda>p. oldPolicyOf om p = None) ps) N"
      "list_all2 (answers (oldPolicyOf om) N) ps I"
      by blast
    have later: "\<forall>j\<in>set js. Suc (tick w) \<le> j" using IH(6) w1 by simp
    have q: "newOf p q" "pol_ID q = uuid_at e (tick w)" by (auto simp: newOf_def q_def)
    have "list_all2 (answers (oldPolicyOf om) (q # N)) ps I"
      using IH(8) by (rule list_all2_mono) (auto elim: answers_more)
    moreover have "tick w \<notin> set js" "\<forall>j\<in>set js. tick w \<le> j" using later by fastforce+
    ultimately show ?thesis
      by (intro exI [of _ "q # N"] exI [of _ "uuid_at e (tick w) # I"] exI [of _ "tick w # js"])
        (use IH None q in \<open>simp add: mergeOf_def answers_at\<close>)
  qed
qed

text \<open>The effect of \<open>Create\<close> on a row that is there: a request for its resource and accessor is merged.\<close>

definition merged_row :: "env \<Rightarrow> int \<Rightarrow> policy_info list \<Rightarrow> policy_row \<Rightarrow> policy_row" where
  "merged_row e t ps r =
     (case find (\<lambda>p. pol_key p = policy_key r) ps of
        None \<Rightarrow> r
      | Some p \<Rightarrow>
          (case scan_policy_ancestors r of
             Inl _ \<Rightarrow> r
           | Inr old \<Rightarrow> if cmpPolicy old p then r else update_policy_row t (mergeNewPolicy e old p) r))"

lemma merged_row_simps [simp]:
  "p_id (merged_row e t ps r) = p_id r" "policy_key (merged_row e t ps r) = policy_key r"
  by (simp_all add: merged_row_def split: option.splits sum.splits)

lemma mergeNewPolicy_ID [simp]: "pol_ID (mergeNewPolicy e old p) = pol_ID old"
  by (simp add: mergeNewPolicy_def split_def Let_def)

lemma mergesOf_origin:
  assumes "q \<in> set (mergesOf cmpPolicy (mergeNewPolicy e) old ps)" "\<And>p. p \<in> set ps \<Longrightarrow> foundOld rows p (old p)"
  obtains p r o' where "p \<in> set ps" "r \<in> set rows" "old p = Some o'" "scan_policy_ancestors r = Inr o'"
    "policy_key r = pol_key p" "\<not> cmpPolicy o' p" "q = mergeNewPolicy e o' p" "pol_ID q = p_id r"
proof -
  from assms(1) obtain p o' where p: "p \<in> set ps" "old p = Some o'" "\<not> cmpPolicy o' p" "q = mergeNewPolicy e o' p"
    by (auto simp: set_mergesOf mergeOf_Some_iff)
  from assms(2) [OF p(1)] p(2) obtain r where "r \<in> set rows" "scan_policy_ancestors r = Inr o'" "policy_key r = pol_key p"
    by (auto simp: foundOld_def)
  then show ?thesis using that p scan_policy_ancestorsD(1) by simp
qed

lemma mergesOf_distinct:
  assumes rows: "policy_rows_ok rows" and keys: "distinct (map pol_key ps)"
    and found: "\<And>p. p \<in> set ps \<Longrightarrow> foundOld rows p (old p)"
  shows "distinct (map pol_ID (mergesOf cmpPolicy (mergeNewPolicy e) old ps))"
  unfolding mergesOf_def
proof (rule distinct_map_filter_key [OF keys])
  have row: "\<exists>r\<in>set rows. policy_key r = pol_key p \<and> p_id r = pol_ID q"
    if p: "p \<in> set ps" and m: "mergeOf cmpPolicy (mergeNewPolicy e) old p = Some q" for p q
  proof -
    from m obtain q0 where q0: "old p = Some q0" "q = mergeNewPolicy e q0 p"
      by (auto simp: mergeOf_Some_iff)
    then obtain r where "r \<in> set rows" "scan_policy_ancestors r = Inr q0" "policy_key r = pol_key p"
      using found [OF p] by (auto simp: foundOld_def)
    then show ?thesis using q0 scan_policy_ancestorsD(1) [of r q0] by auto
  qed
  fix p q p' q'
  assume "p \<in> set ps" "p' \<in> set ps" "mergeOf cmpPolicy (mergeNewPolicy e) old p = Some q"
    "mergeOf cmpPolicy (mergeNewPolicy e) old p' = Some q'" "pol_ID q = pol_ID q'"
  then show "pol_key p = pol_key p'" using row same_row [OF rows] by metis
qed

lemma merged_rows:
  assumes rows: "policy_rows_ok rows" and keys: "distinct (map pol_key ps)"
    and found: "\<And>p. p \<in> set ps \<Longrightarrow> foundOld rows p (old p)" and r: "r \<in> set rows"
  shows "updated_row t (mergesOf cmpPolicy (mergeNewPolicy e) old ps) r = merged_row e t ps r"
proof -
  let ?qs = "mergesOf cmpPolicy (mergeNewPolicy e) old ps"
  have origin: "\<exists>p\<in>set ps. pol_key p = policy_key r \<and> (\<exists>o'. old p = Some o' \<and> \<not> cmpPolicy o' p)"
    if q: "q \<in> set ?qs" "pol_ID q = p_id r" for q
    using q(1) found
  proof (rule mergesOf_origin)
    fix p r' o'
    assume "p \<in> set ps" "r' \<in> set rows" "old p = Some o'" "policy_key r' = pol_key p" "\<not> cmpPolicy o' p" "pol_ID q = p_id r'"
    then show ?thesis using same_row [OF rows r] q(2) by auto
  qed
  have untouched: "updated_row t ?qs r = r" if "\<And>q. q \<in> set ?qs \<Longrightarrow> pol_ID q \<noteq> p_id r"
    using that by (auto simp: updated_row_def split: option.splits dest!: find_SomeD)
  show ?thesis
  proof (cases "find (\<lambda>p. pol_key p = policy_key r) ps")
    case None
    then have "updated_row t ?qs r = r" using untouched origin by (metis (mono_tags, lifting) find_None_iff)
    then show ?thesis using None by (simp add: merged_row_def)
  next
    case (Some p)
    then have p: "p \<in> set ps" "pol_key p = policy_key r" using find_SomeD [OF Some] by simp_all
    have "pol_key p \<in> policy_key ` set rows" using p(2) r by simp
    then obtain o' r' where o': "old p = Some o'" "r' \<in> set rows" "scan_policy_ancestors r' = Inr o'" "policy_key r' = pol_key p"
      using found [OF p(1)] by (auto simp: foundOld_def split: option.splits)
    have "r' = r"
      using rows o'(2,4) r p(2) unfolding policy_rows_ok_def distinct_map inj_on_def by metis
    with o' have scan: "scan_policy_ancestors r = Inr o'" by simp
    have only: "p' = p" if "p' \<in> set ps" "pol_key p' = policy_key r" for p'
      using keys p that unfolding distinct_map inj_on_def by metis
    show ?thesis
    proof (cases "cmpPolicy o' p")
      case True
      have "updated_row t ?qs r = r"
      proof (rule untouched)
        fix q assume "q \<in> set ?qs"
        then show "pol_ID q \<noteq> p_id r" using origin [of q] only o'(1) True by auto
      qed
      then show ?thesis using Some scan True by (simp add: merged_row_def)
    next
      case False
      have "mergeNewPolicy e o' p \<in> set ?qs"
        using p(1) o'(1) False by (auto simp: set_mergesOf mergeOf_Some_iff)
      moreover have "pol_ID (mergeNewPolicy e o' p) = p_id r" using scan_policy_ancestorsD(1) [OF scan] by simp
      ultimately have "find (\<lambda>q. pol_ID q = p_id r) ?qs = Some (mergeNewPolicy e o' p)"
        by (intro find_distinct_key mergesOf_distinct [OF rows keys found])
      then show ?thesis using Some scan False by (simp add: updated_row_def merged_row_def)
    qed
  qed
qed

text \<open>The row stored for a new policy, up to its identifiers, the name and the time.\<close>

definition stored_new :: "policy_info \<Rightarrow> policy_row \<Rightarrow> bool" where
  "stored_new p r \<longleftrightarrow> (\<exists>t pk i n. r = new_policy_row t pk (p\<lparr> pol_ID := i, pol_AccessorName := n \<rparr>))"

definition newRows :: "int \<Rightarrow> nat \<Rightarrow> policy_info list \<Rightarrow> policy_row list" where
  "newRows t pk ps = map (\<lambda>(pk, p). new_policy_row t pk p) (zip [pk ..< pk + length ps] ps)"

lemma newRows_simps:
  "map p_id (newRows t pk ps) = map pol_ID ps" "map policy_key (newRows t pk ps) = map pol_key ps"
  "newRows t pk [] = []"
  unfolding newRows_def
  by (auto intro!: nth_equalityI simp: new_policy_row_def policy_key_def pol_key_def)

lemma stored_newRows: "list_all2 newOf ps qs \<Longrightarrow> list_all2 stored_new ps (newRows t pk qs)"
  unfolding newRows_def
  by (auto simp: list_all2_conv_all_nth newOf_def stored_new_def) metis

lemma written_rows:
  assumes body: "bindM (if new \<noteq> [] then policy_Create e new else returnM ()) (\<lambda>_.
      if upd \<noteq> [] then policy_Update e upd else returnM ()) (tock w) = (Inr (), w1)"
    and "distinct (map pol_ID upd)"
  shows "\<exists>t t' pk. t_policy w1 = map (updated_row t upd) (t_policy w @ newRows t' pk new)"
proof -
  from body obtain w2 where c: "(if new \<noteq> [] then policy_Create e new else returnM ()) (tock w) = (Inr (), w2)"
    and u: "(if upd \<noteq> [] then policy_Update e upd else returnM ()) w2 = (Inr (), w1)"
    by (auto elim!: bindM_InrE)
  obtain t' pk where w2: "t_policy w2 = t_policy w @ newRows t' pk new"
  proof (cases "new = []")
    case True
    then have "w2 = tock w" using c by simp
    then show ?thesis using True that by (simp add: newRows_simps)
  next
    case False
    then show ?thesis using c that
      by (auto simp: policy_Create_def bindM_Inr_iff insert_policies_def newRows_def)
  qed
  have "\<exists>t. t_policy w1 = map (updated_row t upd) (t_policy w2)"
  proof (cases "upd = []")
    case True
    then have "w1 = w2" using u by simp
    then show ?thesis using True by (simp add: map_idI)
  next
    case False
    then have "policy_Update e upd w2 = (Inr (), w1)" using u by simp
    from policy_Update_run [OF this] show ?thesis using fold_updates [OF assms(2)] by auto
  qed
  then show ?thesis using w2 by auto
qed

lemma writePolicies_run:
  assumes "writePolicies e new upd w = (r, w')" "distinct (map pol_ID upd)" "r = Inr () \<or> t_policy w' \<noteq> t_policy w"
  shows "\<exists>t t' pk. t_policy w' = map (updated_row t upd) (t_policy w @ newRows t' pk new)"
proof -
  obtain w1 where "bindM (if new \<noteq> [] then policy_Create e new else returnM ()) (\<lambda>_.
      if upd \<noteq> [] then policy_Update e upd else returnM ()) (tock w) = (Inr (), w1)" and w': "w' = tock w1"
  proof (cases "r = Inr ()")
    case True
    show ?thesis using assms(1) unfolding writePolicies_def True by (rule transaction_run) (rule that)
  next
    case False
    then show ?thesis using transaction_cases assms(1,3) that unfolding writePolicies_def by metis
  qed
  from written_rows [OF this(1) assms(2)] show ?thesis by (simp add: w')
qed

lemma created_rows_ok:
  assumes rows: "policy_rows_ok rows" and keys: "distinct (map pol_key ps)"
    and new: "list_all2 newOf (filter (\<lambda>p. pol_key p \<notin> policy_key ` set rows) ps) N"
    and ids: "distinct (map pol_ID N)" "set (map pol_ID N) \<inter> p_id ` set rows = {}"
  shows "policy_rows_ok (map (merged_row e t ps) rows @ newRows t' pk N)"
proof -
  have nk: "map pol_key N = map pol_key (filter (\<lambda>p. pol_key p \<notin> policy_key ` set rows) ps)"
    using new by (induction rule: list_all2_induct) (auto simp: newOf_def pol_key_def)
  have "distinct (map pol_key N)" unfolding nk using keys by (rule distinct_key_filter)
  moreover have "set (map pol_key N) \<inter> policy_key ` set rows = {}" unfolding nk by (auto simp: image_iff)
  moreover have "map p_id (map (merged_row e t ps) rows) = map p_id rows"
    "map policy_key (map (merged_row e t ps) rows) = map policy_key rows" by simp_all
  ultimately show ?thesis
    using rows ids unfolding policy_rows_ok_def map_append distinct_append newRows_simps
    by (metis Int_commute list.set_map)
qed

lemma updated_newRows:
  assumes "\<And>q. q \<in> set upd \<Longrightarrow> pol_ID q \<in> I" "\<And>q. q \<in> set new \<Longrightarrow> pol_ID q \<notin> I"
  shows "map (updated_row t upd) (newRows t' pk new) = newRows t' pk new"
proof (rule map_idI)
  fix r assume "r \<in> set (newRows t' pk new)"
  then have "p_id r \<in> set (map pol_ID new)"
    using newRows_simps(1) [of t' pk new] by (metis image_eqI list.set_map)
  then obtain q where "q \<in> set new" "p_id r = pol_ID q" by auto
  then have "p_id r \<notin> I" using assms(2) by simp
  then have "find (\<lambda>q. pol_ID q = p_id r) upd = None" unfolding find_None_iff using assms(1) by metis
  then show "updated_row t upd r = r" by (simp add: updated_row_def)
qed

lemma answered_row:
  assumes "foundOld rows p (old p)" "answers old new p i"
  shows "\<exists>r\<in>set (map (merged_row e t ps) rows @ newRows t' pk new). p_id r = i \<and> policy_key r = pol_key p"
proof (cases "old p")
  case None
  then obtain q where q: "q \<in> set new" "pol_ID q = i" "newOf p q" using assms(2) by (auto simp: answers_at)
  then obtain n where n: "n < length new" "new ! n = q" by (auto simp: in_set_conv_nth)
  let ?r = "newRows t' pk new ! n"
  have "n < length (newRows t' pk new)" using n(1) by (simp add: newRows_def)
  then have "?r \<in> set (newRows t' pk new)" by (rule nth_mem)
  moreover have "p_id ?r = pol_ID q" "policy_key ?r = pol_key q"
    using n by (simp_all add: newRows_def new_policy_row_def policy_key_def pol_key_def)
  moreover have "pol_key q = pol_key p" using q(3) by (auto simp: newOf_def pol_key_def)
  ultimately show ?thesis using q(2) by (intro bexI [of _ ?r]) simp_all
next
  case (Some q)
  then obtain r where r: "r \<in> set rows" "scan_policy_ancestors r = Inr q" "policy_key r = pol_key p"
    using assms(1) by (auto simp: foundOld_def)
  have "i = p_id r" using assms(2) Some scan_policy_ancestorsD(1) [OF r(2)] by (simp add: answers_at)
  then show ?thesis using r by (intro bexI [of _ "merged_row e t ps r"]) simp_all
qed

text \<open>
  The table \<open>rows'\<close> that a request for \<open>ps\<close> makes of \<open>rows\<close>: requests for a resource and
  accessor that are there are merged into their row, the others are appended, and the
  identifiers \<open>ids\<close> are those of the rows that now hold the requests.
\<close>

definition createdTable :: "env \<Rightarrow> policy_info list \<Rightarrow> string list \<Rightarrow> policy_row list \<Rightarrow> policy_row list \<Rightarrow> bool" where
  "createdTable e ps ids rows rows' \<longleftrightarrow> policy_rows_ok rows' \<and>
     (\<exists>t N. rows' = map (merged_row e t ps) rows @ N \<and>
        list_all2 stored_new (filter (\<lambda>p. pol_key p \<notin> policy_key ` set rows) ps) N) \<and>
     list_all2 (\<lambda>p i. \<exists>r\<in>set rows'. p_id r = i \<and> policy_key r = pol_key p) ps ids"

lemma merge_created:
  assumes ok: "env_ok e" and rok: "policy_rows_ok (t_policy w)"
    and fresh: "inj (uuid_at e)" "\<And>n. uuid_at e n \<notin> p_id ` set (t_policy w)"
    and keys: "distinct (map pol_key ps)"
    and run: "getCreateAndUpdatePolicy e ps (resourceTypeMapOf ps) nm w = (Inr (new, upd, ids), w')"
  shows "distinct (map pol_ID upd)"
    and "createdTable e ps ids (t_policy w) (map (updated_row t upd) (t_policy w @ newRows t' pk new))"
proof -
  let ?R = "t_policy w"
  from run obtain m w1 where s4: "oldPolicies e (resourceTypeMapOf ps) w = (Inr m, w1)"
    and s5: "foldM (createOrUpdateStep e cmpPolicy (mergeNewPolicy e) nm (oldResourceAccessorsPolicies e m)) ps
        ([], [], []) w1 = (Inr (new, upd, ids), w')"
    unfolding getCreateAndUpdatePolicy_def by (rule bindM_InrE)
  let ?old = "oldPolicyOf (oldResourceAccessorsPolicies e m)"
  have found: "foundOld ?R p (?old p)" if "p \<in> set ps" for p
    using oldPolicies_found [OF ok s4 that] .
  have none: "filter (\<lambda>p. ?old p = None) ps = filter (\<lambda>p. pol_key p \<notin> policy_key ` set ?R) ps"
  proof (rule filter_cong [OF refl])
    fix p assume "p \<in> set ps"
    from found [OF this] show "(?old p = None) = (pol_key p \<notin> policy_key ` set ?R)"
      by (force simp: foundOld_def split: option.splits)
  qed
  from createOrUpdate_run [OF s5] obtain js where upd: "upd = mergesOf cmpPolicy (mergeNewPolicy e) ?old ps"
    and ids: "map pol_ID new = map (uuid_at e) js" "distinct js"
    and new: "list_all2 newOf (filter (\<lambda>p. pol_key p \<notin> policy_key ` set ?R) ps) new"
    and ans: "list_all2 (answers ?old new) ps ids"
    by (auto simp: none)
  have fresh': "pol_ID q \<notin> p_id ` set ?R" if "q \<in> set new" for q
    using ids(1) that fresh(2) by (metis (no_types, lifting) imageE image_eqI list.set_map)
  have "inj_on (uuid_at e) (set js)" using fresh(1) by (rule inj_on_subset) simp
  then have dn: "distinct (map pol_ID new)" unfolding ids(1) using ids(2) by (simp add: distinct_map)
  show "distinct (map pol_ID upd)" unfolding upd by (rule mergesOf_distinct [OF rok keys found])
  have "pol_ID q \<in> p_id ` set ?R" if "q \<in> set upd" for q
    using that found unfolding upd by (rule mergesOf_origin) auto
  from updated_newRows [OF this fresh']
  have T: "map (updated_row t upd) (?R @ newRows t' pk new) = map (merged_row e t ps) ?R @ newRows t' pk new"
    unfolding upd using merged_rows [OF rok keys found] by simp
  have "set (map pol_ID new) \<inter> p_id ` set ?R = {}"
    unfolding disjoint_iff set_map by (intro allI impI, elim imageE) (simp only: fresh' not_False_eq_True)
  from created_rows_ok [OF rok keys new dn this]
  have "policy_rows_ok (map (merged_row e t ps) ?R @ newRows t' pk new)" .
  moreover have "list_all2 (\<lambda>p i. \<exists>r\<in>set (map (merged_row e t ps) ?R @ newRows t' pk new).
      p_id r = i \<and> policy_key r = pol_key p) ps ids"
    using ans by (rule list.rel_mono_strong) (use found in \<open>intro answered_row\<close>)
  ultimately show "createdTable e ps ids ?R (map (updated_row t upd) (?R @ newRows t' pk new))"
    unfolding T createdTable_def using stored_newRows [OF new] by blast
qed

lemma createChecked_run:
  assumes ok: "env_ok e" and rows: "policies_ok w"
    and fresh: "inj (uuid_at e)" "\<And>n. uuid_at e n \<notin> p_id ` set (t_policy w)"
    and run: "createChecked e ps w = (Inr ids, w')"
  shows "createdTable e ps ids (t_policy w) (t_policy w')"
proof -
  let ?R = "t_policy w"
  from run obtain ops w1 acc w2 nm w3 new upd w4 where
    s1: "getResourceTypeOperations e (resourceTypeMapOf ps) w = (Inr ops, w1)"
    and s2: "foldM (createCheckStep e ops) ps ([], [], []) w1 = (Inr acc, w2)"
    and s3: "getAccessorName e (fst (snd acc)) (snd (snd acc)) w2 = (Inr nm, w3)"
    and s4: "getCreateAndUpdatePolicy e ps (resourceTypeMapOf ps) nm w3 = (Inr (new, upd, ids), w4)"
    and s5: "if new = [] \<and> upd = [] then w' = w4 else writePolicies e new upd w4 = (Inr (), w')"
    unfolding createChecked_def by (auto elim!: bindM_InrE split: prod.splits if_splits)
  have k: "keeps t_policy (getResourceTypeOperations e (resourceTypeMapOf ps))"
    "keeps t_policy (foldM (createCheckStep e ops) ps ([], [], []))"
    "keeps t_policy (getAccessorName e (fst (snd acc)) (snd (snd acc)))"
    "keeps t_policy (getCreateAndUpdatePolicy e ps (resourceTypeMapOf ps) nm)"
    by (intro keeps_intros; simp)+
  have w3: "t_policy w3 = ?R" and w4: "t_policy w4 = ?R"
    using keepsD [OF k(1) s1] keepsD [OF k(2) s2] keepsD [OF k(3) s3] keepsD [OF k(4) s4] by simp_all
  have keys: "distinct (map pol_key ps)" using createCheck_distinct [OF s2] by simp
  note created = merge_created [OF ok _ fresh(1) _ keys s4, unfolded w3,
      OF rows [unfolded policies_ok_def] fresh(2)]
  show ?thesis
  proof (cases "new = [] \<and> upd = []")
    case True
    then have "t_policy w' = map (updated_row 0 upd) (?R @ newRows 0 0 new)"
      using s5 w4 by (simp add: newRows_simps map_idI)
    then show ?thesis using created(2) by metis
  next
    case False
    then have "writePolicies e new upd w4 = (Inr (), w')" using s5 by (simp only: if_False)
    from writePolicies_run [OF this created(1)] show ?thesis unfolding w4 using created(2) by auto
  qed
qed

text \<open>A policy table that satisfies the invariant does so after every request, successful or not.\<close>

lemma triple_prod: "(\<And>a b. x = (a, b) \<Longrightarrow> triple I P (g a b) Q) \<Longrightarrow> triple I P (case x of (a, b) \<Rightarrow> g a b) Q"
  by (cases x) simp

lemma createChecked_ok:
  assumes ok: "env_ok e" and R: "policy_rows_ok R"
    and fresh: "inj (uuid_at e)" "\<And>n. uuid_at e n \<notin> p_id ` set R"
  shows "triple policies_ok (\<lambda>w. t_policy w = R) (createChecked e ps) (\<lambda>_. policies_ok)"
proof -
  have I: "t_policy w = R \<Longrightarrow> policies_ok w" for w using R by (simp add: policies_ok_def)
  note bind = triple_bind_keeps [where f = t_policy and c = R, OF _ I]
  have written: "triple policies_ok (\<lambda>w. t_policy w = R) (bindM (writePolicies e new upd) (\<lambda>_. returnM ids)) (\<lambda>_. policies_ok)"
    if w: "t_policy w = R" and keys: "distinct (map pol_key ps)"
      and g: "getCreateAndUpdatePolicy e ps (resourceTypeMapOf ps) nm w = (Inr (new, upd, ids), w')"
    for nm w new upd ids w'
  proof (rule triple_bindM)
    note created = merge_created [OF ok _ fresh(1) _ keys g, unfolded w, OF R fresh(2)]
    have "policies_ok v'" if v: "t_policy v = R" and run: "writePolicies e new upd v = (r, v')" for v r v'
    proof (cases "t_policy v' = t_policy v")
      case True
      then show ?thesis using v I by simp
    next
      case False
      then obtain t t' pk where "t_policy v' = map (updated_row t upd) (R @ newRows t' pk new)"
        using writePolicies_run [OF run created(1)] v by blast
      then show ?thesis using created(2) [of t t' pk] unfolding policies_ok_def createdTable_def by simp
    qed
    then show "triple policies_ok (\<lambda>w. t_policy w = R) (writePolicies e new upd) (\<lambda>_. policies_ok)"
      by (intro tripleI)
  qed (simp add: triple_return)
  have keys: "distinct (map pol_key ps)"
    if "foldM (createCheckStep e ops) ps ([], [], []) w = (Inr acc, w')" for ops w acc w'
    using createCheck_distinct [OF that] by simp
  show ?thesis
    unfolding createChecked_def
    by (rule bind triple_prod triple_if written triple_return keys
        | assumption | (intro keeps_intros; simp; fail) | (simp add: I; fail))+
qed

lemma policies_ok_transaction: "preserves policies_ok body \<Longrightarrow> preserves policies_ok (transaction e body)"
  unfolding preserves_def
proof (intro allI impI)
  fix w assume body: "\<forall>w. policies_ok w \<longrightarrow> policies_ok (snd (body w))" and w: "policies_ok w"
  obtain r w' where run: "transaction e body w = (r, w')" by (cases "transaction e body w")
  from transaction_cases [OF run] show "policies_ok (snd (transaction e body w))"
  proof (elim disjE exE conjE)
    assume "t_policy w' = t_policy w" then show ?thesis using w run by (simp add: policies_ok_def)
  next
    fix w1 assume "body (tock w) = (Inr (), w1)" "w' = tock w1"
    then show ?thesis using body [rule_format, of "tock w"] w run by simp
  qed
qed

lemma policies_ok_map_statement:
  assumes "\<And>r. p_id (g r) = p_id r \<and> policy_key (g r) = policy_key r"
  shows "preserves policies_ok (db_exec e (\<lambda>w. w\<lparr> t_policy := map g (t_policy w) \<rparr>))"
  by (intro preserves_intros)
    (use policy_rows_ok_map [OF _ assms] in \<open>simp_all add: policies_ok_def\<close>)

lemma policies_ok_delete_statement: "preserves policies_ok (db_exec e (delete_policies P))"
  by (intro preserves_intros) (simp_all add: policies_ok_def delete_policies_def policy_rows_ok_filter)

lemma policies_ok_statements:
  "preserves policies_ok (policy_Update e ps)"
  "preserves policies_ok (policy_Delete e ids)"
  "preserves policies_ok (policyLogic_DeleteByResourceIDs e rs)"
  "preserves policies_ok (deletePolicyByAccessorID e i)"
  "preserves policies_ok (updatePolicyAccessorName e i n)"
  "preserves policies_ok (policyLogic_updateAppName e a)"
  "preserves policies_ok (policyLogic_UpdateResourceName e i t n)"
  "preserves policies_ok (policyLogic_UpdateResourceAncestors e i t as)"
  "preserves policies_ok (policyLogic_DeleteByEndTime e tm)"
  unfolding policy_Update_def policy_Delete_def policyLogic_DeleteByResourceIDs_def
    deletePolicyByAccessorID_def updatePolicyAccessorName_def policyLogic_updateAppName_def
    policyLogic_UpdateResourceName_def policyLogic_UpdateResourceAncestors_def
    policyLogic_DeleteByEndTime_def policy_DeleteByResourceIDs_def policy_DeleteByAccessorIDs_def
    policy_UpdateAccessorName_def policy_UpdateResourceName_def policy_UpdateResourceAncestors_def
    policy_DeleteByEndTime_def
  by (rule preserves_bindM preserves_iterM preserves_if preserves_basic policies_ok_delete_statement
      policies_ok_map_statement | (rule policies_ok_keeps; intro keeps_intros; simp; fail)
      | (simp add: policy_key_def update_policy_row_def; fail))+

lemma policies_ok_requests:
  "preserves policies_ok (policyLogic_Update e v ps)" "preserves policies_ok (policyLogic_Delete e v ids)"
  unfolding policyLogic_Update_def policyLogic_Delete_def Let_def
  by (rule policies_ok_transaction policies_ok_statements preserves_bindM preserves_if preserves_basic
      | (rule policies_ok_keeps; intro keeps_intros; simp; fail))+

lemma policies_ok_create:
  assumes "env_ok e" "policies_ok w" "inj (uuid_at e)" "\<And>n. uuid_at e n \<notin> p_id ` set (t_policy w)"
  shows "policies_ok (snd (policyLogic_Create e v ps w))" "policies_ok (snd (policyLogic_CreatePrivate e ps w))"
proof -
  have R: "policy_rows_ok (t_policy w)" using assms(2) by (simp add: policies_ok_def)
  note created = createChecked_ok [OF assms(1) R assms(3,4), of ps]
  have I: "t_policy v = t_policy w \<Longrightarrow> policies_ok v" for v using R by (simp add: policies_ok_def)
  note bind = triple_bind_keeps [where f = t_policy and c = "t_policy w", OF _ I]
  have "triple policies_ok (\<lambda>v. t_policy v = t_policy w) (policyLogic_Create e v ps) (\<lambda>_. policies_ok)"
    unfolding policyLogic_Create_def
    by (rule bind triple_if created triple_return | (intro keeps_intros; simp; fail) | (simp add: I; fail))+
  then show "policies_ok (snd (policyLogic_Create e v ps w))" by (rule triple_snd) simp
  have "triple policies_ok (\<lambda>v. t_policy v = t_policy w) (policyLogic_CreatePrivate e ps) (\<lambda>_. policies_ok)"
    unfolding policyLogic_CreatePrivate_def
    by (rule triple_if triple_bindM [OF created] triple_return | (simp add: I; fail))+
  then show "policies_ok (snd (policyLogic_CreatePrivate e ps w))" by (rule triple_snd) simp
qed


section \<open>What merging does to the rules\<close>

definition unconditionalDeny :: "policy_info \<Rightarrow> string set" where
  "unconditionalDeny p = ope_ID ` set (firstUnconditional (rules_Deny (pol_Rules p)))"

definition unconditionalAllow :: "policy_info \<Rightarrow> string set" where
  "unconditionalAllow p = ope_ID ` set (firstUnconditional (rules_Allow (pol_Rules p)))"

definition idsWf :: "(string, operation_item) gomap \<Rightarrow> bool" where
  "idsWf m \<longleftrightarrow> mwf m \<and> (\<forall>i op. map_of m i = Some op \<longrightarrow> ope_ID op = i)"

lemma idsWf_fold:
  assumes "idsWf m"
  shows "idsWf (fold (\<lambda>op m. if P op m then m else mput (ope_ID op) op m) ops m)"
  using assms
proof (induction ops arbitrary: m)
  case (Cons op ops)
  have "idsWf (if P op m then m else mput (ope_ID op) op m)"
    using Cons.prems by (auto simp: idsWf_def)
  from Cons.IH [OF this] show ?case by simp
qed simp

lemma idsWf_maps:
  "idsWf (operationMap ops)" "idsWf (mergeDeny newDeny oldDeny)" "idsWf (mergeAllow d newAllow oldAllow)"
proof -
  have nil: "idsWf []" by (simp add: idsWf_def)
  have om: "idsWf (operationMap ops)" for ops
    using idsWf_fold [OF nil, of "\<lambda>_ _. False" ops] by (simp add: operationMap_def)
  then show "idsWf (operationMap ops)" .
  show "idsWf (mergeDeny newDeny oldDeny)"
    unfolding mergeDeny_def by (rule idsWf_fold) (rule om)
  have "mergeAllow d newAllow oldAllow =
      fold (\<lambda>op m. if map_of d (ope_ID op) \<noteq> None \<or> map_of m (ope_ID op) \<noteq> None then m else mput (ope_ID op) op m) oldAllow
       (fold (\<lambda>op m. if map_of d (ope_ID op) \<noteq> None then m else mput (ope_ID op) op m) newAllow [])"
    unfolding mergeAllow_def by (intro arg_cong2 [where f = "\<lambda>f. fold f oldAllow"] ext) auto
  then show "idsWf (mergeAllow d newAllow oldAllow)"
    using idsWf_fold [OF idsWf_fold [OF nil]] by simp
qed

lemma operationMap_in: "map_of (operationMap ops) i = Some op \<Longrightarrow> op \<in> set ops"
  using map_of_fold_mput [where key = ope_ID and val = "\<lambda>op. op" and xs = ops and m = "[]" and k = i]
  by (auto simp: operationMap_def split: option.splits dest!: find_SomeD)

lemma dom_merge:
  "dom (map_of (operationMap ops)) = ope_ID ` set ops"
  "dom (map_of (mergeDeny newDeny oldDeny)) = ope_ID ` set newDeny \<union> ope_ID ` set oldDeny"
  "dom (map_of (mergeAllow d newAllow oldAllow)) =
     (ope_ID ` set newAllow \<union> ope_ID ` set oldAllow) - dom (map_of d)"
proof -
  have om: "dom (map_of (fold (\<lambda>op. mput (ope_ID op) op) ops m)) = ope_ID ` set ops \<union> dom (map_of m)"
    for ops :: "operation_item list" and m
    by (induction ops arbitrary: m) auto
  then show o': "dom (map_of (operationMap ops)) = ope_ID ` set ops" for ops by (simp add: operationMap_def)
  have "dom (map_of (fold (\<lambda>deny m. if map_of m (ope_ID deny) \<noteq> None then m else mput (ope_ID deny) deny m) ops m)) =
      dom (map_of m) \<union> ope_ID ` set ops" for ops :: "operation_item list" and m
    by (induction ops arbitrary: m) auto
  then show "dom (map_of (mergeDeny newDeny oldDeny)) = ope_ID ` set newDeny \<union> ope_ID ` set oldDeny"
    by (simp add: mergeDeny_def o')
  have f1: "dom (map_of (fold (\<lambda>allow m. if map_of d (ope_ID allow) \<noteq> None then m
      else mput (ope_ID allow) allow m) ops m)) = dom (map_of m) \<union> (ope_ID ` set ops - dom (map_of d))"
    for ops :: "operation_item list" and m
    by (induction ops arbitrary: m) auto
  have f2: "dom (map_of (fold (\<lambda>allow m. if map_of d (ope_ID allow) \<noteq> None then m
      else if map_of m (ope_ID allow) \<noteq> None then m else mput (ope_ID allow) allow m) ops m)) =
      dom (map_of m) \<union> (ope_ID ` set ops - dom (map_of d))" for ops :: "operation_item list" and m
    by (induction ops arbitrary: m) auto
  show "dom (map_of (mergeAllow d newAllow oldAllow)) =
     (ope_ID ` set newAllow \<union> ope_ID ` set oldAllow) - dom (map_of d)"
    unfolding mergeAllow_def f1 f2 by (simp add: Un_Diff)
qed

lemma range_ids:
  assumes "key_order ord" "idsWf m"
  shows "ope_ID ` set (map snd (range_map ord m)) = dom (map_of m)"
    and "set (map snd (range_map ord m)) = {op. map_of m (ope_ID op) = Some op}"
proof -
  have ids: "map_of m i = Some op \<Longrightarrow> ope_ID op = i" for i op using assms(2) by (simp add: idsWf_def)
  have vals: "set (map snd (range_map ord m)) = {op. \<exists>i. map_of m i = Some op}"
    unfolding set_map set_range_map [OF assms(1)] by force
  then show "set (map snd (range_map ord m)) = {op. map_of m (ope_ID op) = Some op}"
    using ids by auto
  show "ope_ID ` set (map snd (range_map ord m)) = dom (map_of m)"
    unfolding vals using ids by (force simp: image_iff)
qed

lemma firstUnconditional_merge:
  "firstUnconditional (unconditionalRule ops @ conditionalRules items) = ops"
proof -
  have "find (\<lambda>item. isConditionEmpty (rule_Condition item)) (conditionalRules items) = None"
    by (auto simp: find_None_iff conditionalRules_def)
  then show ?thesis
    by (simp add: firstUnconditional_def unconditionalRule_def isConditionEmpty_def)
qed

lemma conditionalRules_merge:
  "conditionalRules (unconditionalRule ops @ conditionalRules items) = conditionalRules items"
  by (simp add: conditionalRules_def unconditionalRule_def isConditionEmpty_def)

lemma mergeNewPolicy_rules:
  "rules_Allow (pol_Rules (mergeNewPolicy e old p)) =
     unconditionalRule (map snd (range_map (map_order e)
       (mergeAllow (mergeDeny (firstUnconditional (rules_Deny (pol_Rules p))) (firstUnconditional (rules_Deny (pol_Rules old))))
         (firstUnconditional (rules_Allow (pol_Rules p))) (firstUnconditional (rules_Allow (pol_Rules old))))))
     @ conditionalRules (rules_Allow (pol_Rules old))"
  "rules_Deny (pol_Rules (mergeNewPolicy e old p)) =
     unconditionalRule (map snd (range_map (map_order e)
       (mergeDeny (firstUnconditional (rules_Deny (pol_Rules p))) (firstUnconditional (rules_Deny (pol_Rules old))))))
     @ conditionalRules (rules_Deny (pol_Rules old))"
  by (simp_all add: mergeNewPolicy_def getPolicyNoConditionOperations_def Let_def conditionalRules_def)

lemma fold_keeps_entry:
  assumes "\<And>a m. map_of m i = Some x \<Longrightarrow> map_of (f a m) i = Some x" "map_of m i = Some x"
  shows "map_of (fold f as m) i = Some x"
  using assms(2) by (induction as arbitrary: m) (simp_all add: assms(1))

lemma mergeDeny_new:
  "map_of (operationMap newDeny) i = Some op \<Longrightarrow> map_of (mergeDeny newDeny oldDeny) i = Some op"
  unfolding mergeDeny_def by (rule fold_keeps_entry) (auto split: if_splits)

lemma mergeAllow_new:
  assumes "map_of (operationMap newAllow) i = Some op" "map_of d i = None"
  shows "map_of (mergeAllow d newAllow oldAllow) i = Some op"
proof -
  have "map_of (fold (\<lambda>allow m. if map_of d (ope_ID allow) \<noteq> None then m else mput (ope_ID allow) allow m) ops m) i =
      map_of (fold (\<lambda>op. mput (ope_ID op) op) ops m') i"
    if "map_of m i = map_of m' i" for ops and m m' :: "(string, operation_item) gomap"
    using that
  proof (induction ops arbitrary: m m')
    case (Cons a ops)
    have "map_of (if map_of d (ope_ID a) \<noteq> None then m else mput (ope_ID a) a m) i = map_of (mput (ope_ID a) a m') i"
      using Cons.prems assms(2) by auto
    from Cons.IH [OF this] show ?case by simp
  qed simp
  from this [of "[]" "[]" newAllow] assms(1)
  have "map_of (fold (\<lambda>allow m. if map_of d (ope_ID allow) \<noteq> None then m
      else mput (ope_ID allow) allow m) newAllow []) i = Some op"
    by (simp add: operationMap_def)
  then show ?thesis unfolding mergeAllow_def by (rule fold_keeps_entry [rotated]) (auto split: if_splits)
qed

lemma calcMinEndTime_expiry:
  "(calcMinEndTime a b \<noteq> -1 \<and> calcMinEndTime a b < t) \<longleftrightarrow> (a \<noteq> -1 \<and> a < t) \<or> (b \<noteq> -1 \<and> b < t)"
  by (auto simp: calcMinEndTime_def)

end
