(* ===== verification/ObligationFacts.thy ===== *)
theory ObligationFacts
  imports Obligations
begin

text \<open>
  Results about obligation types and obligations: which types a query returns for an
  operation, what an accepted obligation satisfies, and how a scope without operations
  makes a stored obligation type unreadable.
\<close>

section \<open>Obligation types of an operation\<close>

definition applies :: "string \<Rightarrow> string \<Rightarrow> obligation_type_info \<Rightarrow> bool" where
  "applies rt op t \<longleftrightarrow>
     obs_Unlimited (oti_ResourceTypeScope t) \<or>
     (case find (\<lambda>s. ots_ResourceTypeID s = rt) (obs_Types (oti_ResourceTypeScope t)) of
        None \<Rightarrow> False
      | Some s \<Rightarrow> oos_Unlimited (ots_OperationsScope s) \<or>
                  op \<in> obo_ID ` set (oos_Operations (ots_OperationsScope s)))"

text \<open>No scope of the type names an operation twice.\<close>

definition scopes_distinct :: "obligation_type_info \<Rightarrow> bool" where
  "scopes_distinct t \<longleftrightarrow>
     (\<forall>s\<in>set (obs_Types (oti_ResourceTypeScope t)).
        distinct (map obo_ID (oos_Operations (ots_OperationsScope s))))"

lemma mlist_addToAll:
  "distinct ids \<Longrightarrow> mlist (addToAll ids t m) op = mlist m op @ (if op \<in> set ids then [t] else [])"
  unfolding addToAll_def by (induction ids arbitrary: m) (auto simp: mlist_mappend)

lemma mlist_addMatching1:
  "distinct ids \<Longrightarrow>
     mlist (fold (\<lambda>operation m. if i = operation then mappend operation [t] m else m) ids m) op =
     mlist m op @ (if op = i \<and> op \<in> set ids then [t] else [])"
  by (induction ids arbitrary: m) (auto simp: mlist_mappend)

lemma mlist_addToMatching:
  assumes "distinct ids" "distinct (map obo_ID ops)"
  shows "mlist (addToMatching ids ops t m) op =
    mlist m op @ (if op \<in> set ids \<and> op \<in> obo_ID ` set ops then [t] else [])"
  using assms(2) unfolding addToMatching_def
proof (induction ops arbitrary: m)
  case (Cons x ops)
  then show ?case by (auto simp: mlist_addMatching1 [OF assms(1)])
qed simp

lemma mlist_operationSetStep:
  assumes "distinct ids" "op \<in> set ids" "scopes_distinct t"
  shows "mlist (operationSetStep rt ids t m) op = mlist m op @ filter (applies rt op) [t]"
proof (cases "find (\<lambda>s. ots_ResourceTypeID s = rt) (obs_Types (oti_ResourceTypeScope t))")
  case None
  then show ?thesis
    using assms by (simp add: operationSetStep_def applies_def mlist_addToAll)
next
  case (Some s)
  then have "distinct (map obo_ID (oos_Operations (ots_OperationsScope s)))"
    using assms(3) find_SomeD [OF Some] by (auto simp: scopes_distinct_def)
  then show ?thesis
    using Some assms by (simp add: operationSetStep_def applies_def mlist_addToAll mlist_addToMatching)
qed

lemma getOperationSet_filter:
  assumes "distinct ids" "op \<in> set ids" "\<forall>t\<in>set ts. scopes_distinct t"
  shows "mlist (getOperationSet rt ids ts) op = filter (applies rt op) ts"
proof -
  have "mlist (fold (operationSetStep rt ids) ts m) op = mlist m op @ filter (applies rt op) ts" for m
    using assms(3)
    by (induction ts arbitrary: m) (auto simp: mlist_operationSetStep [OF assms(1,2)])
  moreover have "mlist (fold (\<lambda>operation. mput operation []) xs m) op = []" if "mlist m op = []"
    for xs and m :: "(string, obligation_type_info list) gomap"
    using that by (induction xs arbitrary: m) (auto simp: mlist_def)
  ultimately show ?thesis by (simp add: getOperationSet_def)
qed


section \<open>Unreadable obligation types\<close>

lemma mapE_error:
  assumes "x \<in> set xs" "f x = Inl er"
  shows "\<exists>er. mapE f xs = Inl er"
  using assms by (induction xs) (auto simp: bindE_def split: sum.splits)

text \<open>A row whose scope cannot be read.\<close>

definition unreadable_row :: "obligation_type_row \<Rightarrow> bool" where
  "unreadable_row r \<longleftrightarrow> (\<exists>er. scan_obligation_type r = Inl er)"

lemma obtDB_Set_unreadable:
  assumes "obtDB_Set e info w = (Inr (), w')" "\<not> readable_scope (oti_ResourceTypeScope info)"
  shows "\<exists>r\<in>set (t_obligation_type w'). unreadable_row r"
proof (cases "list_ex (\<lambda>r. ot_id r = oti_ID info) (t_obligation_type w)")
  case True
  then obtain r where r: "r \<in> set (t_obligation_type w)" "ot_id r = oti_ID info"
    by (auto simp: list_ex_iff)
  have "t_obligation_type w' =
      map (update_obligation_type_row (now_at e (tick w)) info) (t_obligation_type w)"
    using assms(1) True by (auto simp: obtDB_Set_def bindM_Inr_iff)
  moreover have "unreadable_row (update_obligation_type_row (now_at e (tick w)) info r)"
    using assms(2) r(2)
    by (simp add: unreadable_row_def scan_obligation_type_def update_obligation_type_row_def
        ob_scope_roundtrip)
  ultimately show ?thesis using r(1) by auto
next
  case False
  then have "w' = insert_obligation_type (now_at e (tick w)) info (tock (tock (tock w)))"
    using assms(1) by (auto simp: obtDB_Set_def bindM_Inr_iff)
  then show ?thesis
    using assms(2) by (simp add: insert_obligation_type_def unreadable_row_def
        scan_obligation_type_def ob_scope_roundtrip)
qed

lemma GetAll_unreadable:
  assumes "r \<in> set (t_obligation_type w)" "unreadable_row r"
  shows "\<exists>er. fst (obtDB_GetAll e w) = Inl er"
proof -
  have "\<exists>er. mapE scan_obligation_type (sort_key (\<lambda>r. - ot_modified_at r) (t_obligation_type w)) = Inl er"
    using assms unfolding unreadable_row_def by (elim exE, intro mapE_error [of r]) simp_all
  then show ?thesis by (auto simp: obtDB_GetAll_def db_query_def split: fault.splits)
qed

lemma bindM_not_Inr:
  assumes "\<And>x s'. m s = (Inr x, s') \<Longrightarrow> \<exists>er. fst (f x s') = Inl er"
  shows "\<exists>er. fst (bindM m f s) = Inl er"
  using assms by (cases rule: bindM_cases [of m s f]) auto

lemma Query_unreadable:
  assumes "r \<in> set (t_obligation_type w)" "unreadable_row r"
  shows "\<exists>er. fst (obligationType_Query e q w) = Inl er"
  unfolding obligationType_Query_def
proof (rule bindM_not_Inr)
  fix m w1 assume "resourceType_GetByIDsInternal e [qot_ResourceType q] w = (Inr m, w1)"
  then have w1: "t_obligation_type w1 = t_obligation_type w"
    by (rule keepsD [OF keeps_resourceType_reads(1), rotated]) simp
  have all: "\<exists>er. fst (bindM (obtDB_GetAll e) f v) = Inl er"
    if "t_obligation_type v = t_obligation_type w" for v and f :: "_ \<Rightarrow> (string, obligation_type_info list) gomap op"
    using GetAll_unreadable [of r v e] assms that
    by (intro bindM_not_Inr) (auto simp: prod_eq_iff)
  show "\<exists>er. fst ((if length m \<noteq> 1 then throwM PublicBadRequest
       else
         (let resourceTypeInfo =
            (case map_of m (qot_ResourceType q) of None \<Rightarrow> zero_resource_type | Some t \<Rightarrow> t) in
          bindM (if qot_Operation q = []
                 then returnM (map rto_ID (rt_Operation resourceTypeInfo))
                 else if list_ex (\<lambda>operation. \<not> mtrue (operationMapOf resourceTypeInfo) operation)
                           (qot_Operation q)
                 then throwM PublicBadRequest
                 else returnM (qot_Operation q)) (\<lambda>operations.
          bindM (obtDB_GetAll e) (\<lambda>allObligationTypes.
            returnM (getOperationSet (qot_ResourceType q) operations allObligationTypes))))) w1) = Inl er"
    using all [OF w1] by (simp add: Let_def)
qed


section \<open>Accepted obligations\<close>

lemma GetByIDSInternal_single:
  assumes "env_ok e" "obligationType_GetByIDSInternal e (mset_true i []) w = (Inr infos, w')"
  shows "w' = tock w \<and> list_all2 (\<lambda>r info. scan_obligation_type r = Inr info)
    (filter (\<lambda>r. ot_id r = i) (t_obligation_type w)) infos"
proof -
  have "map fst (range_map (map_order e) (mset_true i [])) = [i]"
    using assms(1) by (simp add: map_fst_range_map mset_true_def key_order_single)
  then show ?thesis
    using assms(2) by (auto simp: obligationType_GetByIDSInternal_def obtDB_GetByIDs_def mapE_Inr_iff)
qed

lemma obligation_Add_checked:
  assumes "env_ok e" "obligation_Add e v info w = (Inr i, w')"
  obtains r t where "r \<in> set (t_obligation_type w)" "ot_id r = obi_TypeID info"
    "jsonschema_NewSchema e (ot_schema r)" "jsonschema_Validate e (ot_schema r) (obi_Value info) = Some True"
    "t_obligation w' = t_obligation w @ [\<lparr> o_primary_id = next_id w, o_id = i,
       o_type_id = obi_TypeID info, o_name = obi_Name info, o_description = obi_Description info,
       o_value = obi_Value info, o_created_at = t, o_modified_at = t \<rparr>]"
proof -
  obtain infos w1 where
    get: "obligationType_GetByIDSInternal e (mset_true (obi_TypeID info) []) w = (Inr infos, w1)"
    and rest: "(case infos of [] \<Rightarrow> throwM PublicBadRequest
       | typeInfo # _ \<Rightarrow>
           bindM (liftE (checkJsonValueValid e (oti_Schema typeInfo) (obi_Value info))) (\<lambda>_.
           bindM (newUUID e) (\<lambda>i.
           bindM (obDB_Add e (info\<lparr> obi_ID := i \<rparr>)) (\<lambda>_.
             returnM i)))) w1 = (Inr i, w')"
    using assms(2) [unfolded obligation_Add_def obligation_guard.guarded_Inr, THEN conjunct2]
    by (rule bindM_InrE)
  from rest obtain ti tis where infos: "infos = ti # tis" by (cases infos) auto
  note run = GetByIDSInternal_single [OF assms(1) get]
  then obtain r rs where rows: "filter (\<lambda>r. ot_id r = obi_TypeID info) (t_obligation_type w) = r # rs"
    and scan: "scan_obligation_type r = Inr ti"
    by (auto simp: infos list_all2_Cons2)
  then have r: "r \<in> set (t_obligation_type w)" "ot_id r = obi_TypeID info"
    using filter_eq_ConsD [OF rows] by auto
  have schema: "oti_Schema ti = ot_schema r"
    using scan by (auto simp: scan_obligation_type_def bindE_Inr_iff)
  show ?thesis
    by (rule that [OF r])
      (use rest run in \<open>auto simp: infos schema bindM_Inr_iff checkJsonValueValid_def obDB_Add_def
         split: if_splits option.splits bool.splits\<close>)
qed

end
