(* ===== verification/MessageQueue.thy ===== *)
theory MessageQueue
  imports Policies
begin

text \<open>
  The messages of other services (\<open>driveradapters/mq_handler.go\<close>), the consumers that
  deliver them (\<open>proton-mq-sdk-go\<close>) and the cleaning thread (\<open>driveradapters/timer.go\<close>).
  A handler that returns an error asks for the message to be delivered again.
\<close>

section \<open>Checking a JSON value\<close>

text \<open>
  \<open>go-lib/rest/check_req.go\<close>.  All errors are the same bad request, so the order in which
  the fields of a description are visited does not matter; the flag \<open>Exist\<close>, which the
  callers here do not read, is left out.
\<close>

datatype json_kind = KindInvalid | KindBool | KindFloat64 | KindString | KindSlice | KindMap

primrec kindOf :: "json \<Rightarrow> json_kind" where
  "kindOf JNull = KindInvalid"
| "kindOf (JBool b) = KindBool"
| "kindOf (JNum n) = KindFloat64"
| "kindOf (JStr s) = KindString"
| "kindOf (JArr xs) = KindSlice"
| "kindOf (JObj kvs) = KindMap"

datatype json_desc = JSONValueDesc (desc_Kind: json_kind) (desc_Required: bool)
  (desc_Value: "(string \<times> json_desc) list")

lemma size_element_desc:
  "map_of vd k = Some d \<Longrightarrow> size d < Suc (size_list (size_prod (\<lambda>_. 0) size) vd)"
proof (induction vd)
  case (Cons kd vd)
  then show ?case by (cases kd) (auto split: if_splits)
qed simp

function (sequential) CheckJSONValue :: "json_desc \<Rightarrow> json \<Rightarrow> err + unit"
  and checkJSONFields :: "(string \<times> json) list \<Rightarrow> (string \<times> json_desc) list \<Rightarrow> err + unit" where
  "CheckJSONValue (JSONValueDesc kind required vd) v =
     (if kindOf v \<noteq> kind then Inl PublicBadRequest
      else (case v of
          JObj obj \<Rightarrow> checkJSONFields obj vd
        | JArr arr \<Rightarrow>
            (case map_of vd ''element'' of
               None \<Rightarrow> if arr = [] then Inr () else Inl Panic
             | Some d \<Rightarrow> foldE (\<lambda>x _. CheckJSONValue d x) arr ())
        | _ \<Rightarrow> Inr ()))"
| "checkJSONFields obj [] = Inr ()"
| "checkJSONFields obj ((k, d) # ds) =
     bindE (case map_of obj k of
              Some v \<Rightarrow> CheckJSONValue d v
            | None \<Rightarrow> if desc_Required d then Inl PublicBadRequest else Inr ())
       (\<lambda>_. checkJSONFields obj ds)"
  by pat_completeness auto

termination
  by (relation "measure (\<lambda>x. case x of Inl (d, _) \<Rightarrow> size d
      | Inr (_, ds) \<Rightarrow> size_list (size_prod (\<lambda>_. 0) size) ds)")
    (auto dest: size_element_desc)


section \<open>The content of a message\<close>

text \<open>
  The JSON decoder is a parameter: \<open>decode\<close> reads any value, \<open>decode_dept\<close> the struct
  \<open>deptDeleteMsg\<close>; \<open>None\<close> is a message that cannot be decoded.
\<close>

record codec =
  decode :: "string \<Rightarrow> json option"
  decode_dept :: "string \<Rightarrow> string option"

definition stringField :: json_desc where
  "stringField = JSONValueDesc KindString True []"

definition requireStrings :: "string list \<Rightarrow> json_desc" where
  "requireStrings ks = JSONValueDesc KindMap True (map (\<lambda>k. (k, stringField)) ks)"

definition decoded :: "codec \<Rightarrow> string \<Rightarrow> err + json" where
  "decoded c msg = (case decode c msg of None \<Rightarrow> Inl PublicBadRequest | Some v \<Rightarrow> Inr v)"

definition strField :: "json \<Rightarrow> string \<Rightarrow> err + string" where
  "strField v k = bindE (as_obj v) (\<lambda>obj. as_str (jfield obj k))"

definition StrToAccessorTypeMap :: "(string, accessor_type) gomap" where
  "StrToAccessorTypeMap =
     [(''user'', AccessorUser), (''department'', AccessorDepartment), (''contactor'', AccessorContactor),
      (''anonymoususer'', AccessorAnonymous), (''group'', AccessorGroup)]"

definition getNameUpdateParamsInNsqMsg :: "codec \<Rightarrow> string \<Rightarrow> err + string \<times> string \<times> accessor_type" where
  "getNameUpdateParamsInNsqMsg c msg =
     bindE (decoded c msg) (\<lambda>v.
     bindE (CheckJSONValue (requireStrings [''id'', ''new_name'', ''type'']) v) (\<lambda>_.
     bindE (strField v ''type'') (\<lambda>strType.
       if strType \<noteq> ''user'' \<and> strType \<noteq> ''group'' \<and> strType \<noteq> ''department'' \<and> strType \<noteq> ''contactor''
       then Inl PublicBadRequest
       else
         (let orgType = (case map_of StrToAccessorTypeMap strType of None \<Rightarrow> AccessorUnset | Some t \<Rightarrow> t) in
          bindE (strField v ''id'') (\<lambda>i. bindE (strField v ''new_name'') (\<lambda>name. Inr (i, name, orgType)))))))"

definition getIDInNsqMsg :: "codec \<Rightarrow> string \<Rightarrow> err + string" where
  "getIDInNsqMsg c msg =
     bindE (decoded c msg) (\<lambda>v.
     bindE (CheckJSONValue (requireStrings [''id'']) v) (\<lambda>_. strField v ''id''))"

definition getGroupDeleteParamsInNsqMsq :: "codec \<Rightarrow> string \<Rightarrow> err + string" where
  "getGroupDeleteParamsInNsqMsq c msg =
     bindE (decoded c msg) (\<lambda>v.
     bindE (CheckJSONValue (requireStrings [''id'']) v) (\<lambda>_. strField v ''id''))"

definition getAppInfoInNsqMsg :: "codec \<Rightarrow> string \<Rightarrow> err + app_info" where
  "getAppInfoInNsqMsg c msg =
     bindE (decoded c msg) (\<lambda>v.
     bindE (CheckJSONValue (requireStrings [''id'', ''new_name'']) v) (\<lambda>_.
     bindE (strField v ''id'') (\<lambda>i. bindE (strField v ''new_name'') (\<lambda>n.
       Inr \<lparr> app_ID = i, app_Name = n \<rparr>))))"

text \<open>The two schemas of \<open>jsonschema/policy\<close>, and the check against a schema (\<open>driveradapters/json.go\<close>).\<close>

definition typeString :: json where
  "typeString = JObj [(''type'', JStr ''string'')]"

definition resourceNameModifySchema :: json where
  "resourceNameModifySchema = JObj
     [(''required'', JArr [JStr ''id'', JStr ''name'', JStr ''type'']),
      (''type'', JStr ''object''),
      (''properties'', JObj [(''id'', typeString), (''name'', typeString), (''type'', typeString)])]"

definition resourceAncestorsModifySchema :: json where
  "resourceAncestorsModifySchema = JObj
     [(''required'', JArr [JStr ''id'', JStr ''type'', JStr ''ancestors'']),
      (''type'', JStr ''object''),
      (''properties'', JObj [(''id'', typeString), (''type'', typeString),
         (''ancestors'', JObj [(''type'', JStr ''array''),
            (''items'', JObj [(''type'', JStr ''object''),
               (''required'', JArr [JStr ''id'', JStr ''type'', JStr ''name'']),
               (''properties'', JObj [(''id'', typeString), (''type'', typeString), (''name'', typeString)])])])])]"

definition validateAndBind :: "env \<Rightarrow> codec \<Rightarrow> json \<Rightarrow> string \<Rightarrow> err + (string \<times> json) list" where
  "validateAndBind e c schema msg =
     (case decode c msg of
        None \<Rightarrow> Inl PublicBadRequest
      | Some v \<Rightarrow>
          (case jsonschema_Validate e schema v of
             None \<Rightarrow> Inl PublicBadRequest
           | Some valid \<Rightarrow> if valid then unmarshal_map v else Inl PublicBadRequest))"


section \<open>Handlers\<close>

text \<open>
  Errors of this service carry a code: those of a caller (bad request, forbidden, not found,
  conflict) are not retried.  An error of the database has no code and is.  Whether the error
  of another service is an internal one is up to that service (\<open>drivenInternal\<close>).
\<close>

definition needReTry :: "bool \<Rightarrow> err \<Rightarrow> bool" where
  "needReTry drivenInternal er =
     (case er of
        DBError \<Rightarrow> True
      | DrivenError \<Rightarrow> drivenInternal
      | _ \<Rightarrow> False)"

text \<open>
  The end of every handler: an error that is worth a retry is returned, another is dropped.
  A panic is no error value; it goes through.
\<close>

definition retryable :: "bool \<Rightarrow> unit op \<Rightarrow> unit op" where
  "retryable di m w =
     (case m w of
        (Inr u, w') \<Rightarrow> (Inr u, w')
      | (Inl er, w') \<Rightarrow> if er = Panic \<or> needReTry di er then (Inl er, w') else (Inr (), w'))"

text \<open>A message that cannot be read is logged and acknowledged.\<close>

definition onMessage :: "bool \<Rightarrow> err + 'a \<Rightarrow> ('a \<Rightarrow> unit op) \<Rightarrow> unit op" where
  "onMessage di params f =
     (case params of
        Inl Panic \<Rightarrow> throwM Panic
      | Inl _ \<Rightarrow> returnM ()
      | Inr x \<Rightarrow> retryable di (f x))"

definition updateOrgName :: "bool \<Rightarrow> codec \<Rightarrow> event \<Rightarrow> string \<Rightarrow> unit op" where
  "updateOrgName di c ev msg =
     onMessage di (getNameUpdateParamsInNsqMsg c msg) (\<lambda>(i, name, orgType). OrgNameModified ev i name orgType)"

definition userGroupDeleted :: "bool \<Rightarrow> codec \<Rightarrow> event \<Rightarrow> string \<Rightarrow> unit op" where
  "userGroupDeleted di c ev msg = onMessage di (getGroupDeleteParamsInNsqMsq c msg) (UserGroupDeleted ev)"

definition deptDelete :: "bool \<Rightarrow> codec \<Rightarrow> event \<Rightarrow> string \<Rightarrow> unit op" where
  "deptDelete di c ev msg =
     onMessage di (case decode_dept c msg of None \<Rightarrow> Inl PublicBadRequest | Some i \<Rightarrow> Inr i)
       (DepartmentDeleted ev)"

definition mq_userDeleted :: "bool \<Rightarrow> codec \<Rightarrow> event \<Rightarrow> string \<Rightarrow> unit op" where
  "mq_userDeleted di c ev msg = onMessage di (getIDInNsqMsg c msg) (UserDeleted ev)"

definition mq_updateResourceName :: "bool \<Rightarrow> codec \<Rightarrow> env \<Rightarrow> string \<Rightarrow> unit op" where
  "mq_updateResourceName di c e msg =
     onMessage di (bindE (validateAndBind e c resourceNameModifySchema msg) (\<lambda>jsonV.
         bindE (as_str (jfield jsonV ''id'')) (\<lambda>resourceID.
         bindE (as_str (jfield jsonV ''type'')) (\<lambda>resourceType.
         bindE (as_str (jfield jsonV ''name'')) (\<lambda>resourceName.
           Inr (resourceID, resourceType, resourceName))))))
       (\<lambda>(resourceID, resourceType, resourceName).
          policyLogic_UpdateResourceName e resourceID resourceType resourceName)"

definition ancestorOfJson :: "json \<Rightarrow> err + ancestor" where
  "ancestorOfJson a =
     bindE (as_obj a) (\<lambda>am.
     bindE (as_str (jfield am ''id'')) (\<lambda>i.
     bindE (as_str (jfield am ''type'')) (\<lambda>t.
     bindE (as_str (jfield am ''name'')) (\<lambda>n.
       Inr \<lparr> anc_ID = i, anc_Type = t, anc_Name = n \<rparr>))))"

definition mq_updateResourceAncestors :: "bool \<Rightarrow> codec \<Rightarrow> env \<Rightarrow> string \<Rightarrow> unit op" where
  "mq_updateResourceAncestors di c e msg =
     onMessage di (bindE (validateAndBind e c resourceAncestorsModifySchema msg) (\<lambda>jsonV.
         bindE (as_str (jfield jsonV ''id'')) (\<lambda>resourceID.
         bindE (as_str (jfield jsonV ''type'')) (\<lambda>resourceType.
         bindE (as_arr (jfield jsonV ''ancestors'')) (\<lambda>ancestorsAny.
         bindE (mapE ancestorOfJson ancestorsAny) (\<lambda>ancestors.
           Inr (resourceID, resourceType, ancestors)))))))
       (\<lambda>(resourceID, resourceType, ancestors).
          policyLogic_UpdateResourceAncestors e resourceID resourceType ancestors)"

definition mq_appDeleted :: "bool \<Rightarrow> codec \<Rightarrow> event \<Rightarrow> string \<Rightarrow> unit op" where
  "mq_appDeleted di c ev msg = onMessage di (getIDInNsqMsg c msg) (AppDeleted ev)"

definition mq_appNameModified :: "bool \<Rightarrow> codec \<Rightarrow> event \<Rightarrow> string \<Rightarrow> unit op" where
  "mq_appNameModified di c ev msg = onMessage di (getAppInfoInNsqMsg c msg) (AppNameModified ev)"

text \<open>The topics the service subscribes to.\<close>

definition topicFuncMap :: "bool \<Rightarrow> codec \<Rightarrow> env \<Rightarrow> event \<Rightarrow> (string, string \<Rightarrow> unit op) gomap" where
  "topicFuncMap di c e ev =
     [(''core.user.delete'', mq_userDeleted di c ev),
      (''core.dept.delete'', deptDelete di c ev),
      (''core.group.delete'', userGroupDeleted di c ev),
      (''core.app.deleted'', mq_appDeleted di c ev),
      (''core.org.name.modify'', updateOrgName di c ev),
      (''core.app.name.modified'', mq_appNameModified di c ev),
      (''authorization.resource.name.modify'', mq_updateResourceName di c e),
      (''authorization.resource.ancestors.modify'', mq_updateResourceAncestors di c e)]"


section \<open>Delivery\<close>

text \<open>
  What \<open>Sub\<close> of \<open>nsqclient.go\<close> asks of the NSQ consumer: the handler is called for a
  message, an error it returns requeues the message, and after \<open>cfg.MaxAttempts\<close> calls the
  message is given up.  The requeueing is the documented behaviour of the consumer.
\<close>

definition MaxAttempts :: nat where
  "MaxAttempts = 65535"

primrec nsq_deliver :: "nat \<Rightarrow> unit op \<Rightarrow> unit op" where
  "nsq_deliver 0 handler = throwM DBError"
| "nsq_deliver (Suc n) handler =
     (\<lambda>w. case handler w of
        (Inr u, w') \<Rightarrow> (Inr u, w')
      | (Inl er, w') \<Rightarrow> if er = Panic then (Inl er, w') else nsq_deliver n handler w')"

text \<open>
  Kafka (\<open>kafkaclient.go\<close>) reads the messages of a partition in order.  A message whose
  handler fails is not committed, but the loop goes on with the next one; committing a
  message moves the offset of the group behind it.  \<open>commit_ok\<close>: whether the commit works.
\<close>

definition kafka_step :: "(nat \<Rightarrow> bool) \<Rightarrow> (string \<Rightarrow> unit op) \<Rightarrow> nat \<times> string \<Rightarrow> nat \<Rightarrow> nat op" where
  "kafka_step commit_ok handler msg offset w =
     (case msg of (k, body) \<Rightarrow>
        (case handler body w of
           (Inr _, w') \<Rightarrow> (Inr (if commit_ok k then Suc k else offset), w')
         | (Inl er, w') \<Rightarrow> if er = Panic then (Inl er, w') else (Inr offset, w')))"

definition kafka_consume :: "(nat \<Rightarrow> bool) \<Rightarrow> (string \<Rightarrow> unit op) \<Rightarrow> (nat \<times> string) list \<Rightarrow> nat \<Rightarrow> nat op" where
  "kafka_consume commit_ok handler msgs offset = foldM (kafka_step commit_ok handler) msgs offset"


section \<open>The cleaning thread\<close>

text \<open>One round of \<open>StartCleanThread\<close>; an error is only logged.\<close>

definition cleanRound :: "env \<Rightarrow> unit op" where
  "cleanRound e =
     bindM (getTime e) (\<lambda>curTime.
     bindM (tryM (policyLogic_DeleteByEndTime e curTime)) (\<lambda>_. returnM ()))"

section \<open>Messages that are retried until they are handled\<close>

text \<open>
  The contract of a handler whose work is done once it returns without an error, and that
  returns one only when a statement failed.  Such a message is handled as long as fewer
  statements fail than there are attempts.
\<close>

locale retried =
  fixes e :: env and handler :: "unit op" and settled :: "world \<Rightarrow> bool"
  assumes settles: "handler w = (Inr (), w') \<Longrightarrow> settled w'"
    and fails: "handler w = (Inl er, w') \<Longrightarrow>
      er \<noteq> Panic \<and> (\<exists>n. tick w \<le> n \<and> n < tick w' \<and> fault_at e n \<noteq> NoFault)"
begin

lemma delivered:
  assumes "finite {n. tick w \<le> n \<and> fault_at e n \<noteq> NoFault}"
    and "card {n. tick w \<le> n \<and> fault_at e n \<noteq> NoFault} < k"
  shows "\<exists>w'. nsq_deliver k handler w = (Inr (), w') \<and> settled w'"
  using assms
proof (induction k arbitrary: w)
  case (Suc k)
  let ?faults = "\<lambda>w. {n. tick w \<le> n \<and> fault_at e n \<noteq> NoFault}"
  obtain r w1 where run: "handler w = (r, w1)" by (cases "handler w")
  show ?case
  proof (cases r)
    case (Inr u)
    then show ?thesis using run settles [of w w1] by simp
  next
    case (Inl er)
    with run fails obtain n where n: "er \<noteq> Panic" "tick w \<le> n" "n < tick w1" "fault_at e n \<noteq> NoFault" by blast
    have "?faults w1 \<subseteq> ?faults w" using n by auto
    moreover have "n \<in> ?faults w" "n \<notin> ?faults w1" using n by simp_all
    ultimately have sub: "?faults w1 \<subset> ?faults w" by blast
    then have "finite (?faults w1)" using Suc.prems(1) finite_subset by blast
    moreover have "card (?faults w1) < k" using psubset_card_mono [OF Suc.prems(1) sub] Suc.prems(2) by simp
    ultimately obtain w' where "nsq_deliver k handler w1 = (Inr (), w')" "settled w'" using Suc.IH by blast
    then show ?thesis using run Inl n(1) by simp
  qed
qed simp

end

end
