(* ===== verification/Service.thy ===== *)
theory Service
  imports PolicyWrites ObligationFacts MessageQueue
begin

text \<open>
  The service as a whole: the event hub with the handlers of roles and policies, what a
  deletion removes, that messages of the queue are worked off completely, and the states
  the service can reach.
\<close>

section \<open>The event hub of the service\<close>

text \<open>Roles register their handlers before policies do.\<close>

definition service_event :: "env \<Rightarrow> event" where
  "service_event e = policy_register e (role_register e NewEvent)"

lemma bindM_unit [simp]: "bindM m (\<lambda>_. returnM ()) = (m :: unit op)"
proof -
  have "(\<lambda>_. returnM ()) = (returnM :: unit \<Rightarrow> unit op)" by (rule ext) simp
  then show ?thesis by (metis bindM_return_right)
qed

lemma service_handlers:
  "UserDeleted (service_event e) i = bindM (deleteMemberByMemberID e i) (\<lambda>_. deletePolicyByAccessorID e i)"
  "DepartmentDeleted (service_event e) i = bindM (deleteMemberByMemberID e i) (\<lambda>_. deletePolicyByAccessorID e i)"
  "UserGroupDeleted (service_event e) i = bindM (deleteMemberByMemberID e i) (\<lambda>_. deletePolicyByAccessorID e i)"
  "AppDeleted (service_event e) i = bindM (deleteMemberByMemberID e i) (\<lambda>_. deletePolicyByAccessorID e i)"
  "AppNameModified (service_event e) a = bindM (role_updateAppName e a) (\<lambda>_. policyLogic_updateAppName e a)"
  "OrgNameModified (service_event e) i n ty = bindM (updateMemberName e i n) (\<lambda>_. updatePolicyAccessorName e i n)"
  "RoleDeleted (service_event e) i = deletePolicyByAccessorID e i"
  "RoleNameModified (service_event e) i n = updatePolicyAccessorName e i n"
  by (simp_all add: dispatch_defs service_event_def policy_register_def role_register_def register_defs
      NewEvent_def split: accessor_type.splits)


section \<open>Deleting an accessor\<close>

text \<open>The tables of \<open>w'\<close> are those of \<open>w\<close> without the policies and memberships of \<open>i\<close>.\<close>

definition removedAccessor :: "string \<Rightarrow> world \<Rightarrow> world \<Rightarrow> bool" where
  "removedAccessor i w w' \<longleftrightarrow>
     t_policy w' = filter (\<lambda>r. p_accessor_id r \<noteq> i) (t_policy w) \<and>
     t_role_member w' = filter (\<lambda>m. m_member_id m \<noteq> i) (t_role_member w) \<and>
     t_role w' = t_role w \<and> t_resource_type w' = t_resource_type w \<and> t_hierarchy w' = t_hierarchy w \<and>
     t_obligation_type w' = t_obligation_type w \<and> t_obligation w' = t_obligation w"

definition accessorGone :: "string \<Rightarrow> world \<Rightarrow> bool" where
  "accessorGone i w \<longleftrightarrow>
     (\<forall>r\<in>set (t_policy w). p_accessor_id r \<noteq> i) \<and> (\<forall>m\<in>set (t_role_member w). m_member_id m \<noteq> i)"

lemma removed_gone: "removedAccessor i w w' \<Longrightarrow> accessorGone i w'"
  by (simp add: removedAccessor_def accessorGone_def)

lemma accessor_statements:
  "deleteMemberByMemberID e i = db_exec e (delete_members (\<lambda>m. m_member_id m \<in> {i}))"
  "deletePolicyByAccessorID e i = db_exec e (delete_policies (\<lambda>r. p_accessor_id r \<in> {i}))"
  by (simp_all add: deleteMemberByMemberID_def memberDB_DeleteByMemberIDs_def deletePolicyByAccessorID_def
      policy_DeleteByAccessorIDs_def)

text \<open>Both statements work, or one of them failed.\<close>

lemma two_statements:
  assumes "bindM (db_exec e f) (\<lambda>_. db_exec e g) w = (r, w')"
    and tick: "\<And>w. tick (f w) = tick w" "\<And>w. tick (g w) = tick w"
  shows "r = Inr () \<and> w' = g (tock (f (tock w))) \<or>
    r = Inl DBError \<and> (\<exists>n. tick w \<le> n \<and> n < tick w' \<and> fault_at e n \<noteq> NoFault)"
proof (cases "fault_at e (tick w) = NoFault")
  case True
  then show ?thesis
    using assms(1) tick by (auto simp: bindM_def db_exec_def split: fault.splits intro!: exI [of _ "Suc (tick w)"])
next
  case False
  then show ?thesis
    using assms(1) tick by (auto simp: bindM_def db_exec_def split: fault.splits intro!: exI [of _ "tick w"])
qed

lemma delete_accessor_run:
  assumes "bindM (deleteMemberByMemberID e i) (\<lambda>_. deletePolicyByAccessorID e i) w = (r, w')"
  shows "r = Inr () \<and> removedAccessor i w w' \<or>
    r = Inl DBError \<and> (\<exists>n. tick w \<le> n \<and> n < tick w' \<and> fault_at e n \<noteq> NoFault)"
  using two_statements [OF assms [unfolded accessor_statements]]
  by (auto simp: delete_members_def delete_policies_def removedAccessor_def)


section \<open>Messages\<close>

lemma CheckJSONValue_string: "CheckJSONValue stringField v = (case v of JStr _ \<Rightarrow> Inr () | _ \<Rightarrow> Inl PublicBadRequest)"
  by (cases v) (simp_all add: stringField_def)

lemma checkFields_strings:
  "checkJSONFields obj (map (\<lambda>k. (k, stringField)) ks) =
     (if \<forall>k\<in>set ks. \<exists>s. map_of obj k = Some (JStr s) then Inr () else Inl PublicBadRequest)"
proof (induction ks)
  case (Cons k ks)
  have "desc_Required stringField" by (simp add: stringField_def)
  then show ?case
    using Cons.IH by (cases "map_of obj k") (auto simp: CheckJSONValue_string split: json.splits)
qed simp

lemma requireStrings_check:
  "CheckJSONValue (requireStrings ks) v =
     (case v of
        JObj obj \<Rightarrow> if \<forall>k\<in>set ks. \<exists>s. map_of obj k = Some (JStr s) then Inr () else Inl PublicBadRequest
      | _ \<Rightarrow> Inl PublicBadRequest)"
  by (cases v) (simp_all add: requireStrings_def checkFields_strings)

definition deletionTopics :: "string set" where
  "deletionTopics = {''core.user.delete'', ''core.dept.delete'', ''core.group.delete'', ''core.app.deleted''}"

text \<open>The identifier a deletion message carries, if it can be read.\<close>

definition idField :: "codec \<Rightarrow> string \<Rightarrow> string option" where
  "idField c msg =
     (case decode c msg of
        Some (JObj obj) \<Rightarrow> (case map_of obj ''id'' of Some (JStr i) \<Rightarrow> Some i | _ \<Rightarrow> None)
      | _ \<Rightarrow> None)"

definition messageID :: "codec \<Rightarrow> string \<Rightarrow> string \<Rightarrow> string option" where
  "messageID c topic msg = (if topic = ''core.dept.delete'' then decode_dept c msg else idField c msg)"

definition readable :: "'a option \<Rightarrow> err + 'a" where
  "readable x = (case x of None \<Rightarrow> Inl PublicBadRequest | Some i \<Rightarrow> Inr i)"

lemma onMessage_readable:
  "onMessage di (readable x) f = (case x of None \<Rightarrow> returnM () | Some i \<Rightarrow> retryable di (f i))"
  by (cases x) (simp_all add: onMessage_def readable_def)

lemma getID_readable:
  "getIDInNsqMsg c msg = readable (idField c msg)"
  "getGroupDeleteParamsInNsqMsq c msg = readable (idField c msg)"
proof -
  show "getIDInNsqMsg c msg = readable (idField c msg)"
  proof (cases "\<exists>obj. decode c msg = Some (JObj obj)")
    case True
    then obtain obj where "decode c msg = Some (JObj obj)" by blast
    then show ?thesis
      by (cases "map_of obj ''id''")
        (auto simp: getIDInNsqMsg_def readable_def idField_def decoded_def requireStrings_check
          strField_def jfield_def split: json.splits)
  next
    case False
    then show ?thesis
      by (auto simp: getIDInNsqMsg_def readable_def idField_def decoded_def requireStrings_check
          split: option.splits json.splits)
  qed
  then show "getGroupDeleteParamsInNsqMsq c msg = readable (idField c msg)"
    by (simp add: getGroupDeleteParamsInNsqMsq_def getIDInNsqMsg_def)
qed

lemma deletion_handlers:
  "mq_userDeleted di c ev msg = onMessage di (readable (idField c msg)) (UserDeleted ev)"
  "userGroupDeleted di c ev msg = onMessage di (readable (idField c msg)) (UserGroupDeleted ev)"
  "mq_appDeleted di c ev msg = onMessage di (readable (idField c msg)) (AppDeleted ev)"
  "deptDelete di c ev msg = onMessage di (readable (decode_dept c msg)) (DepartmentDeleted ev)"
  by (simp_all only: mq_userDeleted_def userGroupDeleted_def mq_appDeleted_def deptDelete_def getID_readable
      readable_def)

lemma deletion_handler:
  assumes "topic \<in> deletionTopics" "map_of (topicFuncMap di c e (service_event e)) topic = Some handler"
  shows "handler msg =
    (case messageID c topic msg of
       None \<Rightarrow> returnM ()
     | Some i \<Rightarrow> retryable di (bindM (deleteMemberByMemberID e i) (\<lambda>_. deletePolicyByAccessorID e i)))"
proof -
  have "topic = ''core.dept.delete'' \<and> handler = deptDelete di c (service_event e) \<or>
      topic \<noteq> ''core.dept.delete'' \<and> handler \<in> {mq_userDeleted di c (service_event e),
        userGroupDeleted di c (service_event e), mq_appDeleted di c (service_event e)}"
    using assms unfolding deletionTopics_def topicFuncMap_def by auto
  then show ?thesis
    by (auto simp: deletion_handlers onMessage_readable messageID_def service_handlers split: option.split)
qed

lemma deletion_run:
  assumes "topic \<in> deletionTopics" "map_of (topicFuncMap di c e (service_event e)) topic = Some handler"
    and "handler msg w = (r, w')"
  shows "case messageID c topic msg of
      None \<Rightarrow> r = Inr () \<and> w' = w
    | Some i \<Rightarrow> r = Inr () \<and> removedAccessor i w w' \<or>
        r = Inl DBError \<and> (\<exists>n. tick w \<le> n \<and> n < tick w' \<and> fault_at e n \<noteq> NoFault)"
proof (cases "messageID c topic msg")
  case None
  then show ?thesis using assms(3) deletion_handler [OF assms(1,2), of msg] by simp
next
  case (Some i)
  let ?m = "bindM (deleteMemberByMemberID e i) (\<lambda>_. deletePolicyByAccessorID e i)"
  obtain r1 w1 where run: "?m w = (r1, w1)" by (cases "?m w")
  have "retryable di ?m w = (r, w')" using assms(3) deletion_handler [OF assms(1,2), of msg] Some by simp
  then have "r1 = r \<and> w1 = w'"
    using delete_accessor_run [OF run] run by (auto simp: retryable_def needReTry_def)
  then show ?thesis using delete_accessor_run [OF run] Some by simp
qed

text \<open>The handlers of deletions meet the contract of retried messages.\<close>

definition deletionSettled :: "codec \<Rightarrow> string \<Rightarrow> string \<Rightarrow> world \<Rightarrow> bool" where
  "deletionSettled c topic msg w \<longleftrightarrow> (\<forall>i. messageID c topic msg = Some i \<longrightarrow> accessorGone i w)"

lemma deletion_retried:
  assumes "topic \<in> deletionTopics" "map_of (topicFuncMap di c e (service_event e)) topic = Some handler"
  shows "retried e (handler msg) (deletionSettled c topic msg)"
proof
  fix w w' assume "handler msg w = (Inr (), w')"
  from deletion_run [OF assms this] show "deletionSettled c topic msg w'"
    by (auto simp: deletionSettled_def dest: removed_gone split: option.splits)
next
  fix w er w' assume "handler msg w = (Inl er, w')"
  from deletion_run [OF assms this]
  show "er \<noteq> Panic \<and> (\<exists>n. tick w \<le> n \<and> n < tick w' \<and> fault_at e n \<noteq> NoFault)"
    by (auto split: option.splits)
qed

interpretation user_deletion: retried e "mq_userDeleted di c (service_event e) msg"
  "deletionSettled c ''core.user.delete'' msg" for e di c msg
  by (rule deletion_retried [where di = di]) (simp_all add: deletionTopics_def topicFuncMap_def)

interpretation department_deletion: retried e "deptDelete di c (service_event e) msg"
  "deletionSettled c ''core.dept.delete'' msg" for e di c msg
  by (rule deletion_retried [where di = di]) (simp_all add: deletionTopics_def topicFuncMap_def)

interpretation group_deletion: retried e "userGroupDeleted di c (service_event e) msg"
  "deletionSettled c ''core.group.delete'' msg" for e di c msg
  by (rule deletion_retried [where di = di]) (simp_all add: deletionTopics_def topicFuncMap_def)

interpretation app_deletion: retried e "mq_appDeleted di c (service_event e) msg"
  "deletionSettled c ''core.app.deleted'' msg" for e di c msg
  by (rule deletion_retried [where di = di]) (simp_all add: deletionTopics_def topicFuncMap_def)


section \<open>Deleting a role\<close>

text \<open>The role, its members and its policies are gone, and nothing else has changed.\<close>

definition removedRole :: "string \<Rightarrow> world \<Rightarrow> world \<Rightarrow> bool" where
  "removedRole i w w' \<longleftrightarrow>
     t_role w' = filter (\<lambda>r. r_id r \<noteq> i) (t_role w) \<and>
     t_role_member w' = filter (\<lambda>m. m_role_id m \<noteq> i) (t_role_member w) \<and>
     t_policy w' = filter (\<lambda>r. p_accessor_id r \<noteq> i) (t_policy w) \<and>
     t_resource_type w' = t_resource_type w \<and> t_hierarchy w' = t_hierarchy w \<and>
     t_obligation_type w' = t_obligation_type w \<and> t_obligation w' = t_obligation w"

lemma GetRoleByID_run:
  assumes "roles_ok w" "roleDB_GetRoleByID e i w = (Inr info, w')" "i \<in> r_id ` set (t_role w)"
  shows "role_ID info = i \<and> i \<noteq> '''' \<and> w' = tock w"
proof -
  from assms(3) obtain r where r: "r \<in> set (t_role w)" "r_id r = i" by blast
  have "filter (\<lambda>x. r_id x = r_id r) (t_role w) = [r]"
    using assms(1) r(1) by (intro filter_distinct_key) (simp_all add: roles_ok_def role_rows_ok_def)
  then have one: "filter (\<lambda>x. r_id x = i) (t_role w) = [r]" by (simp add: r(2))
  have "'''' \<notin> r_id ` set (t_role w)" using assms(1) by (simp add: roles_ok_def role_rows_ok_def)
  with assms(3) have "i \<noteq> ''''" by metis
  moreover obtain info' where "scan_role r = Inr info'" "info = info'" "w' = tock w"
    using assms(2) by (auto simp: roleDB_GetRoleByID_def one bindE_Inr_iff last_role_def)
  ultimately show ?thesis using scan_role_id [of r info'] r(2) by simp
qed

lemma DeleteRole_run:
  assumes "roles_ok w" "i \<in> r_id ` set (t_role w)"
    and "role_DeleteRole e (service_event e) v i w = (Inr (), w')"
  shows "removedRole i w w'"
proof -
  from assms(3) [unfolded role_DeleteRole_def service_handlers] obtain info w1 where g: "roleDB_GetRoleByID e i w = (Inr info, w1)"
    and rest: "(if role_ID info \<noteq> '''' then
         bindM (roleDB_DeleteRole e (role_ID info)) (\<lambda>_.
         bindM (memberDB_DeleteByRoleID e i) (\<lambda>_. deletePolicyByAccessorID e i))
       else returnM ()) w1 = (Inr (), w')"
    by (auto elim!: bindM_InrE split del: if_split)
  from GetRoleByID_run [OF assms(1) g assms(2)] rest
  show ?thesis
    by (auto simp: roleDB_DeleteRole_def memberDB_DeleteByRoleID_def accessor_statements bindM_Inr_iff
        delete_members_def delete_policies_def removedRole_def)
qed


section \<open>Reachable states\<close>

definition service_ok :: "world \<Rightarrow> bool" where
  "service_ok w \<longleftrightarrow> policies_ok w \<and> roles_ok w \<and> members_ok w \<and> types_ok w \<and> hierarchies_ok w"

lemma members_ok_keeps: "keeps t_role_member m \<Longrightarrow> preserves members_ok m"
  using keeps_preserves [of t_role_member m member_rows_ok] by (simp add: members_ok_def [abs_def])

lemma types_ok_keeps: "keeps t_resource_type m \<Longrightarrow> preserves types_ok m"
  using keeps_preserves [of t_resource_type m "\<lambda>rows. distinct (map t_id rows)"]
  by (simp add: types_ok_def [abs_def])

lemma hierarchies_ok_keeps: "keeps t_hierarchy m \<Longrightarrow> preserves hierarchies_ok m"
  using keeps_preserves [of t_hierarchy m "\<lambda>rows. distinct (map h_resource_type_id rows) \<and>
      (\<forall>r\<in>set rows. \<exists>cs. h_children r = convertHierarchyChildrenToJSONString cs)"]
  by (simp add: hierarchies_ok_def [abs_def])

lemma other_tables_keeps:
  assumes "keeps other_tables m"
  shows "keeps t_role m" "keeps t_role_member m" "keeps t_resource_type m" "keeps t_hierarchy m"
  using assms by (simp_all add: keeps_def other_tables_def)

lemma preserves_service_ok:
  assumes "preserves policies_ok m" "preserves roles_ok m" "preserves members_ok m" "preserves types_ok m"
    "preserves hierarchies_ok m"
  shows "preserves service_ok m"
  using assms by (simp add: preserves_def service_ok_def)

text \<open>An operation on policies only, and one that leaves the tables of the invariant alone.\<close>

lemma policies_service_ok:
  assumes "keeps other_tables m" "service_ok w" "policies_ok (snd (m w))"
  shows "service_ok (snd (m w))"
  using assms other_tables_keeps [OF assms(1)]
  by (simp add: keeps_def service_ok_def roles_ok_def members_ok_def types_ok_def hierarchies_ok_def)

lemma preserves_policies_service_ok:
  "keeps other_tables m \<Longrightarrow> preserves policies_ok m \<Longrightarrow> preserves service_ok m"
  using policies_service_ok by (auto simp: preserves_def service_ok_def)

lemma preserves_kept:
  assumes "keeps (\<lambda>w. (t_policy w, t_role w, t_role_member w, t_resource_type w, t_hierarchy w)) m"
  shows "preserves service_ok m"
  using assms
  by (simp add: keeps_def preserves_def service_ok_def policies_ok_def roles_ok_def members_ok_def
      types_ok_def hierarchies_ok_def)


subsection \<open>Members\<close>

lemma members_ok_filter: "preserves members_ok (db_exec e (delete_members P))"
  by (intro preserves_intros)
    (simp_all add: members_ok_def member_rows_ok_def delete_members_def distinct_map_filter)

lemma members_ok_statements:
  "preserves members_ok (deleteMemberByMemberID e i)" "preserves members_ok (memberDB_DeleteByRoleID e i)"
  "preserves members_ok (memberDB_DeleteRoleMembers e i ids)"
  unfolding accessor_statements memberDB_DeleteByRoleID_def memberDB_DeleteRoleMembers_def
  by (intro preserves_if preserves_basic members_ok_filter)+

lemma members_ok_rename: "preserves members_ok (memberDB_UpdateMemberName e i n)"
proof -
  have "map (\<lambda>m. (m_role_id m, m_member_id m)) (map (\<lambda>m. if m_member_id m = i
      then m\<lparr> m_member_name := n \<rparr> else m) M) = map (\<lambda>m. (m_role_id m, m_member_id m)) M" for M :: "role_member_row list"
    by simp
  then show ?thesis
    unfolding memberDB_UpdateMemberName_def
    by (intro preserves_intros) (simp_all add: members_ok_def member_rows_ok_def del: map_map)
qed


subsection \<open>Handlers of events and messages\<close>

lemma preserves_event_handlers:
  "preserves service_ok (deleteMemberByMemberID e i)" "preserves service_ok (deletePolicyByAccessorID e i)"
  "preserves service_ok (updateMemberName e i n)" "preserves service_ok (updatePolicyAccessorName e i n)"
  "preserves service_ok (role_updateAppName e a)" "preserves service_ok (policyLogic_updateAppName e a)"
  "preserves service_ok (policyLogic_UpdateResourceName e i t n)"
  "preserves service_ok (policyLogic_UpdateResourceAncestors e i t as)"
  "preserves service_ok (policyLogic_DeleteByResourceIDs e rs)"
  "preserves service_ok (policyLogic_DeleteByEndTime e tm)"
proof -
  have member: "preserves service_ok m" if "preserves members_ok m" "keeps t_policy m" "keeps t_role m"
    "keeps t_resource_type m" "keeps t_hierarchy m" for m :: "unit op"
    using that by (intro preserves_service_ok policies_ok_keeps roles_ok_keeps types_ok_keeps hierarchies_ok_keeps)
  show "preserves service_ok (deleteMemberByMemberID e i)"
    by (rule member, rule members_ok_statements; unfold deleteMemberByMemberID_def) (intro keeps_intros; simp)+
  show "preserves service_ok (updateMemberName e i n)"
    unfolding updateMemberName_def by (rule member, rule members_ok_rename) (intro keeps_intros; simp)+
  show "preserves service_ok (role_updateAppName e a)"
    unfolding role_updateAppName_def by (rule member, rule members_ok_rename) (intro keeps_intros; simp)+
qed (rule preserves_policies_service_ok; rule keeps_policy_logic policies_ok_statements)+

lemma preserves_retryable: "preserves P m \<Longrightarrow> preserves P (retryable di m)"
  by (auto simp: preserves_def retryable_def split: sum.split prod.split)

lemma preserves_onMessage: "(\<And>x. preserves P (f x)) \<Longrightarrow> preserves P (onMessage di params f)"
  unfolding onMessage_def
  by (cases params) (auto intro: preserves_retryable preserves_basic split: err.split)

lemma preserves_message:
  assumes "map_of (topicFuncMap di c e (service_event e)) topic = Some handler"
  shows "preserves service_ok (handler msg)"
proof -
  have "handler \<in> snd ` set (topicFuncMap di c e (service_event e))"
    using map_of_SomeD [OF assms] by force
  then have "handler \<in> {mq_userDeleted di c (service_event e), deptDelete di c (service_event e),
      userGroupDeleted di c (service_event e), mq_appDeleted di c (service_event e),
      updateOrgName di c (service_event e), mq_appNameModified di c (service_event e),
      mq_updateResourceName di c e, mq_updateResourceAncestors di c e}"
    by (simp add: topicFuncMap_def)
  then show ?thesis
    by (elim insertE emptyE; simp only: mq_userDeleted_def deptDelete_def userGroupDeleted_def
        mq_appDeleted_def updateOrgName_def mq_appNameModified_def mq_updateResourceName_def
        mq_updateResourceAncestors_def)
      (rule preserves_onMessage preserves_case preserves_bindM preserves_event_handlers
        | (subst service_handlers; (rule preserves_bindM preserves_event_handlers)+))+
qed


subsection \<open>Requests\<close>

text \<open>
  What a request finds: identifiers the generator hands out are new, and range over a map
  visits each key once.
\<close>

definition fresh_for :: "env \<Rightarrow> world \<Rightarrow> bool" where
  "fresh_for e w \<longleftrightarrow> env_ok e \<and> inj (uuid_at e) \<and>
     (\<forall>n. uuid_at e n \<noteq> '''' \<and> uuid_at e n \<notin> p_id ` set (t_policy w) \<and> uuid_at e n \<notin> r_id ` set (t_role w))"

lemma fresh_forD:
  assumes "fresh_for e w"
  shows "env_ok e" "inj (uuid_at e)" "\<And>n. uuid_at e n \<notin> p_id ` set (t_policy w)"
    "\<And>n. uuid_at e n \<noteq> '''' \<and> uuid_at e n \<notin> r_id ` set (t_role w)"
  using assms unfolding fresh_for_def by blast+

lemma Create_service_ok:
  assumes "service_ok w" "fresh_for e w"
  shows "service_ok (snd (policyLogic_Create e v ps w))" "service_ok (snd (policyLogic_CreatePrivate e ps w))"
proof -
  have "policies_ok w" using assms(1) by (simp add: service_ok_def)
  note created = policies_ok_create [OF fresh_forD(1) [OF assms(2)] this fresh_forD(2,3) [OF assms(2)]]
  show "service_ok (snd (policyLogic_Create e v ps w))"
    using policies_service_ok [where m = "policyLogic_Create e v ps", OF _ assms(1) created(1)]
    by (simp add: keeps_policy_logic)
  show "service_ok (snd (policyLogic_CreatePrivate e ps w))"
    using policies_service_ok [where m = "policyLogic_CreatePrivate e ps", OF _ assms(1) created(2)]
    by (simp add: keeps_policy_logic)
qed

text \<open>An operation that changes one of the tables of the invariant.\<close>

lemma roles_service_ok:
  assumes "keeps (\<lambda>w. (t_policy w, t_role_member w, t_resource_type w, t_hierarchy w)) m"
    and "service_ok w" "roles_ok (snd (m w))"
  shows "service_ok (snd (m w))"
  using assms
  by (simp add: keeps_def service_ok_def policies_ok_def members_ok_def types_ok_def hierarchies_ok_def)

lemma members_service_ok:
  assumes "keeps (\<lambda>w. (t_policy w, t_role w, t_resource_type w, t_hierarchy w)) m"
    and "service_ok w" "members_ok (snd (m w))"
  shows "service_ok (snd (m w))"
  using assms
  by (simp add: keeps_def service_ok_def policies_ok_def roles_ok_def types_ok_def hierarchies_ok_def)

lemma AddRole_service_ok:
  assumes "service_ok w" "fresh_for e w"
  shows "service_ok (snd (role_AddRole e v role w))"
proof (rule roles_service_ok)
  have "role_rows_ok (t_role w)" using assms(1) by (simp add: service_ok_def roles_ok_def)
  then show "roles_ok (snd (role_AddRole e v role w))"
    by (rule triple_snd [OF AddRole_roles_ok [OF _ fresh_forD(4) [OF assms(2)]]]) simp
  show "keeps (\<lambda>w. (t_policy w, t_role_member w, t_resource_type w, t_hierarchy w)) (role_AddRole e v role)"
    unfolding role_AddRole_def by (intro keeps_intros; simp)
qed fact

lemma ModifyRole_service_ok:
  assumes "service_ok w"
  shows "service_ok (snd (role_ModifyRole e (service_event e) v i n nc d dc s sc w))" (is "service_ok (snd (?m w))")
proof -
  have ev: "keeps t_role (RoleNameModified (service_event e) i n)" for i n
    unfolding service_handlers by (rule other_tables_keeps) (rule keeps_policy_logic)
  have "role_rows_ok (t_role w)" using assms by (simp add: service_ok_def roles_ok_def)
  then have "roles_ok (snd (?m w))" by (rule triple_snd [OF ModifyRole_roles_ok [OF _ ev]]) simp
  moreover have "preserves policies_ok ?m" "preserves members_ok ?m" "preserves types_ok ?m" "preserves hierarchies_ok ?m"
    unfolding role_ModifyRole_def service_handlers
    by (rule preserves_bindM preserves_if preserves_basic policies_ok_statements
        | (rule policies_ok_keeps members_ok_keeps types_ok_keeps hierarchies_ok_keeps;
           (intro keeps_intros; simp; fail | rule other_tables_keeps; rule keeps_policy_logic; fail)))+
  ultimately show ?thesis using assms by (simp add: service_ok_def preserves_def)
qed

lemma DeleteRole_service_ok: "preserves service_ok (role_DeleteRole e (service_event e) v i)"
proof (rule preserves_service_ok)
  have ev: "keeps t_role (RoleDeleted (service_event e) i)" for i
    unfolding service_handlers by (rule other_tables_keeps) (rule keeps_policy_logic)
  show "preserves roles_ok (role_DeleteRole e (service_event e) v i)" by (rule DeleteRole_roles_ok [OF ev])
qed (unfold role_DeleteRole_def service_handlers,
  (rule preserves_bindM preserves_if preserves_basic policies_ok_statements members_ok_statements
    | (rule policies_ok_keeps members_ok_keeps types_ok_keeps hierarchies_ok_keeps;
       (intro keeps_intros; simp; fail | rule other_tables_keeps; rule keeps_policy_logic; fail)))+)

lemma RoleMembers_service_ok:
  assumes "service_ok w" "env_ok e" "member_map infos"
  shows "service_ok (snd (role_AddOrDeleteRoleMemebers e v method i infos w))"
proof (rule members_service_ok)
  have M: "member_rows_ok (t_role_member w)" "members_ok w" using assms(1) by (simp_all add: service_ok_def members_ok_def)
  have add: "members_ok (snd (role_AddRoleMembers e v i infos w))"
    using assms(2) by (intro triple_snd [OF AddRoleMembers_members_ok [OF M(1) _ assms(3)]]) simp_all
  have "preserves members_ok (role_DeleteRoleMembers e v i infos)"
    unfolding role_DeleteRoleMembers_def
    by (rule preserves_bindM preserves_if preserves_basic members_ok_statements
        | (rule members_ok_keeps; intro keeps_intros; simp; fail))+
  with add M(2) show "members_ok (snd (role_AddOrDeleteRoleMemebers e v method i infos w))"
    by (simp add: role_AddOrDeleteRoleMemebers_def preserves_def)
  show "keeps (\<lambda>w. (t_policy w, t_role w, t_resource_type w, t_hierarchy w))
      (role_AddOrDeleteRoleMemebers e v method i infos)"
    unfolding role_AddOrDeleteRoleMemebers_def role_AddRoleMembers_def role_DeleteRoleMembers_def Let_def
    by (intro keeps_intros; simp)
qed fact

lemma type_service_ok:
  "preserves service_ok (resourceType_Set e v t)" "preserves service_ok (resourceType_SetPrivate e t)"
  "preserves service_ok (resourceType_Delete e v tid)" "preserves service_ok (hierarchy_SetPrivate e h)"
proof -
  have type: "preserves service_ok m" if "preserves types_ok m"
    "keeps (\<lambda>w. (t_policy w, t_role w, t_role_member w, t_hierarchy w)) m" for m :: "unit op"
    using that by (simp add: preserves_def keeps_def service_ok_def policies_ok_def roles_ok_def members_ok_def
        hierarchies_ok_def)
  show "preserves service_ok (resourceType_Set e v t)" "preserves service_ok (resourceType_SetPrivate e t)"
    "preserves service_ok (resourceType_Delete e v tid)"
    by (rule type, rule preserves_types_ok,
        unfold resourceType_Set_def resourceType_SetPrivate_def resourceType_Delete_def; intro keeps_intros; simp)+
  have "keeps (\<lambda>w. (t_policy w, t_role w, t_role_member w, t_resource_type w)) (hierarchy_SetPrivate e h)"
    unfolding hierarchy_SetPrivate_def by (intro keeps_intros; simp)
  then show "preserves service_ok (hierarchy_SetPrivate e h)"
    using preserves_hierarchy_writes(1) [of e h]
    by (simp add: preserves_def keeps_def service_ok_def policies_ok_def roles_ok_def members_ok_def types_ok_def)
qed

lemma obligation_service_ok:
  "preserves service_ok (obligationType_Set e v ot)" "preserves service_ok (obligationType_SetPrivate e ot)"
  "preserves service_ok (obligationType_Delete e v i)" "preserves service_ok (obligation_Add e v ob)"
  "preserves service_ok (obligation_Update e v i n nc d dc val vc)" "preserves service_ok (obligation_Delete e v i)"
  by (rule preserves_kept,
      unfold obligationType_Set_def obligationType_SetPrivate_def obligationType_Delete_def obligation_Add_def
        obligation_Update_def obligation_Delete_def Let_def;
      intro keeps_intros; simp)+


subsection \<open>Steps\<close>

text \<open>
  A step of the service is a request, a message, a round of the cleaning thread or a query.
  Requests interleave in any order; each step has its own \<open>env\<close>, so its statements may
  fail and the other services may answer differently from one step to the next.  A request
  that fails is a step too: its state is the one the failure leaves behind.
\<close>

inductive service_step :: "world \<Rightarrow> world \<Rightarrow> bool" where
  query: "db w' = db w \<Longrightarrow> service_step w w'"
| create: "fresh_for e w \<Longrightarrow> service_step w (snd (policyLogic_Create e v ps w))"
| create_private: "fresh_for e w \<Longrightarrow> service_step w (snd (policyLogic_CreatePrivate e ps w))"
| update: "service_step w (snd (policyLogic_Update e v ps w))"
| delete: "service_step w (snd (policyLogic_Delete e v ids w))"
| delete_resources: "service_step w (snd (policyLogic_DeleteByResourceIDs e rs w))"
| add_role: "fresh_for e w \<Longrightarrow> service_step w (snd (role_AddRole e v role w))"
| modify_role: "service_step w (snd (role_ModifyRole e (service_event e) v i n nc d dc s sc w))"
| delete_role: "service_step w (snd (role_DeleteRole e (service_event e) v i w))"
| role_members: "env_ok e \<Longrightarrow> member_map infos \<Longrightarrow>
    service_step w (snd (role_AddOrDeleteRoleMemebers e v method i infos w))"
| set_type: "service_step w (snd (resourceType_Set e v t w))"
| set_type_private: "service_step w (snd (resourceType_SetPrivate e t w))"
| delete_type: "service_step w (snd (resourceType_Delete e v i w))"
| set_hierarchy: "service_step w (snd (hierarchy_SetPrivate e h w))"
| set_obligation_type: "service_step w (snd (obligationType_Set e v ot w))"
| set_obligation_type_private: "service_step w (snd (obligationType_SetPrivate e ot w))"
| delete_obligation_type: "service_step w (snd (obligationType_Delete e v i w))"
| add_obligation: "service_step w (snd (obligation_Add e v ob w))"
| update_obligation: "service_step w (snd (obligation_Update e v i n nc d dc val vc w))"
| delete_obligation: "service_step w (snd (obligation_Delete e v i w))"
| message: "map_of (topicFuncMap di c e (service_event e)) topic = Some handler \<Longrightarrow>
    service_step w (snd (handler msg w))"
| clean: "service_step w (snd (cleanRound e w))"

inductive reachable :: "world \<Rightarrow> world \<Rightarrow> bool" for w0 where
  start: "reachable w0 w0"
| step: "reachable w0 w \<Longrightarrow> service_step w w' \<Longrightarrow> reachable w0 w'"

lemma preserves_snd: "preserves P m \<Longrightarrow> P w \<Longrightarrow> P (snd (m w))"
  by (simp add: preserves_def)

lemma clean_service_ok: "preserves service_ok (cleanRound e)"
proof -
  have "preserves service_ok (getTime e)" by (rule preserves_kept) (intro keeps_intros; simp)
  then show ?thesis
    unfolding cleanRound_def
    by (intro preserves_bindM preserves_tryM preserves_event_handlers preserves_basic)
qed

lemma query_service_ok:
  assumes "db w' = db w" "service_ok w"
  shows "service_ok w'"
proof -
  have "t_policy w' = t_policy w" "t_role w' = t_role w" "t_role_member w' = t_role_member w"
    "t_resource_type w' = t_resource_type w" "t_hierarchy w' = t_hierarchy w"
    using arg_cong [OF assms(1), of t_policy] arg_cong [OF assms(1), of t_role]
      arg_cong [OF assms(1), of t_role_member] arg_cong [OF assms(1), of t_resource_type]
      arg_cong [OF assms(1), of t_hierarchy]
    by (simp_all add: db_def)
  then show ?thesis
    using assms(2) by (simp add: service_ok_def policies_ok_def roles_ok_def members_ok_def types_ok_def hierarchies_ok_def)
qed

lemmas preserved_service_ok =
  preserves_policies_service_ok [OF keeps_policy_logic(6) policies_ok_requests(1), THEN preserves_snd]
  preserves_policies_service_ok [OF keeps_policy_logic(7) policies_ok_requests(2), THEN preserves_snd]
  preserves_event_handlers [THEN preserves_snd] DeleteRole_service_ok [THEN preserves_snd]
  type_service_ok [THEN preserves_snd] obligation_service_ok [THEN preserves_snd]
  preserves_message [THEN preserves_snd] clean_service_ok [THEN preserves_snd]

lemma step_service_ok: "service_step w w' \<Longrightarrow> service_ok w \<Longrightarrow> service_ok w'"
  by (induction rule: service_step.induct)
    (erule (1) query_service_ok Create_service_ok AddRole_service_ok ModifyRole_service_ok
      | (rule Create_service_ok AddRole_service_ok ModifyRole_service_ok RoleMembers_service_ok preserved_service_ok; assumption))+

lemma reachable_service_ok: "reachable w0 w \<Longrightarrow> service_ok w0 \<Longrightarrow> service_ok w"
  by (induction rule: reachable.induct) (auto intro: step_service_ok)

end
