(* ===== verification/ManagementSpec.thy ===== *)
theory ManagementSpec
  imports ObligationFacts RoleFacts
begin

text \<open>
  What the management of resource types, hierarchies, obligation types, obligations and
  roles guarantees, each with a concrete run on which its hypotheses hold.
\<close>

section \<open>Hierarchies of resource types\<close>

definition demo_type_row :: "string \<Rightarrow> resource_type_row" where
  "demo_type_row i =
     \<lparr> t_primary_id = 1, t_id = i, t_name = i, t_description = '''', t_instance_url = '''',
       t_data_struct = '''', t_operation = [], t_hidden = False, t_create_time = 0, t_modify_time = 0 \<rparr>"

definition types_world :: world where
  "types_world = empty_world\<lparr> t_resource_type := [demo_type_row ''folder'', demo_type_row ''doc''] \<rparr>"

definition demo_hierarchy :: hierarchy where
  "demo_hierarchy = Hierarchy ''folder'' [Hierarchy ''doc'' []]"

lemmas types_demo = types_world_def demo_type_row_def demo_hierarchy_def

text \<open>
  C24: \<open>SetPrivate\<close> accepts a hierarchy exactly when every type it names is registered
  and no node has two children of the same type; anything else is refused.  (The database
  is assumed to answer; a database error refuses the hierarchy as well.)
\<close>

theorem hierarchy_accepted_iff:
  assumes "\<And>n. fault_at e n = NoFault"
  shows "(\<exists>w'. hierarchy_SetPrivate e h w = (Inr (), w')) \<longleftrightarrow> acceptable (stored_types w) h"
  using assms by (rule SetPrivate_iff)

theorem hierarchy_accepted_iff_witness:
  "(\<exists>w'. hierarchy_SetPrivate quiet_env demo_hierarchy types_world = (Inr (), w')) \<and>
   \<not> (\<exists>w'. hierarchy_SetPrivate quiet_env demo_hierarchy empty_world = (Inr (), w'))"
  using hierarchy_accepted_iff [of quiet_env demo_hierarchy types_world]
    hierarchy_accepted_iff [of quiet_env demo_hierarchy empty_world]
  by (simp add: types_demo stored_types_def run_simps)

text \<open>
  C30: A hierarchy that was accepted is read back unchanged, children and all.
\<close>

theorem hierarchy_set_get:
  assumes "hierarchies_ok w" "hierarchy_SetPrivate e h w = (Inr (), w1)"
    and "fault_at e (tick w1) = NoFault"
  shows "hierarchy_Get e (hier_ID h) w1 = (Inr h, tock w1)"
  using assms by (rule SetPrivate_Get)

theorem hierarchy_set_get_witness:
  "\<exists>w1. hierarchy_SetPrivate quiet_env demo_hierarchy types_world = (Inr (), w1) \<and>
     hierarchy_Get quiet_env ''folder'' w1 = (Inr demo_hierarchy, tock w1)"
proof -
  have "acceptable (stored_types types_world) demo_hierarchy"
    by (simp add: types_demo stored_types_def run_simps)
  then obtain w1 where w1: "hierarchy_SetPrivate quiet_env demo_hierarchy types_world = (Inr (), w1)"
    using SetPrivate_iff [of quiet_env] by (auto simp: run_simps)
  have "hierarchies_ok types_world" by (simp add: hierarchies_ok_def types_world_def run_simps)
  from hierarchy_set_get [OF this w1] w1 show ?thesis by (simp add: run_simps demo_hierarchy_def)
qed

text \<open>
  The table of hierarchies holds well-formed rows, at most one per root type, and
  accepting a hierarchy or loading the initial data keeps it so, also when the operation
  fails half-way.
\<close>

theorem hierarchies_stay_ok:
  "preserves hierarchies_ok (hierarchy_SetPrivate e h) \<and> preserves hierarchies_ok (hierarchy_Init e j)"
  using preserves_hierarchy_writes by blast

text \<open>
  \<open>HasHierarchy\<close> and \<open>Get\<close> agree: a type takes part in a hierarchy, as a root or at
  any depth below one, exactly when \<open>Get\<close> finds a node for it.
\<close>

theorem has_hierarchy_iff_found:
  assumes "env_ok e" "hierarchy_HasHierarchy e t w = (Inr b, w1)" "hierarchy_Get e t w = (Inr h, w2)"
    and "t \<noteq> ''''"
  shows "b \<longleftrightarrow> hier_ID h = t"
  using assms by (rule HasHierarchy_iff_Get)

definition hierarchy_world :: world where
  "hierarchy_world = types_world\<lparr> t_hierarchy := [\<lparr> h_primary_id = 1, h_resource_type_id = ''folder'',
     h_children = convertHierarchyChildrenToJSONString (hier_Children demo_hierarchy) \<rparr>] \<rparr>"

lemma hierarchy_world_reads:
  "hierarchy_HasHierarchy quiet_env ''doc'' hierarchy_world = (Inr True, tock hierarchy_world)"
  "hierarchy_Get quiet_env ''doc'' hierarchy_world = (Inr (Hierarchy ''doc'' []), tock hierarchy_world)"
proof -
  have ok: "hierarchies_ok hierarchy_world"
    by (auto simp: hierarchies_ok_def hierarchy_world_def types_world_def run_simps)
  have all: "hierarchyDB_GetAll quiet_env hierarchy_world =
      (Inr [(''folder'', demo_hierarchy)], tock hierarchy_world)"
    by (simp add: hierarchyDB_GetAll_def scan_hierarchy_def hierarchy_roundtrip hierarchy_world_def types_demo
        run_simps)
  show "hierarchy_HasHierarchy quiet_env ''doc'' hierarchy_world = (Inr True, tock hierarchy_world)"
    "hierarchy_Get quiet_env ''doc'' hierarchy_world = (Inr (Hierarchy ''doc'' []), tock hierarchy_world)"
    by (simp_all add: hierarchy_HasHierarchy_def hierarchy_Get_def bindM_def all demo_hierarchy_def
        range_map_def List.map_filter_simps quiet_env_run)
qed

theorem has_hierarchy_iff_found_witness:
  "\<exists>b h. fst (hierarchy_HasHierarchy quiet_env ''doc'' hierarchy_world) = Inr b \<and>
     fst (hierarchy_Get quiet_env ''doc'' hierarchy_world) = Inr h \<and> (b \<longleftrightarrow> hier_ID h = ''doc'')"
  using has_hierarchy_iff_found [OF env_ok_quiet hierarchy_world_reads]
  by (intro exI [of _ True] exI [of _ "Hierarchy ''doc'' []"]) (simp add: hierarchy_world_reads)


section \<open>Resource types\<close>

text \<open>
  C31: A resource type that \<open>Set\<close> accepted is read back with the attributes it was given;
  only the flag that hides it and the time stamps are not part of what \<open>GetByID\<close> reads.
\<close>

theorem resource_type_set_get:
  assumes "resourceType_Set e v t w = (Inr (), w1)" "fault_at e (tick w1) = NoFault"
  shows "resourceType_GetByID e (rt_ID t) w1 = (Inr (stored_type t), tock w1)"
proof (rule GetByID_holds [OF _ assms(2)])
  show "holds_type t w1"
    using assms(1) by (auto simp: resourceType_Set_def bindM_Inr_iff split: if_splits intro: rtDB_Set_holds)
qed

definition demo_type :: resource_type where
  "demo_type =
     \<lparr> rt_ID = ''doc'', rt_Name = ''Document'', rt_Description = '''', rt_InstanceURL = '''',
       rt_DataStruct = ''tree'', rt_CreateTime = 0, rt_Operation = [], rt_Hidden = False, rt_ModifyTime = 0 \<rparr>"

definition demo_admin :: visitor where
  "demo_admin = \<lparr> vis_ID = ''admin'', vis_Type = RealName, vis_Language = ''en-us'' \<rparr>"

theorem resource_type_set_get_witness:
  "\<exists>w1. resourceType_Set quiet_env demo_admin demo_type empty_world = (Inr (), w1) \<and>
     resourceType_GetByID quiet_env ''doc'' w1 = (Inr demo_type, tock w1)"
proof -
  obtain w1 where w1: "resourceType_Set quiet_env demo_admin demo_type empty_world = (Inr (), w1)"
    by (simp add: run_simps demo_admin_def demo_type_def checkVisitorType_def cong: run_congs)
  from resource_type_set_get [OF w1] w1 show ?thesis
    by (simp add: run_simps stored_type_def demo_type_def)
qed

text \<open>
  Loading an initial resource type is idempotent: once loaded, loading it again leaves
  every table as it is (for a type that is not hidden).
\<close>

theorem resource_type_init_idempotent:
  assumes "types_ok w" "initResourceType e t w = (Inr (), w1)" "\<not> rt_Hidden t"
  shows "db (snd (initResourceType e t w1)) = db w1"
  using init_type_again [OF init_type_holds [OF assms(2,1)] assms(3)] .

theorem resource_type_init_idempotent_witness:
  "\<exists>w1. initResourceType quiet_env demo_type empty_world = (Inr (), w1) \<and>
     db (snd (initResourceType quiet_env demo_type w1)) = db w1"
proof -
  obtain w1 where w1: "initResourceType quiet_env demo_type empty_world = (Inr (), w1)"
    by (simp add: run_simps demo_type_def cong: run_congs)
  from resource_type_init_idempotent [OF _ w1] w1 show ?thesis
    by (simp add: types_ok_def run_simps demo_type_def)
qed

text \<open>
  The operations of child types are the same with and without the cache that
  \<open>getChildrenOperations\<close> keeps: one entry per registered child type, in the order of the
  hierarchy.
\<close>

theorem children_operations_uncached:
  "getChildrenOperations v h s m = List.map_filter (childOperation v s m) (hier_Children h)"
  by (rule getChildrenOperations_eq)

section \<open>Obligation types and obligations\<close>

text \<open>
  C28: For every operation it is asked about, \<open>Query\<close> returns the obligation types that
  apply to it, in the order they are stored: those with an unlimited scope, and those
  whose scope names the resource type and either all operations or this one.
\<close>

theorem obligation_types_of_operation:
  assumes "distinct ids" "op \<in> set ids" "\<forall>t\<in>set ts. scopes_distinct t"
  shows "mlist (getOperationSet rt ids ts) op = filter (applies rt op) ts"
  using assms by (rule getOperationSet_filter)

definition demo_ob_type :: "string \<Rightarrow> ob_scope \<Rightarrow> obligation_type_info" where
  "demo_ob_type i scope = zero_obligation_type\<lparr> oti_ID := i, oti_ResourceTypeScope := scope \<rparr>"

definition demo_scope :: "string list \<Rightarrow> ob_scope" where
  "demo_scope ops = \<lparr> obs_Unlimited = False, obs_Types = [\<lparr> ots_ResourceTypeID = ''doc'',
     ots_ResourceTypeName = '''', ots_OperationsScope = \<lparr> oos_Unlimited = False,
     oos_Operations = map (\<lambda>i. \<lparr> obo_ID = i, obo_Name = '''' \<rparr>) ops \<rparr> \<rparr>] \<rparr>"

theorem obligation_types_of_operation_witness:
  "mlist (getOperationSet ''doc'' [''read'', ''write'']
      [demo_ob_type ''mark'' (demo_scope [''read'']), demo_ob_type ''log'' (demo_scope [''write''])]) ''read''
     = [demo_ob_type ''mark'' (demo_scope [''read''])]"
  by (subst obligation_types_of_operation)
    (simp_all add: scopes_distinct_def applies_def demo_ob_type_def demo_scope_def)

text \<open>
  C32: The scope of an obligation type is read back as it was written, without the display
  names, provided every entry names an operation or allows all of them; a limited entry
  without operations makes the column unreadable, and reading it panics.
\<close>

theorem obligation_scope_roundtrip:
  "stringToResourceTypeScopeInfo (ob_resourceTypeScopeInfoToString info) =
     (if readable_scope info then Inr (stored_ob_scope info) else Inl Panic)"
  by (rule ob_scope_roundtrip)

text \<open>
  C38: One obligation type with such a scope disables all queries: \<open>Set\<close> accepts and stores
  it, and from then on \<open>Query\<close> fails for every resource type and operation.
\<close>

theorem unreadable_obligation_type:
  assumes "obligationType_Set e v info w = (Inr (), w1)" "\<not> readable_scope (oti_ResourceTypeScope info)"
  shows "\<exists>er. fst (obligationType_Query e q w1) = Inl er"
proof -
  obtain w0 where "obtDB_Set e info w0 = (Inr (), w1)"
    using assms(1) by (auto simp: obligationType_Set_def bindM_Inr_iff)
  from obtDB_Set_unreadable [OF this assms(2)] show ?thesis using Query_unreadable by blast
qed

theorem unreadable_obligation_type_witness:
  "\<exists>w1. obligationType_Set quiet_env demo_admin (demo_ob_type ''mark'' (demo_scope [])) types_world
       = (Inr (), w1) \<and>
     (\<exists>er. fst (obligationType_Query quiet_env \<lparr> qot_ResourceType = ''doc'', qot_Operation = [] \<rparr> w1) = Inl er)"
proof -
  let ?info = "demo_ob_type ''mark'' (demo_scope [])"
  obtain w1 where w1: "obligationType_Set quiet_env demo_admin ?info types_world = (Inr (), w1)"
    by (simp add: run_simps demo_ob_type_def demo_scope_def demo_admin_def types_demo checkVisitorType_def
        cong: run_congs)
  have "\<not> readable_scope (oti_ResourceTypeScope ?info)"
    by (simp add: readable_scope_def readable_type_scope_def demo_ob_type_def demo_scope_def)
  from unreadable_obligation_type [OF w1 this] w1 show ?thesis by blast
qed

text \<open>
  C29: An obligation is stored only if its type exists and its value satisfies the schema of
  that type; the row that is appended is the one that was asked for, under a new identifier.
\<close>

theorem obligation_value_checked:
  assumes "env_ok e" "obligation_Add e v info w = (Inr i, w1)"
  shows "\<exists>r\<in>set (t_obligation_type w). ot_id r = obi_TypeID info \<and>
      jsonschema_Validate e (ot_schema r) (obi_Value info) = Some True \<and>
      (\<exists>t. t_obligation w1 = t_obligation w @ [\<lparr> o_primary_id = next_id w, o_id = i,
         o_type_id = obi_TypeID info, o_name = obi_Name info, o_description = obi_Description info,
         o_value = obi_Value info, o_created_at = t, o_modified_at = t \<rparr>])"
  using assms by (rule obligation_Add_checked) blast

definition obligations_world :: world where
  "obligations_world =
     insert_obligation_type 0 (demo_ob_type ''mark'' (demo_scope [''read''])) empty_world"

definition mark_obligation :: obligation_info where
  "mark_obligation =
     \<lparr> obi_ID = '''', obi_TypeID = ''mark'', obi_Name = ''watermark'', obi_Description = '''',
       obi_Value = JStr ''confidential'', obi_CreatedTime = 0, obi_ModifyTime = 0 \<rparr>"

theorem obligation_value_checked_witness:
  "\<exists>i w1. obligation_Add quiet_env demo_admin mark_obligation obligations_world = (Inr i, w1) \<and>
     (\<exists>r\<in>set (t_obligation_type obligations_world). ot_id r = ''mark'' \<and>
        (\<exists>t. t_obligation w1 = [\<lparr> o_primary_id = next_id obligations_world, o_id = i, o_type_id = ''mark'',
           o_name = ''watermark'', o_description = '''', o_value = JStr ''confidential'',
           o_created_at = t, o_modified_at = t \<rparr>]))"
proof -
  obtain i w1 where run: "obligation_Add quiet_env demo_admin mark_obligation obligations_world = (Inr i, w1)"
    by (simp add: run_simps obligations_world_def demo_ob_type_def demo_scope_def demo_admin_def
        mark_obligation_def checkVisitorType_def cong: run_congs)
  have "t_obligation obligations_world = []" by (simp add: obligations_world_def run_simps)
  with obligation_value_checked [OF env_ok_quiet run] run show ?thesis
    by (auto simp: mark_obligation_def)
qed

section \<open>Roles\<close>

definition fresh_env :: env where
  "fresh_env = quiet_env\<lparr> uuid_at := (\<lambda>n. ''id-'' @ replicate n (CHR ''u'')) \<rparr>"

lemma fresh_env_run [run_simps]:
  "fault_at fresh_env n = NoFault" "now_at fresh_env n = 1000 + int n"
  "uuid_at fresh_env n = ''id-'' @ replicate n (CHR ''u'')" "map_order fresh_env ks = ks"
  "um_GetUserRolesByUserID fresh_env u = Inr [SuperAdmin]" "sort_roles fresh_env = sort_by"
  "um_GetNameByAccessorIDs fresh_env ids = Inr (map (\<lambda>(i, _). (i, i)) ids)"
  "um_GetAccessorIDsByUserID fresh_env u = Inr [u]"
  by (simp_all add: fresh_env_def run_simps)

lemma env_ok_fresh [simp]: "env_ok fresh_env"
  by (simp add: env_ok_def fresh_env_def quiet_env_def sort_func_sort_by)

definition demo_role :: role_info where
  "demo_role = zero_role\<lparr> role_Name := ''editors'', role_Scope := zero_scope\<lparr> rtsi_Unlimited := True \<rparr> \<rparr>"



text \<open>
  C26: \<open>AddRoleMembers\<close> adds the requested members and only them: afterwards the members of
  the role are the old ones and the requested ones, each once, and no other role has
  changed.  A member that is already there is not added again.
\<close>

theorem role_members_added:
  assumes "env_ok e" "members_ok w" "member_map infos"
    and "role_AddRoleMembers e v i infos w = (Inr (), w1)"
  shows "members_ok w1 \<and>
    memberIDs (t_role_member w1) i = memberIDs (t_role_member w) i \<union> fst ` set infos \<and>
    (\<forall>j. j \<noteq> i \<longrightarrow> memberIDs (t_role_member w1) j = memberIDs (t_role_member w) j)"
proof -
  have "member_rows_ok (t_role_member w)" using assms(2) by (simp add: members_ok_def)
  from tripleD2 [OF AddRoleMembers_members_ok [OF this env_ok_key_order [OF assms(1)] assms(3)] _ assms(4)]
  show ?thesis by (simp add: added_members_def)
qed

definition roles_world :: world where
  "roles_world = empty_world\<lparr>
     t_role := [new_role_row 0 1 (demo_role\<lparr> role_ID := ''r1'', role_Source := RoleSourceUser \<rparr>)],
     t_role_member := [new_member_row 0 ''r1'' 2 \<lparr> mem_ID = ''u1'', mem_Type = AccessorUser,
       mem_Name = ''ann'', mem_ParentDeps = [] \<rparr>] \<rparr>"

definition demo_members :: "(string, role_member_info) gomap" where
  "demo_members = map (\<lambda>u. (u, \<lparr> mem_ID = u, mem_Type = AccessorUser, mem_Name = '''', mem_ParentDeps = [] \<rparr>))
     [''u1'', ''u2'']"

theorem role_members_added_witness:
  "\<exists>w1. role_AddRoleMembers fresh_env demo_admin ''r1'' demo_members roles_world = (Inr (), w1) \<and>
     memberIDs (t_role_member w1) ''r1'' = {''u1'', ''u2''}"
proof -
  obtain w1 where run: "role_AddRoleMembers fresh_env demo_admin ''r1'' demo_members roles_world = (Inr (), w1)"
    by (simp add: run_simps demo_role_def demo_admin_def demo_members_def roles_world_def
        checkVisitorType_def cong: run_congs)
  have "members_ok roles_world" "member_map demo_members" "memberIDs (t_role_member roles_world) ''r1'' = {''u1''}"
    by (auto simp: members_ok_def member_rows_ok_def roles_world_def member_map_def demo_members_def mwf_def
        memberIDs_def run_simps)
  from role_members_added [OF env_ok_fresh this(1,2) run] this(3) run show ?thesis
    by (auto simp: demo_members_def)
qed


definition demo_role_search :: "int \<Rightarrow> int \<Rightarrow> accessor_role_search_info" where
  "demo_role_search offset limit =
     \<lparr> ars_AccessorID = ''u1'', ars_Offset = offset, ars_Limit = limit, ars_RoleSources = [RoleSourceUser] \<rparr>"


text \<open>
  C33: \<open>GetAccessorRoles\<close> does not panic, whatever offset and limit it is given: negative
  ones, ones beyond the list, and ones whose sum overflows a 64-bit integer are clamped.
\<close>

theorem accessor_roles_total:
  assumes "\<And>u. um_GetAccessorIDsByUserID e u \<noteq> Inl Panic" "\<And>u. um_GetUserRolesByUserID e u \<noteq> Inl Panic"
    and "roles_ok w"
  shows "fst (role_GetAccessorRoles e ord p w) \<noteq> Inl Panic"
  using GetAccessorRoles_safe [OF assms(1,2)] assms(3) by (simp add: safe_def)

theorem accessor_roles_total_witness:
  "fst (role_GetAccessorRoles fresh_env [] (demo_role_search (2 ^ 63 - 1) (2 ^ 63 - 1)) roles_world) \<noteq> Inl Panic"
proof (rule accessor_roles_total)
  show "roles_ok roles_world"
    by (auto simp: roles_ok_def role_rows_ok_def scope_stored_def roles_world_def demo_role_def run_simps)
qed (simp_all add: run_simps)

end
