(* ===== verification/PolicySpec.thy ===== *)
theory PolicySpec
  imports PolicyWrites ManagementSpec
begin

text \<open>
  The properties of the management of policies (\<open>logics/policy.go\<close>), each with a concrete
  run that meets its hypotheses.
\<close>

lemmas policies_run [run_simps] = firstUnconditional_def getPolicyNoConditionOperations_def
  checkPolicyOperationValid_def obligationsEqual_def operationMap_def operationsCovered_def cmpPolicy_def
  calcMinEndTime_def mergeDeny_def mergeAllow_def unconditionalRule_def mergeNewPolicy_def
  authorizeOperation_def checkVisitorAuthorize_def checkResourceID_def checkResourceIDAndAncestors_def
  getResourceTypeOperations_def operationsOf_def getAccessorName_def oldPolicies_def byAccessor_def
  oldResourceAccessorsPolicies_def oldPolicyOf_def createOrUpdateStep_def getCreateAndUpdatePolicy_def
  rolledBack_def transaction_def writePolicies_def resourceTypeMapOf_def resourcesOf_def
  createCheckStep_def createChecked_def policyLogic_Create_def setUnconditional_def updatedPolicy_def
  updateCheckStep_def policyLogic_Update_def hasCondition_def onlyConditional_def policyLogic_Delete_def
  applyPagination_def listedPolicy_def policyLogic_GetResourcePolicy_def ancestorsStrToInfo_def

text \<open>Two policies of a user on documents, one of them with a conditional rule.\<close>

definition office_rule :: "string list \<Rightarrow> rule_item" where
  "office_rule ops = \<lparr> rule_Condition = JObj [(''time'', JStr ''office'')], rule_Operations = map demo_op ops \<rparr>"

definition office_row :: policy_row where
  "office_row = (demo_row ''p2'' ''d2'' [] [])\<lparr> p_operation := rulesInfoToString
     \<lparr> rules_Allow = [demo_rule [''read''], office_rule [''write'']], rules_Deny = [] \<rparr> \<rparr>"

definition policies_world :: world where
  "policies_world = empty_world\<lparr>
     t_policy := [demo_row ''p1'' ''d1'' [''read'', ''authorize''] [], office_row] \<rparr>"

lemmas policies_demo = policies_world_def office_row_def office_rule_def demo_row_def
  demo_rule_def demo_op_def demo_admin_def

lemma policies_world_ok [simp]: "policies_ok policies_world"
  by (simp add: policies_ok_def policy_rows_ok_def policy_key_def policies_demo)

definition lossy_env :: env where
  "lossy_env = quiet_env\<lparr> fault_at := (\<lambda>n. if n = 2 then FaultAfter else NoFault) \<rparr>"

lemma lossy_env_run [run_simps]:
  "fault_at lossy_env n = (if n = 2 then FaultAfter else NoFault)" "map_order lossy_env ks = ks"
  "um_GetUserRolesByUserID lossy_env u = Inr [SuperAdmin]" "now_at lossy_env n = 1000 + int n"
  by (simp_all add: lossy_env_def run_simps)

text \<open>
  C4: creating, changing and deleting policies is all or nothing.  Whatever error a
  request ends with, and at whichever of its statements, the policy table is what it was
  before; the only exception is a commit that took effect although its answer was lost.
\<close>

theorem policy_requests_all_or_nothing:
  assumes "(\<exists>ps. policyLogic_Create e v ps w = (Inl er, w')) \<or>
      (\<exists>ps. policyLogic_CreatePrivate e ps w = (Inl er, w')) \<or>
      (\<exists>ps. policyLogic_InitPolicy e ps w = (Inl er, w')) \<or>
      (\<exists>ps. policyLogic_Update e v ps w = (Inl er, w')) \<or>
      (\<exists>ids. policyLogic_Delete e v ids w = (Inl er, w'))"
    and "fault_at e (tick w' - 1) \<noteq> FaultAfter"
  shows "t_policy w' = t_policy w"
  using assms(1)
  by (elim disjE exE) (rule atomicD [OF _ _ assms(2)], rule policy_requests_atomic, assumption)+

theorem policy_requests_all_or_nothing_witness:
  "\<exists>w'. policyLogic_Delete lossy_env demo_admin [''p1''] policies_world = (Inl DBError, w') \<and>
     t_policy w' = t_policy policies_world"
proof -
  obtain w' where run: "policyLogic_Delete lossy_env demo_admin [''p1''] policies_world = (Inl DBError, w')"
    and tick: "tick w' = 4"
    by (simp add: run_simps policies_demo cong: run_congs)
  have "fault_at lossy_env (tick w' - 1) \<noteq> FaultAfter" by (simp add: tick run_simps)
  then show ?thesis using policy_requests_all_or_nothing [of lossy_env demo_admin policies_world DBError w'] run by blast
qed

text \<open>
  Only authorised requests change policies.  If \<open>Create\<close>, \<open>Update\<close> or \<open>Delete\<close> changed
  the policy table in any way, then the caller is a super, system or security
  administrator, or the access decision grants the caller \<open>authorize\<close> on every resource the
  request concerns.
\<close>

theorem policy_changes_authorised:
  assumes "env_ok e" "policies_ok w"
  shows "(t_policy (snd (policyLogic_Create e v ps w)) \<noteq> t_policy w \<longrightarrow>
            authorised e v w ((\<lambda>p. (pol_ResourceType p, pol_ResourceID p)) ` set ps)) \<and>
         (t_policy (snd (policyLogic_Update e v ps w)) \<noteq> t_policy w \<longrightarrow>
            authorised e v w (row_resource ` {r \<in> set (t_policy w). p_id r \<in> pol_ID ` set ps})) \<and>
         (t_policy (snd (policyLogic_Delete e v ids w)) \<noteq> t_policy w \<longrightarrow>
            authorised e v w (row_resource ` {r \<in> set (t_policy w). p_id r \<in> set ids}))"
proof -
  have "distinct (map p_id (t_policy w))" using assms(2) by (simp add: policies_ok_def policy_rows_ok_def)
  then show ?thesis
    using Create_authorised [OF assms(1)] Update_authorised [OF assms(1)] Delete_authorised [OF assms(1)]
    by blast
qed

definition guest_env :: env where
  "guest_env = quiet_env\<lparr> um_GetUserRolesByUserID := (\<lambda>_. Inr []) \<rparr>"

lemma guest_env_run [run_simps]:
  "fault_at guest_env n = NoFault" "map_order guest_env ks = ks" "um_GetUserRolesByUserID guest_env u = Inr []"
  "now_at guest_env n = 1000 + int n" "um_GetAccessorIDsByUserID guest_env u = Inr [u]"
  by (simp_all add: guest_env_def run_simps)

lemma env_ok_guest: "env_ok guest_env"
  using env_ok_quiet unfolding env_ok_def guest_env_def by simp

definition demo_user :: visitor where
  "demo_user = \<lparr> vis_ID = ''u1'', vis_Type = RealName, vis_Language = ''en-us'' \<rparr>"

theorem policy_changes_authorised_witness:
  "t_policy (snd (policyLogic_Delete guest_env demo_user [''p1''] policies_world)) \<noteq> t_policy policies_world \<and>
   \<not> adminVisitor guest_env demo_user \<and> mayAuthorize guest_env demo_user policies_world ''doc'' ''d1''"
proof -
  have changed: "t_policy (snd (policyLogic_Delete guest_env demo_user [''p1''] policies_world)) \<noteq> t_policy policies_world"
    by (simp add: run_simps policies_demo demo_user_def cong: run_congs)
  have guest: "\<not> adminVisitor guest_env demo_user" by (simp add: adminVisitor_def guest_env_run)
  have "(''doc'', ''d1'') \<in> row_resource ` {r \<in> set (t_policy policies_world). p_id r \<in> set [''p1'']}"
    by (intro image_eqI [of _ _ "demo_row ''p1'' ''d1'' [''read'', ''authorize''] []"])
      (simp_all add: policies_demo row_resource_def)
  then show ?thesis
    using policy_changes_authorised [OF env_ok_guest policies_world_ok, of demo_user "[]" "[''p1'']"] changed guest
    unfolding authorised_def by blast
qed

text \<open>
  C10: what a successful \<open>Create\<close> does to the policy table.  A request for a resource and
  accessor that have a policy is merged into that row, unless it asks for nothing new; the
  other requests are appended, in order, with their rules, ancestors and end time; all other
  rows stay.  The returned identifiers are, in order, those of the rows that hold the
  requests, and afterwards no two rows have the same identifier or the same resource and
  accessor.
\<close>

theorem policy_create_table:
  assumes "env_ok e" "policies_ok w" "inj (uuid_at e)" "\<And>n. uuid_at e n \<notin> p_id ` set (t_policy w)"
    and "policyLogic_Create e v ps w = (Inr ids, w')"
  shows "createdTable e ps ids (t_policy w) (t_policy w')"
proof (cases "ps = []")
  case True
  then show ?thesis
    using assms(2,5) by (auto simp: policyLogic_Create_def createdTable_def policies_ok_def merged_row_def map_idI)
next
  case False
  with assms(5) obtain w1 where c: "checkVisitorAuthorize e v (resourcesOf ps) w = (Inr (), w1)"
    and run: "createChecked e ps w1 = (Inr ids, w')"
    by (auto simp: policyLogic_Create_def elim!: bindM_InrE)
  have "keeps t_policy (checkVisitorAuthorize e v (resourcesOf ps))" by (intro keeps_intros) simp
  from keepsD [OF this c] have w1: "t_policy w1 = t_policy w" .
  from createChecked_run [OF assms(1) _ assms(3) _ run] show ?thesis
    using assms(2,4) w1 by (simp add: policies_ok_def)
qed

definition doc_type_row :: resource_type_row where
  "doc_type_row = (demo_type_row ''doc'')\<lparr> t_operation := map (\<lambda>i. \<lparr> rto_ID = i, rto_Name = [],
     rto_Description = '''', rto_Scope = [] \<rparr>) [''read'', ''write'', ''authorize''] \<rparr>"

definition request :: "string \<Rightarrow> string list \<Rightarrow> string list \<Rightarrow> policy_info" where
  "request i allow deny = zero_policy\<lparr> pol_ResourceID := i, pol_ResourceType := ''doc'', pol_AccessorID := ''u1'',
     pol_AccessorType := AccessorUser, pol_EndTime := -1,
     pol_Rules := \<lparr> rules_Allow = [demo_rule allow], rules_Deny = [demo_rule deny] \<rparr> \<rparr>"

definition create_world :: world where
  "create_world = policies_world\<lparr> t_resource_type := [doc_type_row] \<rparr>"

lemma create_run:
  "\<exists>w'. policyLogic_Create fresh_env demo_admin [request ''d1'' [''write''] [''read''], request ''d3'' [''read''] []] create_world
     = (Inr [''p1'', ''id-uuuuuu''], w')"
  by (simp add: run_simps policies_demo create_world_def doc_type_row_def demo_type_row_def request_def cong: run_congs)

lemma create_world_ok: "policies_ok create_world"
  using policies_world_ok by (simp add: policies_ok_def create_world_def)

lemma fresh_env_inj: "inj (uuid_at fresh_env)"
  by (rule injI) (simp add: fresh_env_run replicate_eq_replicate)

theorem policy_create_table_witness:
  "\<exists>w'. policyLogic_Create fresh_env demo_admin [request ''d1'' [''write''] [''read''], request ''d3'' [''read''] []] create_world
       = (Inr [''p1'', ''id-uuuuuu''], w') \<and>
     createdTable fresh_env [request ''d1'' [''write''] [''read''], request ''d3'' [''read''] []]
       [''p1'', ''id-uuuuuu''] (t_policy create_world) (t_policy w')"
proof -
  from create_run obtain w' where run: "policyLogic_Create fresh_env demo_admin
      [request ''d1'' [''write''] [''read''], request ''d3'' [''read''] []] create_world = (Inr [''p1'', ''id-uuuuuu''], w')"
    by blast
  have "uuid_at fresh_env n \<notin> p_id ` set (t_policy create_world)" for n
    by (simp add: fresh_env_run create_world_def policies_demo)
  from policy_create_table [OF env_ok_fresh create_world_ok fresh_env_inj this run] run show ?thesis by blast
qed

text \<open>
  C13: what merging a request into a policy does.  Operations that either of them denies are
  denied, and those that either allows and none denies are allowed; an operation the request
  allows carries the obligations of the request; the conditional rules of the policy stay; and
  the result expires as soon as one of the two would.
\<close>

definition expired :: "int \<Rightarrow> policy_info \<Rightarrow> bool" where
  "expired t p \<longleftrightarrow> pol_EndTime p \<noteq> -1 \<and> pol_EndTime p < t"

theorem merge_deny_wins:
  assumes "env_ok e" "m = mergeNewPolicy e old p"
  shows "unconditionalDeny m = unconditionalDeny p \<union> unconditionalDeny old \<and>
    unconditionalAllow m = (unconditionalAllow p \<union> unconditionalAllow old) - unconditionalDeny m \<and>
    (\<forall>op\<in>set (firstUnconditional (rules_Allow (pol_Rules m))). ope_ID op \<in> unconditionalAllow p \<longrightarrow>
       op \<in> set (firstUnconditional (rules_Allow (pol_Rules p)))) \<and>
    conditionalRules (rules_Allow (pol_Rules m)) = conditionalRules (rules_Allow (pol_Rules old)) \<and>
    conditionalRules (rules_Deny (pol_Rules m)) = conditionalRules (rules_Deny (pol_Rules old)) \<and>
    (\<forall>t. expired t m \<longleftrightarrow> expired t old \<or> expired t p)"
proof -
  note ord = env_ok_key_order [OF assms(1)]
  let ?d = "mergeDeny (firstUnconditional (rules_Deny (pol_Rules p))) (firstUnconditional (rules_Deny (pol_Rules old)))"
  let ?a = "mergeAllow ?d (firstUnconditional (rules_Allow (pol_Rules p))) (firstUnconditional (rules_Allow (pol_Rules old)))"
  have deny: "unconditionalDeny m = dom (map_of ?d)"
    unfolding assms(2) unconditionalDeny_def mergeNewPolicy_rules firstUnconditional_merge
    by (rule range_ids [OF ord idsWf_maps(2)])
  have allow: "unconditionalAllow m = dom (map_of ?a)"
    unfolding assms(2) unconditionalAllow_def mergeNewPolicy_rules firstUnconditional_merge
    by (rule range_ids [OF ord idsWf_maps(3)])
  have obligations: "op \<in> set (firstUnconditional (rules_Allow (pol_Rules p)))"
    if op: "op \<in> set (firstUnconditional (rules_Allow (pol_Rules m)))" "ope_ID op \<in> unconditionalAllow p" for op
  proof -
    have a: "map_of ?a (ope_ID op) = Some op"
      using op(1) range_ids(2) [OF ord idsWf_maps(3)]
      unfolding assms(2) mergeNewPolicy_rules firstUnconditional_merge by blast
    then have "ope_ID op \<in> dom (map_of ?a)" by (rule domI)
    then have "map_of ?d (ope_ID op) = None" unfolding dom_merge(3) by blast
    moreover obtain op' where op': "map_of (operationMap (firstUnconditional (rules_Allow (pol_Rules p)))) (ope_ID op) = Some op'"
      using op(2) dom_merge(1) unfolding unconditionalAllow_def by blast
    ultimately have "op' = op" using mergeAllow_new a by fastforce
    then show ?thesis using operationMap_in [OF op'] by simp
  qed
  have "conditionalRules (rules_Allow (pol_Rules m)) = conditionalRules (rules_Allow (pol_Rules old))"
    "conditionalRules (rules_Deny (pol_Rules m)) = conditionalRules (rules_Deny (pol_Rules old))"
    unfolding assms(2) mergeNewPolicy_rules by (rule conditionalRules_merge)+
  moreover have "pol_EndTime m = calcMinEndTime (pol_EndTime old) (pol_EndTime p)"
    by (simp add: assms(2) mergeNewPolicy_def split_def Let_def)
  then have "expired t m \<longleftrightarrow> expired t old \<or> expired t p" for t
    using calcMinEndTime_expiry by (simp add: expired_def)
  moreover have "unconditionalDeny m = unconditionalDeny p \<union> unconditionalDeny old"
    unfolding deny dom_merge(2) by (simp add: unconditionalDeny_def)
  moreover have "unconditionalAllow m = (unconditionalAllow p \<union> unconditionalAllow old) - unconditionalDeny m"
    unfolding allow dom_merge(3) deny by (simp add: unconditionalAllow_def)
  ultimately show ?thesis using obligations by blast
qed

lemma request_operations:
  "unconditionalAllow (request i allow deny) = set allow" "unconditionalDeny (request i allow deny) = set deny"
  by (simp_all add: unconditionalAllow_def unconditionalDeny_def request_def firstUnconditional_def demo_rule_def
      demo_op_def isConditionEmpty_def image_image)

theorem merge_deny_wins_witness:
  "unconditionalAllow (mergeNewPolicy quiet_env (request ''d1'' [''read'', ''list''] []) (request ''d1'' [''write''] [''read''])) =
     {''write'', ''list''}"
  using merge_deny_wins [OF env_ok_quiet refl, of "request ''d1'' [''read'', ''list''] []" "request ''d1'' [''write''] [''read'']"]
  unfolding request_operations by auto

text \<open>
  C12: what a successful \<open>Delete\<close> does.  A named policy that has conditional rules keeps
  exactly these, and a named policy without them is removed; all other rows stay.
\<close>

theorem policy_delete_table:
  assumes "env_ok e" "policies_ok w" "policyLogic_Delete e v ids w = (Inr (), w')"
  shows "\<exists>t. t_policy w' = List.map_filter (deleted_row t ids) (t_policy w)"
  using assms by (rule Delete_run)

theorem policy_delete_table_witness:
  "\<exists>w' t. policyLogic_Delete quiet_env demo_admin [''p1'', ''p2''] policies_world = (Inr (), w') \<and>
     t_policy w' = List.map_filter (deleted_row t [''p1'', ''p2'']) (t_policy policies_world) \<and> length (t_policy w') = 1"
proof -
  obtain w' where run: "policyLogic_Delete quiet_env demo_admin [''p1'', ''p2''] policies_world = (Inr (), w')"
    and one: "length (t_policy w') = 1"
    by (simp add: run_simps policies_demo cong: run_congs)
  from policy_delete_table [OF env_ok_quiet policies_world_ok run] run one show ?thesis by blast
qed



text \<open>
  C39: the listing for one resource panics behind its last page.  When at least one policy is
  listed and the offset is not smaller than their number, \<open>GetResourcePolicy\<close> reads the first
  element of an empty page; \<open>GetPagination\<close> returns an empty page on the same input.
\<close>

theorem resource_policy_page_panics:
  assumes "checkVisitorAuthorize e v [(rt, [(i, True)])] w = (Inr (), w1)"
    and "policy_GetPagination e i rt w1 = (Inr ps, w2)" "List.map_filter listedPolicy ps = qs" "qs \<noteq> []"
    and "limit \<noteq> -1" "int (length qs) \<le> offset"
  shows "policyLogic_GetResourcePolicy e v \<lparr> rpp_ResourceID = i, rpp_ResourceType = rt, rpp_Offset = offset,
        rpp_Limit = limit, rpp_Include = incl, rpp_SubResourceTypeIDs = subs \<rparr> w = (Inl Panic, w2) \<and>
    policyLogic_GetPagination e v \<lparr> pp_ResourceID = i, pp_ResourceType = rt, pp_Offset = offset,
        pp_Limit = limit \<rparr> w = (Inr (length qs, []), w2)"
proof -
  have "ps \<noteq> []" using assms(3,4) by (auto simp: List.map_filter_simps)
  moreover have "applyPagination qs offset limit = Inr []" using assms(4-6) by (simp add: applyPagination_def)
  ultimately show ?thesis
    using assms(1-4)
    by (simp add: policyLogic_GetResourcePolicy_def policyLogic_GetPagination_def bindM_def Let_def)
qed

theorem resource_policy_page_panics_witness:
  "\<exists>w2. policyLogic_GetResourcePolicy quiet_env demo_admin \<lparr> rpp_ResourceID = ''d1'', rpp_ResourceType = ''doc'',
     rpp_Offset = 20, rpp_Limit = 20, rpp_Include = [], rpp_SubResourceTypeIDs = [] \<rparr> policies_world = (Inl Panic, w2)"
proof -
  obtain w1 where c: "checkVisitorAuthorize quiet_env demo_admin [(''doc'', [(''d1'', True)])] policies_world = (Inr (), w1)"
    and "t_policy w1 = t_policy policies_world"
    by (simp add: run_simps policies_demo cong: run_congs)
  then obtain ps w2 where g: "policy_GetPagination quiet_env ''d1'' ''doc'' w1 = (Inr ps, w2)"
    and l: "length (List.map_filter listedPolicy ps) = 1"
    by (simp add: run_simps policies_demo cong: run_congs)
  from l have "List.map_filter listedPolicy ps \<noteq> []" "int (length (List.map_filter listedPolicy ps)) \<le> 20" by auto
  from resource_policy_page_panics [OF c g refl this(1) _ this(2), of 20 "[]" "[]"] show ?thesis by auto
qed

end
