(* ===== verification/ServiceSpec.thy ===== *)
theory ServiceSpec
  imports Service PolicySpec
begin

text \<open>
  The properties that span roles, policies, events and messages, each with a concrete run
  that meets its hypotheses, and two runs in which a failed statement has a lasting effect.
\<close>

text \<open>A role with one member, a policy of the member and a policy of the role.\<close>

definition grant_world :: world where
  "grant_world = roles_world\<lparr> t_policy :=
     [demo_row ''p1'' ''d1'' [''read''] [], (demo_row ''p2'' ''d2'' [''read''] [])\<lparr> p_accessor_id := ''r1'' \<rparr>] \<rparr>"

lemmas grant_defs = grant_world_def roles_world_def demo_role_def demo_admin_def demo_row_def demo_rule_def demo_op_def

lemma grant_world_ok: "service_ok grant_world"
  by (auto simp: service_ok_def policies_ok_def policy_rows_ok_def policy_key_def roles_ok_def role_rows_ok_def
      members_ok_def member_rows_ok_def types_ok_def hierarchies_ok_def scope_stored_def run_simps grant_defs)

lemmas service_run [run_simps] = service_handlers onMessage_def retryable_def needReTry_def
  mq_userDeleted_def getIDInNsqMsg_def requireStrings_check decoded_def strField_def

text \<open>A message of one string, read as the object whose \<open>id\<close> it is.\<close>

definition demo_codec :: codec where
  "demo_codec = \<lparr> decode = (\<lambda>msg. if msg = '''' then None else Some (JObj [(''id'', JStr msg)])),
     decode_dept = (\<lambda>msg. if msg = '''' then None else Some msg) \<rparr>"

text \<open>A database that refuses the statements of the ticks in \<open>T\<close>.\<close>

definition outage_env :: "nat set \<Rightarrow> env" where
  "outage_env T = quiet_env\<lparr> fault_at := (\<lambda>n. if n \<in> T then FaultBefore else NoFault) \<rparr>"

lemma outage_env_run [run_simps]:
  "fault_at (outage_env T) n = (if n \<in> T then FaultBefore else NoFault)"
  "map_order (outage_env T) ks = ks" "um_GetUserRolesByUserID (outage_env T) u = Inr [SuperAdmin]"
  by (simp_all add: outage_env_def run_simps)


section \<open>Properties\<close>

text \<open>
  C18: deleting a role takes its members and its policies with it, through the event the
  role announces and the policies listen to, and changes nothing else in any table.
\<close>

theorem role_delete_cascades:
  assumes "roles_ok w" "i \<in> r_id ` set (t_role w)"
    and "role_DeleteRole e (service_event e) v i w = (Inr (), w')"
  shows "t_role w' = filter (\<lambda>r. r_id r \<noteq> i) (t_role w) \<and>
     t_role_member w' = filter (\<lambda>m. m_role_id m \<noteq> i) (t_role_member w) \<and>
     t_policy w' = filter (\<lambda>r. p_accessor_id r \<noteq> i) (t_policy w) \<and>
     t_resource_type w' = t_resource_type w \<and> t_hierarchy w' = t_hierarchy w \<and>
     t_obligation_type w' = t_obligation_type w \<and> t_obligation w' = t_obligation w"
  using DeleteRole_run [OF assms] by (simp add: removedRole_def)

theorem role_delete_cascades_witness:
  "\<exists>w'. role_DeleteRole quiet_env (service_event quiet_env) demo_admin ''r1'' grant_world = (Inr (), w') \<and>
     t_role w' = [] \<and> t_role_member w' = [] \<and> t_policy w' = [demo_row ''p1'' ''d1'' [''read''] []]"
proof -
  obtain w' where run: "role_DeleteRole quiet_env (service_event quiet_env) demo_admin ''r1'' grant_world = (Inr (), w')"
    by (simp add: run_simps grant_defs accessor_statements role_DeleteRole_def role_checkVisitorType_def
        checkVisitorType_def cong: run_congs)
  have "roles_ok grant_world" using grant_world_ok by (simp add: service_ok_def)
  from role_delete_cascades [OF this _ run] run show ?thesis by (simp add: grant_defs run_simps)
qed

text \<open>
  C16: a message that a user, a department, a group or an app was deleted.  If it cannot be
  read it is acknowledged and changes nothing.  Otherwise it is acknowledged only when every
  policy and every membership of the accessor is gone, and nothing else has changed; and it
  is returned for another delivery only when a statement failed.
\<close>

theorem deletion_message_handled:
  assumes "topic \<in> deletionTopics" "map_of (topicFuncMap di c e (service_event e)) topic = Some handler"
    and "handler msg w = (r, w')"
  shows "case messageID c topic msg of
      None \<Rightarrow> r = Inr () \<and> w' = w
    | Some i \<Rightarrow> r = Inr () \<and> removedAccessor i w w' \<or>
        r = Inl DBError \<and> (\<exists>n. tick w \<le> n \<and> n < tick w' \<and> fault_at e n \<noteq> NoFault)"
  using assms by (rule deletion_run)

theorem deletion_message_handled_witness:
  "\<exists>w'. mq_userDeleted True demo_codec (service_event quiet_env) ''u1'' grant_world = (Inr (), w') \<and>
     removedAccessor ''u1'' grant_world w' \<and>
   mq_userDeleted True demo_codec (service_event quiet_env) '''' grant_world = (Inr (), grant_world)"
proof -
  have topic: "''core.user.delete'' \<in> deletionTopics"
    "map_of (topicFuncMap True demo_codec quiet_env (service_event quiet_env)) ''core.user.delete'' =
       Some (mq_userDeleted True demo_codec (service_event quiet_env))"
    by (simp_all add: deletionTopics_def topicFuncMap_def)
  let ?run = "\<lambda>msg. mq_userDeleted True demo_codec (service_event quiet_env) msg grant_world"
  note handled = deletion_message_handled [OF topic]
  have "messageID demo_codec ''core.user.delete'' ''u1'' = Some ''u1''"
    "messageID demo_codec ''core.user.delete'' '''' = None"
    by (simp_all add: messageID_def idField_def demo_codec_def)
  with handled [of "''u1''" grant_world "fst (?run ''u1'')" "snd (?run ''u1'')"]
    handled [of "''''" grant_world "fst (?run '''')" "snd (?run '''')"]
  show ?thesis by (auto simp: quiet_env_run prod_eq_iff intro!: exI [of _ "snd (?run ''u1'')"])
qed

text \<open>
  C6: in every state the service can reach, through any sequence of requests, messages,
  rounds of the cleaning thread and failures, the tables are well formed: policies have
  distinct identifiers and distinct pairs of resource and accessor, and their rules can be
  read; roles have distinct identifiers and distinct names; nobody is a member of a role
  twice; resource types have distinct identifiers, and there is one readable hierarchy for
  each root.
\<close>

theorem reachable_states_ok:
  assumes "reachable w0 w" "service_ok w0"
  shows "policies_ok w \<and> roles_ok w \<and> members_ok w \<and> types_ok w \<and> hierarchies_ok w"
  using reachable_service_ok [OF assms] by (simp add: service_ok_def)

lemma fresh_for_grant: "fresh_for fresh_env grant_world"
  using env_ok_fresh fresh_env_inj by (auto simp: fresh_for_def fresh_env_run grant_defs run_simps)

theorem reachable_states_ok_witness:
  "policies_ok (snd (policyLogic_Delete lossy_env demo_admin [''p1'']
     (snd (policyLogic_Create fresh_env demo_admin [request ''d1'' [''write''] [''read'']] grant_world))))"
proof -
  have "reachable grant_world (snd (policyLogic_Delete lossy_env demo_admin [''p1'']
     (snd (policyLogic_Create fresh_env demo_admin [request ''d1'' [''write''] [''read'']] grant_world))))"
    by (rule reachable.step [OF reachable.step [OF reachable.start service_step.create [OF fresh_for_grant]]
          service_step.delete])
  from reachable_states_ok [OF this grant_world_ok] show ?thesis by blast
qed




section \<open>Failures with a lasting effect\<close>


text \<open>
  With Kafka the next message that succeeds commits an offset behind the one that failed,
  so the failed one is not delivered again.
\<close>

lemma kafka_failed_skipped:
  assumes "handler m1 w = (Inl DBError, w1)" "handler m2 w1 = (Inr (), w2)" "commit_ok (Suc k)"
  shows "kafka_consume commit_ok handler [(k, m1), (Suc k, m2)] k w = (Inr (Suc (Suc k)), w2)"
  using assms by (simp add: kafka_consume_def kafka_step_def bindM_def)

theorem kafka_loses_deletion:
  "\<exists>w'. kafka_consume (\<lambda>_. True) (mq_userDeleted True demo_codec (service_event (outage_env {0})))
       [(7, ''u1''), (8, ''u9'')] 7 grant_world = (Inr 9, w') \<and> t_policy w' = t_policy grant_world"
  by (simp add: kafka_consume_def kafka_step_def run_simps grant_defs accessor_statements demo_codec_def cong: run_congs)

end
