(* ===== verification/DecisionRest.thy ===== *)
theory DecisionRest
  imports MessageQueue
begin

text \<open>
  The HTTP interface of the decisions: \<open>driveradapters/policy_calc_rest_handler.go\<close>, the
  check of the caller's token (\<open>driveradapters/hydra.go\<close>) and the JSON schemas of the
  requests (\<open>driveradapters/jsonschema/policy_calc\<close>).  A handler takes the body of a request
  and returns the JSON value of the answer, or the error that is replied instead.
\<close>

section \<open>Schemas\<close>

text \<open>
  The keywords of JSON schema the request schemas use, without the annotations (title,
  description, default).  \<open>schemaJson\<close> is the schema as the library reads it.
\<close>

datatype json_type = TObject | TArray | TString | TBoolean

datatype schema = Schema (s_type: json_type) (s_required: "string list")
  (s_properties: "(string \<times> schema) list") (s_items: "schema option") (s_enum: "string list") (s_uniqueItems: bool)

primrec typeName :: "json_type \<Rightarrow> string" where
  "typeName TObject = ''object''"
| "typeName TArray = ''array''"
| "typeName TString = ''string''"
| "typeName TBoolean = ''boolean''"

fun schemaJson :: "schema \<Rightarrow> json" where
  "schemaJson (Schema t req props items enum uniq) = JObj
     ([(''type'', JStr (typeName t))]
      @ (if req = [] then [] else [(''required'', JArr (map JStr req))])
      @ (if props = [] then [] else [(''properties'', JObj (map (\<lambda>(k, s). (k, schemaJson s)) props))])
      @ (case items of None \<Rightarrow> [] | Some s \<Rightarrow> [(''items'', schemaJson s)])
      @ (if enum = [] then [] else [(''enum'', JArr (map JStr enum))])
      @ (if uniq then [(''uniqueItems'', JBool True)] else []))"

definition stringSchema :: schema where
  "stringSchema = Schema TString [] [] None [] False"

definition enumSchema :: "string list \<Rightarrow> schema" where
  "enumSchema values = Schema TString [] [] None values False"

definition objectSchema :: "string list \<Rightarrow> (string \<times> schema) list \<Rightarrow> schema" where
  "objectSchema req props = Schema TObject req props None [] False"

definition arraySchema :: "schema \<Rightarrow> schema" where
  "arraySchema items = Schema TArray [] [] (Some items) [] False"

definition booleanSchema :: schema where
  "booleanSchema = Schema TBoolean [] [] None [] False"

definition accessorSchema :: schema where
  "accessorSchema = objectSchema [''id'', ''type''] [(''id'', stringSchema), (''type'', enumSchema [''user'', ''app''])]"

definition ancestorsSchema :: schema where
  "ancestorsSchema = arraySchema (objectSchema [''id'', ''type''] [(''id'', stringSchema), (''type'', stringSchema)])"

definition createdBySchema :: schema where
  "createdBySchema = objectSchema [] [(''id'', stringSchema)]"

definition checkedResourceSchema :: schema where
  "checkedResourceSchema = objectSchema [''id'', ''type'']
     [(''id'', stringSchema), (''name'', stringSchema), (''type'', stringSchema),
      (''ancestors'', ancestorsSchema), (''created_by'', createdBySchema)]"

definition resourcesSchema :: schema where
  "resourcesSchema = arraySchema (objectSchema []
     [(''id'', stringSchema), (''type'', stringSchema),
      (''ancestors'', ancestorsSchema), (''created_by'', createdBySchema)])"

definition operationSchema :: schema where
  "operationSchema = Schema TArray [] [] (Some stringSchema) [] True"

definition includeSchema :: schema where
  "includeSchema = arraySchema (enumSchema [''operation_obligations''])"

definition methodSchema :: schema where
  "methodSchema = enumSchema [''GET'']"

definition checkSchema_calc :: schema where
  "checkSchema_calc = objectSchema [''accessor'', ''resource'', ''operation'', ''method'']
     [(''accessor'', accessorSchema), (''resource'', checkedResourceSchema), (''operation'', operationSchema),
      (''method'', methodSchema), (''include'', includeSchema)]"

definition checkPublicSchema :: schema where
  "checkPublicSchema = objectSchema [''resource'', ''operation'', ''method'']
     [(''resource'', checkedResourceSchema), (''operation'', operationSchema), (''method'', methodSchema)]"

definition resourceFilterSchema :: schema where
  "resourceFilterSchema = objectSchema [''accessor'', ''resources'', ''operation'', ''method'']
     [(''accessor'', accessorSchema), (''resources'', resourcesSchema), (''operation'', operationSchema),
      (''method'', methodSchema), (''allow_operation'', booleanSchema),
      (''include'', includeSchema)]"

definition resourceListSchema :: schema where
  "resourceListSchema = objectSchema [''accessor'', ''resource'', ''operation'', ''method'']
     [(''accessor'', accessorSchema), (''resource'', objectSchema [''type''] [(''type'', stringSchema)]),
      (''operation'', operationSchema), (''method'', methodSchema), (''include'', includeSchema)]"

definition resourceOperationSchema :: schema where
  "resourceOperationSchema = objectSchema [''accessor'', ''resources'', ''method'']
     [(''accessor'', accessorSchema), (''resources'', resourcesSchema), (''method'', methodSchema)]"

definition resourceOperationPublicSchema :: schema where
  "resourceOperationPublicSchema = objectSchema [''resources'', ''method'']
     [(''resources'', resourcesSchema), (''method'', methodSchema)]"

definition resourceTypeOperationPublicSchema :: schema where
  "resourceTypeOperationPublicSchema = objectSchema [''resource_types'', ''method'']
     [(''resource_types'', arraySchema stringSchema), (''method'', methodSchema)]"


section \<open>The caller\<close>

text \<open>
  \<open>post\<close> stands for the introspection endpoint of the OAuth server: the status and the body
  of its answer to a token, or \<open>None\<close> if there is no answer.  A body that is no JSON is an
  error without a code.  The account and the client type are read but not used.
\<close>

record introspect_info =
  ti_Active :: bool
  ti_VisitorID :: string
  ti_Scope :: string
  ti_ClientID :: string
  ti_VisitorTyp :: visitor_type
  ti_LoginIP :: string
  ti_Udid :: string

definition zero_introspect :: introspect_info where
  "zero_introspect = \<lparr> ti_Active = False, ti_VisitorID = '''', ti_Scope = '''', ti_ClientID = '''',
     ti_VisitorTyp = VisitorUnset, ti_LoginIP = '''', ti_Udid = '''' \<rparr>"

definition visitorTypeMap :: "(string, visitor_type) gomap" where
  "visitorTypeMap = [(''realname'', RealName), (''anonymous'', Anonymous), (''business'', App)]"

definition visitorOf :: "(string, visitor_type) gomap \<Rightarrow> string \<Rightarrow> visitor_type" where
  "visitorOf m k = (case map_of m k of None \<Rightarrow> VisitorUnset | Some t \<Rightarrow> t)"

definition readToken :: "(string \<times> json) list \<Rightarrow> err + introspect_info" where
  "readToken respParam =
     bindE (as_bool (jfield respParam ''active'')) (\<lambda>active.
       if \<not> active then Inr zero_introspect
       else
     bindE (as_str (jfield respParam ''sub'')) (\<lambda>visitorID.
     bindE (as_str (jfield respParam ''scope'')) (\<lambda>scope.
     bindE (as_str (jfield respParam ''client_id'')) (\<lambda>clientID.
       let info = zero_introspect\<lparr> ti_Active := True, ti_VisitorID := visitorID, ti_Scope := scope,
                    ti_ClientID := clientID \<rparr> in
       if visitorID = clientID then Inr (info\<lparr> ti_VisitorTyp := App \<rparr>)
       else
     bindE (as_obj (jfield respParam ''ext'')) (\<lambda>ext.
     bindE (as_str (jfield ext ''visitor_type'')) (\<lambda>visitorType.
       let info' = info\<lparr> ti_VisitorTyp := visitorOf visitorTypeMap visitorType \<rparr> in
       if ti_VisitorTyp info' \<noteq> RealName then Inr info'
       else
     bindE (as_str (jfield ext ''login_ip'')) (\<lambda>loginIP.
     bindE (as_str (jfield ext ''udid'')) (\<lambda>udid.
     bindE (as_str (jfield ext ''account_type'')) (\<lambda>_.
     bindE (as_str (jfield ext ''client_type'')) (\<lambda>_.
       Inr (info'\<lparr> ti_LoginIP := loginIP, ti_Udid := udid \<rparr>)))))))))))"

definition Introspect :: "codec \<Rightarrow> (string \<Rightarrow> (int \<times> string) option) \<Rightarrow> string \<Rightarrow> err + introspect_info" where
  "Introspect c post token =
     (case post (''token='' @ token) of
        None \<Rightarrow> Inl DrivenError
      | Some (status, body) \<Rightarrow>
          if status < 200 \<or> 300 \<le> status then Inl DrivenError
          else (case decode c body of
                  None \<Rightarrow> Inl DrivenError
                | Some v \<Rightarrow> bindE (unmarshal_map v) readToken))"

record http_request =
  req_Authorization :: string
  req_Language :: string
  req_Body :: string

definition TrimPrefix :: "string \<Rightarrow> string \<Rightarrow> string" where
  "TrimPrefix s p = (if take (length p) s = p then drop (length p) s else s)"

definition verify :: "codec \<Rightarrow> (string \<Rightarrow> (int \<times> string) option) \<Rightarrow> http_request \<Rightarrow> err + visitor" where
  "verify c post req =
     bindE (Introspect c post (TrimPrefix (req_Authorization req) ''Bearer '')) (\<lambda>info.
       if \<not> ti_Active info then Inl PublicUnauthorized
       else Inr \<lparr> vis_ID = ti_VisitorID info, vis_Type = ti_VisitorTyp info, vis_Language = req_Language req \<rparr>)"


section \<open>Reading requests\<close>

definition visitorStrToType :: "(string, visitor_type) gomap" where
  "visitorStrToType = [(''user'', RealName), (''app'', App)]"

definition includeStrToType :: "(string, calc_include) gomap" where
  "includeStrToType = [(''operation_obligations'', PolicCalcyIncludeOperationObligations)]"

text \<open>\<open>v, ok := m[k]\<close>, with \<open>v\<close> used only if \<open>ok\<close>.\<close>

definition optField :: "(string \<times> json) list \<Rightarrow> string \<Rightarrow> (json \<Rightarrow> err + 'a) \<Rightarrow> 'a \<Rightarrow> err + 'a" where
  "optField m k f d = (case map_of m k of None \<Rightarrow> Inr d | Some j \<Rightarrow> f j)"

definition rest_ancestorsStrToInfo :: "json \<Rightarrow> err + ancestor list" where
  "rest_ancestorsStrToInfo ancestorsJson =
     bindE (as_arr ancestorsJson) (mapE (\<lambda>v.
       bindE (as_obj v) (\<lambda>ancestorMap.
       bindE (as_str (jfield ancestorMap ''id'')) (\<lambda>i.
       bindE (as_str (jfield ancestorMap ''type'')) (\<lambda>t.
         Inr \<lparr> anc_ID = i, anc_Type = t, anc_Name = '''' \<rparr>)))))"

definition createdByOf :: "json \<Rightarrow> err + string" where
  "createdByOf createdByJson = bindE (as_obj createdByJson) (\<lambda>m. as_str (jfield m ''id''))"

definition resourceOf :: "json \<Rightarrow> err + resource_info" where
  "resourceOf resource =
     bindE (as_obj resource) (\<lambda>resourceJson.
     bindE (as_str (jfield resourceJson ''id'')) (\<lambda>resourceID.
     bindE (as_str (jfield resourceJson ''type'')) (\<lambda>resourceType.
     bindE (optField resourceJson ''ancestors'' rest_ancestorsStrToInfo []) (\<lambda>ancestors.
     bindE (optField resourceJson ''created_by'' createdByOf '''') (\<lambda>createdBy.
       Inr \<lparr> res_ID = resourceID, res_Type = resourceType, res_Name = '''', res_Ancestors = ancestors,
              res_CreatedBy = createdBy \<rparr>)))))"

definition checkedResourceOf :: "json \<Rightarrow> err + resource_info" where
  "checkedResourceOf resource =
     bindE (resourceOf resource) (\<lambda>r.
     bindE (as_obj resource) (\<lambda>resourceJson.
     bindE (optField resourceJson ''name'' as_str '''') (\<lambda>name. Inr (r\<lparr> res_Name := name \<rparr>))))"

definition accessorOf :: "json \<Rightarrow> err + accessor_info" where
  "accessorOf accessor =
     bindE (as_obj accessor) (\<lambda>accessorJson.
     bindE (as_str (jfield accessorJson ''id'')) (\<lambda>i.
     bindE (as_str (jfield accessorJson ''type'')) (\<lambda>t.
       Inr \<lparr> acc_ID = i, acc_Type = visitorOf visitorStrToType t, acc_Name = '''' \<rparr>)))"

definition stringsOf :: "json \<Rightarrow> err + string list" where
  "stringsOf j = bindE (as_arr j) (mapE as_str)"

definition includeOf :: "(string \<times> json) list \<Rightarrow> err + calc_include list" where
  "includeOf jsonReq =
     optField jsonReq ''include'' (\<lambda>includeJson.
       bindE (as_arr includeJson) (mapE (\<lambda>v.
         bindE (as_str v) (\<lambda>vStr.
           case map_of includeStrToType vStr of None \<Rightarrow> Inl PublicBadRequest | Some t \<Rightarrow> Inr t)))) []"

definition visitorAccessor :: "visitor \<Rightarrow> accessor_info" where
  "visitorAccessor visitor = \<lparr> acc_ID = vis_ID visitor, acc_Type = vis_Type visitor, acc_Name = '''' \<rparr>"


section \<open>Printing answers\<close>

definition obligationsResp :: "env \<Rightarrow> (string, obligation_item list) gomap \<Rightarrow> json list" where
  "obligationsResp e m =
     concat (map (\<lambda>(k, items).
        if items = [] then []
        else [JObj [(''operation'', JStr k),
                    (''obligations'', JArr (map (\<lambda>item. JObj [(''type_id'', JStr (obl_TypeID item)),
                       (''value'', obl_Value item)]) items))]])
       (range_map (map_order e) m))"

definition includeResp :: "env \<Rightarrow> calc_include list \<Rightarrow> (string, obligation_item list) gomap \<Rightarrow> (string \<times> json) list" where
  "includeResp e include m =
     (if include = [] then []
      else [(''include'', JObj
        (if PolicCalcyIncludeOperationObligations \<in> set include
         then [(''operation_obligations'', JArr (obligationsResp e m))] else []))])"

definition obligationsFor ::
    "(string, (string, obligation_item list) gomap) gomap \<Rightarrow> string \<Rightarrow> (string, obligation_item list) gomap" where
  "obligationsFor m k = (case map_of m k of None \<Rightarrow> [] | Some l \<Rightarrow> l)"

definition strings :: "string list \<Rightarrow> json" where
  "strings xs = JArr (map JStr xs)"


section \<open>Handlers\<close>

definition checkRequest ::
    "(string \<times> json) list \<Rightarrow> err + accessor_info \<times> resource_info \<times> string list \<times> calc_include list" where
  "checkRequest jsonReq =
     bindE (accessorOf (jfield jsonReq ''accessor'')) (\<lambda>accessor.
     bindE (checkedResourceOf (jfield jsonReq ''resource'')) (\<lambda>resource.
     bindE (stringsOf (jfield jsonReq ''operation'')) (\<lambda>operations.
     bindE (includeOf jsonReq) (\<lambda>include. Inr (accessor, resource, operations, include)))))"

definition rest_check :: "codec \<Rightarrow> env \<Rightarrow> http_request \<Rightarrow> json op" where
  "rest_check c e req =
     bindM (liftE (validateAndBind e c (schemaJson checkSchema_calc) (req_Body req))) (\<lambda>jsonReq.
     bindM (liftE (checkRequest jsonReq)) (\<lambda>(accessor, resource, operations, include).
     bindM (Check e resource accessor operations include) (\<lambda>checkResult.
       returnM (JObj ((''result'', JBool (cr_Result checkResult))
         # includeResp e include (cr_OperatrionOblist checkResult))))))"

definition rest_checkPublic :: "codec \<Rightarrow> (string \<Rightarrow> (int \<times> string) option) \<Rightarrow> env \<Rightarrow> http_request \<Rightarrow> json op" where
  "rest_checkPublic c post e req =
     bindM (liftE (verify c post req)) (\<lambda>visitor.
     bindM (liftE (validateAndBind e c (schemaJson checkPublicSchema) (req_Body req))) (\<lambda>jsonReq.
     bindM (liftE (checkedResourceOf (jfield jsonReq ''resource''))) (\<lambda>resource.
     bindM (liftE (stringsOf (jfield jsonReq ''operation''))) (\<lambda>operations.
     bindM (Check e resource (visitorAccessor visitor) operations []) (\<lambda>checkResult.
       returnM (JObj [(''result'', JBool (cr_Result checkResult))]))))))"

definition filterRequest ::
    "(string \<times> json) list \<Rightarrow>
     err + accessor_info \<times> resource_info list \<times> string list \<times> bool \<times> calc_include list" where
  "filterRequest jsonReq =
     bindE (accessorOf (jfield jsonReq ''accessor'')) (\<lambda>accessor.
     bindE (bindE (as_arr (jfield jsonReq ''resources'')) (mapE resourceOf)) (\<lambda>resources.
     bindE (stringsOf (jfield jsonReq ''operation'')) (\<lambda>operations.
     bindE (optField jsonReq ''allow_operation'' as_bool False) (\<lambda>allowOperation.
     bindE (includeOf jsonReq) (\<lambda>include. Inr (accessor, resources, operations, allowOperation, include))))))"

definition rest_resourceFilter :: "codec \<Rightarrow> env \<Rightarrow> http_request \<Rightarrow> json op" where
  "rest_resourceFilter c e req =
     bindM (liftE (validateAndBind e c (schemaJson resourceFilterSchema) (req_Body req))) (\<lambda>jsonReq.
     bindM (liftE (filterRequest jsonReq)) (\<lambda>(accessor, resources, operations, allowOperation, include).
     bindM (ResourceFilter e resources accessor operations include) (\<lambda>(result, opMap, oblMap).
       returnM (JArr (map (\<lambda>resource. JObj ((''id'', JStr (res_ID resource))
           # includeResp e include (obligationsFor oblMap (res_ID resource))
           @ (if allowOperation
              then [(''allow_operation'', case map_of opMap (res_ID resource) of
                       None \<Rightarrow> JNull | Some ops \<Rightarrow> strings ops)]
              else []))) result)))))"

definition rest_resourceOperation :: "codec \<Rightarrow> env \<Rightarrow> http_request \<Rightarrow> json op" where
  "rest_resourceOperation c e req =
     bindM (liftE (validateAndBind e c (schemaJson resourceOperationSchema) (req_Body req))) (\<lambda>jsonReq.
     bindM (liftE (accessorOf (jfield jsonReq ''accessor''))) (\<lambda>accessor.
     bindM (liftE (bindE (as_arr (jfield jsonReq ''resources'')) (mapE resourceOf))) (\<lambda>resources.
     bindM (GetResourceOperation e resources accessor) (\<lambda>(opMap, oblMap).
       returnM (JArr (map (\<lambda>(resourceID, operations).
           JObj [(''id'', JStr resourceID), (''operation'', strings operations),
                 (''operation_obligations'', JArr (obligationsResp e (obligationsFor oblMap resourceID)))])
         (range_map (map_order e) opMap)))))))"

definition rest_resourceOperationPublic ::
    "codec \<Rightarrow> (string \<Rightarrow> (int \<times> string) option) \<Rightarrow> env \<Rightarrow> http_request \<Rightarrow> json op" where
  "rest_resourceOperationPublic c post e req =
     bindM (liftE (verify c post req)) (\<lambda>visitor.
     bindM (liftE (validateAndBind e c (schemaJson resourceOperationPublicSchema) (req_Body req))) (\<lambda>jsonReq.
     bindM (liftE (bindE (as_arr (jfield jsonReq ''resources'')) (mapE resourceOf))) (\<lambda>resources.
     bindM (GetResourceOperation e resources (visitorAccessor visitor)) (\<lambda>(opMap, _).
       returnM (JArr (map (\<lambda>(resourceID, operations).
           JObj [(''id'', JStr resourceID), (''operation'', strings operations)])
         (range_map (map_order e) opMap)))))))"

definition rest_resourceTypeOperationPublic ::
    "codec \<Rightarrow> (string \<Rightarrow> (int \<times> string) option) \<Rightarrow> env \<Rightarrow> http_request \<Rightarrow> json op" where
  "rest_resourceTypeOperationPublic c post e req =
     bindM (liftE (verify c post req)) (\<lambda>visitor.
     bindM (liftE (validateAndBind e c (schemaJson resourceTypeOperationPublicSchema) (req_Body req))) (\<lambda>jsonReq.
     bindM (liftE (stringsOf (jfield jsonReq ''resource_types''))) (\<lambda>resourceTypes.
     bindM (GetResourceTypeOperation e resourceTypes (visitorAccessor visitor)) (\<lambda>opMap.
       returnM (JArr (map (\<lambda>(resourceType, operations).
           JObj [(''resource_type'', JStr resourceType), (''operation'', strings operations)])
         (range_map (map_order e) opMap)))))))"

definition listRequest ::
    "(string \<times> json) list \<Rightarrow> err + accessor_info \<times> string \<times> string list \<times> calc_include list" where
  "listRequest jsonReq =
     bindE (accessorOf (jfield jsonReq ''accessor'')) (\<lambda>accessor.
     bindE (bindE (as_obj (jfield jsonReq ''resource'')) (\<lambda>m. as_str (jfield m ''type''))) (\<lambda>resourceTypeID.
     bindE (stringsOf (jfield jsonReq ''operation'')) (\<lambda>operations.
     bindE (includeOf jsonReq) (\<lambda>include. Inr (accessor, resourceTypeID, operations, include)))))"

definition rest_resourceList :: "codec \<Rightarrow> env \<Rightarrow> http_request \<Rightarrow> json op" where
  "rest_resourceList c e req =
     bindM (liftE (validateAndBind e c (schemaJson resourceListSchema) (req_Body req))) (\<lambda>jsonReq.
     bindM (liftE (listRequest jsonReq)) (\<lambda>(accessor, resourceTypeID, operations, include).
     bindM (GetResourceList e resourceTypeID accessor operations include) (\<lambda>(resourceList, oblMap).
       returnM (JArr (map (\<lambda>resource. JObj ((''id'', JStr (res_ID resource))
           # includeResp e include (obligationsFor oblMap (res_ID resource)))) resourceList)))))"


section \<open>What a schema guarantees\<close>

text \<open>
  The meaning of the keywords but \<open>uniqueItems\<close>: what a value the library accepts
  satisfies.
\<close>

definition hasType :: "json_type \<Rightarrow> json \<Rightarrow> bool" where
  "hasType t v =
     (case v of JObj _ \<Rightarrow> t = TObject | JArr _ \<Rightarrow> t = TArray | JStr _ \<Rightarrow> t = TString | JBool _ \<Rightarrow> t = TBoolean
      | _ \<Rightarrow> False)"

fun conforms :: "schema \<Rightarrow> json \<Rightarrow> bool" where
  "conforms (Schema t req props items enum uniq) v \<longleftrightarrow>
     hasType t v \<and>
     (case v of
        JObj m \<Rightarrow> (\<forall>k\<in>set req. map_of m k \<noteq> None) \<and>
          (\<forall>p\<in>set props. case map_of m (fst p) of None \<Rightarrow> True | Some x \<Rightarrow> conforms (snd p) x)
      | JArr xs \<Rightarrow> (case items of None \<Rightarrow> True | Some s \<Rightarrow> \<forall>x\<in>set xs. conforms s x)
      | JStr x \<Rightarrow> enum = [] \<or> x \<in> set enum
      | _ \<Rightarrow> True)"

lemma conforms_string: "conforms stringSchema v \<longleftrightarrow> (\<exists>x. v = JStr x)"
  by (cases v) (simp_all add: stringSchema_def hasType_def)

lemma conforms_enum: "values \<noteq> [] \<Longrightarrow> conforms (enumSchema values) v \<longleftrightarrow> (\<exists>x\<in>set values. v = JStr x)"
  by (cases v) (auto simp: enumSchema_def hasType_def)

lemma conforms_array:
  "conforms (arraySchema s) v \<longleftrightarrow> (\<exists>xs. v = JArr xs \<and> (\<forall>x\<in>set xs. conforms s x))"
  "conforms operationSchema v \<longleftrightarrow> (\<exists>xs. v = JArr xs \<and> (\<forall>x\<in>set xs. conforms stringSchema x))"
  by (cases v; simp add: arraySchema_def operationSchema_def hasType_def)+

lemma conforms_object:
  "conforms (objectSchema req props) v \<longleftrightarrow> (\<exists>m. v = JObj m \<and> (\<forall>k\<in>set req. map_of m k \<noteq> None) \<and>
     (\<forall>(k, s)\<in>set props. \<forall>x. map_of m k = Some x \<longrightarrow> conforms s x))"
  by (cases v) (auto simp: objectSchema_def hasType_def split: option.splits)

lemma conforms_boolean: "conforms booleanSchema v \<longleftrightarrow> (\<exists>b. v = JBool b)"
  by (cases v) (simp_all add: booleanSchema_def hasType_def)

lemmas conforms_iff = conforms_string conforms_enum conforms_array conforms_object conforms_boolean


section \<open>Panics that remain\<close>

text \<open>A result that is a panic exactly when \<open>b\<close> holds, and no other error.\<close>

definition panicsIff :: "bool \<Rightarrow> err + 'a \<Rightarrow> bool" where
  "panicsIff b m \<longleftrightarrow> (if b then m = Inl Panic else \<exists>x. m = Inr x)"

lemma panicsIff_bindE:
  assumes "panicsIff a m" "\<And>x. m = Inr x \<Longrightarrow> panicsIff b (f x)"
  shows "panicsIff (a \<or> b) (bindE m f)"
  using assms by (cases m; cases a) (auto simp: panicsIff_def)

lemma panicsIff_total: "panicsIff False m \<longleftrightarrow> (\<exists>x. m = Inr x)"
  by (simp add: panicsIff_def)

lemma panicsIff_bindE_total:
  assumes "panicsIff False m" "\<And>x. m = Inr x \<Longrightarrow> panicsIff b (f x)"
  shows "panicsIff b (bindE m f)"
  using panicsIff_bindE [OF assms] by simp

lemma panicsIff_mapE:
  "(\<And>x. x \<in> set xs \<Longrightarrow> panicsIff (P x) (f x)) \<Longrightarrow> panicsIff (\<exists>x\<in>set xs. P x) (mapE f xs)"
proof (induction xs)
  case (Cons x xs)
  have "panicsIff (P x) (f x)" by (rule Cons.prems) simp
  moreover have "panicsIff (\<exists>x\<in>set xs. P x) (mapE f xs)" using Cons by simp
  ultimately show ?case by (cases "P x") (auto simp: panicsIff_def)
qed (simp add: panicsIff_def)

lemma panicsIff_mapE_total: "(\<And>x. x \<in> set xs \<Longrightarrow> panicsIff False (f x)) \<Longrightarrow> panicsIff False (mapE f xs)"
  using panicsIff_mapE [of xs "\<lambda>_. False" f] by simp

text \<open>A resource without an identifier, without a type, or whose creator has no identifier.\<close>

definition lacksField :: "string \<Rightarrow> json \<Rightarrow> bool" where
  "lacksField k v = (case v of JObj m \<Rightarrow> map_of m k = None | _ \<Rightarrow> False)"

definition lacksCreator :: "json \<Rightarrow> bool" where
  "lacksCreator v =
     (case v of
        JObj m \<Rightarrow> (case map_of m ''created_by'' of None \<Rightarrow> False | Some cr \<Rightarrow> lacksField ''id'' cr)
      | _ \<Rightarrow> False)"

lemma string_field:
  assumes "\<forall>x. map_of m k = Some x \<longrightarrow> conforms stringSchema x"
  shows "panicsIff (map_of m k = None) (as_str (jfield m k))"
  using assms by (cases "map_of m k") (auto simp: panicsIff_def jfield_def conforms_iff)

lemma accessorOf_total: "conforms accessorSchema v \<Longrightarrow> panicsIff False (accessorOf v)"
  by (auto simp: accessorSchema_def conforms_iff accessorOf_def panicsIff_def jfield_def split: option.splits)

lemma stringsOf_total: "conforms (arraySchema stringSchema) v \<or> conforms operationSchema v \<Longrightarrow> panicsIff False (stringsOf v)"
proof -
  assume "conforms (arraySchema stringSchema) v \<or> conforms operationSchema v"
  then obtain xs where v: "v = JArr xs" and xs: "\<forall>x\<in>set xs. \<exists>s. x = JStr s"
    by (auto simp: conforms_array conforms_string)
  have "panicsIff False (mapE as_str xs)"
    using xs by (intro panicsIff_mapE_total) (force simp: panicsIff_total)
  then show ?thesis by (simp add: stringsOf_def v)
qed

lemma ancestors_total: "conforms ancestorsSchema v \<Longrightarrow> panicsIff False (rest_ancestorsStrToInfo v)"
proof -
  let ?item = "\<lambda>v. bindE (as_obj v) (\<lambda>m. bindE (as_str (jfield m ''id'')) (\<lambda>i.
      bindE (as_str (jfield m ''type'')) (\<lambda>t. Inr \<lparr> anc_ID = i, anc_Type = t, anc_Name = '''' \<rparr>)))"
  have item: "panicsIff False (?item x)"
    if "conforms (objectSchema [''id'', ''type''] [(''id'', stringSchema), (''type'', stringSchema)]) x" for x
    using that by (auto simp: conforms_object conforms_string jfield_def panicsIff_total split: option.splits)
  assume "conforms ancestorsSchema v"
  then obtain xs where v: "v = JArr xs" and "\<And>x. x \<in> set xs \<Longrightarrow> panicsIff False (?item x)"
    using item by (auto simp: ancestorsSchema_def conforms_array)
  then have "panicsIff False (mapE ?item xs)" by (intro panicsIff_mapE_total)
  then show ?thesis by (simp add: rest_ancestorsStrToInfo_def v)
qed

lemma createdBy_panics: "conforms createdBySchema v \<Longrightarrow> panicsIff (lacksField ''id'' v) (createdByOf v)"
  by (auto simp: createdBySchema_def conforms_iff createdByOf_def lacksField_def panicsIff_def jfield_def
      split: option.splits)

lemma include_total:
  assumes "\<forall>x. map_of m ''include'' = Some x \<longrightarrow> conforms includeSchema x"
  shows "panicsIff False (includeOf m)"
proof (cases "map_of m ''include''")
  case (Some j)
  let ?item = "\<lambda>v. bindE (as_str v) (\<lambda>vStr. case map_of includeStrToType vStr of
      None \<Rightarrow> Inl PublicBadRequest | Some t \<Rightarrow> Inr t)"
  from assms Some obtain xs where j: "j = JArr xs" and xs: "\<forall>x\<in>set xs. x = JStr ''operation_obligations''"
    by (auto simp: includeSchema_def conforms_array conforms_enum)
  have "panicsIff False (mapE ?item xs)"
    by (intro panicsIff_mapE_total, drule bspec [OF xs]) (simp add: panicsIff_total includeStrToType_def)
  then show ?thesis using Some by (simp add: includeOf_def optField_def j)
qed (simp add: includeOf_def optField_def panicsIff_total)

lemma resourceOf_panics:
  assumes "conforms (objectSchema req [(''id'', stringSchema), (''type'', stringSchema),
      (''ancestors'', ancestorsSchema), (''created_by'', createdBySchema)]) v"
  shows "panicsIff (lacksField ''id'' v \<or> lacksField ''type'' v \<or> lacksCreator v) (resourceOf v)"
proof -
  from assms obtain m where v: "v = JObj m"
    and i: "panicsIff (lacksField ''id'' v) (as_str (jfield m ''id''))"
    and t: "panicsIff (lacksField ''type'' v) (as_str (jfield m ''type''))"
    and a: "\<forall>x. map_of m ''ancestors'' = Some x \<longrightarrow> conforms ancestorsSchema x"
    and c: "\<forall>x. map_of m ''created_by'' = Some x \<longrightarrow> conforms createdBySchema x"
    unfolding conforms_object by (auto simp: lacksField_def intro!: string_field)
  have anc: "panicsIff False (optField m ''ancestors'' rest_ancestorsStrToInfo [])"
    using a ancestors_total by (auto simp: optField_def panicsIff_total split: option.splits)
  have cr: "panicsIff (lacksCreator v) (optField m ''created_by'' createdByOf '''')"
    using c createdBy_panics
    by (cases "map_of m ''created_by''") (simp_all add: optField_def lacksCreator_def v panicsIff_total)
  have ret: "panicsIff False (Inr r)" for r :: resource_info by (simp add: panicsIff_total)
  note bind = panicsIff_bindE [OF i] panicsIff_bindE [OF t] panicsIff_bindE_total [OF anc]
  have "panicsIff (lacksField ''id'' v \<or> lacksField ''type'' v \<or> lacksCreator v \<or> False) (resourceOf v)"
    unfolding resourceOf_def v as_simps bindE_simps
    by (intro bind [unfolded v] panicsIff_bindE [OF cr [unfolded v]] ret)
  then show ?thesis by simp
qed

lemma checkedResource_panics:
  assumes "conforms checkedResourceSchema v"
  shows "panicsIff (lacksCreator v) (checkedResourceOf v)"
proof -
  from assms obtain m where v: "v = JObj m" and n: "\<forall>x. map_of m ''name'' = Some x \<longrightarrow> conforms stringSchema x"
    by (auto simp: checkedResourceSchema_def conforms_object)
  have "\<not> lacksField ''id'' v" "\<not> lacksField ''type'' v"
    using assms by (auto simp: checkedResourceSchema_def conforms_object lacksField_def)
  moreover have "conforms (objectSchema [] [(''id'', stringSchema), (''type'', stringSchema),
      (''ancestors'', ancestorsSchema), (''created_by'', createdBySchema)]) v"
    using assms by (auto simp: checkedResourceSchema_def conforms_object)
  ultimately have r: "panicsIff (lacksCreator v) (resourceOf v)" using resourceOf_panics by fastforce
  have "panicsIff False (optField m ''name'' as_str '''')"
    using n by (auto simp: optField_def conforms_string panicsIff_total split: option.splits)
  then have "panicsIff False (bindE (as_obj v) (\<lambda>m. bindE (optField m ''name'' as_str '''') (\<lambda>n. Inr (x\<lparr> res_Name := n \<rparr>))))"
    for x :: resource_info by (auto simp: v panicsIff_total)
  from panicsIff_bindE [OF r this] show ?thesis by (simp add: checkedResourceOf_def)
qed

lemma checkRequest_panics:
  assumes "conforms checkSchema_calc (JObj m)"
  shows "panicsIff (lacksCreator (jfield m ''resource'')) (checkRequest m)"
proof -
  from assms have a: "panicsIff False (accessorOf (jfield m ''accessor''))"
    and r: "panicsIff (lacksCreator (jfield m ''resource'')) (checkedResourceOf (jfield m ''resource''))"
    and s: "panicsIff False (stringsOf (jfield m ''operation''))"
    and i: "panicsIff False (includeOf m)"
    unfolding checkSchema_calc_def conforms_object
    by (auto simp: jfield_def intro: accessorOf_total checkedResource_panics stringsOf_total include_total)
  have ret: "panicsIff False (Inr x)" for x :: "accessor_info \<times> resource_info \<times> string list \<times> calc_include list"
    unfolding panicsIff_total by blast
  have "panicsIff (lacksCreator (jfield m ''resource'') \<or> False) (checkRequest m)"
    unfolding checkRequest_def
    by (intro panicsIff_bindE_total [OF a] panicsIff_bindE [OF r] panicsIff_bindE_total [OF s] panicsIff_bindE_total [OF i] ret)
  then show ?thesis by simp
qed

definition unreadableResource :: "json \<Rightarrow> bool" where
  "unreadableResource v \<longleftrightarrow> lacksField ''id'' v \<or> lacksField ''type'' v \<or> lacksCreator v"

definition listedResources :: "(string \<times> json) list \<Rightarrow> json list" where
  "listedResources m = (case jfield m ''resources'' of JArr xs \<Rightarrow> xs | _ \<Rightarrow> [])"

lemma resources_panic:
  assumes "conforms resourcesSchema (jfield m ''resources'')"
  shows "panicsIff (\<exists>r\<in>set (listedResources m). unreadableResource r)
    (bindE (as_arr (jfield m ''resources'')) (mapE resourceOf))"
proof -
  from assms obtain xs where "jfield m ''resources'' = JArr xs"
    and "\<And>x. x \<in> set xs \<Longrightarrow> panicsIff (unreadableResource x) (resourceOf x)"
    using resourceOf_panics by (auto simp: resourcesSchema_def conforms_array unreadableResource_def)
  then show ?thesis using panicsIff_mapE [of xs unreadableResource resourceOf] by (simp add: listedResources_def)
qed

lemma filterRequest_panics:
  assumes "conforms resourceFilterSchema (JObj m)"
  shows "panicsIff (\<exists>r\<in>set (listedResources m). unreadableResource r) (filterRequest m)"
proof -
  from assms have fields: "conforms accessorSchema (jfield m ''accessor'')"
    "conforms resourcesSchema (jfield m ''resources'')" "conforms operationSchema (jfield m ''operation'')"
    "\<forall>x. map_of m ''allow_operation'' = Some x \<longrightarrow> conforms booleanSchema x"
    "\<forall>x. map_of m ''include'' = Some x \<longrightarrow> conforms includeSchema x"
    unfolding resourceFilterSchema_def conforms_object by (auto simp: jfield_def)
  note a = accessorOf_total [OF fields(1)] and r = resources_panic [OF fields(2)]
    and i = include_total [OF fields(5)]
  have s: "panicsIff False (stringsOf (jfield m ''operation''))" using fields(3) by (intro stringsOf_total) simp
  have b: "panicsIff False (optField m ''allow_operation'' as_bool False)"
    using fields(4) by (cases "map_of m ''allow_operation''") (auto simp: optField_def conforms_boolean panicsIff_def)
  have ret: "panicsIff False (Inr x)"
    for x :: "accessor_info \<times> resource_info list \<times> string list \<times> bool \<times> calc_include list"
    unfolding panicsIff_total by blast
  have "panicsIff ((\<exists>r\<in>set (listedResources m). unreadableResource r) \<or> False) (filterRequest m)"
    unfolding filterRequest_def
    by (intro panicsIff_bindE_total [OF a] panicsIff_bindE [OF r] panicsIff_bindE_total [OF s]
        panicsIff_bindE_total [OF b] panicsIff_bindE_total [OF i] ret)
  then show ?thesis by simp
qed

end
