(* ===== verification/DecisionRestSpec.thy ===== *)
theory DecisionRestSpec
  imports DecisionRest Decision
begin

text \<open>
  The properties of the HTTP interface of the decisions, each with a concrete run that meets
  its hypotheses.
\<close>

section \<open>The decision as it is asked for\<close>

text \<open>The body of a request, written out for a question.\<close>

definition ancestorJson :: "ancestor \<Rightarrow> json" where
  "ancestorJson a = JObj [(''id'', JStr (anc_ID a)), (''type'', JStr (anc_Type a))]"

definition resourceJson :: "resource_info \<Rightarrow> json" where
  "resourceJson r = JObj [(''id'', JStr (res_ID r)), (''name'', JStr (res_Name r)), (''type'', JStr (res_Type r)),
     (''ancestors'', JArr (map ancestorJson (res_Ancestors r))),
     (''created_by'', JObj [(''id'', JStr (res_CreatedBy r))])]"

definition checkBody :: "string \<Rightarrow> string \<Rightarrow> resource_info \<Rightarrow> string list \<Rightarrow> bool \<Rightarrow> json" where
  "checkBody i t r ops obligations = JObj
     ([(''accessor'', JObj [(''id'', JStr i), (''type'', JStr t)]), (''resource'', resourceJson r),
       (''operation'', JArr (map JStr ops)), (''method'', JStr ''GET'')]
      @ (if obligations then [(''include'', JArr [JStr ''operation_obligations''])] else []))"

definition accessorNamed :: "string \<Rightarrow> string \<Rightarrow> accessor_info" where
  "accessorNamed i t = \<lparr> acc_ID = i, acc_Type = (if t = ''user'' then RealName else App), acc_Name = '''' \<rparr>"

lemma mapE_as_str: "mapE as_str (map JStr xs) = Inr xs"
  by (induction xs) simp_all

lemma ancestors_read:
  assumes "\<forall>a\<in>set as. anc_Name a = ''''"
  shows "rest_ancestorsStrToInfo (JArr (map ancestorJson as)) = Inr as"
  using assms by (induction as) (simp_all add: rest_ancestorsStrToInfo_def ancestorJson_def)

lemma checkBody_read:
  assumes "t \<in> {''user'', ''app''}" "\<forall>a\<in>set (res_Ancestors r). anc_Name a = ''''"
    and "checkBody i t r ops obligations = JObj m"
  shows "checkRequest m = Inr (accessorNamed i t, r, ops,
    if obligations then [PolicCalcyIncludeOperationObligations] else [])"
  using assms
  by (auto simp: checkBody_def checkRequest_def accessorOf_def checkedResourceOf_def resourceOf_def resourceJson_def
      optField_def ancestors_read createdByOf_def stringsOf_def mapE_as_str includeOf_def includeStrToType_def
      visitorOf_def visitorStrToType_def accessorNamed_def)

text \<open>Such a body satisfies the schema.\<close>

lemma checkBody_conforms: "t \<in> {''user'', ''app''} \<Longrightarrow> conforms checkSchema_calc (checkBody i t r ops obligations)"
  by (auto simp: checkBody_def resourceJson_def ancestorJson_def checkSchema_calc_def accessorSchema_def
      checkedResourceSchema_def ancestorsSchema_def createdBySchema_def includeSchema_def methodSchema_def conforms_iff)

text \<open>
  C3: the endpoint \<open>operation-check\<close> answers with the access decision.  For a body that asks
  whether a user or an app may perform operations on a resource, an answer has the field
  \<open>result\<close>, and it is true exactly when the decision permits every operation; without a
  request for obligations it is the only field.
\<close>

theorem check_endpoint_decides:
  assumes "env_ok e" "t \<in> {''user'', ''app''}" "\<forall>a\<in>set (res_Ancestors r). anc_Name a = ''''"
    and "decode c (req_Body req) = Some (checkBody i t r ops obligations)"
    and "rest_check c e req w = (Inr resp, w')"
  shows "\<exists>toks w1 more. getAccessorIDs e (accessorNamed i t) w = (Inr toks, w1) \<and>
    resp = JObj ((''result'', JBool (\<forall>op\<in>set ops. access_decision e (checkData r (accessorNamed i t))
        (t_policy w) toks (now_at e (tick w + 2)) r op = Some True)) # more) \<and> (\<not> obligations \<longrightarrow> more = [])"
proof -
  let ?inc = "if obligations then [PolicCalcyIncludeOperationObligations] else []"
  obtain m where m: "checkBody i t r ops obligations = JObj m" by (simp add: checkBody_def)
  from assms(5) assms(4) obtain cr where run: "Check e r (accessorNamed i t) ops ?inc w = (Inr cr, w')"
    and resp: "resp = JObj ((''result'', JBool (cr_Result cr)) # includeResp e ?inc (cr_OperatrionOblist cr))"
    by (auto simp: rest_check_def validateAndBind_def m checkBody_read [OF assms(2,3) m] split del: if_split
        split: option.splits if_split_asm elim!: bindM_InrE)
  from run obtain toks w1 where toks: "getAccessorIDs e (accessorNamed i t) w = (Inr toks, w1)"
    by (auto simp: Check_def bindM_Inr_iff)
  from Check_decides [OF assms(1) toks run] resp toks show ?thesis
    by (intro exI [of _ toks] exI [of _ w1] exI [of _ "includeResp e ?inc (cr_OperatrionOblist cr)"])
      (simp add: includeResp_def)
qed

definition bodyCodec :: "json \<Rightarrow> codec" where
  "bodyCodec v = \<lparr> decode = (\<lambda>_. Some v), decode_dept = (\<lambda>_. None) \<rparr>"

definition demo_request :: http_request where
  "demo_request = \<lparr> req_Authorization = ''Bearer t1'', req_Language = ''en-us'', req_Body = ''...'' \<rparr>"

definition demo_question :: resource_info where
  "demo_question = demo_resource\<lparr> res_Ancestors := [\<lparr> anc_ID = ''f1'', anc_Type = ''folder'', anc_Name = '''' \<rparr>] \<rparr>"

theorem check_endpoint_decides_witness:
  "\<exists>w'. rest_check (bodyCodec (checkBody ''u1'' ''user'' demo_question [''read'', ''write''] False)) quiet_env demo_request demo_world
      = (Inr (JObj [(''result'', JBool False)]), w') \<and>
   (\<exists>toks. \<not> (\<forall>op\<in>{''read'', ''write''}. access_decision quiet_env (checkData demo_question (accessorNamed ''u1'' ''user''))
        (t_policy demo_world) toks (now_at quiet_env (tick demo_world + 2)) demo_question op = Some True))"
proof -
  let ?c = "bodyCodec (checkBody ''u1'' ''user'' demo_question [''read'', ''write''] False)"
  obtain w' where run: "rest_check ?c quiet_env demo_request demo_world = (Inr (JObj [(''result'', JBool False)]), w')"
    by (simp add: rest_check_def validateAndBind_def bodyCodec_def checkBody_def checkRequest_def accessorOf_def
        checkedResourceOf_def resourceOf_def resourceJson_def optField_def rest_ancestorsStrToInfo_def ancestorJson_def
        createdByOf_def stringsOf_def includeOf_def visitorOf_def visitorStrToType_def demo_question_def
        includeResp_def run_simps demo_defs cong: run_congs)
  have "\<forall>a\<in>set (res_Ancestors demo_question). anc_Name a = ''''" by (simp add: demo_question_def)
  from check_endpoint_decides [OF env_ok_quiet _ this _ run, of "''user''" "''u1''" "[''read'', ''write'']" False] run
  show ?thesis by (auto simp: bodyCodec_def)
qed

section \<open>Requests without a valid token\<close>



section \<open>What the schemas let through\<close>

text \<open>
  C35: which bodies the handlers cannot read although the schema accepts them.  Reading the
  body of \<open>operation-check\<close> panics exactly when the creator of the resource has no
  identifier, and reading that of \<open>resource-filter\<close> exactly when one of the resources has no
  identifier, no type, or a creator without identifier: the schemas do not require these
  fields.  On every other accepted body reading succeeds.
\<close>

theorem schema_accepted_panics:
  assumes "decode c (req_Body req) = Some (JObj m)"
  shows "(conforms checkSchema_calc (JObj m) \<longrightarrow>
      (if lacksCreator (jfield m ''resource'')
       then checkRequest m = Inl Panic \<and>
         (jsonschema_Validate e (schemaJson checkSchema_calc) (JObj m) = Some True \<longrightarrow> rest_check c e req w = (Inl Panic, w))
       else \<exists>x. checkRequest m = Inr x)) \<and>
    (conforms resourceFilterSchema (JObj m) \<longrightarrow>
      (if \<exists>r\<in>set (listedResources m). lacksField ''id'' r \<or> lacksField ''type'' r \<or> lacksCreator r
       then filterRequest m = Inl Panic \<and>
         (jsonschema_Validate e (schemaJson resourceFilterSchema) (JObj m) = Some True \<longrightarrow>
            rest_resourceFilter c e req w = (Inl Panic, w))
       else \<exists>x. filterRequest m = Inr x))"
proof -
  have runs: "checkRequest m = Inl Panic \<Longrightarrow> jsonschema_Validate e (schemaJson checkSchema_calc) (JObj m) = Some True \<Longrightarrow>
      rest_check c e req w = (Inl Panic, w)"
    "filterRequest m = Inl Panic \<Longrightarrow> jsonschema_Validate e (schemaJson resourceFilterSchema) (JObj m) = Some True \<Longrightarrow>
      rest_resourceFilter c e req w = (Inl Panic, w)"
    using assms by (simp_all add: rest_check_def rest_resourceFilter_def validateAndBind_def)
  have "panicsIff (lacksCreator (jfield m ''resource'')) (checkRequest m)" if "conforms checkSchema_calc (JObj m)"
    using that by (rule checkRequest_panics)
  moreover have "panicsIff (\<exists>r\<in>set (listedResources m). lacksField ''id'' r \<or> lacksField ''type'' r \<or> lacksCreator r)
      (filterRequest m)" if "conforms resourceFilterSchema (JObj m)"
    using filterRequest_panics [OF that] by (simp add: unreadableResource_def)
  ultimately show ?thesis
    using runs unfolding panicsIff_def by presburger
qed

theorem schema_accepted_panics_witness:
  "rest_check (bodyCodec (JObj [(''accessor'', JObj [(''id'', JStr ''u1''), (''type'', JStr ''user'')]),
       (''resource'', JObj [(''id'', JStr ''d1''), (''type'', JStr ''doc''), (''created_by'', JObj [])]),
       (''operation'', JArr [JStr ''read'']), (''method'', JStr ''GET'')])) quiet_env demo_request demo_world
     = (Inl Panic, demo_world)"
proof -
  let ?m = "[(''accessor'', JObj [(''id'', JStr ''u1''), (''type'', JStr ''user'')]),
       (''resource'', JObj [(''id'', JStr ''d1''), (''type'', JStr ''doc''), (''created_by'', JObj [])]),
       (''operation'', JArr [JStr ''read'']), (''method'', JStr ''GET'')]"
  have "conforms checkSchema_calc (JObj ?m)"
    by (simp add: checkSchema_calc_def accessorSchema_def checkedResourceSchema_def createdBySchema_def
        methodSchema_def conforms_iff)
  moreover have "lacksCreator (jfield ?m ''resource'')" by (simp add: lacksCreator_def lacksField_def)
  ultimately show ?thesis
    using schema_accepted_panics [of "bodyCodec (JObj ?m)" demo_request ?m quiet_env demo_world]
    by (simp add: bodyCodec_def quiet_env_run)
qed

end
