(* ===== verification/PolicyRest.thy ===== *)
theory PolicyRest
  imports DecisionRest
begin

text \<open>
  The HTTP endpoints that change policies (\<open>driveradapters/policy_rest_handler.go\<close>) with the
  schemas of their requests (\<open>driveradapters/jsonschema/policy\<close>).  \<open>parse_time\<close> stands for
  \<open>StringToTimeStamp\<close>, the reading of an RFC 3339 time in nanoseconds; \<open>None\<close> is a text that
  is none.  The answer is the JSON value of the body; headers are left out.
\<close>

section \<open>Schemas\<close>

definition obligationItemsSchema :: schema where
  "obligationItemsSchema = arraySchema (objectSchema [''type_id'']
     [(''type_id'', stringSchema), (''id'', stringSchema), (''value'', objectSchema [] [])])"

definition allowItemsSchema :: schema where
  "allowItemsSchema = arraySchema (objectSchema [] [(''id'', stringSchema), (''obligations'', obligationItemsSchema)])"

definition denyItemsSchema :: schema where
  "denyItemsSchema = arraySchema (objectSchema [] [(''id'', stringSchema)])"

definition policySchema :: schema where
  "policySchema = arraySchema (objectSchema [''accessor'', ''resource'', ''operation'']
     [(''accessor'', objectSchema [''id'', ''type''] [(''id'', stringSchema),
         (''type'', enumSchema [''user'', ''department'', ''group'', ''role'', ''app''])]),
      (''resource'', objectSchema [''id'', ''name'', ''type'']
         [(''id'', stringSchema), (''name'', stringSchema), (''type'', stringSchema)]),
      (''operation'', objectSchema [''allow'', ''deny'']
         [(''allow'', allowItemsSchema), (''deny'', denyItemsSchema)]),
      (''condition'', stringSchema), (''expires_at'', stringSchema),
      (''ancestors'', arraySchema (objectSchema [''id'', ''type'', ''name'']
         [(''id'', stringSchema), (''type'', stringSchema), (''name'', stringSchema)]))])"

definition modifyPolicySchema :: schema where
  "modifyPolicySchema = arraySchema (objectSchema [''operation'']
     [(''operation'', objectSchema [''allow'', ''deny'']
         [(''allow'', allowItemsSchema), (''deny'', allowItemsSchema)]),
      (''condition'', stringSchema), (''expires_at'', stringSchema)])"

definition policyDeleteSchema :: schema where
  "policyDeleteSchema = objectSchema [''method'', ''resources'']
     [(''method'', enumSchema [''DELETE'']),
      (''resources'', arraySchema (objectSchema [''id'', ''type''] [(''id'', stringSchema), (''type'', stringSchema)]))]"

text \<open>\<open>validateAndBind\<close> into a \<open>[]any\<close>.\<close>

definition validateAndBindSlice :: "env \<Rightarrow> codec \<Rightarrow> json \<Rightarrow> string \<Rightarrow> err + json list" where
  "validateAndBindSlice e c schema body =
     (case decode c body of
        None \<Rightarrow> Inl PublicBadRequest
      | Some v \<Rightarrow>
          (case jsonschema_Validate e schema v of
             None \<Rightarrow> Inl PublicBadRequest
           | Some valid \<Rightarrow> if valid then unmarshal_slice v else Inl PublicBadRequest))"


section \<open>Reading requests\<close>

definition accessorStrToType :: "(string, accessor_type) gomap" where
  "accessorStrToType =
     [(''user'', AccessorUser), (''department'', AccessorDepartment), (''group'', AccessorGroup),
      (''app'', AccessorApp), (''role'', AccessorRole)]"

definition accessorTypeOf :: "string \<Rightarrow> accessor_type" where
  "accessorTypeOf s = (case map_of accessorStrToType s of None \<Rightarrow> AccessorUnset | Some t \<Rightarrow> t)"

definition obligationOf :: "json \<Rightarrow> err + obligation_item" where
  "obligationOf v =
     bindE (as_obj v) (\<lambda>obligationMap.
     bindE (optField obligationMap ''id'' as_str '''') (\<lambda>obligationID.
       if map_of obligationMap ''id'' \<noteq> None \<and> map_of obligationMap ''value'' \<noteq> None then Inl PublicBadRequest
       else bindE (as_str (jfield obligationMap ''type_id'')) (\<lambda>typeID.
         Inr \<lparr> obl_TypeID = typeID, obl_ID = obligationID, obl_Value = jfield obligationMap ''value'' \<rparr>)))"

definition rest_getObligations :: "json \<Rightarrow> err + obligation_item list" where
  "rest_getObligations obligationsJson = bindE (as_arr obligationsJson) (mapE obligationOf)"

definition allowItemOf :: "json \<Rightarrow> err + operation_item" where
  "allowItemOf v =
     bindE (as_obj v) (\<lambda>item.
     bindE (as_str (jfield item ''id'')) (\<lambda>i.
     bindE (optField item ''obligations'' rest_getObligations []) (\<lambda>obligations.
       Inr \<lparr> ope_ID = i, ope_Name = '''', ope_Obligations = obligations \<rparr>)))"

definition denyItemOf :: "json \<Rightarrow> err + operation_item" where
  "denyItemOf v =
     bindE (as_obj v) (\<lambda>item.
     bindE (as_str (jfield item ''id'')) (\<lambda>i.
       Inr \<lparr> ope_ID = i, ope_Name = '''', ope_Obligations = [] \<rparr>))"

definition operationsOfRequest :: "(string \<times> json) list \<Rightarrow> err + operation_item list \<times> operation_item list" where
  "operationsOfRequest jsonReq =
     bindE (as_obj (jfield jsonReq ''operation'')) (\<lambda>operationJson.
     bindE (as_arr (jfield operationJson ''allow'')) (\<lambda>allowJson.
     bindE (as_arr (jfield operationJson ''deny'')) (\<lambda>denyJson.
     bindE (mapE allowItemOf allowJson) (\<lambda>allow.
     bindE (mapE denyItemOf denyJson) (\<lambda>deny. Inr (allow, deny))))))"

definition policyAncestors :: "json \<Rightarrow> err + ancestor list" where
  "policyAncestors ancestorsJson = bindE (as_arr ancestorsJson) (mapE ancestorOfJson)"

text \<open>Integer division as in Go, towards zero.\<close>

definition go_div :: "int \<Rightarrow> int \<Rightarrow> int" where
  "go_div a b = sgn a * sgn b * (\<bar>a\<bar> div \<bar>b\<bar>)"

definition endTimeOf :: "(string \<Rightarrow> int option) \<Rightarrow> (string \<times> json) list \<Rightarrow> err + int" where
  "endTimeOf parse_time jsonReq =
     optField jsonReq ''expires_at'' (\<lambda>expiresAtJson.
       bindE (as_str expiresAtJson) (\<lambda>s.
         case parse_time s of
           None \<Rightarrow> Inl PublicBadRequest
         | Some timeStamp \<Rightarrow> Inr (if timeStamp = 0 then -1 else go_div timeStamp 1000))) (-1)"

definition bothRules :: "operation_item list \<Rightarrow> operation_item list \<Rightarrow> policy_rules" where
  "bothRules allow deny =
     \<lparr> rules_Allow = [\<lparr> rule_Condition = JNull, rule_Operations = allow \<rparr>],
       rules_Deny = [\<lparr> rule_Condition = JNull, rule_Operations = deny \<rparr>] \<rparr>"

definition nonemptyRules :: "operation_item list \<Rightarrow> operation_item list \<Rightarrow> policy_rules" where
  "nonemptyRules allow deny =
     \<lparr> rules_Allow = (if allow = [] then [] else [\<lparr> rule_Condition = JNull, rule_Operations = allow \<rparr>]),
       rules_Deny = (if deny = [] then [] else [\<lparr> rule_Condition = JNull, rule_Operations = deny \<rparr>]) \<rparr>"

definition createdPolicyOf ::
    "(operation_item list \<Rightarrow> operation_item list \<Rightarrow> policy_rules) \<Rightarrow> (string \<Rightarrow> int option) \<Rightarrow> json \<Rightarrow>
     err + policy_info" where
  "createdPolicyOf rules parse_time jsonReqJson =
     bindE (as_obj jsonReqJson) (\<lambda>jsonReq.
     bindE (as_obj (jfield jsonReq ''accessor'')) (\<lambda>accessor.
     bindE (as_str (jfield accessor ''id'')) (\<lambda>accessorID.
     bindE (as_str (jfield accessor ''type'')) (\<lambda>accessorType.
     bindE (as_obj (jfield jsonReq ''resource'')) (\<lambda>resource.
     bindE (as_str (jfield resource ''id'')) (\<lambda>resourceID.
     bindE (as_str (jfield resource ''type'')) (\<lambda>resourceType.
     bindE (as_str (jfield resource ''name'')) (\<lambda>resourceName.
     bindE (optField resource ''ancestors'' policyAncestors []) (\<lambda>ancestors.
     bindE (operationsOfRequest jsonReq) (\<lambda>(allow, deny).
     bindE (optField jsonReq ''condition'' as_str '''') (\<lambda>condition.
     bindE (endTimeOf parse_time jsonReq) (\<lambda>endTime.
       Inr (zero_policy\<lparr> pol_AccessorID := accessorID, pol_AccessorType := accessorTypeOf accessorType,
         pol_ResourceID := resourceID, pol_ResourceType := resourceType, pol_ResourceName := resourceName,
         pol_Rules := rules allow deny, pol_Condition := condition, pol_EndTime := endTime,
         pol_Ancestors := ancestors, pol_HasAncestors := map_of resource ''ancestors'' \<noteq> None \<rparr>)))))))))))))"

text \<open>\<open>policyIDs[i]\<close> panics when there are more entries than identifiers.\<close>

definition changedPolicyOf :: "(string \<Rightarrow> int option) \<Rightarrow> string list \<Rightarrow> nat \<times> json \<Rightarrow> err + policy_info" where
  "changedPolicyOf parse_time policyIDs entry =
     (case entry of (i, jsonReqJson) \<Rightarrow>
        bindE (as_obj jsonReqJson) (\<lambda>jsonReq.
        bindE (operationsOfRequest jsonReq) (\<lambda>(allow, deny).
        bindE (optField jsonReq ''condition'' as_str '''') (\<lambda>condition.
        bindE (endTimeOf parse_time jsonReq) (\<lambda>endTime.
          if i < length policyIDs
          then Inr (zero_policy\<lparr> pol_ID := policyIDs ! i, pol_Rules := bothRules allow deny,
                 pol_Condition := condition, pol_EndTime := endTime \<rparr>)
          else Inl Panic)))))"

text \<open>\<open>strings.Split(s, ",")\<close>\<close>

fun splitComma :: "string \<Rightarrow> string list" where
  "splitComma [] = ['''']"
| "splitComma (ch # cs) =
     (if ch = CHR '','' then '''' # splitComma cs
      else (case splitComma cs of p # ps \<Rightarrow> (ch # p) # ps | [] \<Rightarrow> [[ch]]))"


section \<open>Handlers\<close>

type_synonym oauth = "string \<Rightarrow> (int \<times> string) option"

definition rest_create :: "codec \<Rightarrow> oauth \<Rightarrow> (string \<Rightarrow> int option) \<Rightarrow> env \<Rightarrow> http_request \<Rightarrow> json op" where
  "rest_create c post parse_time e req =
     bindM (liftE (verify c post req)) (\<lambda>visitor.
     bindM (liftE (validateAndBindSlice e c (schemaJson policySchema) (req_Body req))) (\<lambda>jsonReqs.
     bindM (liftE (mapE (createdPolicyOf bothRules parse_time) jsonReqs)) (\<lambda>policys.
     bindM (policyLogic_Create e visitor policys) (\<lambda>policyIDs.
       returnM (JObj [(''ids'', if policyIDs = [] then JNull else strings policyIDs)])))))"

definition rest_createPrivate :: "codec \<Rightarrow> (string \<Rightarrow> int option) \<Rightarrow> env \<Rightarrow> http_request \<Rightarrow> json op" where
  "rest_createPrivate c parse_time e req =
     bindM (liftE (validateAndBindSlice e c (schemaJson policySchema) (req_Body req))) (\<lambda>jsonReqs.
     bindM (liftE (mapE (createdPolicyOf nonemptyRules parse_time) jsonReqs)) (\<lambda>policys.
     bindM (policyLogic_CreatePrivate e policys) (\<lambda>_. returnM (JObj []))))"

definition deletedResourceOf :: "json \<Rightarrow> err + string \<times> string" where
  "deletedResourceOf resourceJson =
     bindE (as_obj resourceJson) (\<lambda>resource.
     bindE (as_str (jfield resource ''id'')) (\<lambda>resourceID.
     bindE (as_str (jfield resource ''type'')) (\<lambda>resourceType. Inr (resourceID, resourceType))))"

definition rest_deletePrivate :: "codec \<Rightarrow> env \<Rightarrow> http_request \<Rightarrow> json op" where
  "rest_deletePrivate c e req =
     bindM (liftE (validateAndBind e c (schemaJson policyDeleteSchema) (req_Body req))) (\<lambda>jsonReqs.
     bindM (liftE (bindE (as_arr (jfield jsonReqs ''resources'')) (mapE deletedResourceOf))) (\<lambda>resources.
     bindM (policyLogic_DeleteByResourceIDs e resources) (\<lambda>_. returnM (JObj []))))"

definition rest_set ::
    "codec \<Rightarrow> oauth \<Rightarrow> (string \<Rightarrow> int option) \<Rightarrow> env \<Rightarrow> string \<Rightarrow> http_request \<Rightarrow> json op" where
  "rest_set c post parse_time e ids req =
     bindM (liftE (verify c post req)) (\<lambda>visitor.
     bindM (liftE (validateAndBindSlice e c (schemaJson modifyPolicySchema) (req_Body req))) (\<lambda>jsonReqs.
     bindM (liftE (mapE (changedPolicyOf parse_time (splitComma ids)) (enumerate 0 jsonReqs))) (\<lambda>policys.
     bindM (policyLogic_Update e visitor policys) (\<lambda>_. returnM (JObj [])))))"

definition rest_delete :: "codec \<Rightarrow> oauth \<Rightarrow> env \<Rightarrow> string \<Rightarrow> http_request \<Rightarrow> json op" where
  "rest_delete c post e ids req =
     bindM (liftE (verify c post req)) (\<lambda>visitor.
     bindM (policyLogic_Delete e visitor (splitComma ids)) (\<lambda>_. returnM (JObj [])))"

end
