(* ===== verification/RoleRest.thy ===== *)
theory RoleRest
  imports PolicyRest Service
begin

text \<open>
  The HTTP endpoints that change roles and their members
  (\<open>driveradapters/role_rest_handler.go\<close>) with the schemas of their requests
  (\<open>driveradapters/jsonschema/role\<close>), and the endpoints as steps of the service.
\<close>

section \<open>Schemas\<close>

definition scopeSchema :: schema where
  "scopeSchema = objectSchema [''unlimited'']
     [(''unlimited'', booleanSchema),
      (''types'', arraySchema (objectSchema [''id''] [(''id'', stringSchema)]))]"

definition createRoleSchema :: schema where
  "createRoleSchema = objectSchema [''name'', ''resource_type_scope'']
     [(''name'', stringSchema), (''description'', stringSchema), (''resource_type_scope'', scopeSchema)]"

definition modifyRoleSchema :: schema where
  "modifyRoleSchema = objectSchema []
     [(''name'', stringSchema), (''description'', stringSchema), (''resource_type_scope'', scopeSchema)]"

definition addDeleteMembersSchema :: schema where
  "addDeleteMembersSchema = objectSchema [''method'', ''members'']
     [(''method'', enumSchema [''POST'', ''DELETE'']),
      (''members'', arraySchema (objectSchema []
         [(''id'', stringSchema), (''type'', enumSchema [''user'', ''department'', ''group'', ''app''])]))]"


section \<open>Reading requests\<close>

definition scopeOf :: "json \<Rightarrow> err + resource_type_scope" where
  "scopeOf v =
     bindE (as_obj v) (\<lambda>scopeJson.
     bindE (as_str (jfield scopeJson ''id'')) (\<lambda>i.
       Inr \<lparr> rts_ResourceTypeID = i, rts_ResourceTypeName = '''' \<rparr>))"

definition newScopeOf :: "json \<Rightarrow> err + resource_type_scope_info" where
  "newScopeOf j =
     bindE (as_obj j) (\<lambda>scopeInfo.
     bindE (as_bool (jfield scopeInfo ''unlimited'')) (\<lambda>unlimited.
       if unlimited then Inr \<lparr> rtsi_Unlimited = True, rtsi_Types = None \<rparr>
       else bindE (optField scopeInfo ''types'' (\<lambda>strTypes. bindE (as_arr strTypes) (mapE scopeOf)) []) (\<lambda>types.
         Inr \<lparr> rtsi_Unlimited = False, rtsi_Types = Some types \<rparr>)))"

text \<open>The list of types is asserted whether or not the scope is limited.\<close>

definition changedScopeOf :: "json \<Rightarrow> err + resource_type_scope_info" where
  "changedScopeOf j =
     bindE (as_obj j) (\<lambda>scopeInfo.
     bindE (as_bool (jfield scopeInfo ''unlimited'')) (\<lambda>unlimited.
     bindE (as_arr (jfield scopeInfo ''types'')) (\<lambda>strTypes.
     bindE (mapE scopeOf strTypes) (\<lambda>types.
       Inr \<lparr> rtsi_Unlimited = unlimited, rtsi_Types = Some types \<rparr>))))"

definition newRoleOf :: "(string \<times> json) list \<Rightarrow> err + role_info" where
  "newRoleOf jsonReq =
     bindE (as_str (jfield jsonReq ''name'')) (\<lambda>name.
     bindE (optField jsonReq ''description'' as_str '''') (\<lambda>description.
     bindE (newScopeOf (jfield jsonReq ''resource_type_scope'')) (\<lambda>scope.
       Inr (zero_role\<lparr> role_Name := name, role_Description := description, role_Scope := scope \<rparr>))))"

text \<open>A field named in the path has to be in the body.\<close>

definition namedField :: "bool \<Rightarrow> (string \<times> json) list \<Rightarrow> string \<Rightarrow> (json \<Rightarrow> err + 'a) \<Rightarrow> 'a \<Rightarrow> err + 'a" where
  "namedField named jsonReq k f d =
     (if named then (case map_of jsonReq k of None \<Rightarrow> Inl PublicBadRequest | Some j \<Rightarrow> f j) else Inr d)"

definition memberStringTypes :: "(string, accessor_type) gomap" where
  "memberStringTypes =
     [(''user'', AccessorUser), (''department'', AccessorDepartment), (''group'', AccessorGroup), (''app'', AccessorApp)]"

definition memberStep ::
    "json \<Rightarrow> (string, role_member_info) gomap \<Rightarrow> err + (string, role_member_info) gomap" where
  "memberStep v memberInfos =
     bindE (as_obj v) (\<lambda>temp.
     bindE (as_str (jfield temp ''id'')) (\<lambda>i.
     bindE (as_str (jfield temp ''type'')) (\<lambda>strType.
       case map_of memberStringTypes strType of
         None \<Rightarrow> Inl PublicBadRequest
       | Some t \<Rightarrow>
           if i = '''' then Inl PublicBadRequest
           else Inr (mput i \<lparr> mem_ID = i, mem_Type = t, mem_Name = '''', mem_ParentDeps = [] \<rparr> memberInfos))))"


section \<open>Handlers\<close>

definition rest_createRole :: "codec \<Rightarrow> oauth \<Rightarrow> env \<Rightarrow> http_request \<Rightarrow> json op" where
  "rest_createRole c post e req =
     bindM (liftE (verify c post req)) (\<lambda>visitor.
     bindM (liftE (validateAndBind e c (schemaJson createRoleSchema) (req_Body req))) (\<lambda>jsonReq.
     bindM (liftE (newRoleOf jsonReq)) (\<lambda>roleInfo.
     bindM (role_AddRole e visitor roleInfo) (\<lambda>strID. returnM (JObj [(''id'', JStr strID)])))))"

definition rest_deleteRole :: "codec \<Rightarrow> oauth \<Rightarrow> env \<Rightarrow> event \<Rightarrow> string \<Rightarrow> http_request \<Rightarrow> json op" where
  "rest_deleteRole c post e ev roleID req =
     bindM (liftE (verify c post req)) (\<lambda>visitor.
     bindM (role_DeleteRole e ev visitor roleID) (\<lambda>_. returnM JNull))"

definition rest_modifyRole :: "codec \<Rightarrow> oauth \<Rightarrow> env \<Rightarrow> event \<Rightarrow> string \<Rightarrow> string \<Rightarrow> http_request \<Rightarrow> json op" where
  "rest_modifyRole c post e ev groupID fieldsParam req =
     bindM (liftE (verify c post req)) (\<lambda>visitor.
       let fields = splitComma fieldsParam;
           nameExist = ''name'' \<in> set fields;
           descriptionExist = ''description'' \<in> set fields;
           scopesExist = ''resource_type_scope'' \<in> set fields in
     bindM (liftE (validateAndBind e c (schemaJson modifyRoleSchema) (req_Body req))) (\<lambda>jsonReq.
     bindM (liftE (namedField nameExist jsonReq ''name'' as_str '''')) (\<lambda>name.
     bindM (liftE (namedField descriptionExist jsonReq ''description'' as_str '''')) (\<lambda>description.
     bindM (liftE (namedField scopesExist jsonReq ''resource_type_scope'' changedScopeOf
         \<lparr> rtsi_Unlimited = False, rtsi_Types = None \<rparr>)) (\<lambda>scopes.
     bindM (role_ModifyRole e ev visitor groupID name nameExist description descriptionExist scopes scopesExist)
       (\<lambda>_. returnM JNull))))))"

definition rest_addOrDeleteRoleMembers :: "codec \<Rightarrow> oauth \<Rightarrow> env \<Rightarrow> string \<Rightarrow> http_request \<Rightarrow> json op" where
  "rest_addOrDeleteRoleMembers c post e roleID req =
     bindM (liftE (verify c post req)) (\<lambda>visitor.
     bindM (liftE (validateAndBind e c (schemaJson addDeleteMembersSchema) (req_Body req))) (\<lambda>jsonReq.
     bindM (liftE (as_str (jfield jsonReq ''method''))) (\<lambda>method.
     bindM (liftE (as_arr (jfield jsonReq ''members''))) (\<lambda>members.
     bindM (liftE (foldE memberStep members [])) (\<lambda>memberInfos.
       if method \<noteq> ''POST'' \<and> method \<noteq> ''DELETE'' then throwM PublicBadRequest
       else bindM (role_AddOrDeleteRoleMemebers e visitor method roleID memberInfos) (\<lambda>_. returnM JNull))))))"


section \<open>Endpoints are steps of the service\<close>

lemma set_mput_cases: "x \<in> set (mput k v m) \<Longrightarrow> x = (k, v) \<or> x \<in> set m"
  by (induction m) (auto split: if_splits)

lemma memberStep_map: "memberStep v m = Inr m' \<Longrightarrow> member_map m \<Longrightarrow> member_map m'"
  by (auto simp: memberStep_def bindE_Inr_iff member_map_def split: option.splits if_splits dest!: set_mput_cases)

lemma members_map: "foldE memberStep vs m = Inr m' \<Longrightarrow> member_map m \<Longrightarrow> member_map m'"
  by (induction vs arbitrary: m) (auto simp: bindE_Inr_iff dest: memberStep_map)

text \<open>A request that is refused before the logic is called changes nothing.\<close>

lemma liftE_step:
  "(\<And>x. r = Inr x \<Longrightarrow> service_step w (snd (k x w))) \<Longrightarrow> service_step w (snd (bindM (liftE r) k w))"
  by (cases r) (auto intro: service_step.query)

lemma return_step: "service_step w (snd (m w)) \<Longrightarrow> service_step w (snd (bindM m (\<lambda>x. returnM (g x)) w))"
  by (cases "m w"; cases "fst (m w)") (auto simp: bindM_run)

lemma throw_step: "service_step w (snd (throwM er w))"
  by (auto intro: service_step.query)

lemma policy_endpoint_steps:
  "fresh_for e w \<Longrightarrow> service_step w (snd (rest_create c post parse_time e req w))"
  "fresh_for e w \<Longrightarrow> service_step w (snd (rest_createPrivate c parse_time e req w))"
  "service_step w (snd (rest_deletePrivate c e req w))"
  "service_step w (snd (rest_set c post parse_time e ids req w))"
  "service_step w (snd (rest_delete c post e ids req w))"
  unfolding rest_create_def rest_createPrivate_def rest_deletePrivate_def rest_set_def rest_delete_def
  by (intro liftE_step return_step service_step.intros; assumption)+

lemma role_endpoint_steps:
  "fresh_for e w \<Longrightarrow> service_step w (snd (rest_createRole c post e req w))"
  "service_step w (snd (rest_deleteRole c post e (service_event e) i req w))"
  "service_step w (snd (rest_modifyRole c post e (service_event e) i fs req w))"
  "env_ok e \<Longrightarrow> service_step w (snd (rest_addOrDeleteRoleMembers c post e i req w))"
proof -
  assume ok: "env_ok e"
  have members: "service_step w (snd ((if meth \<noteq> ''POST'' \<and> meth \<noteq> ''DELETE'' then throwM PublicBadRequest
      else bindM (role_AddOrDeleteRoleMemebers e v meth i infos) (\<lambda>_. returnM JNull)) w))"
    if "foldE memberStep vs [] = Inr infos" for v meth infos vs
    using members_map [OF that] service_step.role_members [OF ok]
    by (auto simp: member_map_def intro: return_step throw_step service_step.query)
  show "service_step w (snd (rest_addOrDeleteRoleMembers c post e i req w))"
    unfolding rest_addOrDeleteRoleMembers_def by (intro liftE_step) (rule members)
qed (unfold rest_createRole_def rest_deleteRole_def rest_modifyRole_def Let_def,
  (intro liftE_step return_step service_step.intros; assumption)+)

end
