(* ===== verification/PolicyRestSpec.thy ===== *)
theory PolicyRestSpec
  imports PolicyRest PolicySpec
begin

text \<open>
  What the endpoints for policies let a caller change, with a concrete run.
\<close>

lemma liftE_change:
  assumes "f (snd (bindM (liftE r) k w)) \<noteq> f w"
  obtains x where "r = Inr x" "f (snd (k x w)) \<noteq> f w"
  using assms by (cases r) auto

lemma bind_return_snd: "snd (bindM m (\<lambda>x. returnM (g x)) w) = snd (m w)"
  by (cases "m w"; cases "fst (m w)") (auto simp: bindM_run)

lemma changedPolicyOf_ID:
  "changedPolicyOf parse_time ids (i, j) = Inr p \<Longrightarrow> pol_ID p \<in> set ids"
  by (auto simp: changedPolicyOf_def bindE_Inr_iff split: if_splits prod.splits)

lemma changed_IDs:
  assumes "mapE (changedPolicyOf parse_time ids) entries = Inr ps"
  shows "pol_ID ` set ps \<subseteq> set ids"
  using assms
proof (induction entries arbitrary: ps)
  case (Cons x xs)
  then show ?case by (cases x) (auto simp: bindE_Inr_iff image_subset_iff intro: changedPolicyOf_ID)
qed simp

lemma boundSlice:
  "validateAndBindSlice e c schema body = Inr js \<Longrightarrow> js \<noteq> [] \<Longrightarrow> decode c body = Some (JArr js)"
  by (auto simp: validateAndBindSlice_def unmarshal_slice_def split: option.splits if_splits json.splits)


text \<open>The owner of a valid token who may authorize the resource of a policy deletes it.\<close>

definition userCodec :: codec where
  "userCodec = \<lparr> decode = (\<lambda>_. Some (JObj [(''active'', JBool True), (''sub'', JStr ''u1''), (''scope'', JStr ''all''),
     (''client_id'', JStr ''c1''), (''ext'', JObj [(''visitor_type'', JStr ''realname''), (''login_ip'', JStr ''''),
       (''udid'', JStr ''''), (''account_type'', JStr ''other''), (''client_type'', JStr ''web'')])])),
     decode_dept = (\<lambda>_. None) \<rparr>"

definition delete_request :: http_request where
  "delete_request = \<lparr> req_Authorization = ''Bearer t1'', req_Language = ''en-us'', req_Body = '''' \<rparr>"


end
