(* ===== verification/RoleRestSpec.thy ===== *)
theory RoleRestSpec
  imports RoleRest ServiceSpec PolicyRestSpec
begin

text \<open>
  The endpoints for policies and roles keep the tables of the service well formed, with a
  concrete run; and a request to change a role that cannot be read.
\<close>

text \<open>
  C7: no HTTP request can leave the tables of the service malformed: whatever the token, the
  path and the body are, and whichever statement fails, the endpoints that create, change and
  delete policies, roles and members keep policies, roles, members, resource types and
  hierarchies well formed and unique.
\<close>

theorem endpoints_keep_tables_ok:
  assumes "service_ok w" "fresh_for e w"
  shows "service_ok (snd (rest_create c post parse_time e req w)) \<and>
    service_ok (snd (rest_createPrivate c parse_time e req w)) \<and>
    service_ok (snd (rest_set c post parse_time e ids req w)) \<and>
    service_ok (snd (rest_delete c post e ids req w)) \<and>
    service_ok (snd (rest_deletePrivate c e req w)) \<and>
    service_ok (snd (rest_createRole c post e req w)) \<and>
    service_ok (snd (rest_modifyRole c post e (service_event e) ids fs req w)) \<and>
    service_ok (snd (rest_deleteRole c post e (service_event e) ids req w)) \<and>
    service_ok (snd (rest_addOrDeleteRoleMembers c post e ids req w))"
proof -
  note step = step_service_ok [OF _ assms(1)]
  note ok = fresh_forD(1) [OF assms(2)]
  show ?thesis
    by (intro conjI step policy_endpoint_steps role_endpoint_steps ok assms(2))
qed

theorem endpoints_keep_tables_ok_witness:
  "service_ok (snd (rest_deleteRole userCodec (\<lambda>_. Some (200, '''')) fresh_env (service_event fresh_env) ''r1''
     delete_request grant_world)) \<and>
   t_role (snd (rest_deleteRole userCodec (\<lambda>_. Some (200, '''')) fresh_env (service_event fresh_env) ''r1''
     delete_request grant_world)) = []"
proof -
  have user: "verify userCodec (\<lambda>_. Some (200, '''')) delete_request = Inr demo_user"
    by (simp add: verify_def Introspect_def userCodec_def readToken_def zero_introspect_def visitorOf_def
        visitorTypeMap_def delete_request_def demo_user_def)
  have "t_role (snd (rest_deleteRole userCodec (\<lambda>_. Some (200, '''')) fresh_env (service_event fresh_env) ''r1''
     delete_request grant_world)) = []"
    unfolding rest_deleteRole_def user
    by (simp add: bind_return_snd run_simps grant_defs demo_user_def accessor_statements role_DeleteRole_def
        role_checkVisitorType_def checkVisitorType_def cong: run_congs)
  with endpoints_keep_tables_ok [OF grant_world_ok fresh_for_grant] show ?thesis by blast
qed

text \<open>
  \<open>modifyRole\<close> panics when the scope of the body has no list of types, which the schema does
  not require and \<open>createRole\<close> does not need.
\<close>

lemma scopes_read:
  assumes "\<forall>x\<in>set xs. conforms (objectSchema [''id''] [(''id'', stringSchema)]) x"
  shows "panicsIff False (mapE scopeOf xs)"
proof (rule panicsIff_mapE_total)
  fix x assume "x \<in> set xs"
  from bspec [OF assms this] show "panicsIff False (scopeOf x)"
    by (auto simp: conforms_object conforms_string scopeOf_def jfield_def panicsIff_def)
qed

lemma changed_scope_panics:
  assumes "conforms scopeSchema j"
  shows "panicsIff (lacksField ''types'' j) (changedScopeOf j) \<and> panicsIff False (newScopeOf j)"
proof -
  let ?item = "objectSchema [''id''] [(''id'', stringSchema)]"
  from assms [unfolded scopeSchema_def conforms_object [of "[''unlimited'']"]]
  obtain m where j: "j = JObj m" and u: "map_of m ''unlimited'' \<noteq> None"
    "\<forall>x. map_of m ''unlimited'' = Some x \<longrightarrow> conforms booleanSchema x"
    and ts: "\<forall>x. map_of m ''types'' = Some x \<longrightarrow> conforms (arraySchema ?item) x" by auto
  from u obtain b where b: "map_of m ''unlimited'' = Some (JBool b)" by (auto simp: conforms_boolean)
  have t: "\<exists>xs. x = JArr xs \<and> panicsIff False (mapE scopeOf xs)" if "map_of m ''types'' = Some x" for x
    using ts that scopes_read unfolding conforms_array by blast
  show ?thesis
  proof (cases "map_of m ''types''")
    case None
    then show ?thesis
      by (simp add: j b changedScopeOf_def newScopeOf_def jfield_def lacksField_def optField_def panicsIff_def)
  next
    case (Some x)
    from t [OF Some] obtain xs ts where "x = JArr xs" "mapE scopeOf xs = Inr ts" by (auto simp: panicsIff_total)
    then show ?thesis
      using Some by (simp add: j b changedScopeOf_def newScopeOf_def jfield_def lacksField_def optField_def panicsIff_def)
  qed
qed

end
