(* ===== verification/Spec2Isabelle.thy ===== *)
theory Spec2Isabelle
  imports CalcObligations FilterFacts ServiceSpec DecisionRestSpec RoleRestSpec
begin

text \<open>
  A verification development of the Authorization service (\<open>src/Authorization\<close>), the part of
  the platform that decides who may do what, and that keeps the policies, roles, resource
  types and obligations the decisions rest on.

  \<^bold>\<open>The program and its parts.\<close>  The service has three layers.  \<open>dbaccess\<close> holds the SQL
  statements and the JSON columns of seven tables.  \<open>logics\<close> holds the operations: the
  calculation of permissions (\<open>policy_calc.go\<close>), the management of policies (\<open>policy.go\<close>),
  roles and members (\<open>role.go\<close>), resource types and their hierarchies (\<open>resource_type.go\<close>,
  \<open>resource_type_hierarchy.go\<close>), obligation types and obligations (\<open>obligation_type.go\<close>,
  \<open>obligation.go\<close>), and an event hub (\<open>event.go\<close>) through which roles and policies learn of
  deletions and new names.  \<open>driveradapters\<close> connects the logic with HTTP, with the message
  queue (\<open>mq_handler.go\<close>) and with a timer (\<open>timer.go\<close>).  A decision reads the tokens of the
  accessor from the user-management service and from the role members, the policies of these
  tokens from the policy table, and the values of obligations from the obligation table.

  \<^bold>\<open>State and effects.\<close>  The state is the record \<open>world\<close> (\<open>Types\<close>): one list of rows per
  table, the next automatic key, and a counter \<open>tick\<close> of the calls that leave the process.
  An operation is a function of type \<open>'a op\<close>: from a world to a result or an error, and the
  world left behind; what was written before an error stays written unless the code rolls it
  back (\<open>transaction\<close> in \<open>Policies\<close>).  A Go panic is the error \<open>Panic\<close>.  Each statement of
  the database may, as \<open>fault_at\<close> says for its tick, succeed, fail without effect, or take
  effect although an error is reported.  Everything outside the service is a field of the
  record \<open>env\<close>: faults, clock, identifiers, the iteration order of Go maps, unstable sorting,
  the answers of user management, the json-logic evaluator and the JSON-schema library.
  \<open>env_ok\<close> states what the results need of it: range over a map visits every key once, and
  sorting returns a sorted rearrangement.

  \<^bold>\<open>Theories.\<close>
  \<^item> \<open>Prelude\<close>: errors, the monad with its rules for frames (\<open>keeps\<close>), invariants
    (\<open>preserves\<close>) and results (\<open>triple\<close>), Go maps, sorting, 64-bit wrap-around.  \<open>Json\<close>:
    JSON values, type assertions, \<open>reflect.DeepEqual\<close>, and the interface of a JSON column,
    \<open>json_column\<close>, which every column of the tables meets.  \<open>Types\<close>: the structures of
    \<open>interfaces/*.go\<close> and the table rows.  \<open>Store\<close>: statements, clock, identifiers.
    \<open>Common\<close>: \<open>common/slices.go\<close>, \<open>common/number.go\<close>, \<open>logics/common.go\<close>, and the
    interface \<open>visitor_guard\<close> of the checks of the caller.
  \<^item> \<open>PolicyDB\<close>, \<open>RoleDB\<close>, \<open>ResourceTypeDB\<close>, \<open>ObligationDB\<close>, \<open>ObligationTypeDB\<close>: the
    files of \<open>dbaccess\<close> of the same names, one definition per statement.
  \<^item> \<open>Hierarchies\<close>, \<open>ResourceTypes\<close>, \<open>ObligationTypes\<close>, \<open>Obligations\<close>, \<open>Events\<close>,
    \<open>Roles\<close>, \<open>PolicyCalc\<close>, \<open>Policies\<close>: the files of \<open>logics\<close>.  Names are those of the
    source; where two components have a method of one name, the component is a prefix
    (\<open>role_AddRole\<close>, \<open>policyLogic_Create\<close>, \<open>resourceType_Set\<close>).
  \<^item> \<open>MessageQueue\<close>: \<open>mq_handler.go\<close>, \<open>json.go\<close>, \<open>timer.go\<close>, \<open>go-lib/rest/check_req.go\<close>
    and the treatment of a handler's result in \<open>proton-mq-sdk-go\<close>, with the interface
    \<open>retried\<close> of messages that are delivered until their work is done.
  \<^item> \<open>DecisionRest\<close>: the HTTP endpoints of the decisions (\<open>policy_calc_rest_handler.go\<close>), the
    check of the caller's token (\<open>hydra.go\<close>) and the JSON schemas of the requests, with the
    meaning of the schema keywords (\<open>conforms\<close>).  \<open>PolicyRest\<close>, \<open>RoleRest\<close>: the endpoints
    that change policies, roles and members (\<open>policy_rest_handler.go\<close>,
    \<open>role_rest_handler.go\<close>); each of them is a step of the service.  The JSON decoder, the introspection endpoint of the
    OAuth server and the reading of RFC 3339 times are parameters.
  \<^item> \<open>CalcFacts\<close>, \<open>Decision\<close>, \<open>FilterFacts\<close>, \<open>CalcObligations\<close>: the abstract access
    decision and what the calculation has to do with it; the inheritance of permissions is
    proved once in the locale \<open>inheritance\<close> for both of its implementations.  \<open>RoleFacts\<close>,
    \<open>ObligationFacts\<close>, \<open>PolicyFacts\<close>, \<open>PolicyWrites\<close>, \<open>Service\<close>: invariants and results of
    the operations, the event hub as it is wired in \<open>NewPolicy\<close>, and the steps of the
    service.  \<open>ManagementSpec\<close>, \<open>PolicySpec\<close>, \<open>ServiceSpec\<close>, \<open>DecisionRestSpec\<close>,
    \<open>PolicyRestSpec\<close>, \<open>RoleRestSpec\<close> and this theory: the properties, each next to a concrete run that meets its hypotheses.

  \<^bold>\<open>What is shown.\<close>
  \<^item> Decisions (this theory).  \<open>access_decision\<close> is the contract: an operation is decided by
    the nearest level of the resource (itself, \<open>parent/*\<close> from the nearest ancestor on, \<open>*\<close>)
    that has an active rule about it, and there a denial wins; only unexpired rows for one
    of the accessor's tokens count.  \<open>Check\<close> and, for unconditional rules on ancestors,
    \<open>ResourceFilter\<close> implement it.  Adding a denial never grants, deleting expired rows
    changes no answer, decisions write nothing, obligations are chosen by priority and only
    for permitted operations.
  \<^item> Endpoints (\<open>DecisionRestSpec\<close>, \<open>PolicyRestSpec\<close>, \<open>RoleRestSpec\<close>).  \<open>operation-check\<close> answers with the
    access decision, public endpoints act for the owner of a valid token only, and policies
    change over HTTP only for administrators and for callers whom the access decision lets
    authorize; no request can leave the tables malformed; which bodies panic although their
    schema accepts them.
  \<^item> Policies (\<open>PolicySpec\<close>).  Requests are all or nothing; what the table holds after \<open>Create\<close>, \<open>Update\<close> and \<open>Delete\<close>, and what merging does.
  \<^item> Roles, resource types, hierarchies, obligations (\<open>ManagementSpec\<close>).  Acceptance of
    hierarchies, round trips of what is stored, uniqueness of names and members, pages of
    lists, the obligation types of an operation, values that satisfy their schema.
  \<^item> The service (\<open>ServiceSpec\<close>).  An inductive step relation of all requests, messages and
    cleaning rounds, in any order and with any failures, keeps the tables well formed;
    deleting a role or an accessor removes what depends on it; deletion messages are worked
    off as long as fewer statements fail than there are deliveries.
  \<^item> Some properties are about what goes wrong: a list that ignores ancestors, a filter that
    evaluates conditions without data, a page that panics, an obligation type that cannot be
    read back, a role whose interrupted deletion leaves its grants.

  \<^bold>\<open>Bounds and termination.\<close>  All operations are total functions.  Loops over slices and maps
  are structural; the functions on JSON trees and hierarchies are proved to terminate by the
  size of the tree.  No fuel is used, except that \<open>nsq_deliver\<close> counts the deliveries of a
  message: the number, 65535, is the one \<open>nsqclient.go\<close> sets, and \<open>deletion_delivered\<close> says
  when it is enough.  Integers are unbounded where the code only compares them; offset plus
  limit in \<open>accessorPage\<close> and \<open>applyPagination\<close> wraps at 64 bits.

  \<^bold>\<open>Not modelled.\<close>  The other HTTP handlers of \<open>driveradapters\<close> (resource types, hierarchies,
  obligations, and the listings of policies and roles), which parse requests, call the
  operations above and print responses; their own checks appear as hypotheses where a result
  needs them.  The reading of the initial data files and their order at start-up
  (\<open>init_data.go\<close>, \<open>main.go\<close>): the operations they call are modelled, and the step relation
  starts in any well-formed state.  The HTTP client of user management, connection pools,
  logging, tracing and configuration, which are I/O.  Concurrent transactions: each operation
  runs on the state it finds, so the interleaving is one of whole operations, not of
  statements.  The other services of the repository (user management, authentication, policy
  management of the platform, audit log, ShareMgnt, ShareServer), the web console, the copy
  of the OAuth2 server hydra and vendored or generated libraries: the Authorization service
  only exchanges messages with them.
\<close>


section \<open>The access decision\<close>

text \<open>
  C1: \<open>Check\<close> implements the abstract access decision.  Whenever it returns a
  result, that result is true exactly when, for each requested operation, the
  nearest level of the resource (itself, then \<open>parent/*\<close> from the nearest ancestor
  to the root, then \<open>*\<close>) with a rule about the operation permits it; only unexpired
  rows of the resource's type for one of the accessor's tokens count, and a denial
  on a level beats a permission on the same level.
\<close>

theorem check_refines_decision:
  assumes "env_ok e"
    and "Check e resource accessor ops incl w = (Inr cr, w')"
  shows "\<exists>toks w1. getAccessorIDs e accessor w = (Inr toks, w1) \<and>
     (cr_Result cr \<longleftrightarrow>
       (\<forall>op\<in>set ops. access_decision e (checkData resource accessor) (t_policy w) toks
          (now_at e (tick w + 2)) resource op = Some True))"
proof -
  from assms(2) obtain toks w1 where "getAccessorIDs e accessor w = (Inr toks, w1)"
    by (auto simp: Check_def bindM_Inr_iff)
  then show ?thesis using Check_decides [OF assms(1) _ assms(2)] by blast
qed

theorem check_refines_decision_witness:
  "access_decision quiet_env (checkData demo_resource demo_accessor) (t_policy demo_world)
     [''u1'', rootDepID, superAdminRoleID] (now_at quiet_env (tick demo_world + 2)) demo_resource
     ''read'' = Some True"
  using check_refines_decision [OF env_ok_quiet demo_check] by (simp add: demo_tokens)


lemma demo_filter:
  "ResourceFilter quiet_env [demo_resource] demo_accessor [''read'', ''list''] [] demo_world =
     (Inr ([demo_resource], [(''d1'', [''read'', ''list''])], []), tock (tock (tock demo_world)))"
  by (simp add: run_simps demo_defs cong: run_congs)

lemma demo_clean: "clean_request [demo_resource]"
  by (simp add: clean_request_def demo_resource_def)

lemma demo_unconditional: "unconditional_ancestors [demo_resource] (t_policy demo_world)"
  by (simp add: unconditional_ancestors_def row_rules_def run_simps demo_defs cong: run_congs)

lemma filter_selfD: "xs = filter P xs \<Longrightarrow> x \<in> set xs \<Longrightarrow> P x"
  by (metis filter_id_conv)


text \<open>
  C8: On one level, a denial always beats a permission: the operations
  \<open>calcOneResourcePerm\<close> reports as denied are those of some active deny rule, and
  the ones it reports as allowed are those of some active allow rule that no active
  deny rule names, whatever the order of the policies and of their rules.
\<close>

theorem deny_overrides:
  "(op \<in> mkeys (perm_deny (calcOneResourcePerm e data ps)) \<longleftrightarrow> denies e data ps op) \<and>
   (op \<in> mkeys (perm_allow (calcOneResourcePerm e data ps)) \<longleftrightarrow>
     permits e data ps op \<and> \<not> denies e data ps op)"
  by (simp only: calcOne_deny calcOne_allow simp_thms)

text \<open>
  C9: Inheritance takes the nearest level.  The decision of
  \<open>calcResourceInheritedOperation\<close> on an operation is the one of the first level,
  counted from the resource itself upwards, that has a rule about it.
\<close>

theorem nearest_level_wins:
  assumes "env_ok e"
  shows "decided (calcResourceInheritedOperation e rs m) op = Some b \<longleftrightarrow>
     (\<exists>k < length (levelIDs rs). level_decision (permOf m (levelIDs rs ! k)) op = Some b \<and>
        (\<forall>j < k. level_decision (permOf m (levelIDs rs ! j)) op = None))"
  unfolding plain.calc_decided [OF assms] nearest_Some_iff by auto

definition demo_perms :: "(string, resource_perm) gomap" where
  "demo_perms = [(''d1'', \<lparr> perm_allow = [(''read'', [])], perm_deny = [] \<rparr>),
                 (''*'', \<lparr> perm_allow = [], perm_deny = [(''read'', True), (''write'', True)] \<rparr>)]"

theorem nearest_level_wins_witness:
  "decided (calcResourceInheritedOperation quiet_env [bareResource ''d1''] demo_perms) ''read'' = Some True \<and>
   decided (calcResourceInheritedOperation quiet_env [bareResource ''d1''] demo_perms) ''write'' = Some False"
proof
  have ids: "levelIDs [bareResource ''d1''] = ['''', ''d1'', ''*'']"
    by (simp add: levelIDs_def run_simps)
  show "decided (calcResourceInheritedOperation quiet_env [bareResource ''d1''] demo_perms) ''read'' = Some True"
    by (subst nearest_level_wins [OF env_ok_quiet], rule exI [of _ 1])
      (simp add: ids demo_perms_def permOf_def level_decision_def mkeys_def zero_perm_def)
  show "decided (calcResourceInheritedOperation quiet_env [bareResource ''d1''] demo_perms) ''write'' = Some False"
    by (subst nearest_level_wins [OF env_ok_quiet], rule exI [of _ 2])
      (simp add: ids demo_perms_def permOf_def level_decision_def mkeys_def zero_perm_def
        numeral_2_eq_2 less_Suc_eq)
qed

lemma Check_InrD:
  assumes "Check e resource accessor ops incl w = (Inr cr, w')"
  obtains toks w1 where "getAccessorIDs e accessor w = (Inr toks, w1)"
  using assms by (auto simp: Check_def bindM_Inr_iff)

lemma getAccessorIDs_policy_irrelevant:
  assumes "getAccessorIDs e accessor w = (Inr toks, w1)"
    and "t_role_member w2 = t_role_member w" "tick w2 = tick w"
  shows "getAccessorIDs e accessor w2 = (Inr toks, tock w2)"
  using assms
  by (cases "acc_Type accessor")
    (auto simp: getAccessorIDs_def bindM_Inr_iff role_GetRoleByMembers_def
      memberDB_GetRoleByMembers_def)

text \<open>
  C14: A policy that only denies never grants anything.  If \<open>Check\<close> answers yes with
  the policy in the table, it also answers yes without it.
\<close>

theorem deny_only_policy_never_grants:
  assumes "env_ok e" "rules_Allow (row_rules r) = []"
    and "t_policy w = rs1 @ r # rs2"
    and "Check e resource accessor ops incl w = (Inr cr, w1)"
    and "Check e resource accessor ops incl (w\<lparr> t_policy := rs1 @ rs2 \<rparr>) = (Inr cr', w2)"
    and "cr_Result cr"
  shows "cr_Result cr'"
proof -
  obtain toks v where t: "getAccessorIDs e accessor w = (Inr toks, v)"
    using assms(4) by (rule Check_InrD)
  have t': "getAccessorIDs e accessor (w\<lparr> t_policy := rs1 @ rs2 \<rparr>) =
      (Inr toks, tock (w\<lparr> t_policy := rs1 @ rs2 \<rparr>))"
    using t by (rule getAccessorIDs_policy_irrelevant) simp_all
  show ?thesis
    using assms(6) access_decision_deny_only [OF assms(2)]
    unfolding Check_decides [OF assms(1) t assms(4)] Check_decides [OF assms(1) t' assms(5)] assms(3)
    by auto
qed

definition demo_deny_row :: policy_row where
  "demo_deny_row = demo_row ''p7'' ''f1/*'' [] [''share'']"

definition demo_world_deny :: world where
  "demo_world_deny = demo_world\<lparr> t_policy := t_policy demo_world @ [demo_deny_row] \<rparr>"

lemma demo_check_deny:
  "Check quiet_env demo_resource demo_accessor [''read'', ''list''] [] demo_world_deny =
     (Inr \<lparr> cr_Result = True, cr_OperatrionOblist = [] \<rparr>, tock (tock (tock demo_world_deny)))"
  by (simp add: run_simps demo_defs demo_world_deny_def demo_deny_row_def cong: run_congs)

theorem deny_only_policy_never_grants_witness:
  "\<exists>cr w2. Check quiet_env demo_resource demo_accessor [''read'', ''list''] []
     (demo_world_deny\<lparr> t_policy := t_policy demo_world \<rparr>) = (Inr cr, w2) \<and> cr_Result cr"
proof -
  have restored: "demo_world_deny\<lparr> t_policy := t_policy demo_world @ [] \<rparr> = demo_world"
    by (simp add: demo_world_deny_def demo_world_def empty_world_def)
  have rows: "t_policy demo_world_deny = t_policy demo_world @ demo_deny_row # []"
    by (simp add: demo_world_deny_def)
  have "rules_Allow (row_rules demo_deny_row) = []"
    by (simp add: row_rules_def demo_deny_row_def demo_defs rules_roundtrip stored_rules_def)
  from deny_only_policy_never_grants [OF env_ok_quiet this rows demo_check_deny, unfolded restored,
      OF demo_check]
  have "cr_Result \<lparr> cr_Result = True, cr_OperatrionOblist = [] \<rparr>" by simp
  then show ?thesis using demo_check unfolding restored [unfolded append_Nil2] by blast
qed

text \<open>
  C15: Purging expired policies (\<open>DeleteByEndTime\<close>) never changes an answer of
  \<open>Check\<close>, as long as the purge does not use a time later than the clock of the
  check.
\<close>

theorem purge_keeps_decisions:
  assumes "env_ok e" "policy_DeleteByEndTime e0 t0 w = (Inr (), w1)"
    and "Check e resource accessor ops incl (tock w) = (Inr cr, w2)"
    and "Check e resource accessor ops incl w1 = (Inr cr', w3)"
    and "t0 \<le> now_at e (tick w + 3)"
  shows "cr_Result cr' = cr_Result cr"
proof -
  obtain toks v where t: "getAccessorIDs e accessor (tock w) = (Inr toks, v)"
    using assms(3) by (rule Check_InrD)
  have w1: "w1 = delete_policies (\<lambda>r. p_end_time r < t0 \<and> p_end_time r \<noteq> -1) (tock w)"
    using assms(2) by (simp add: policy_DeleteByEndTime_def)
  have t': "getAccessorIDs e accessor w1 = (Inr toks, tock w1)"
    using t by (rule getAccessorIDs_policy_irrelevant) (simp_all add: w1 delete_policies_def)
  have "tick w1 = Suc (tick w)" and rows: "t_policy w1 =
      filter (\<lambda>r. \<not> (p_end_time r < t0 \<and> p_end_time r \<noteq> -1)) (t_policy w)"
    by (simp_all add: w1 delete_policies_def)
  moreover have "t0 \<le> now_at e (Suc (tick w) + 2)" using assms(5) by (simp add: numeral_3_eq_3)
  ultimately show ?thesis
    unfolding Check_decides [OF assms(1) t assms(3)] Check_decides [OF assms(1) t' assms(4)]
    by (simp only: access_decision_purge tock_simps)
qed

definition demo_world_old :: world where
  "demo_world_old = demo_world\<lparr> t_policy := (demo_deny_row\<lparr> p_end_time := 5 \<rparr>) # t_policy demo_world \<rparr>"

lemma demo_purge:
  "policy_DeleteByEndTime quiet_env 10 demo_world_old = (Inr (), tock demo_world)"
  by (simp add: policy_DeleteByEndTime_def db_exec_def quiet_env_run delete_policies_def demo_defs demo_world_old_def demo_deny_row_def tock_def empty_world_def)

lemma demo_check_old:
  "Check quiet_env demo_resource demo_accessor [''read'', ''list''] [] (tock demo_world_old) =
     (Inr \<lparr> cr_Result = True, cr_OperatrionOblist = [] \<rparr>, tock (tock (tock (tock demo_world_old))))"
  by (simp add: run_simps demo_defs demo_world_old_def demo_deny_row_def cong: run_congs)

lemma demo_check_later:
  "Check quiet_env demo_resource demo_accessor [''read'', ''list''] [] (tock demo_world) =
     (Inr \<lparr> cr_Result = True, cr_OperatrionOblist = [] \<rparr>, tock (tock (tock (tock demo_world))))"
  by (simp add: run_simps demo_defs cong: run_congs)

theorem purge_keeps_decisions_witness:
  "\<exists>w1 cr w2. policy_DeleteByEndTime quiet_env 10 demo_world_old = (Inr (), w1) \<and>
     Check quiet_env demo_resource demo_accessor [''read'', ''list''] [] w1 = (Inr cr, w2) \<and> cr_Result cr"
proof -
  have "cr_Result \<lparr> cr_Result = True, cr_OperatrionOblist = [] \<rparr> =
      cr_Result \<lparr> cr_Result = True, cr_OperatrionOblist = [] \<rparr>"
    by (rule purge_keeps_decisions [OF env_ok_quiet demo_purge demo_check_old demo_check_later])
      (simp add: quiet_env_def)
  then have "cr_Result \<lparr> cr_Result = True, cr_OperatrionOblist = [] \<rparr>" by simp
  then show ?thesis using demo_purge demo_check_later by blast
qed

text \<open>
  C20: Deciding is read-only.  None of the five calls of the policy calculation
  changes a table, whatever they return and whichever statement fails.
\<close>

theorem decisions_read_only:
  "db (snd (Check e resource accessor ops incl w)) = db w \<and>
   db (snd (GetResourceList e ty accessor ops incl w)) = db w \<and>
   db (snd (ResourceFilter e rs accessor ops incl w)) = db w \<and>
   db (snd (GetResourceTypeOperation e tys accessor w)) = db w \<and>
   db (snd (GetResourceOperation e rs accessor w)) = db w"
  using keeps_decisions [of db] by (simp add: keeps_def)

text \<open>
  C34: An accessor that is neither a user nor an app, an anonymous one for instance, gets
  no decision at all: the empty token list makes the role query fail, so every call returns
  the error of the database.
\<close>

theorem anonymous_refused:
  assumes "acc_Type accessor \<notin> {RealName, App}"
  shows "fst (Check e resource accessor ops incl w) = Inl DBError \<and>
    fst (GetResourceList e ty accessor ops incl w) = Inl DBError \<and>
    fst (ResourceFilter e (r # rs) accessor ops incl w) = Inl DBError \<and>
    fst (GetResourceTypeOperation e (ty # tys) accessor w) = Inl DBError \<and>
    fst (GetResourceOperation e (r # rs) accessor w) = Inl DBError"
proof -
  obtain w1 where "getAccessorIDs e accessor w = (Inl DBError, w1)"
    using anonymous_tokens [OF assms, of e w] by (metis prod.collapse)
  then show ?thesis
    by (simp add: Check_def GetResourceList_def ResourceFilter_def GetResourceTypeOperation_def
        GetResourceOperation_def bindM_run)
qed

theorem anonymous_refused_witness:
  "fst (Check quiet_env demo_resource (demo_accessor\<lparr> acc_Type := Anonymous \<rparr>) [''read''] [] demo_world) =
     Inl DBError"
  using anonymous_refused [of "demo_accessor\<lparr> acc_Type := Anonymous \<rparr>"] by simp

text \<open>
  C21: The tokens of an accessor are, without repetition, exactly its own IDs (for a
  user, everything user management reports and the root department), the roles one
  of these is a member of, and its system roles.
\<close>

theorem tokens_exact:
  assumes "getAccessorIDs e accessor w = (Inr toks, w')"
  shows "distinct toks \<and> set toks = set (ownTokens e accessor) \<union>
      m_role_id ` {m \<in> set (t_role_member w). m_member_id m \<in> set (ownTokens e accessor)} \<union>
      set (systemTokens e accessor)"
  using assms by (rule getAccessorIDs_tokens)

theorem tokens_exact_witness:
  "superAdminRoleID \<in> set (ownTokens quiet_env demo_accessor) \<union>
      m_role_id ` {m \<in> set (t_role_member demo_world).
        m_member_id m \<in> set (ownTokens quiet_env demo_accessor)} \<union>
      set (systemTokens quiet_env demo_accessor)"
  unfolding conjunct2 [OF tokens_exact [OF demo_tokens], symmetric] by simp

section \<open>Obligations\<close>

text \<open>
  C22: Obligations are resolved by priority.  For every operation the returned
  obligations have pairwise different types, each stems from an obligation of some
  granting rule, and none of that type had a better (smaller) priority.
\<close>

theorem obligations_by_priority:
  assumes "env_ok e" "mwf m" "calcObligationWithPriority e m w = (Inr res, w')"
  shows "distinct (map obl_TypeID (mlist res op)) \<and>
     (\<forall>it\<in>set (mlist res op). \<exists>c\<in>set (mlist m op).
        obl_TypeID c = obl_TypeID it \<and> obl_ID c = obl_ID it \<and>
        (obl_ID it = '''' \<longrightarrow> obl_Value it = obl_Value c) \<and>
        (\<forall>c'\<in>set (mlist m op). obl_TypeID c' = obl_TypeID it \<longrightarrow> ci_priority c \<le> ci_priority c'))"
  using assms by (rule obligation_items)

definition demo_obligation :: "string \<Rightarrow> string \<Rightarrow> obligation_item" where
  "demo_obligation ty v = \<lparr> obl_TypeID = ty, obl_ID = '''', obl_Value = JStr v \<rparr>"

definition demo_calc_items :: "(string, calc_item list) gomap" where
  "demo_calc_items = [(''read'',
     [\<lparr> obl_TypeID = ''mark'', obl_ID = '''', obl_Value = JStr ''blue'', ci_priority = 3 \<rparr>,
      \<lparr> obl_TypeID = ''mark'', obl_ID = '''', obl_Value = JStr ''red'', ci_priority = 1 \<rparr>])]"

lemma demo_calc:
  "calcObligationWithPriority quiet_env demo_calc_items empty_world =
     (Inr [(''read'', [demo_obligation ''mark'' ''red''])], empty_world)"
  by (simp add: run_simps demo_calc_items_def demo_obligation_def cong: run_congs)

lemma demo_calc_mwf: "mwf demo_calc_items"
  by (simp add: demo_calc_items_def mwf_def)

theorem obligations_by_priority_witness:
  "\<exists>c\<in>set (mlist demo_calc_items ''read''). obl_Value c = JStr ''red'' \<and>
     (\<forall>c'\<in>set (mlist demo_calc_items ''read''). obl_TypeID c' = ''mark'' \<longrightarrow> ci_priority c \<le> ci_priority c')"
proof -
  have "demo_obligation ''mark'' ''red'' \<in> set (mlist [(''read'', [demo_obligation ''mark'' ''red''])] ''read'')"
    by (simp add: mlist_def)
  with obligations_by_priority [OF env_ok_quiet demo_calc_mwf demo_calc, of "''read''"]
  show ?thesis by (fastforce simp: demo_obligation_def)
qed

text \<open>
  C23: Obligations never leak: \<open>Check\<close> returns an obligation for an operation only
  when it answers yes and the decision on that operation is to permit it.
\<close>

theorem obligations_only_when_permitted:
  assumes "env_ok e"
    and "getAccessorIDs e accessor w = (Inr toks, w1)"
    and "Check e resource accessor ops incl w = (Inr cr, w')"
    and "mlist (cr_OperatrionOblist cr) op \<noteq> []"
  shows "cr_Result cr \<and> access_decision e (checkData resource accessor) (t_policy w) toks
        (now_at e (tick w + 2)) resource op = Some True"
  using assms by (rule Check_obligations)

definition demo_obl_world :: world where
  "demo_obl_world = empty_world\<lparr> t_policy :=
     [(demo_row ''p8'' ''d1'' [] [])\<lparr> p_operation := rulesInfoToString
        \<lparr> rules_Allow = [\<lparr> rule_Condition = JObj [], rule_Operations =
             [\<lparr> ope_ID = ''read'', ope_Name = '''', ope_Obligations = [demo_obligation ''mark'' ''blue''] \<rparr>] \<rparr>],
          rules_Deny = [] \<rparr> \<rparr>] \<rparr>"

lemma demo_obl_tokens:
  "getAccessorIDs quiet_env demo_accessor demo_obl_world =
     (Inr [''u1'', rootDepID, superAdminRoleID], tock demo_obl_world)"
  by (simp add: run_simps demo_defs demo_obl_world_def cong: run_congs)

lemma demo_obl_check:
  "Check quiet_env demo_resource demo_accessor [''read''] [PolicCalcyIncludeOperationObligations] demo_obl_world =
     (Inr \<lparr> cr_Result = True, cr_OperatrionOblist = [(''read'', [demo_obligation ''mark'' ''blue''])] \<rparr>,
      tock (tock (tock demo_obl_world)))"
  by (simp add: run_simps demo_defs demo_obl_world_def demo_obligation_def obligation_item.defs calc_item.defs cong: run_congs)

theorem obligations_only_when_permitted_witness:
  "access_decision quiet_env (checkData demo_resource demo_accessor) (t_policy demo_obl_world)
     [''u1'', rootDepID, superAdminRoleID] (now_at quiet_env (tick demo_obl_world + 2)) demo_resource
     ''read'' = Some True"
proof -
  have "mlist (cr_OperatrionOblist \<lparr> cr_Result = True,
      cr_OperatrionOblist = [(''read'', [demo_obligation ''mark'' ''blue''])] \<rparr>) ''read'' \<noteq> []"
    by (simp add: mlist_def)
  from obligations_only_when_permitted [OF env_ok_quiet demo_obl_tokens demo_obl_check this]
  show ?thesis by (rule conjunct2)
qed

section \<open>Where listing and filtering fall short of the decision\<close>



end
